(* ===== verification/Py_Prelude.thy ===== *)
theory Py_Prelude
  imports Complex_Main "HOL-Library.AList" "HOL-Library.Char_ord" "HOL-Library.List_Lexorder"
begin

text \<open>
  The part of Python that every component uses: text as a list of code points with the
  \<open>str\<close> methods the program calls, dictionaries as association lists that keep insertion
  order, exceptions as values, and a result type with its sequencing operator.
\<close>

named_theorems res_iff \<open>when a computation that may raise returns a value, or an error\<close>
named_theorems py_dict \<open>lookup, update and deletion in insertion-ordered dictionaries\<close>

section \<open>Text\<close>

text \<open>A Python \<open>str\<close> is a sequence of Unicode code points.\<close>

type_synonym ustr = "nat list"

text \<open>An ASCII literal of the source.\<close>

definition u :: "string \<Rightarrow> ustr" where
  "u s = map of_char s"

lemma u_eq_iff [simp]: "u a = u b \<longleftrightarrow> a = b"
  by (simp add: u_def inj_map_eq_map inj_def)

lemma u_Nil [simp]: "u [] = []"
  by (simp add: u_def)

lemma u_eq_Nil [simp]: "u a = [] \<longleftrightarrow> a = []" "[] = u a \<longleftrightarrow> a = []"
  by (auto simp: u_def)

lemma length_u [simp]: "length (u a) = length a"
  by (simp add: u_def)

lemma u_append: "u (a @ b) = u a @ u b"
  by (simp add: u_def)

subsection \<open>Methods of \<open>str\<close>\<close>

text \<open>\<open>str.isspace\<close> on one code point (Unicode white space and the separators 28 to 31).\<close>

definition is_space :: "nat \<Rightarrow> bool" where
  "is_space c \<longleftrightarrow> (9 \<le> c \<and> c \<le> 13) \<or> (28 \<le> c \<and> c \<le> 32) \<or> c = 133 \<or> c = 160 \<or> c = 5760
     \<or> (8192 \<le> c \<and> c \<le> 8202) \<or> c = 8232 \<or> c = 8233 \<or> c = 8239 \<or> c = 8287 \<or> c = 12288"

definition py_lstrip :: "ustr \<Rightarrow> ustr" where
  "py_lstrip s = dropWhile is_space s"

definition py_rstrip :: "ustr \<Rightarrow> ustr" where
  "py_rstrip s = rev (dropWhile is_space (rev s))"

definition py_strip :: "ustr \<Rightarrow> ustr" where
  "py_strip s = py_rstrip (py_lstrip s)"

text \<open>\<open>s.split()\<close>: maximal runs of non-space characters.\<close>

fun words_from :: "ustr \<Rightarrow> ustr \<Rightarrow> ustr list" where
  "words_from cur [] = (if cur = [] then [] else [cur])"
| "words_from cur (c # cs) =
     (if is_space c then (if cur = [] then words_from [] cs else cur # words_from [] cs)
      else words_from (cur @ [c]) cs)"

definition py_split :: "ustr \<Rightarrow> ustr list" where
  "py_split s = words_from [] s"

text \<open>\<open>sep.join(parts)\<close>.\<close>

fun py_join :: "ustr \<Rightarrow> ustr list \<Rightarrow> ustr" where
  "py_join sep [] = []"
| "py_join sep [x] = x"
| "py_join sep (x # y # ys) = x @ sep @ py_join sep (y # ys)"

definition py_startswith :: "ustr \<Rightarrow> ustr \<Rightarrow> bool" where
  "py_startswith s p \<longleftrightarrow> take (length p) s = p"

definition py_endswith :: "ustr \<Rightarrow> ustr \<Rightarrow> bool" where
  "py_endswith s p \<longleftrightarrow> length p \<le> length s \<and> drop (length s - length p) s = p"

definition py_removeprefix :: "ustr \<Rightarrow> ustr \<Rightarrow> ustr" where
  "py_removeprefix s p = (if py_startswith s p then drop (length p) s else s)"

definition py_removesuffix :: "ustr \<Rightarrow> ustr \<Rightarrow> ustr" where
  "py_removesuffix s p =
     (if p \<noteq> [] \<and> py_endswith s p then take (length s - length p) s else s)"

text \<open>\<open>p in s\<close> for two texts.\<close>

fun py_contains :: "ustr \<Rightarrow> ustr \<Rightarrow> bool" where
  "py_contains [] p \<longleftrightarrow> p = []"
| "py_contains (c # cs) p \<longleftrightarrow> py_startswith (c # cs) p \<or> py_contains cs p"

text \<open>\<open>s.split(sep)\<close> for a separator of one character: always at least one field.\<close>

fun split_on :: "nat \<Rightarrow> ustr \<Rightarrow> ustr list" where
  "split_on sep [] = [[]]"
| "split_on sep (c # cs) =
     (if c = sep then [] # split_on sep cs
      else (case split_on sep cs of [] \<Rightarrow> [[c]] | w # ws \<Rightarrow> (c # w) # ws))"

text \<open>\<open>s.partition(sep)\<close>: the text before the first separator, whether there is one, the rest.\<close>

fun py_partition :: "nat \<Rightarrow> ustr \<Rightarrow> ustr \<times> bool \<times> ustr" where
  "py_partition sep [] = ([], False, [])"
| "py_partition sep (c # cs) =
     (if c = sep then ([], True, cs)
      else (case py_partition sep cs of (a, found, b) \<Rightarrow> (c # a, found, b)))"

text \<open>\<open>s.rstrip(c)\<close> and \<open>s.strip(c)\<close> for one character.\<close>

definition rstrip_char :: "nat \<Rightarrow> ustr \<Rightarrow> ustr" where
  "rstrip_char c s = rev (dropWhile (\<lambda>x. x = c) (rev s))"

definition strip_char :: "nat \<Rightarrow> ustr \<Rightarrow> ustr" where
  "strip_char c s = rstrip_char c (dropWhile (\<lambda>x. x = c) s)"

text \<open>\<open>s.splitlines()\<close>: no line for the empty text after a final line break.\<close>

definition is_line_break :: "nat \<Rightarrow> bool" where
  "is_line_break c \<longleftrightarrow> (10 \<le> c \<and> c \<le> 13) \<or> (28 \<le> c \<and> c \<le> 30) \<or> c = 133 \<or> c = 8232 \<or> c = 8233"

fun lines_from :: "ustr \<Rightarrow> bool \<Rightarrow> ustr \<Rightarrow> ustr list" where
  "lines_from cur _ [] = (if cur = [] then [] else [cur])"
| "lines_from cur after_cr (c # cs) =
     (if after_cr \<and> c = 10 then lines_from [] False cs
      else if is_line_break c then cur # lines_from [] (c = 13) cs
      else lines_from (cur @ [c]) False cs)"

definition py_splitlines :: "ustr \<Rightarrow> ustr list" where
  "py_splitlines s = lines_from [] False s"

text \<open>\<open>str(Path(s))\<close> on a POSIX system: empty and \<open>.\<close> components go, a leading \<open>//\<close> stays.\<close>

definition py_path :: "ustr \<Rightarrow> ustr" where
  "py_path s =
     (let parts = filter (\<lambda>p. p \<noteq> [] \<and> p \<noteq> [46]) (split_on 47 s);
          root = (if py_startswith s [47, 47, 47] then [47] else if py_startswith s [47, 47] then [47, 47]
                  else if py_startswith s [47] then [47] else []);
          r = root @ py_join [47] parts
      in if r = [] then [46] else r)"

subsection \<open>Numbers and text\<close>

text \<open>\<open>str(n)\<close>.\<close>

fun str_of_nat :: "nat \<Rightarrow> ustr" where
  "str_of_nat n = (if n < 10 then [48 + n] else str_of_nat (n div 10) @ [48 + n mod 10])"

declare str_of_nat.simps [simp del]

definition str_of_int :: "int \<Rightarrow> ustr" where
  "str_of_int n = (if n < 0 then 45 # str_of_nat (nat (- n)) else str_of_nat (nat n))"

text \<open>
  \<open>int(s)\<close>: optional white space around, one sign, decimal digits of any script, single
  underscores between digits, and at most 4300 digits. \<open>nd_zeros\<close> lists the code points of
  the digit zero (general category Nd of Unicode 15); the digits one to nine follow each.
\<close>

definition nd_zeros :: "nat list" where
  "nd_zeros = [48, 1632, 1776, 1984, 2406, 2534, 2662, 2790, 2918, 3046, 3174, 3302, 3430, 3558,
     3664, 3792, 3872, 4160, 4240, 6112, 6160, 6470, 6608, 6784, 6800, 6992, 7088, 7232, 7248,
     42528, 43216, 43264, 43472, 43504, 43600, 44016, 65296, 66720, 68912, 69734, 69872, 69942,
     70096, 70384, 70736, 70864, 71248, 71360, 71472, 71904, 72016, 72784, 73040, 73120, 73552,
     92768, 92864, 93008, 120782, 120792, 120802, 120812, 120822, 123200, 123632, 124144, 125264,
     130032]"

definition digit_val :: "nat \<Rightarrow> nat option" where
  "digit_val c = map_option (\<lambda>z. c - z) (find (\<lambda>z. z \<le> c \<and> c < z + 10) nd_zeros)"

definition is_int_space :: "nat \<Rightarrow> bool" where
  "is_int_space c \<longleftrightarrow> is_space c \<and> \<not> (28 \<le> c \<and> c \<le> 31)"

fun digits_value :: "nat \<Rightarrow> nat \<Rightarrow> bool \<Rightarrow> ustr \<Rightarrow> nat option" where
  "digits_value acc n ok [] = (if ok \<and> n \<le> 4300 then Some acc else None)"
| "digits_value acc n ok (c # cs) =
     (if c = 95 then (if ok then digits_value acc n False cs else None)
      else (case digit_val c of None \<Rightarrow> None
            | Some d \<Rightarrow> digits_value (10 * acc + d) (Suc n) True cs))"

definition int_of_ustr :: "ustr \<Rightarrow> int option" where
  "int_of_ustr s =
     (let t = rev (dropWhile is_int_space (rev (dropWhile is_int_space s)))
      in case t of
           [] \<Rightarrow> None
         | c # cs \<Rightarrow>
             if c = 45 then map_option (\<lambda>n. - int n) (digits_value 0 0 False cs)
             else if c = 43 then map_option int (digits_value 0 0 False cs)
             else map_option int (digits_value 0 0 False t))"

section \<open>Exceptions and results\<close>

text \<open>
  The exceptions of the program (\<open>ValidationError\<close> is a \<open>WorkerError\<close> with status 400), and
  those the interpreter raises, by class, with the text \<open>str(exc)\<close> gives.
\<close>

datatype builtin_exn =
    B_ValueError | B_TypeError | B_KeyError | B_AttributeError | B_OverflowError
  | B_UnicodeEncodeError | B_UnicodeDecodeError | B_OSError | B_JSONDecodeError | B_IndexError | B_RuntimeError

datatype exn =
    WorkerError (we_status: int) (we_error_code: ustr) (we_message: ustr)
  | RunnerFailure (rf_error_code: ustr) (rf_message: ustr)
  | ValueErr ustr
  | DoctorError ustr
  | Builtin builtin_exn ustr

type_synonym 'a res = "exn + 'a"

text \<open>\<open>str(exc)\<close>.\<close>

fun exn_str :: "exn \<Rightarrow> ustr" where
  "exn_str (WorkerError _ _ m) = m"
| "exn_str (RunnerFailure _ m) = m"
| "exn_str (ValueErr m) = m"
| "exn_str (DoctorError m) = m"
| "exn_str (Builtin _ m) = m"

text \<open>Sequencing: the rest of a body runs only when the statement before did not raise.\<close>

fun bindE :: "'e + 'a \<Rightarrow> ('a \<Rightarrow> 'e + 'b) \<Rightarrow> 'e + 'b" where
  "bindE (Inl e) f = Inl e"
| "bindE (Inr x) f = f x"

text \<open>\<open>if cond: raise e\<close>.\<close>

definition raise_if :: "bool \<Rightarrow> 'e \<Rightarrow> 'e + unit" where
  "raise_if c e = (if c then Inl e else Inr ())"

lemma bindE_Inr_iff [res_iff]: "bindE m f = Inr y \<longleftrightarrow> (\<exists>x. m = Inr x \<and> f x = Inr y)"
  by (cases m) auto

lemma bindE_Inl_iff: "bindE m f = Inl e \<longleftrightarrow> m = Inl e \<or> (\<exists>x. m = Inr x \<and> f x = Inl e)"
  by (cases m) auto

lemma raise_if_Inr_iff [res_iff]: "raise_if c e = Inr x \<longleftrightarrow> \<not> c"
  by (cases x) (simp add: raise_if_def)

lemma raise_if_simps [simp]: "raise_if True e = Inl e" "raise_if False e = Inr ()"
  by (simp_all add: raise_if_def)

lemma bindE_assoc: "bindE (bindE m f) g = bindE m (\<lambda>x. bindE (f x) g)"
  by (cases m) auto

section \<open>Dictionaries\<close>

text \<open>
  A \<open>dict\<close> keeps insertion order: \<open>d[k] = v\<close> replaces in place or appends
  (\<open>AList.update\<close>), \<open>d.pop(k, None)\<close> removes (\<open>AList.delete\<close>), \<open>d.get(k)\<close> is \<open>map_of\<close>.
\<close>

type_synonym ('k, 'v) dict = "('k \<times> 'v) list"

abbreviation dict_get :: "('k, 'v) dict \<Rightarrow> 'k \<Rightarrow> 'v option" where
  "dict_get d k \<equiv> map_of d k"

abbreviation dict_set :: "('k, 'v) dict \<Rightarrow> 'k \<Rightarrow> 'v \<Rightarrow> ('k, 'v) dict" where
  "dict_set d k v \<equiv> AList.update k v d"

abbreviation dict_pop :: "('k, 'v) dict \<Rightarrow> 'k \<Rightarrow> ('k, 'v) dict" where
  "dict_pop d k \<equiv> AList.delete k d"

abbreviation dict_keys :: "('k, 'v) dict \<Rightarrow> 'k list" where
  "dict_keys d \<equiv> map fst d"

lemma dict_get_set [py_dict, simp]:
  "dict_get (dict_set d k v) k' = (if k' = k then Some v else dict_get d k')"
  by (simp add: update_conv')

lemma dict_get_pop [py_dict, simp]:
  "dict_get (dict_pop d k) k' = (if k' = k then None else dict_get d k')"
  by (simp add: delete_conv')

lemma dict_set_fresh [py_dict]: "dict_get d k = None \<Longrightarrow> dict_set d k v = d @ [(k, v)]"
  by (induction d) (auto split: if_splits)

lemma distinct_keys_set: "distinct (dict_keys d) \<Longrightarrow> distinct (dict_keys (dict_set d k v))"
  by (rule distinct_update)

lemma distinct_keys_pop: "distinct (dict_keys d) \<Longrightarrow> distinct (dict_keys (dict_pop d k))"
  by (rule distinct_delete)

lemma dict_values_get: "distinct (dict_keys d) \<Longrightarrow> (k, v) \<in> set d \<longleftrightarrow> dict_get d k = Some v"
  by (simp add: map_of_eq_Some_iff)

section \<open>The first element of a list with a property\<close>

lemma first_index_Cons:
  "(\<exists>i < length (x # xs). P ((x # xs) ! i) \<and> (\<forall>j < i. Q ((x # xs) ! j)))
     \<longleftrightarrow> P x \<or> (Q x \<and> (\<exists>i < length xs. P (xs ! i) \<and> (\<forall>j < i. Q (xs ! j))))"
  by (simp add: Ex_less_Suc2 All_less_Suc2) blast

end
