(* ===== verification/Py_Text.thy ===== *)
theory Py_Text
  imports Py_Prelude
begin

text \<open>
  Lemmas on the text methods of the prelude: what \<open>split\<close> returns, that stripping does not
  change it, that joining with one blank is undone by \<open>split\<close>, decimal numerals, and prefixes.
\<close>

definition space_free :: "ustr \<Rightarrow> bool" where
  "space_free w \<longleftrightarrow> (\<forall>c \<in> set w. \<not> is_space c)"

definition is_word :: "ustr \<Rightarrow> bool" where
  "is_word w \<longleftrightarrow> w \<noteq> [] \<and> space_free w"

lemma space_free_simps [simp]:
  "space_free []" "space_free (c # cs) \<longleftrightarrow> \<not> is_space c \<and> space_free cs"
  "space_free (a @ b) \<longleftrightarrow> space_free a \<and> space_free b"
  by (auto simp: space_free_def)

lemma is_space_blank [simp]: "is_space 32"
  by (simp add: is_space_def)

lemma words_from_words: "space_free cur \<Longrightarrow> w \<in> set (words_from cur s) \<Longrightarrow> is_word w"
  by (induction cur s rule: words_from.induct) (auto simp: is_word_def split: if_splits)

lemma py_split_words: "w \<in> set (py_split s) \<Longrightarrow> is_word w"
  unfolding py_split_def by (rule words_from_words) simp_all

lemma words_from_space_free: "space_free w \<Longrightarrow> words_from cur (w @ s) = words_from (cur @ w) s"
  by (induction w arbitrary: cur) auto

lemma words_from_all_space: "\<forall>c \<in> set s. is_space c \<Longrightarrow> words_from cur s = (if cur = [] then [] else [cur])"
  by (induction s arbitrary: cur) auto

lemma words_from_trailing: "\<forall>c \<in> set t. is_space c \<Longrightarrow> words_from cur (s @ t) = words_from cur s"
  by (induction cur s rule: words_from.induct) (simp_all add: words_from_all_space)

lemma words_from_leading: "words_from [] (dropWhile is_space s) = words_from [] s"
  by (induction s) auto

lemma takeWhile_all: "\<forall>c \<in> set (takeWhile P s). P c"
  by (metis set_takeWhileD)

lemma py_rstrip_append: "\<exists>t. s = py_rstrip s @ t \<and> (\<forall>c \<in> set t. is_space c)"
proof -
  have "s = rev (dropWhile is_space (rev s)) @ rev (takeWhile is_space (rev s))"
    by (metis rev_append rev_rev_ident takeWhile_dropWhile_id)
  then show ?thesis
    unfolding py_rstrip_def using takeWhile_all [of is_space "rev s"] by (metis set_rev)
qed

lemma py_split_strip [simp]: "py_split (py_strip s) = py_split s"
proof -
  obtain t where "py_lstrip s = py_rstrip (py_lstrip s) @ t" "\<forall>c \<in> set t. is_space c"
    using py_rstrip_append by blast
  then have "words_from [] (py_lstrip s) = words_from [] (py_rstrip (py_lstrip s))"
    by (metis words_from_trailing)
  then show ?thesis
    by (simp add: py_split_def py_strip_def py_lstrip_def words_from_leading)
qed

lemma words_from_join:
  "\<forall>w \<in> set ws. is_word w \<Longrightarrow> words_from [] (py_join [32] ws) = ws"
proof (induction "[32] :: ustr" ws rule: py_join.induct)
  case 1
  show ?case by simp
next
  case (2 x)
  then show ?case using words_from_space_free [of x "[]" "[]"] by (simp add: is_word_def)
next
  case (3 x y ys)
  then show ?case
    using words_from_space_free [of x "[]" "32 # py_join [32] (y # ys)"] by (simp add: is_word_def)
qed

lemma py_split_join: "\<forall>w \<in> set ws. is_word w \<Longrightarrow> py_split (py_join [32] ws) = ws"
  unfolding py_split_def by (rule words_from_join)

lemma py_split_join_split [simp]: "py_split (py_join [32] (py_split s)) = py_split s"
  by (rule py_split_join) (auto dest: py_split_words)

lemma py_join_Nil_iff: "\<forall>w \<in> set ws. is_word w \<Longrightarrow> py_join sep ws = [] \<longleftrightarrow> ws = []"
  by (cases "(sep, ws)" rule: py_join.cases) (auto simp: is_word_def)

subsection \<open>Prefixes and separators\<close>

lemma py_startswith_append [simp]: "py_startswith (p @ s) p"
  by (simp add: py_startswith_def)

lemma py_startswith_iff: "py_startswith s p \<longleftrightarrow> (\<exists>t. s = p @ t)"
  by (metis append_take_drop_id py_startswith_append py_startswith_def)

lemma py_removeprefix_append [simp]: "py_removeprefix (p @ s) p = s"
  by (simp add: py_removeprefix_def)

lemma py_endswith_append [simp]: "py_endswith (s @ p) p"
  by (simp add: py_endswith_def)

lemma py_removesuffix_append [simp]: "py_removesuffix (s @ p) p = s"
  by (simp add: py_removesuffix_def)

lemma py_contains_startswith: "py_startswith s p \<Longrightarrow> py_contains s p"
  by (cases s) (auto simp: py_startswith_def)

lemma py_contains_Nil [simp]: "py_contains s []"
  by (cases s) (simp_all add: py_startswith_def)

lemma py_contains_iff: "py_contains s p \<longleftrightarrow> (\<exists>a b. s = a @ p @ b)"
proof (induction s)
  case Nil
  show ?case by auto
next
  case (Cons c cs)
  show ?case
  proof
    assume "py_contains (c # cs) p"
    then consider "py_startswith (c # cs) p" | "py_contains cs p" by auto
    then show "\<exists>a b. c # cs = a @ p @ b"
      by cases (metis append.left_neutral py_startswith_iff, metis Cons.IH append_Cons)
  next
    assume "\<exists>a b. c # cs = a @ p @ b"
    then obtain a b where ab: "c # cs = a @ p @ b" by blast
    show "py_contains (c # cs) p"
    proof (cases a)
      case Nil
      with ab show ?thesis by (auto intro: py_contains_startswith)
    next
      case (Cons d ds)
      with ab show ?thesis using Cons.IH by auto
    qed
  qed
qed

lemma split_on_not_Nil [simp]: "split_on sep s \<noteq> []"
  by (induction s) (auto split: list.splits)

lemma py_partition_found: "py_partition sep s = (a, True, b) \<Longrightarrow> s = a @ sep # b \<and> sep \<notin> set a"
  by (induction s arbitrary: a) (auto split: if_splits prod.splits)

lemma py_partition_not_found: "py_partition sep s = (a, False, b) \<Longrightarrow> a = s \<and> b = [] \<and> sep \<notin> set s"
  by (induction s arbitrary: a) (auto split: if_splits prod.splits)

subsection \<open>Decimal numerals\<close>

lemma str_of_nat_small: "n < 10 \<Longrightarrow> str_of_nat n = [48 + n]"
  by (subst str_of_nat.simps) simp

lemma str_of_nat_big: "\<not> n < 10 \<Longrightarrow> str_of_nat n = str_of_nat (n div 10) @ [48 + n mod 10]"
  by (subst str_of_nat.simps) simp

lemma str_of_nat_digits: "\<forall>c \<in> set (str_of_nat n). 48 \<le> c \<and> c < 58"
proof (induction n rule: str_of_nat.induct)
  case (1 n)
  then show ?case by (cases "n < 10") (simp_all add: str_of_nat_small str_of_nat_big)
qed

lemma str_of_nat_not_Nil [simp]: "str_of_nat n \<noteq> []"
  by (subst str_of_nat.simps) simp

text \<open>Reading a numeral back: the value of a list of ASCII digits.\<close>

fun nat_of_digits :: "ustr \<Rightarrow> nat" where
  "nat_of_digits s = foldl (\<lambda>acc c. 10 * acc + (c - 48)) 0 s"

lemma nat_of_digits_str: "nat_of_digits (str_of_nat n) = n"
proof (induction n rule: str_of_nat.induct)
  case (1 n)
  then show ?case by (cases "n < 10") (simp_all add: str_of_nat_small str_of_nat_big)
qed

lemma str_of_nat_inj [simp]: "str_of_nat m = str_of_nat n \<longleftrightarrow> m = n"
  by (metis nat_of_digits_str)

lemma str_of_nat_no_minus: "45 \<notin> set (str_of_nat n)"
  using str_of_nat_digits [of n] by force

lemma str_of_int_not_Nil [simp]: "str_of_int n \<noteq> []"
  by (simp add: str_of_int_def)

lemma str_of_int_chars: "c \<in> set (str_of_int n) \<Longrightarrow> c = 45 \<or> (48 \<le> c \<and> c < 58)"
  using str_of_nat_digits [of "nat n"] str_of_nat_digits [of "nat (- n)"]
  by (auto simp: str_of_int_def split: if_splits)

lemma str_of_int_inj: "str_of_int m = str_of_int n \<Longrightarrow> m = n"
proof -
  assume eq: "str_of_int m = str_of_int n"
  have "str_of_nat k \<noteq> 45 # xs" for k xs
    using str_of_nat_no_minus [of k] by auto
  with eq show "m = n"
    by (auto simp: str_of_int_def eq_commute [of "45 # _"] split: if_splits)
qed

subsection \<open>Reading numerals back\<close>

lemma digit_val_ascii: "48 \<le> c \<Longrightarrow> c < 58 \<Longrightarrow> digit_val c = Some (c - 48)"
  by (simp add: digit_val_def nd_zeros_def)

lemma digits_value_ascii:
  "\<forall>c \<in> set ds. 48 \<le> c \<and> c < 58 \<Longrightarrow>
   digits_value acc k ok ds =
     (if (ds \<noteq> [] \<or> ok) \<and> k + length ds \<le> 4300 then Some (foldl (\<lambda>acc c. 10 * acc + (c - 48)) acc ds) else None)"
  by (induction ds arbitrary: acc k ok) (auto simp: digit_val_ascii)

lemma digits_value_str: "length (str_of_nat n) \<le> 4300 \<Longrightarrow> digits_value 0 0 False (str_of_nat n) = Some n"
  using nat_of_digits_str [of n] str_of_nat_digits [of n] by (simp add: digits_value_ascii)

lemma trimmed_numeral:
  assumes "\<forall>c \<in> set t. \<not> is_int_space c"
  shows "rev (dropWhile is_int_space (rev (dropWhile is_int_space t))) = t"
proof -
  have id: "dropWhile is_int_space xs = xs" if "\<forall>c \<in> set xs. \<not> is_int_space c" for xs
    using that by (cases xs) auto
  show ?thesis using assms id [of t] id [of "rev t"] by simp
qed

lemma numeral_not_space: "c = 45 \<or> (48 \<le> c \<and> c < 58) \<Longrightarrow> \<not> is_int_space c"
  by (auto simp: is_int_space_def is_space_def)

lemma int_of_str:
  assumes "length (str_of_nat (nat \<bar>n\<bar>)) \<le> 4300"
  shows "int_of_ustr (str_of_int n) = Some n"
proof -
  have "\<forall>c \<in> set (str_of_int n). \<not> is_int_space c"
    using str_of_int_chars [of _ n] numeral_not_space by blast
  note trim = trimmed_numeral [OF this]
  show ?thesis
  proof (cases "n < 0")
    case True
    then show ?thesis
      using assms trim digits_value_str [of "nat (- n)"] by (simp add: int_of_ustr_def str_of_int_def)
  next
    case False
    obtain c cs where c: "str_of_nat (nat n) = c # cs" by (meson list.exhaust str_of_nat_not_Nil)
    then have "48 \<le> c" using str_of_nat_digits [of "nat n"] by simp
    then show ?thesis
      using False assms trim c digits_value_str [of "nat n"] by (simp add: int_of_ustr_def str_of_int_def)
  qed
qed

text \<open>What \<open>int\<close> reads has at most 4300 digits, so its decimal text is read back.\<close>

lemma length_str_of_nat: "n < 10 ^ m \<Longrightarrow> 0 < m \<Longrightarrow> length (str_of_nat n) \<le> m"
proof (induction m arbitrary: n)
  case (Suc m)
  show ?case
  proof (cases "n < 10")
    case False
    then have "n div 10 < 10 ^ m" using Suc.prems(1) by (simp add: less_mult_imp_div_less)
    moreover have "0 < m" using False Suc.prems(1) by (cases m) auto
    ultimately show ?thesis using Suc.IH [of "n div 10"] False by (simp add: str_of_nat_big)
  qed (simp add: str_of_nat_small)
qed simp

lemma digit_val_less: "digit_val c = Some d \<Longrightarrow> d < 10"
  by (auto simp: digit_val_def find_Some_iff)

lemma digits_value_less:
  "digits_value acc k ok cs = Some v \<Longrightarrow> acc < 10 ^ k \<Longrightarrow> \<exists>j \<le> 4300. v < 10 ^ j"
proof (induction acc k ok cs rule: digits_value.induct)
  case (1 acc k ok)
  then show ?case by (auto split: if_splits)
next
  case (2 acc k ok c cs)
  show ?case
  proof (cases "c = 95")
    case True
    with 2 show ?thesis by (simp split: if_splits)
  next
    case False
    with 2(3) obtain d where d: "digit_val c = Some d" by (auto split: option.splits)
    have "10 * acc + d < 10 ^ Suc k" using digit_val_less [OF d] 2(4) by simp
    with 2 False d show ?thesis by simp
  qed
qed

lemma length_str_of_nat_le: "n < 10 ^ j \<Longrightarrow> j \<le> m \<Longrightarrow> 0 < m \<Longrightarrow> length (str_of_nat n) \<le> m"
  by (rule length_str_of_nat) (auto intro: less_le_trans power_increasing)

lemma digits_value_short: "digits_value 0 0 False cs = Some v \<Longrightarrow> length (str_of_nat v) \<le> 4300"
  using digits_value_less [of 0 0 False cs v] by (auto intro: length_str_of_nat_le)

lemma int_of_ustr_short: "int_of_ustr s = Some n \<Longrightarrow> length (str_of_nat (nat \<bar>n\<bar>)) \<le> 4300"
  by (auto simp del: digits_value.simps simp: int_of_ustr_def Let_def dest: digits_value_short
      split: list.splits if_splits)

lemma int_of_ustr_again: "int_of_ustr s = Some n \<Longrightarrow> int_of_ustr (str_of_int n) = Some n"
  by (rule int_of_str [OF int_of_ustr_short])

end
