(* ===== verification/Py_Json.thy ===== *)
theory Py_Json
  imports Py_Text "HOL-Library.Multiset"
begin

text \<open>
  JSON values as \<open>json.loads\<close> returns them, the Python operations on them that the program
  uses (\<open>get\<close>, truth value, \<open>str\<close>, \<open>int\<close>), and \<open>json.dumps\<close> in the
  canonical form of the request fingerprint, and UTF-8. What the interpreter provides and this
  development does not define (case mapping, \<open>repr\<close> of floats and containers, SHA-256, the
  texts of its own exceptions, the parser \<open>json.loads\<close>) is a record of functions, an argument of every definition
  that uses it.
\<close>

section \<open>Values\<close>

datatype pyfloat = PFin rat | PNan | PInf | PNegInf

datatype json =
    JNull
  | JBool bool
  | JInt int
  | JFloat pyfloat
  | JStr ustr
  | JList "json list"
  | JDict "(ustr \<times> json) list"

type_synonym jdict = "(ustr, json) dict"

record pylib =
  py_lower :: "ustr \<Rightarrow> ustr"
  py_repr :: "json \<Rightarrow> ustr"
  py_float_repr :: "pyfloat \<Rightarrow> ustr"
  py_float :: "ustr \<Rightarrow> rat option"
  py_sha256_hex :: "nat list \<Rightarrow> ustr"
  py_isoformat :: "int \<Rightarrow> ustr"
  py_exn_text :: "builtin_exn \<Rightarrow> ustr"
  py_json_loads :: "ustr \<Rightarrow> json res"

text \<open>An exception the interpreter raises.\<close>

definition builtin :: "pylib \<Rightarrow> builtin_exn \<Rightarrow> exn" where
  "builtin py b = Builtin b (py_exn_text py b)"

text \<open>\<open>bool(x)\<close>, as \<open>or\<close>, \<open>not\<close> and \<open>if\<close> use it.\<close>

fun truthy :: "json \<Rightarrow> bool" where
  "truthy JNull = False"
| "truthy (JBool b) = b"
| "truthy (JInt n) = (n \<noteq> 0)"
| "truthy (JFloat f) = (f \<noteq> PFin 0)"
| "truthy (JStr s) = (s \<noteq> [])"
| "truthy (JList xs) = (xs \<noteq> [])"
| "truthy (JDict kvs) = (kvs \<noteq> [])"

text \<open>\<open>str(x)\<close>.\<close>

fun py_str :: "pylib \<Rightarrow> json \<Rightarrow> ustr" where
  "py_str py (JStr s) = s"
| "py_str py JNull = u ''None''"
| "py_str py (JBool b) = (if b then u ''True'' else u ''False'')"
| "py_str py (JInt n) = str_of_int n"
| "py_str py v = py_repr py v"

text \<open>\<open>int(x)\<close>: a float is truncated towards zero, a text is parsed, a bool is 0 or 1.\<close>

definition trunc_rat :: "rat \<Rightarrow> int" where
  "trunc_rat r = (if 0 \<le> r then \<lfloor>r\<rfloor> else \<lceil>r\<rceil>)"

fun py_int :: "pylib \<Rightarrow> json \<Rightarrow> int res" where
  "py_int py (JInt n) = Inr n"
| "py_int py (JBool b) = Inr (if b then 1 else 0)"
| "py_int py (JFloat (PFin r)) = Inr (trunc_rat r)"
| "py_int py (JFloat PNan) = Inl (builtin py B_ValueError)"
| "py_int py (JFloat _) = Inl (builtin py B_OverflowError)"
| "py_int py (JStr s) =
     (case int_of_ustr s of Some n \<Rightarrow> Inr n | None \<Rightarrow> Inl (builtin py B_ValueError))"
| "py_int py _ = Inl (builtin py B_TypeError)"

text \<open>\<open>d.get(key, default)\<close>, and the optional field as \<open>d.get(key)\<close> (JSON null is \<open>None\<close>).\<close>

definition get_or :: "jdict \<Rightarrow> ustr \<Rightarrow> json \<Rightarrow> json" where
  "get_or d k dflt = (case dict_get d k of Some v \<Rightarrow> v | None \<Rightarrow> dflt)"

definition jget :: "jdict \<Rightarrow> ustr \<Rightarrow> json" where
  "jget d k = get_or d k JNull"

text \<open>\<open>v or alternative\<close>.\<close>

definition py_or :: "json \<Rightarrow> json \<Rightarrow> json" where
  "py_or v alt = (if truthy v then v else alt)"

definition opt_json :: "ustr option \<Rightarrow> json" where
  "opt_json x = (case x of None \<Rightarrow> JNull | Some s \<Rightarrow> JStr s)"

text \<open>\<open>json.loads\<close> never yields an object with a repeated key.\<close>

fun wf_json :: "json \<Rightarrow> bool" where
  "wf_json (JList xs) = list_all wf_json xs"
| "wf_json (JDict kvs) = (distinct (dict_keys kvs) \<and> list_all (\<lambda>(k, v). wf_json v) kvs)"
| "wf_json _ = True"

section \<open>Canonical text\<close>

text \<open>
  \<open>json.dumps(v, sort_keys=True, separators=(",", ":"), ensure_ascii=False)\<close>.
\<close>

definition hex_digit :: "nat \<Rightarrow> nat" where
  "hex_digit d = (if d < 10 then 48 + d else 87 + d)"

definition json_escape :: "nat \<Rightarrow> ustr" where
  "json_escape c =
     (if c = 34 then [92, 34] else if c = 92 then [92, 92]
      else if c = 8 then [92, 98] else if c = 12 then [92, 102]
      else if c = 10 then [92, 110] else if c = 13 then [92, 114] else if c = 9 then [92, 116]
      else if c < 32 then [92, 117, 48, 48, hex_digit (c div 16), hex_digit (c mod 16)]
      else [c])"

definition json_quote :: "ustr \<Rightarrow> ustr" where
  "json_quote s = [34] @ concat (map json_escape s) @ [34]"

definition float_text :: "pylib \<Rightarrow> pyfloat \<Rightarrow> ustr" where
  "float_text py f =
     (case f of PNan \<Rightarrow> u ''NaN'' | PInf \<Rightarrow> u ''Infinity'' | PNegInf \<Rightarrow> u ''-Infinity''
      | PFin r \<Rightarrow> py_float_repr py f)"

lemma size_json_dict: "(k, v) \<in> set kvs \<Longrightarrow> size v < Suc (size_list (size_prod (\<lambda>_. 0) size) kvs)"
  by (induction kvs) auto

function dumps_canonical :: "pylib \<Rightarrow> json \<Rightarrow> ustr" where
  "dumps_canonical py JNull = u ''null''"
| "dumps_canonical py (JBool b) = (if b then u ''true'' else u ''false'')"
| "dumps_canonical py (JInt n) = str_of_int n"
| "dumps_canonical py (JFloat f) = float_text py f"
| "dumps_canonical py (JStr s) = json_quote s"
| "dumps_canonical py (JList xs) =
     [91] @ py_join [44] (map (dumps_canonical py) xs) @ [93]"
| "dumps_canonical py (JDict kvs) =
     [123] @ py_join [44] (map (\<lambda>(k, v). json_quote k @ [58] @ dumps_canonical py v)
                             (sort_key fst kvs)) @ [125]"
  by pat_completeness auto
termination
  by (relation "measure (\<lambda>(py, v). size v)")
     (auto simp: less_Suc_eq_le size_list_estimation' intro: size_json_dict)

section \<open>UTF-8\<close>

text \<open>\<open>s.encode("utf-8")\<close>: \<open>None\<close> is the UnicodeEncodeError for a lone surrogate.\<close>

definition is_surrogate :: "nat \<Rightarrow> bool" where
  "is_surrogate c \<longleftrightarrow> 55296 \<le> c \<and> c \<le> 57343"

definition utf8_char :: "nat \<Rightarrow> nat list" where
  "utf8_char c =
     (if c < 128 then [c]
      else if c < 2048 then [192 + c div 64, 128 + c mod 64]
      else if c < 65536 then [224 + c div 4096, 128 + c div 64 mod 64, 128 + c mod 64]
      else [240 + c div 262144, 128 + c div 4096 mod 64, 128 + c div 64 mod 64, 128 + c mod 64])"

definition utf8_encode :: "ustr \<Rightarrow> nat list option" where
  "utf8_encode s = (if \<exists>c \<in> set s. is_surrogate c then None else Some (concat (map utf8_char s)))"

text \<open>A text the interpreter can hold.\<close>

definition valid_ustr :: "ustr \<Rightarrow> bool" where
  "valid_ustr s \<longleftrightarrow> (\<forall>c \<in> set s. c < 1114112)"

end
