(* ===== verification/Config.thy ===== *)
theory Config
  imports Py_Json
begin

text \<open>
  \<open>config.py\<close>: the configuration of the worker and of the runner daemon, read from the
  environment. A path is kept as its text.
\<close>

type_synonym environ = "(ustr, ustr) dict"

definition env_or :: "environ \<Rightarrow> ustr \<Rightarrow> ustr \<Rightarrow> ustr" where
  "env_or env name dflt = (case dict_get env name of Some v \<Rightarrow> v | None \<Rightarrow> dflt)"

text \<open>\<open>os.getenv(a) or os.getenv(b, default)\<close>.\<close>

definition env_first :: "environ \<Rightarrow> ustr \<Rightarrow> ustr \<Rightarrow> ustr \<Rightarrow> ustr" where
  "env_first env a b dflt =
     (case dict_get env a of Some v \<Rightarrow> if v \<noteq> [] then v else env_or env b dflt
      | None \<Rightarrow> env_or env b dflt)"

text \<open>\<open>int(os.getenv(name, default))\<close> and \<open>float(os.getenv(name, default))\<close>.\<close>

definition env_int :: "pylib \<Rightarrow> environ \<Rightarrow> ustr \<Rightarrow> ustr \<Rightarrow> int res" where
  "env_int py env name dflt =
     (case int_of_ustr (env_or env name dflt) of Some n \<Rightarrow> Inr n | None \<Rightarrow> Inl (builtin py B_ValueError))"

definition env_float :: "pylib \<Rightarrow> environ \<Rightarrow> ustr \<Rightarrow> ustr \<Rightarrow> rat res" where
  "env_float py env name dflt =
     (case py_float py (env_or env name dflt) of Some r \<Rightarrow> Inr r | None \<Rightarrow> Inl (builtin py B_ValueError))"

text \<open>\<open>_env_bool\<close>.\<close>

definition env_bool :: "pylib \<Rightarrow> environ \<Rightarrow> ustr \<Rightarrow> bool \<Rightarrow> bool" where
  "env_bool py env name dflt =
     (case dict_get env name of None \<Rightarrow> dflt
      | Some value \<Rightarrow> py_lower py (py_strip value) \<in> {u ''1'', u ''true'', u ''yes'', u ''on''})"

section \<open>The worker\<close>

record worker_config =
  wc_service_token :: ustr
  wc_runner_mode :: ustr
  wc_runner_url :: "ustr option"
  wc_runner_auth_token :: "ustr option"
  wc_vehicle_inventory_path :: "ustr option"
  wc_host :: ustr
  wc_port :: int
  wc_audit_log_path :: ustr
  wc_artifact_dir :: ustr
  wc_artifact_ttl_hours :: int
  wc_max_artifact_bytes :: int
  wc_task_timeout_sec_default :: int
  wc_task_result_ttl_sec :: int
  wc_global_create_limit_per_minute :: int
  wc_user_create_limit_per_minute :: int

definition worker_config_from_env :: "pylib \<Rightarrow> environ \<Rightarrow> worker_config res" where
  "worker_config_from_env py env =
     bindE (env_int py env (u ''BO_VPN_WORKER_PORT'') (u ''8080'')) (\<lambda>port.
     bindE (env_int py env (u ''BO_VPN_ARTIFACT_TTL_HOURS'') (u ''24'')) (\<lambda>ttl.
     bindE (env_int py env (u ''BO_VPN_MAX_ARTIFACT_BYTES'') (u ''10485760'')) (\<lambda>max_bytes.
     bindE (env_int py env (u ''BO_VPN_TASK_TIMEOUT_SEC'') (u ''120'')) (\<lambda>timeout.
     bindE (env_int py env (u ''BO_VPN_GLOBAL_CREATE_LIMIT_PER_MINUTE'') (u ''60'')) (\<lambda>global.
     bindE (env_int py env (u ''BO_VPN_USER_CREATE_LIMIT_PER_MINUTE'') (u ''10'')) (\<lambda>user.
     Inr \<lparr> wc_service_token = env_first env (u ''BO_VPN_WORKER_AUTH_TOKEN'') (u ''BOT_TO_WORKER_SERVICE_TOKEN'') (u ''dev-token''),
           wc_runner_mode = env_first env (u ''BO_VPN_DEFAULT_RUNNER_MODE'') (u ''BO_VPN_RUNNER_MODE'') (u ''dry_run''),
           wc_runner_url = dict_get env (u ''BO_VPN_RUNNER_URL''),
           wc_runner_auth_token = dict_get env (u ''BO_VPN_RUNNER_AUTH_TOKEN''),
           wc_vehicle_inventory_path =
             (case dict_get env (u ''BO_VPN_VEHICLE_INVENTORY_PATH'') of
                Some p \<Rightarrow> if p \<noteq> [] then Some (py_path p) else None | None \<Rightarrow> None),
           wc_host = env_or env (u ''BO_VPN_WORKER_HOST'') (u ''127.0.0.1''),
           wc_port = port,
           wc_audit_log_path = py_path (env_first env (u ''BO_VPN_AUDIT_LOG_PATH'') (u ''BO_VPN_AUDIT_LOG'') (u ''var/audit.log'')),
           wc_artifact_dir = py_path (env_or env (u ''BO_VPN_ARTIFACT_DIR'') (u ''var/artifacts'')),
           wc_artifact_ttl_hours = ttl,
           wc_max_artifact_bytes = max_bytes,
           wc_task_timeout_sec_default = timeout,
           wc_task_result_ttl_sec = 86400,
           wc_global_create_limit_per_minute = global,
           wc_user_create_limit_per_minute = user \<rparr>))))))"

section \<open>The runner daemon\<close>

record daemon_config =
  dc_host :: ustr
  dc_port :: int
  dc_auth_token :: "ustr option"
  dc_existing_container_name :: ustr
  dc_nsenter_bin :: ustr
  dc_docker_bin :: ustr
  dc_ssh_bin :: ustr
  dc_ssh_key_path :: ustr
  dc_default_ssh_user :: ustr
  dc_nsenter_timeout_sec :: int
  dc_command_output_max_bytes :: int
  dc_manage_vpn_session :: bool
  dc_stop_vpn_after_task :: bool
  dc_univpn_control_path :: ustr
  dc_univpn_login_timeout_sec :: int
  dc_univpn_connect_poll_interval_sec :: rat
  dc_univpn_route_cidr :: ustr
  dc_univpn_interface :: ustr
  dc_univpn_login_mode :: ustr
  dc_univpn_secret_path :: ustr
  dc_univpn_profile_menu_index :: ustr
  dc_univpn_disconnect_sequence :: "ustr option"
  dc_univpn_login_after_profile_delay_sec :: rat
  dc_univpn_login_after_connect_delay_sec :: rat
  dc_univpn_login_after_username_delay_sec :: rat
  dc_univpn_post_login_wait_sec :: rat
  dc_artifact_dir :: ustr
  dc_artifact_ttl_hours :: int
  dc_max_artifact_bytes :: int

definition daemon_config_from_env :: "pylib \<Rightarrow> environ \<Rightarrow> daemon_config res" where
  "daemon_config_from_env py env =
     bindE (env_int py env (u ''BO_VPN_RUNNER_PORT'') (u ''8091'')) (\<lambda>port.
     bindE (env_int py env (u ''BO_VPN_NSENTER_TIMEOUT_SEC'') (u ''8'')) (\<lambda>nsenter_timeout.
     bindE (env_int py env (u ''BO_VPN_COMMAND_OUTPUT_MAX_BYTES'') (u ''65536'')) (\<lambda>output_max.
     bindE (env_int py env (u ''BO_VPN_UNIVPN_LOGIN_TIMEOUT_SEC'') (u ''45'')) (\<lambda>login_timeout.
     bindE (env_float py env (u ''BO_VPN_UNIVPN_CONNECT_POLL_INTERVAL_SEC'') (u ''2'')) (\<lambda>interval.
     bindE (env_float py env (u ''BO_VPN_UNIVPN_LOGIN_AFTER_PROFILE_DELAY_SEC'') (u ''2'')) (\<lambda>after_profile.
     bindE (env_float py env (u ''BO_VPN_UNIVPN_LOGIN_AFTER_CONNECT_DELAY_SEC'') (u ''4'')) (\<lambda>after_connect.
     bindE (env_float py env (u ''BO_VPN_UNIVPN_LOGIN_AFTER_USERNAME_DELAY_SEC'') (u ''2'')) (\<lambda>after_username.
     bindE (env_float py env (u ''BO_VPN_UNIVPN_POST_LOGIN_WAIT_SEC'') (u ''12'')) (\<lambda>post_login.
     bindE (env_int py env (u ''BO_VPN_ARTIFACT_TTL_HOURS'') (u ''24'')) (\<lambda>ttl.
     bindE (env_int py env (u ''BO_VPN_MAX_ARTIFACT_BYTES'') (u ''10485760'')) (\<lambda>max_bytes.
     Inr \<lparr> dc_host = env_or env (u ''BO_VPN_RUNNER_HOST'') (u ''127.0.0.1''),
           dc_port = port,
           dc_auth_token = dict_get env (u ''BO_VPN_RUNNER_AUTH_TOKEN''),
           dc_existing_container_name = env_or env (u ''BO_VPN_EXISTING_CONTAINER_NAME'') (u ''univpn-service''),
           dc_nsenter_bin = env_or env (u ''BO_VPN_NSENTER_BIN'') (u ''/usr/bin/nsenter''),
           dc_docker_bin = env_or env (u ''BO_VPN_DOCKER_BIN'') (u ''/usr/bin/docker''),
           dc_ssh_bin = env_or env (u ''BO_VPN_SSH_BIN'') (u ''/usr/bin/ssh''),
           dc_ssh_key_path = py_path (env_or env (u ''BO_VPN_SSH_KEY_PATH'') (u ''/run/keys/rsa.key'')),
           dc_default_ssh_user = env_or env (u ''BO_VPN_DEFAULT_SSH_USER'') (u ''root''),
           dc_nsenter_timeout_sec = nsenter_timeout,
           dc_command_output_max_bytes = output_max,
           dc_manage_vpn_session = env_bool py env (u ''BO_VPN_MANAGE_VPN_SESSION'') False,
           dc_stop_vpn_after_task = env_bool py env (u ''BO_VPN_STOP_VPN_AFTER_TASK'') False,
           dc_univpn_control_path = py_path (env_or env (u ''BO_VPN_UNIVPN_CONTROL_PATH'') (u ''/run/univpn/univpn.in'')),
           dc_univpn_login_timeout_sec = login_timeout,
           dc_univpn_connect_poll_interval_sec = interval,
           dc_univpn_route_cidr = env_or env (u ''BO_VPN_UNIVPN_ROUTE_CIDR'') (u ''172.26.0.0/15''),
           dc_univpn_interface = env_or env (u ''BO_VPN_UNIVPN_INTERFACE'') (u ''cnem_vnic''),
           dc_univpn_login_mode = env_or env (u ''BO_VPN_UNIVPN_LOGIN_MODE'') (u ''container_secret''),
           dc_univpn_secret_path = py_path (env_or env (u ''BO_VPN_UNIVPN_SECRET_PATH'') (u ''/run/secrets/univpn.env'')),
           dc_univpn_profile_menu_index = env_or env (u ''BO_VPN_UNIVPN_PROFILE_MENU_INDEX'') (u ''3''),
           dc_univpn_disconnect_sequence = dict_get env (u ''BO_VPN_UNIVPN_DISCONNECT_SEQUENCE''),
           dc_univpn_login_after_profile_delay_sec = after_profile,
           dc_univpn_login_after_connect_delay_sec = after_connect,
           dc_univpn_login_after_username_delay_sec = after_username,
           dc_univpn_post_login_wait_sec = post_login,
           dc_artifact_dir = py_path (env_or env (u ''BO_VPN_RUNNER_ARTIFACT_DIR'') (u ''var/runner-artifacts'')),
           dc_artifact_ttl_hours = ttl,
           dc_max_artifact_bytes = max_bytes \<rparr>)))))))))))"

lemma env_first_nonempty:
  "dflt \<noteq> [] \<Longrightarrow> dict_get env b \<noteq> Some [] \<Longrightarrow> env_first env a b dflt \<noteq> []"
  by (auto simp: env_first_def env_or_def split: option.splits)

end
