(* ===== verification/Messages.thy ===== *)
theory Messages
  imports Py_Prelude
begin

text \<open>
  The Russian texts of the program, as code points (ASCII runs as literals). Each is one
  constant named after what it says; no proof unfolds them.
\<close>

definition msg_suffix_required :: ustr where  \<comment> \<open>is required\<close>
  "msg_suffix_required = [32, 1086, 1073, 1103, 1079, 1072, 1090, 1077, 1083, 1077, 1085]"

definition msg_vehicle_required :: ustr where  \<comment> \<open>vehicle is required\<close>
  "msg_vehicle_required = u ''vehicle '' @ [1086, 1073, 1103, 1079, 1072, 1090, 1077, 1083,
    1077, 1085]"

definition msg_vpn_required :: ustr where  \<comment> \<open>vpn is required\<close>
  "msg_vpn_required = u ''vpn '' @ [1086, 1073, 1103, 1079, 1072, 1090, 1077, 1083, 1077,
    1085]"

definition msg_rate_limited :: ustr where  \<comment> \<open>task creation limit exceeded\<close>
  "msg_rate_limited = [1055, 1088, 1077, 1074, 1099, 1096, 1077, 1085, 32, 1083, 1080, 1084,
    1080, 1090, 32, 1089, 1086, 1079, 1076, 1072, 1085, 1080, 1103, 32, 1079, 1072, 1076,
    1072, 1095]"

definition msg_worker_busy :: ustr where  \<comment> \<open>worker already runs a task\<close>
  "msg_worker_busy = u ''Worker '' @ [1091, 1078, 1077, 32, 1074, 1099, 1087, 1086, 1083,
    1085, 1103, 1077, 1090, 32, 1079, 1072, 1076, 1072, 1095, 1091]"

definition msg_request_id_conflict :: ustr where  \<comment> \<open>request_id was used with another body\<close>
  "msg_request_id_conflict = u ''request_id '' @ [1091, 1078, 1077, 32, 1080, 1089, 1087,
    1086, 1083, 1100, 1079, 1086, 1074, 1072, 1085, 32, 1089, 32, 1076, 1088, 1091, 1075,
    1080, 1084, 32, 1090, 1077, 1083, 1086, 1084, 32, 1079, 1072, 1087, 1088, 1086, 1089,
    1072]"

definition msg_task_not_found :: ustr where  \<comment> \<open>task not found\<close>
  "msg_task_not_found = [1047, 1072, 1076, 1072, 1095, 1072, 32, 1085, 1077, 32, 1085, 1072,
    1081, 1076, 1077, 1085, 1072]"

definition msg_vpn_mode_unsupported :: ustr where  \<comment> \<open>only these modes are supported\<close>
  "msg_vpn_mode_unsupported = [1042] @ u '' MVP '' @ [1087, 1086, 1076, 1076, 1077, 1088,
    1078, 1080, 1074, 1072, 1077, 1090, 1089, 1103, 32, 1090, 1086, 1083, 1100, 1082, 1086] @
    u '' vpn.mode=inline_once '' @ [1080, 1083, 1080] @ u '' container_secret''"

definition msg_role_forbidden :: ustr where  \<comment> \<open>operation forbidden for the role\<close>
  "msg_role_forbidden = [1054, 1087, 1077, 1088, 1072, 1094, 1080, 1103, 32, 1079, 1072, 1087,
    1088, 1077, 1097, 1077, 1085, 1072, 32, 1076, 1083, 1103, 32, 1088, 1086, 1083, 1080, 32,
    1087, 1086, 1083, 1100, 1079, 1086, 1074, 1072, 1090, 1077, 1083, 1103]"

definition msg_params_object :: ustr where  \<comment> \<open>params must be an object\<close>
  "msg_params_object = u ''params '' @ [1076, 1086, 1083, 1078, 1077, 1085, 32, 1073, 1099,
    1090, 1100, 32, 1086, 1073, 1098, 1077, 1082, 1090, 1086, 1084]"

definition msg_timeout_positive :: ustr where  \<comment> \<open>timeout_sec must be positive\<close>
  "msg_timeout_positive = u ''timeout_sec '' @ [1076, 1086, 1083, 1078, 1077, 1085, 32, 1073,
    1099, 1090, 1100, 32, 1087, 1086, 1083, 1086, 1078, 1080, 1090, 1077, 1083, 1100, 1085,
    1099, 1084]"

definition msg_credentials_missing :: ustr where  \<comment> \<open>VPN credentials are missing\<close>
  "msg_credentials_missing = u ''VPN credentials '' @ [1086, 1090, 1089, 1091, 1090, 1089,
    1090, 1074, 1091, 1102, 1090]"

definition msg_operation_timeout :: ustr where  \<comment> \<open>operation exceeded its timeout\<close>
  "msg_operation_timeout = [1054, 1087, 1077, 1088, 1072, 1094, 1080, 1103, 32, 1087, 1088,
    1077, 1074, 1099, 1089, 1080, 1083, 1072] @ u '' timeout''"

definition msg_cleanup :: ustr where  \<comment> \<open>cleaning temporary state\<close>
  "msg_cleanup = [1054, 1095, 1080, 1089, 1090, 1082, 1072, 32, 1074, 1088, 1077, 1084, 1077,
    1085, 1085, 1086, 1075, 1086, 32, 1089, 1086, 1089, 1090, 1086, 1103, 1085, 1080, 1103]"

definition msg_cleanup_timeout :: ustr where  \<comment> \<open>cleaning after a timeout\<close>
  "msg_cleanup_timeout = [1054, 1095, 1080, 1089, 1090, 1082, 1072, 32, 1074, 1088, 1077,
    1084, 1077, 1085, 1085, 1086, 1075, 1086, 32, 1089, 1086, 1089, 1090, 1086, 1103, 1085,
    1080, 1103, 32, 1087, 1086, 1089, 1083, 1077] @ u '' timeout''"

definition msg_cleanup_error :: ustr where  \<comment> \<open>cleaning after an error\<close>
  "msg_cleanup_error = [1054, 1095, 1080, 1089, 1090, 1082, 1072, 32, 1074, 1088, 1077, 1084,
    1077, 1085, 1085, 1086, 1075, 1086, 32, 1089, 1086, 1089, 1090, 1086, 1103, 1085, 1080,
    1103, 32, 1087, 1086, 1089, 1083, 1077, 32, 1086, 1096, 1080, 1073, 1082, 1080]"

definition msg_diagnostics_done :: ustr where  \<comment> \<open>diagnostics finished\<close>
  "msg_diagnostics_done = [1044, 1080, 1072, 1075, 1085, 1086, 1089, 1090, 1080, 1082, 1072,
    32, 1079, 1072, 1074, 1077, 1088, 1096, 1077, 1085, 1072]"

definition msg_internal_error :: ustr where  \<comment> \<open>internal worker error\<close>
  "msg_internal_error = [1042, 1085, 1091, 1090, 1088, 1077, 1085, 1085, 1103, 1103, 32, 1086,
    1096, 1080, 1073, 1082, 1072] @ u '' worker-'' @ [1072]"

definition msg_no_result :: ustr where  \<comment> \<open>task ended without a result\<close>
  "msg_no_result = [1047, 1072, 1076, 1072, 1095, 1072, 32, 1079, 1072, 1074, 1077, 1088,
    1096, 1080, 1083, 1072, 1089, 1100, 32, 1073, 1077, 1079, 32, 1088, 1077, 1079, 1091,
    1083, 1100, 1090, 1072, 1090, 1072]"

definition msg_bad_json :: ustr where  \<comment> \<open>invalid JSON\<close>
  "msg_bad_json = [1053, 1077, 1082, 1086, 1088, 1088, 1077, 1082, 1090, 1085, 1099, 1081] @
    u '' JSON''"

definition msg_body_object :: ustr where  \<comment> \<open>the body must be a JSON object\<close>
  "msg_body_object = [1058, 1077, 1083, 1086, 32, 1079, 1072, 1087, 1088, 1086, 1089, 1072,
    32, 1076, 1086, 1083, 1078, 1085, 1086, 32, 1073, 1099, 1090, 1100] @ u '' JSON-'' @
    [1086, 1073, 1098, 1077, 1082, 1090, 1086, 1084]"

definition msg_task_created :: ustr where  \<comment> \<open>task created\<close>
  "msg_task_created = [1047, 1072, 1076, 1072, 1095, 1072, 32, 1089, 1086, 1079, 1076, 1072,
    1085, 1072]"

definition msg_operation_unavailable :: ustr where  \<comment> \<open>operation not available\<close>
  "msg_operation_unavailable = [1054, 1087, 1077, 1088, 1072, 1094, 1080, 1103, 32, 1085,
    1077, 1076, 1086, 1089, 1090, 1091, 1087, 1085, 1072, 32, 1074] @ u '' MVP''"

definition msg_title_reachability :: ustr where  \<comment> \<open>check reachability\<close>
  "msg_title_reachability = [1055, 1088, 1086, 1074, 1077, 1088, 1080, 1090, 1100, 32, 1076,
    1086, 1089, 1090, 1091, 1087, 1085, 1086, 1089, 1090, 1100]"

definition msg_title_basic_status :: ustr where  \<comment> \<open>vehicle status\<close>
  "msg_title_basic_status = [1057, 1086, 1089, 1090, 1086, 1103, 1085, 1080, 1077, 32, 1058,
    1057]"

definition msg_title_validators :: ustr where  \<comment> \<open>validators\<close>
  "msg_title_validators = [1042, 1072, 1083, 1080, 1076, 1072, 1090, 1086, 1088, 1099]"

definition msg_title_bundle :: ustr where  \<comment> \<open>light diagnostic bundle\<close>
  "msg_title_bundle = [1051, 1105, 1075, 1082, 1080, 1081, 32, 1076, 1080, 1072, 1075, 1085,
    1086, 1089, 1090, 1080, 1095, 1077, 1089, 1082, 1080, 1081, 32, 1087, 1072, 1082, 1077,
    1090]"

definition msg_unauthorized :: ustr where  \<comment> \<open>service auth missing or wrong\<close>
  "msg_unauthorized = u ''Service auth '' @ [1086, 1090, 1089, 1091, 1090, 1089, 1090, 1074,
    1091, 1077, 1090, 32, 1080, 1083, 1080, 32, 1085, 1077, 1082, 1086, 1088, 1088, 1077,
    1082, 1090, 1085, 1072]"

definition msg_x_request_id_required :: ustr where  \<comment> \<open>X-Request-Id is required\<close>
  "msg_x_request_id_required = u ''X-Request-Id '' @ [1086, 1073, 1103, 1079, 1072, 1090,
    1077, 1083, 1077, 1085]"

definition msg_endpoint_not_found :: ustr where  \<comment> \<open>endpoint not found\<close>
  "msg_endpoint_not_found = u ''Endpoint '' @ [1085, 1077, 32, 1085, 1072, 1081, 1076, 1077,
    1085]"

definition msg_empty_body :: ustr where  \<comment> \<open>empty request body\<close>
  "msg_empty_body = [1055, 1091, 1089, 1090, 1086, 1077, 32, 1090, 1077, 1083, 1086, 32, 1079,
    1072, 1087, 1088, 1086, 1089, 1072]"

definition msg_body_too_large :: ustr where  \<comment> \<open>request body too large\<close>
  "msg_body_too_large = [1058, 1077, 1083, 1086, 32, 1079, 1072, 1087, 1088, 1086, 1089, 1072,
    32, 1089, 1083, 1080, 1096, 1082, 1086, 1084, 32, 1073, 1086, 1083, 1100, 1096, 1086,
    1077]"

definition msg_phase_starting_vpn :: ustr where  \<comment> \<open>connecting to UniVPN\<close>
  "msg_phase_starting_vpn = [1055, 1086, 1076, 1082, 1083, 1102, 1095, 1077, 1085, 1080, 1077,
    32, 1082] @ u '' UniVPN''"

definition msg_phase_vpn_connected :: ustr where  \<comment> \<open>UniVPN connected\<close>
  "msg_phase_vpn_connected = u ''UniVPN '' @ [1087, 1086, 1076, 1082, 1083, 1102, 1095, 1105,
    1085]"

definition msg_phase_checking_vehicle :: ustr where  \<comment> \<open>checking the vehicle\<close>
  "msg_phase_checking_vehicle = [1055, 1088, 1086, 1074, 1077, 1088, 1082, 1072, 32, 1076,
    1086, 1089, 1090, 1091, 1087, 1085, 1086, 1089, 1090, 1080, 32, 1058, 1057]"

definition msg_phase_running_operation :: ustr where  \<comment> \<open>running the operation\<close>
  "msg_phase_running_operation = [1042, 1099, 1087, 1086, 1083, 1085, 1077, 1085, 1080, 1077,
    32, 1086, 1087, 1077, 1088, 1072, 1094, 1080, 1080]"

definition msg_phase_collecting :: ustr where  \<comment> \<open>collecting the result\<close>
  "msg_phase_collecting = [1057, 1073, 1086, 1088, 32, 1088, 1077, 1079, 1091, 1083, 1100,
    1090, 1072, 1090, 1072]"

definition msg_dry_reachable :: ustr where  \<comment> \<open>vehicle reachable\<close>
  "msg_dry_reachable = [1058, 1057, 32, 1076, 1086, 1089, 1090, 1091, 1087, 1085, 1086, 32,
    1087, 1086, 32, 1087, 1088, 1086, 1074, 1077, 1088, 1103, 1077, 1084, 1099, 1084] @
    u '' TCP-'' @ [1087, 1086, 1088, 1090, 1072, 1084]"

definition msg_dry_status_ok :: ustr where  \<comment> \<open>services work\<close>
  "msg_dry_status_ok = [1058, 1057, 32, 1076, 1086, 1089, 1090, 1091, 1087, 1085, 1086] @
    u '', '' @ [1086, 1089, 1085, 1086, 1074, 1085, 1099, 1077, 32, 1089, 1077, 1088, 1074,
    1080, 1089, 1099, 32, 1088, 1072, 1073, 1086, 1090, 1072, 1102, 1090]"

definition msg_dry_validators_ok :: ustr where  \<comment> \<open>validators answer\<close>
  "msg_dry_validators_ok = [1042, 1072, 1083, 1080, 1076, 1072, 1090, 1086, 1088, 1099, 32,
    1086, 1090, 1074, 1077, 1095, 1072, 1102, 1090] @ u '', '' @ [1082, 1088, 1080, 1090,
    1080, 1095, 1085, 1099, 1093, 32, 1086, 1096, 1080, 1073, 1086, 1082, 32, 1085, 1077, 32,
    1085, 1072, 1081, 1076, 1077, 1085, 1086]"

definition msg_dry_bundle_done :: ustr where  \<comment> \<open>bundle collected\<close>
  "msg_dry_bundle_done = [1051, 1105, 1075, 1082, 1080, 1081, 32, 1076, 1080, 1072, 1075,
    1085, 1086, 1089, 1090, 1080, 1095, 1077, 1089, 1082, 1080, 1081, 32, 1087, 1072, 1082,
    1077, 1090, 32, 1089, 1086, 1073, 1088, 1072, 1085]"

definition msg_operation_done :: ustr where  \<comment> \<open>operation done\<close>
  "msg_operation_done = [1054, 1087, 1077, 1088, 1072, 1094, 1080, 1103, 32, 1074, 1099, 1087,
    1086, 1083, 1085, 1077, 1085, 1072]"

definition msg_existing_use :: ustr where  \<comment> \<open>using the existing namespace\<close>
  "msg_existing_use = [1048, 1089, 1087, 1086, 1083, 1100, 1079, 1086, 1074, 1072, 1085, 1080,
    1077, 32, 1089, 1091, 1097, 1077, 1089, 1090, 1074, 1091, 1102, 1097, 1077, 1075, 1086] @
    u '' UniVPN namespace''"

definition msg_existing_selected :: ustr where  \<comment> \<open>namespace selected\<close>
  "msg_existing_selected = [1057, 1091, 1097, 1077, 1089, 1090, 1074, 1091, 1102, 1097, 1080,
    1081] @ u '' UniVPN namespace '' @ [1074, 1099, 1073, 1088, 1072, 1085]"

definition msg_checking_tcp :: ustr where  \<comment> \<open>checking TCP reachability\<close>
  "msg_checking_tcp = [1055, 1088, 1086, 1074, 1077, 1088, 1082, 1072] @ u '' TCP-'' @ [1076,
    1086, 1089, 1090, 1091, 1087, 1085, 1086, 1089, 1090, 1080, 32, 1058, 1057]"

definition msg_unreachable_ports :: ustr where  \<comment> \<open>vehicle not reachable on the ports\<close>
  "msg_unreachable_ports = [1058, 1057, 32, 1085, 1077, 1076, 1086, 1089, 1090, 1091, 1087,
    1085, 1086, 32, 1087, 1086, 32, 1087, 1088, 1086, 1074, 1077, 1088, 1103, 1077, 1084,
    1099, 1084] @ u '' TCP-'' @ [1087, 1086, 1088, 1090, 1072, 1084]"

definition msg_running_read_only :: ustr where  \<comment> \<open>running a read-only operation\<close>
  "msg_running_read_only = [1042, 1099, 1087, 1086, 1083, 1085, 1077, 1085, 1080, 1077] @
    u '' read-only '' @ [1086, 1087, 1077, 1088, 1072, 1094, 1080, 1080]"

definition msg_existing_reachable :: ustr where  \<comment> \<open>reachable from here\<close>
  "msg_existing_reachable = [1058, 1057, 32, 1076, 1086, 1089, 1090, 1091, 1087, 1085, 1086,
    32, 1080, 1079, 32, 1090, 1077, 1082, 1091, 1097, 1077, 1075, 1086, 32, 1089, 1077, 1090,
    1077, 1074, 1086, 1075, 1086, 32, 1086, 1082, 1088, 1091, 1078, 1077, 1085, 1080, 1103] @
    u '' runner-'' @ [1072]"

definition msg_job_container_prepare :: ustr where  \<comment> \<open>preparing a job container\<close>
  "msg_job_container_prepare = [1055, 1086, 1076, 1075, 1086, 1090, 1086, 1074, 1082, 1072,
    32, 1086, 1076, 1085, 1086, 1088, 1072, 1079, 1086, 1074, 1086, 1075, 1086] @
    u '' UniVPN job container''"

definition msg_job_container_needs_daemon :: ustr where  \<comment> \<open>needs the host daemon\<close>
  "msg_job_container_needs_daemon = u ''job_container runner '' @ [1090, 1088, 1077, 1073,
    1091, 1077, 1090, 32, 1091, 1089, 1090, 1072, 1085, 1086, 1074, 1083, 1077, 1085, 1085,
    1099, 1081] @ u '' vpn runner-daemon '' @ [1085, 1072, 32, 1093, 1086, 1089, 1090, 1077]"

definition msg_runner_unavailable :: ustr where  \<comment> \<open>runner daemon unavailable\<close>
  "msg_runner_unavailable = u ''Runner daemon '' @ [1085, 1077, 1076, 1086, 1089, 1090, 1091,
    1087, 1077, 1085]"

definition msg_job_created :: ustr where  \<comment> \<open>job created\<close>
  "msg_job_created = u ''Job '' @ [1089, 1086, 1079, 1076, 1072, 1085]"

definition msg_job_not_found :: ustr where  \<comment> \<open>job not found\<close>
  "msg_job_not_found = u ''Job '' @ [1085, 1077, 32, 1085, 1072, 1081, 1076, 1077, 1085]"

definition msg_job_cancelled :: ustr where  \<comment> \<open>job cancelled\<close>
  "msg_job_cancelled = u ''Job '' @ [1086, 1090, 1084, 1077, 1085, 1105, 1085]"

definition msg_job_vpn_mode :: ustr where  \<comment> \<open>vpn.mode must be one of the two\<close>
  "msg_job_vpn_mode = u ''vpn.mode '' @ [1076, 1086, 1083, 1078, 1077, 1085, 32, 1073, 1099,
    1090, 1100] @ u '' inline_once '' @ [1080, 1083, 1080] @ u '' container_secret''"

definition msg_job_searching :: ustr where  \<comment> \<open>looking for the container\<close>
  "msg_job_searching = [1055, 1086, 1080, 1089, 1082] @ u '' existing UniVPN container''"

definition msg_job_timeout :: ustr where  \<comment> \<open>runner job exceeded its timeout\<close>
  "msg_job_timeout = u ''Runner job '' @ [1087, 1088, 1077, 1074, 1099, 1089, 1080, 1083] @
    u '' timeout''"

definition msg_job_done :: ustr where  \<comment> \<open>runner job finished\<close>
  "msg_job_done = u ''Runner job '' @ [1079, 1072, 1074, 1077, 1088, 1096, 1105, 1085]"

definition msg_runner_unauthorized :: ustr where  \<comment> \<open>runner auth missing or wrong\<close>
  "msg_runner_unauthorized = u ''Runner auth '' @ [1086, 1090, 1089, 1091, 1090, 1089, 1090,
    1074, 1091, 1077, 1090, 32, 1080, 1083, 1080, 32, 1085, 1077, 1082, 1086, 1088, 1088,
    1077, 1082, 1090, 1085, 1072]"

definition msg_op_not_implemented_existing :: ustr where  \<comment> \<open>not implemented\<close>
  "msg_op_not_implemented_existing = [1054, 1087, 1077, 1088, 1072, 1094, 1080, 1103, 32,
    1087, 1086, 1082, 1072, 32, 1085, 1077, 32, 1088, 1077, 1072, 1083, 1080, 1079, 1086,
    1074, 1072, 1085, 1072, 32, 1076, 1083, 1103] @ u '' existing_container''"

definition msg_inspect_timeout :: ustr where  \<comment> \<open>docker inspect timed out\<close>
  "msg_inspect_timeout = u ''docker inspect '' @ [1087, 1088, 1077, 1074, 1099, 1089, 1080,
    1083] @ u '' timeout''"

definition msg_no_pid :: ustr where  \<comment> \<open>could not get the PID\<close>
  "msg_no_pid = [1053, 1077, 32, 1091, 1076, 1072, 1083, 1086, 1089, 1100, 32, 1087, 1086,
    1083, 1091, 1095, 1080, 1090, 1100] @ u '' PID existing UniVPN container''"

definition msg_preflight_vnic_timeout :: ustr where  \<comment> \<open>interface check timed out\<close>
  "msg_preflight_vnic_timeout = u ''VPN preflight: '' @ [1087, 1088, 1086, 1074, 1077, 1088,
    1082, 1072] @ u '' cnem_vnic '' @ [1087, 1088, 1077, 1074, 1099, 1089, 1080, 1083, 1072] @
    u '' timeout''"

definition msg_preflight_no_vnic :: ustr where  \<comment> \<open>interface missing\<close>
  "msg_preflight_no_vnic = u ''VPN preflight: '' @ [1080, 1085, 1090, 1077, 1088, 1092, 1077,
    1081, 1089] @ u '' cnem_vnic '' @ [1086, 1090, 1089, 1091, 1090, 1089, 1090, 1074, 1091,
    1077, 1090]"

definition msg_preflight_routes_timeout :: ustr where  \<comment> \<open>route check timed out\<close>
  "msg_preflight_routes_timeout = u ''VPN preflight: '' @ [1087, 1088, 1086, 1074, 1077, 1088,
    1082, 1072, 32, 1084, 1072, 1088, 1096, 1088, 1091, 1090, 1086, 1074, 32, 1087, 1088,
    1077, 1074, 1099, 1089, 1080, 1083, 1072] @ u '' timeout''"

definition msg_preflight_no_routes :: ustr where  \<comment> \<open>could not get the routes\<close>
  "msg_preflight_no_routes = u ''VPN preflight: '' @ [1085, 1077, 32, 1091, 1076, 1072, 1083,
    1086, 1089, 1100, 32, 1087, 1086, 1083, 1091, 1095, 1080, 1090, 1100, 32, 1084, 1072,
    1088, 1096, 1088, 1091, 1090, 1099]"

definition msg_preflight_route_missing :: ustr where  \<comment> \<open>route missing\<close>
  "msg_preflight_route_missing = u ''VPN preflight: '' @ [1084, 1072, 1088, 1096, 1088, 1091,
    1090] @ u '' 172.26.0.0/15 '' @ [1086, 1090, 1089, 1091, 1090, 1089, 1090, 1074, 1091,
    1077, 1090]"

definition msg_nsenter_tcp_timeout :: ustr where  \<comment> \<open>TCP check timed out\<close>
  "msg_nsenter_tcp_timeout = u ''TCP-'' @ [1087, 1088, 1086, 1074, 1077, 1088, 1082, 1072, 32,
    1095, 1077, 1088, 1077, 1079] @ u '' nsenter '' @ [1087, 1088, 1077, 1074, 1099, 1089,
    1080, 1083, 1072] @ u '' timeout''"

definition msg_nsenter_tcp_failed :: ustr where  \<comment> \<open>TCP check failed\<close>
  "msg_nsenter_tcp_failed = u ''TCP-'' @ [1087, 1088, 1086, 1074, 1077, 1088, 1082, 1072, 32,
    1095, 1077, 1088, 1077, 1079] @ u '' nsenter '' @ [1079, 1072, 1074, 1077, 1088, 1096,
    1080, 1083, 1072, 1089, 1100, 32, 1086, 1096, 1080, 1073, 1082, 1086, 1081]"

definition msg_tcp_bad_json :: ustr where  \<comment> \<open>TCP check returned invalid JSON\<close>
  "msg_tcp_bad_json = u ''TCP-'' @ [1087, 1088, 1086, 1074, 1077, 1088, 1082, 1072, 32, 1074,
    1077, 1088, 1085, 1091, 1083, 1072, 32, 1085, 1077, 1082, 1086, 1088, 1088, 1077, 1082,
    1090, 1085, 1099, 1081] @ u '' JSON''"

definition msg_unreachable_22_443 :: ustr where  \<comment> \<open>not reachable on 22 and 443\<close>
  "msg_unreachable_22_443 = [1058, 1057, 32, 1085, 1077, 1076, 1086, 1089, 1090, 1091, 1087,
    1085, 1086, 32, 1087, 1086] @ u '' 22/tcp '' @ [1080] @ u '' 443/tcp''"

definition msg_existing_ns_reachable :: ustr where  \<comment> \<open>reachable through the namespace\<close>
  "msg_existing_ns_reachable = [1058, 1057, 32, 1076, 1086, 1089, 1090, 1091, 1087, 1085,
    1086, 32, 1095, 1077, 1088, 1077, 1079] @ u '' existing UniVPN namespace''"

definition msg_ssh_key_missing :: ustr where  \<comment> \<open>SSH key not found\<close>
  "msg_ssh_key_missing = u ''SSH-'' @ [1082, 1083, 1102, 1095, 32, 1085, 1077, 32, 1085, 1072,
    1081, 1076, 1077, 1085] @ u '': ''"

definition msg_nsenter_ssh_timeout :: ustr where  \<comment> \<open>SSH timed out\<close>
  "msg_nsenter_ssh_timeout = u ''SSH basic_status '' @ [1095, 1077, 1088, 1077, 1079] @
    u '' nsenter '' @ [1087, 1088, 1077, 1074, 1099, 1089, 1080, 1083] @ u '' timeout''"

definition msg_nsenter_ssh_failed :: ustr where  \<comment> \<open>SSH failed\<close>
  "msg_nsenter_ssh_failed = u ''SSH basic_status '' @ [1095, 1077, 1088, 1077, 1079] @
    u '' nsenter '' @ [1079, 1072, 1074, 1077, 1088, 1096, 1080, 1083, 1089, 1103, 32, 1086,
    1096, 1080, 1073, 1082, 1086, 1081]"

definition msg_ssh_status_done :: ustr where  \<comment> \<open>status read by SSH\<close>
  "msg_ssh_status_done = [1041, 1072, 1079, 1086, 1074, 1099, 1081, 32, 1089, 1090, 1072,
    1090, 1091, 1089, 32, 1058, 1057, 32, 1087, 1086, 1083, 1091, 1095, 1077, 1085, 32, 1095,
    1077, 1088, 1077, 1079] @ u '' SSH''"

definition msg_ns_check_session :: ustr where  \<comment> \<open>checking the session\<close>
  "msg_ns_check_session = [1055, 1088, 1086, 1074, 1077, 1088, 1082, 1072] @
    u '' UniVPN session '' @ [1074] @ u '' container namespace''"

definition msg_ns_session_ok :: ustr where  \<comment> \<open>session available\<close>
  "msg_ns_session_ok = u ''UniVPN session '' @ [1076, 1086, 1089, 1090, 1091, 1087, 1085,
    1072, 32, 1074] @ u '' container namespace''"

definition msg_ns_check_before_ssh :: ustr where  \<comment> \<open>checking before SSH\<close>
  "msg_ns_check_before_ssh = [1055, 1088, 1086, 1074, 1077, 1088, 1082, 1072] @ u '' VPN-'' @
    [1076, 1086, 1089, 1090, 1091, 1087, 1085, 1086, 1089, 1090, 1080, 32, 1087, 1077, 1088,
    1077, 1076] @ u '' SSH''"

definition msg_ns_status_by_ssh :: ustr where  \<comment> \<open>reading status by SSH\<close>
  "msg_ns_status_by_ssh = [1055, 1086, 1083, 1091, 1095, 1077, 1085, 1080, 1077] @
    u '' basic_status '' @ [1087, 1086] @ u '' SSH''"

definition msg_op_not_implemented_ns :: ustr where  \<comment> \<open>not implemented\<close>
  "msg_op_not_implemented_ns = [1054, 1087, 1077, 1088, 1072, 1094, 1080, 1103, 32, 1087,
    1086, 1082, 1072, 32, 1085, 1077, 32, 1088, 1077, 1072, 1083, 1080, 1079, 1086, 1074,
    1072, 1085, 1072, 32, 1076, 1083, 1103] @ u '' container_namespace''"

definition msg_preflight_interface :: ustr where  \<comment> \<open>interface\<close>
  "msg_preflight_interface = u ''VPN preflight: '' @ [1080, 1085, 1090, 1077, 1088, 1092,
    1077, 1081, 1089, 32]"

definition msg_or_route :: ustr where  \<comment> \<open>or route\<close>
  "msg_or_route = [32, 1080, 1083, 1080, 32, 1084, 1072, 1088, 1096, 1088, 1091, 1090, 32]"

definition msg_missing_suffix :: ustr where  \<comment> \<open>is missing\<close>
  "msg_missing_suffix = [32, 1086, 1090, 1089, 1091, 1090, 1089, 1090, 1074, 1091, 1077,
    1090]"

definition msg_login_no_interface :: ustr where  \<comment> \<open>login gave no interface\<close>
  "msg_login_no_interface = u ''UniVPN login '' @ [1085, 1077, 32, 1076, 1072, 1083, 32, 1080,
    1085, 1090, 1077, 1088, 1092, 1077, 1081, 1089, 32]"

definition msg_and_route :: ustr where  \<comment> \<open>and route\<close>
  "msg_and_route = [32, 1080, 32, 1084, 1072, 1088, 1096, 1088, 1091, 1090, 32]"

definition msg_preflight_check :: ustr where  \<comment> \<open>check\<close>
  "msg_preflight_check = u ''VPN preflight: '' @ [1087, 1088, 1086, 1074, 1077, 1088, 1082,
    1072, 32]"

definition msg_timeout_suffix :: ustr where  \<comment> \<open>timed out\<close>
  "msg_timeout_suffix = [32, 1087, 1088, 1077, 1074, 1099, 1089, 1080, 1083, 1072] @
    u '' timeout''"

definition msg_fifo_unavailable :: ustr where  \<comment> \<open>control FIFO unavailable\<close>
  "msg_fifo_unavailable = u ''UniVPN control FIFO '' @ [1085, 1077, 1076, 1086, 1089, 1090,
    1091, 1087, 1077, 1085, 32, 1076, 1083, 1103] @ u '' managed login''"

definition msg_univpn_credentials_missing :: ustr where  \<comment> \<open>credentials missing\<close>
  "msg_univpn_credentials_missing = u ''UniVPN credentials '' @ [1086, 1090, 1089, 1091, 1090,
    1089, 1090, 1074, 1091, 1102, 1090]"

definition msg_login_mode_unsupported :: ustr where  \<comment> \<open>login mode unsupported\<close>
  "msg_login_mode_unsupported = u ''UniVPN login mode '' @ [1085, 1077, 32, 1087, 1086, 1076,
    1076, 1077, 1088, 1078, 1072, 1085, 32, 1076, 1083, 1103] @ u '' container_namespace''"

definition msg_secret_unavailable :: ustr where  \<comment> \<open>secret file unavailable\<close>
  "msg_secret_unavailable = u ''UniVPN secret file '' @ [1085, 1077, 1076, 1086, 1089, 1090,
    1091, 1087, 1077, 1085]"

definition msg_secret_incomplete :: ustr where  \<comment> \<open>secret file incomplete\<close>
  "msg_secret_incomplete = u ''UniVPN secret file '' @ [1085, 1077, 32, 1089, 1086, 1076,
    1077, 1088, 1078, 1080, 1090] @ u '' VPN_USERNAME/VPN_PASSWORD''"

definition msg_ns_tcp_timeout :: ustr where  \<comment> \<open>TCP check timed out\<close>
  "msg_ns_tcp_timeout = u ''TCP-'' @ [1087, 1088, 1086, 1074, 1077, 1088, 1082, 1072, 32,
    1074] @ u '' container namespace '' @ [1087, 1088, 1077, 1074, 1099, 1089, 1080, 1083,
    1072] @ u '' timeout''"

definition msg_ns_tcp_failed :: ustr where  \<comment> \<open>TCP check failed\<close>
  "msg_ns_tcp_failed = u ''TCP-'' @ [1087, 1088, 1086, 1074, 1077, 1088, 1082, 1072, 32, 1074]
    @ u '' container namespace '' @ [1079, 1072, 1074, 1077, 1088, 1096, 1080, 1083, 1072,
    1089, 1100, 32, 1086, 1096, 1080, 1073, 1082, 1086, 1081]"

definition msg_ns_reachable :: ustr where  \<comment> \<open>reachable through the namespace\<close>
  "msg_ns_reachable = [1058, 1057, 32, 1076, 1086, 1089, 1090, 1091, 1087, 1085, 1086, 32,
    1095, 1077, 1088, 1077, 1079] @ u '' UniVPN container namespace''"

definition msg_ns_ssh_timeout :: ustr where  \<comment> \<open>SSH timed out\<close>
  "msg_ns_ssh_timeout = u ''SSH basic_status '' @ [1074] @ u '' container namespace '' @
    [1087, 1088, 1077, 1074, 1099, 1089, 1080, 1083] @ u '' timeout''"

definition msg_ns_ssh_failed :: ustr where  \<comment> \<open>SSH failed\<close>
  "msg_ns_ssh_failed = u ''SSH basic_status '' @ [1074] @ u '' container namespace '' @ [1079,
    1072, 1074, 1077, 1088, 1096, 1080, 1083, 1089, 1103, 32, 1086, 1096, 1080, 1073, 1082,
    1086, 1081]"

end
