(* ===== verification/Domain_Models.thy ===== *)
theory Domain_Models
  imports Py_Json Messages
begin

text \<open>
  \<open>errors.py\<close> and \<open>models.py\<close>: the error response, the task record with its states and time
  stamps (microseconds of UTC), and the JSON responses built from it.
\<close>

section \<open>Errors\<close>

text \<open>\<open>ValidationError(message, error_code="invalid_request", status=400)\<close>.\<close>

definition ValidationError :: "ustr \<Rightarrow> exn" where
  "ValidationError message = WorkerError 400 (u ''invalid_request'') message"

text \<open>\<open>WorkerError.to_response\<close>.\<close>

definition error_response :: "ustr \<Rightarrow> ustr \<Rightarrow> json" where
  "error_response error_code message =
     JDict [(u ''ok'', JBool False), (u ''error_code'', JStr error_code),
            (u ''message'', JStr message)]"

section \<open>Tasks\<close>

definition TASK_STATES :: "ustr list" where
  "TASK_STATES = [u ''created'', u ''queued'', u ''starting_vpn'', u ''vpn_connected'',
     u ''checking_vehicle'', u ''running_operation'', u ''collecting_result'', u ''cleanup'',
     u ''finished'', u ''failed'', u ''timeout'']"

definition TERMINAL_STATES :: "ustr list" where
  "TERMINAL_STATES = [u ''finished'', u ''failed'', u ''timeout'']"

abbreviation terminal_state :: "ustr \<Rightarrow> bool" where
  "terminal_state s \<equiv> s \<in> set TERMINAL_STATES"

lemma terminal_is_task_state: "terminal_state s \<Longrightarrow> s \<in> set TASK_STATES"
  by (auto simp: TERMINAL_STATES_def TASK_STATES_def)

lemma created_not_terminal [simp]: "\<not> terminal_state (u ''created'')"
  by (simp add: TERMINAL_STATES_def)

lemma terminal_literals [simp]:
  "terminal_state (u ''finished'')" "terminal_state (u ''failed'')" "terminal_state (u ''timeout'')"
  by (simp_all add: TERMINAL_STATES_def)

record vehicle =
  v_number :: ustr
  v_ip :: ustr

record vpn_credentials =
  vpn_mode :: ustr
  vpn_username :: ustr
  vpn_password :: ustr

record task =
  t_task_id :: ustr
  t_request_id :: ustr
  t_telegram_user_id :: int
  t_user_role :: ustr
  t_vehicle :: vehicle
  t_operation :: ustr
  t_params :: jdict
  t_timeout_sec :: int
  t_request_fingerprint :: ustr
  t_runner_mode :: ustr
  t_risk :: ustr
  t_state_changing :: bool
  t_state :: ustr
  t_phase :: ustr
  t_phase_message :: ustr
  t_summary :: "ustr option"
  t_data :: jdict
  t_artifacts :: "json list"
  t_warnings :: "json list"
  t_error_code :: "ustr option"
  t_message :: "ustr option"
  t_cleanup_failed :: bool
  t_created_at :: int
  t_started_at :: "int option"
  t_finished_at :: "int option"
  t_updated_at :: int

text \<open>
  The constructor with the defaults of the dataclass. The two \<open>default_factory=utc_now\<close> fields
  read the clock one after the other, at \<open>now\<close> and \<open>now'\<close>.
\<close>

definition new_task :: "ustr \<Rightarrow> ustr \<Rightarrow> int \<Rightarrow> ustr \<Rightarrow> vehicle \<Rightarrow> ustr \<Rightarrow> jdict \<Rightarrow> int \<Rightarrow> ustr
    \<Rightarrow> ustr \<Rightarrow> ustr \<Rightarrow> bool \<Rightarrow> int \<Rightarrow> int \<Rightarrow> task" where
  "new_task task_id request_id user_id user_role vehicle operation params timeout_sec
      fingerprint runner_mode risk state_changing now now' =
     \<lparr> t_task_id = task_id, t_request_id = request_id, t_telegram_user_id = user_id,
       t_user_role = user_role, t_vehicle = vehicle, t_operation = operation, t_params = params,
       t_timeout_sec = timeout_sec, t_request_fingerprint = fingerprint,
       t_runner_mode = runner_mode, t_risk = risk, t_state_changing = state_changing,
       t_state = u ''created'', t_phase = u ''created'', t_phase_message = msg_task_created,
       t_summary = None, t_data = [], t_artifacts = [], t_warnings = [], t_error_code = None,
       t_message = None, t_cleanup_failed = False, t_created_at = now, t_started_at = None,
       t_finished_at = None, t_updated_at = now' \<rparr>"

text \<open>\<open>Task.set_state\<close>, with the reading of \<open>utc_now\<close> it makes.\<close>

definition task_with_state :: "int \<Rightarrow> ustr \<Rightarrow> ustr option \<Rightarrow> task \<Rightarrow> task" where
  "task_with_state now state message t =
     t \<lparr> t_state := state, t_phase := state,
         t_phase_message := (case message of None \<Rightarrow> t_phase_message t | Some m \<Rightarrow> m),
         t_updated_at := now,
         t_started_at := (if state \<noteq> u ''created'' \<and> t_started_at t = None then Some now
                          else t_started_at t),
         t_finished_at := (if terminal_state state \<and> t_finished_at t = None then Some now
                           else t_finished_at t) \<rparr>"

definition set_state :: "int \<Rightarrow> ustr \<Rightarrow> ustr option \<Rightarrow> task \<Rightarrow> task res" where
  "set_state now state message t =
     (if state \<notin> set TASK_STATES then Inl (ValueErr (u ''unknown task state: '' @ state))
      else Inr (task_with_state now state message t))"

text \<open>
  The property \<open>duration_sec\<close>: whole seconds from the start (or creation) to the end (or now),
  \<open>None\<close> while the task has not started.
\<close>

definition trunc_seconds :: "int \<Rightarrow> int" where
  "trunc_seconds us = (if 0 \<le> us then us div 1000000 else - (- us div 1000000))"

definition duration_sec :: "int \<Rightarrow> task \<Rightarrow> int option" where
  "duration_sec now t =
     (let finish = (case t_finished_at t of Some f \<Rightarrow> f | None \<Rightarrow> now);
          start = (case t_started_at t of Some s \<Rightarrow> s | None \<Rightarrow> t_created_at t)
      in if terminal_state (t_state t) \<or> t_started_at t \<noteq> None
         then Some (max 0 (trunc_seconds (finish - start))) else None)"

section \<open>Responses\<close>

definition vehicle_response :: "vehicle \<Rightarrow> json" where
  "vehicle_response v = JDict [(u ''number'', JStr (v_number v)), (u ''ip'', JStr (v_ip v))]"

definition to_create_response :: "task \<Rightarrow> json" where
  "to_create_response t =
     JDict [(u ''ok'', JBool True), (u ''task_id'', JStr (t_task_id t)),
            (u ''request_id'', JStr (t_request_id t)), (u ''state'', JStr (t_state t))]"

text \<open>\<open>isoformat(value)\<close>: the \<open>datetime.isoformat\<close> of the library with \<open>Z\<close> for the zone.\<close>

function replace_zone :: "ustr \<Rightarrow> ustr" where
  "replace_zone s =
     (if s = [] then []
      else if py_startswith s (u ''+00:00'') then u ''Z'' @ replace_zone (drop 6 s)
      else hd s # replace_zone (tl s))"
  by pat_completeness auto
termination
  by (relation "measure length") (auto simp: py_startswith_def)

declare replace_zone.simps [simp del]

definition isoformat :: "pylib \<Rightarrow> int \<Rightarrow> ustr" where
  "isoformat py t = replace_zone (py_isoformat py t)"

definition opt_time :: "pylib \<Rightarrow> int option \<Rightarrow> json" where
  "opt_time py t = (case t of None \<Rightarrow> JNull | Some x \<Rightarrow> JStr (isoformat py x))"

definition opt_int :: "int option \<Rightarrow> json" where
  "opt_int n = (case n of None \<Rightarrow> JNull | Some x \<Rightarrow> JInt x)"

text \<open>A field that is present only when its value is.\<close>

definition field_if :: "bool \<Rightarrow> ustr \<Rightarrow> json \<Rightarrow> jdict" where
  "field_if c k v = (if c then [(k, v)] else [])"

text \<open>
  \<open>Task.to_response\<close>. The property \<open>duration_sec\<close> is evaluated for the timing object (clock at
  \<open>now1\<close>) and again for the field of its own (\<open>now2\<close>).
\<close>

definition to_response :: "pylib \<Rightarrow> int \<Rightarrow> int \<Rightarrow> task \<Rightarrow> json" where
  "to_response py now1 now2 t = JDict (
     [(u ''ok'', JBool (t_state t = u ''finished'')),
      (u ''task_id'', JStr (t_task_id t)),
      (u ''request_id'', JStr (t_request_id t)),
      (u ''state'', JStr (t_state t)),
      (u ''phase'', JStr (t_phase t)),
      (u ''phase_message'', JStr (t_phase_message t)),
      (u ''vehicle'', vehicle_response (t_vehicle t)),
      (u ''operation'', JStr (t_operation t)),
      (u ''warnings'', JList (t_warnings t)),
      (u ''timing'', JDict [
         (u ''created_at'', JStr (isoformat py (t_created_at t))),
         (u ''started_at'', opt_time py (t_started_at t)),
         (u ''finished_at'', opt_time py (t_finished_at t)),
         (u ''duration_sec'', opt_int (duration_sec now1 t))]),
      (u ''runner'', JDict [(u ''mode'', JStr (t_runner_mode t))])]
     @ field_if (duration_sec now2 t \<noteq> None) (u ''duration_sec'') (opt_int (duration_sec now2 t))
     @ field_if (t_summary t \<noteq> None) (u ''summary'') (opt_json (t_summary t))
     @ field_if (t_data t \<noteq> []) (u ''data'') (JDict (t_data t))
     @ field_if (t_artifacts t \<noteq> []) (u ''artifacts'') (JList (t_artifacts t))
     @ field_if (t_error_code t \<noteq> None) (u ''error_code'') (opt_json (t_error_code t))
     @ field_if (t_message t \<noteq> None) (u ''message'') (opt_json (t_message t)))"

section \<open>Laws of the task record\<close>

text \<open>
  A task is well formed when its state is known, the phase mirrors it, and the stamps are
  ordered: created, started, finished, updated; a terminal task has both stamps.
\<close>

definition stamps_ordered :: "task \<Rightarrow> bool" where
  "stamps_ordered t \<longleftrightarrow>
     t_created_at t \<le> t_updated_at t
     \<and> (\<forall>s. t_started_at t = Some s \<longrightarrow> t_created_at t \<le> s \<and> s \<le> t_updated_at t)
     \<and> (\<forall>f. t_finished_at t = Some f \<longrightarrow> (\<exists>s. t_started_at t = Some s \<and> s \<le> f) \<and> f \<le> t_updated_at t)"

definition wf_task :: "task \<Rightarrow> bool" where
  "wf_task t \<longleftrightarrow>
     t_state t \<in> set TASK_STATES \<and> t_phase t = t_state t
     \<and> (t_state t \<noteq> u ''created'' \<longrightarrow> t_started_at t \<noteq> None)
     \<and> (terminal_state (t_state t) \<longrightarrow> t_finished_at t \<noteq> None)
     \<and> stamps_ordered t"

lemma set_state_Inr_iff [res_iff]:
  "set_state now s m t = Inr t' \<longleftrightarrow> s \<in> set TASK_STATES \<and> t' = task_with_state now s m t"
  by (auto simp: set_state_def)

lemma task_with_state_fields [simp]:
  "t_state (task_with_state now s m t) = s"
  "t_phase (task_with_state now s m t) = s"
  "t_updated_at (task_with_state now s m t) = now"
  "t_created_at (task_with_state now s m t) = t_created_at t"
  "t_task_id (task_with_state now s m t) = t_task_id t"
  "t_request_id (task_with_state now s m t) = t_request_id t"
  "t_request_fingerprint (task_with_state now s m t) = t_request_fingerprint t"
  "t_runner_mode (task_with_state now s m t) = t_runner_mode t"
  "t_telegram_user_id (task_with_state now s m t) = t_telegram_user_id t"
  "t_user_role (task_with_state now s m t) = t_user_role t"
  "t_params (task_with_state now s m t) = t_params t"
  "t_timeout_sec (task_with_state now s m t) = t_timeout_sec t"
  "t_risk (task_with_state now s m t) = t_risk t"
  "t_state_changing (task_with_state now s m t) = t_state_changing t"
  "t_operation (task_with_state now s m t) = t_operation t"
  "t_vehicle (task_with_state now s m t) = t_vehicle t"
  "t_summary (task_with_state now s m t) = t_summary t"
  "t_data (task_with_state now s m t) = t_data t"
  "t_artifacts (task_with_state now s m t) = t_artifacts t"
  "t_warnings (task_with_state now s m t) = t_warnings t"
  "t_error_code (task_with_state now s m t) = t_error_code t"
  "t_message (task_with_state now s m t) = t_message t"
  by (simp_all add: task_with_state_def)

lemma stamps_ordered_new:
  "now \<le> now' \<Longrightarrow> stamps_ordered (new_task i r uid role v op ps tmo fp md rk sc now now')"
  by (simp add: stamps_ordered_def new_task_def)

lemma stamps_ordered_with_state:
  assumes "stamps_ordered t" and "t_updated_at t \<le> now"
    and "t_state t \<noteq> u ''created'' \<longrightarrow> t_started_at t \<noteq> None"
  shows "stamps_ordered (task_with_state now s m t)"
proof (cases "t_started_at t")
  case None
  with assms show ?thesis
    by (auto simp: stamps_ordered_def task_with_state_def)
next
  case (Some st)
  with assms show ?thesis
    by (cases "t_finished_at t") (auto simp: stamps_ordered_def task_with_state_def)
qed

lemma wf_task_new: "now \<le> now' \<Longrightarrow> wf_task (new_task i r uid role v op ps tmo fp md rk sc now now')"
  using stamps_ordered_new [of now now' i r uid role v op ps tmo fp md rk sc]
  by (simp add: wf_task_def) (simp add: new_task_def TASK_STATES_def)

lemma wf_task_with_state:
  assumes "wf_task t" and "t_updated_at t \<le> now" and "s \<in> set TASK_STATES"
  shows "wf_task (task_with_state now s m t)"
proof -
  have "stamps_ordered (task_with_state now s m t)"
    using assms by (intro stamps_ordered_with_state) (auto simp: wf_task_def)
  with assms(3) show ?thesis
    by (auto simp: wf_task_def) (auto simp: task_with_state_def)
qed

text \<open>The stamps are written once.\<close>

lemma set_state_write_once:
  assumes "set_state now s m t = Inr t'"
  shows "t_started_at t = Some x \<Longrightarrow> t_started_at t' = Some x"
    and "t_finished_at t = Some y \<Longrightarrow> t_finished_at t' = Some y"
  using assms by (auto simp: res_iff task_with_state_def)

lemma trunc_seconds_nonneg: "0 \<le> us \<Longrightarrow> 0 \<le> trunc_seconds us"
  by (simp add: trunc_seconds_def)

lemma duration_sec_finished:
  assumes "wf_task t" and "t_started_at t = Some s" and "t_finished_at t = Some f"
  shows "duration_sec now t = Some ((f - s) div 1000000)"
  using assms
  by (auto simp: duration_sec_def wf_task_def stamps_ordered_def Let_def trunc_seconds_def
      pos_imp_zdiv_nonneg_iff)

end
