(* ===== verification/Operations.thy ===== *)
theory Operations
  imports Domain_Models
begin

text \<open>\<open>operations.py\<close>: the registry of the read-only operations and the capabilities response.\<close>

record operation_spec =
  op_name :: ustr
  op_title :: ustr
  op_risk :: ustr
  op_requires :: "ustr list"
  op_timeout_sec_default :: int
  op_roles_allowed :: "ustr list"
  op_state_changing :: bool
  op_params_schema :: "jdict option"

definition to_capability :: "operation_spec \<Rightarrow> json" where
  "to_capability op = JDict
     [(u ''name'', JStr (op_name op)),
      (u ''title'', JStr (op_title op)),
      (u ''risk'', JStr (op_risk op)),
      (u ''requires'', JList (map JStr (op_requires op))),
      (u ''timeout_sec_default'', JInt (op_timeout_sec_default op)),
      (u ''params_schema'', JDict (case op_params_schema op of None \<Rightarrow> [] | Some d \<Rightarrow> d)),
      (u ''roles_allowed'', JList (map JStr (op_roles_allowed op)))]"

definition MVP_OPERATIONS :: "(ustr, operation_spec) dict" where
  "MVP_OPERATIONS =
     [(u ''vehicle_reachability'',
       \<lparr> op_name = u ''vehicle_reachability'', op_title = msg_title_reachability,
         op_risk = u ''read_only'', op_requires = [u ''vpn''], op_timeout_sec_default = 60,
         op_roles_allowed = [u ''engineer'', u ''admin''], op_state_changing = False,
         op_params_schema = None \<rparr>),
      (u ''basic_status'',
       \<lparr> op_name = u ''basic_status'', op_title = msg_title_basic_status,
         op_risk = u ''read_only'', op_requires = [u ''vpn'', u ''ssh''],
         op_timeout_sec_default = 90, op_roles_allowed = [u ''engineer'', u ''admin''],
         op_state_changing = False, op_params_schema = None \<rparr>),
      (u ''validators_status'',
       \<lparr> op_name = u ''validators_status'', op_title = msg_title_validators,
         op_risk = u ''read_only'', op_requires = [u ''vpn'', u ''ssh''],
         op_timeout_sec_default = 120, op_roles_allowed = [u ''engineer'', u ''admin''],
         op_state_changing = False, op_params_schema = None \<rparr>),
      (u ''collect_bundle_light'',
       \<lparr> op_name = u ''collect_bundle_light'', op_title = msg_title_bundle,
         op_risk = u ''read_only'', op_requires = [u ''vpn'', u ''ssh''],
         op_timeout_sec_default = 180, op_roles_allowed = [u ''engineer'', u ''admin''],
         op_state_changing = False, op_params_schema = None \<rparr>)]"

definition get_operation :: "ustr \<Rightarrow> operation_spec res" where
  "get_operation name =
     (case dict_get MVP_OPERATIONS name of
        Some op \<Rightarrow> Inr op
      | None \<Rightarrow> Inl (WorkerError 403 (u ''operation_not_allowed'') msg_operation_unavailable))"

definition capabilities_response :: json where
  "capabilities_response = JDict
     [(u ''api_version'', JStr (u ''1.0'')),
      (u ''capabilities_version'', JStr (u ''2026-06-29'')),
      (u ''operations'', JList (map (to_capability \<circ> snd) MVP_OPERATIONS))]"

section \<open>Laws of the registry\<close>

text \<open>What the rest of the worker relies on in a registered operation.\<close>

definition read_only_operation :: "operation_spec \<Rightarrow> bool" where
  "read_only_operation op \<longleftrightarrow>
     op_risk op = u ''read_only'' \<and> \<not> op_state_changing op \<and> 0 < op_timeout_sec_default op
     \<and> set (op_roles_allowed op) = {u ''engineer'', u ''admin''}"

lemma registry_read_only: "\<forall>(name, op) \<in> set MVP_OPERATIONS. op_name op = name \<and> read_only_operation op"
  by (simp add: MVP_OPERATIONS_def read_only_operation_def)

lemma registry_keys:
  "dict_keys MVP_OPERATIONS = [u ''vehicle_reachability'', u ''basic_status'',
     u ''validators_status'', u ''collect_bundle_light'']"
  by (simp add: MVP_OPERATIONS_def)

lemma get_operation_Inr:
  assumes "get_operation name = Inr op"
  shows "op_name op = name" and "read_only_operation op" and "name \<in> set (dict_keys MVP_OPERATIONS)"
proof -
  from assms have "(name, op) \<in> set MVP_OPERATIONS"
    by (auto simp: get_operation_def split: option.splits dest: map_of_SomeD)
  with registry_read_only show "op_name op = name" "read_only_operation op"
    by auto
  from \<open>(name, op) \<in> set MVP_OPERATIONS\<close> show "name \<in> set (dict_keys MVP_OPERATIONS)"
    by force
qed

lemma get_operation_Inl:
  "get_operation name = Inl e \<Longrightarrow>
     e = WorkerError 403 (u ''operation_not_allowed'') msg_operation_unavailable
     \<and> name \<notin> set (dict_keys MVP_OPERATIONS)"
  by (auto simp: get_operation_def map_of_eq_None_iff split: option.splits)

end
