(* ===== verification/Security.thy ===== *)
theory Security
  imports Domain_Models
begin

text \<open>
  \<open>security.py\<close>: the bearer check, the masking of user names, the redaction of payloads and
  the fingerprint of a request.
\<close>

section \<open>Definitions\<close>

definition SENSITIVE_KEYS :: "ustr list" where
  "SENSITIVE_KEYS = [u ''password'', u ''vpn_password'', u ''secret'', u ''token'', u ''private_key'']"

text \<open>\<open>hmac.compare_digest\<close> on two texts raises a TypeError when one is not ASCII.\<close>

definition is_ascii :: "ustr \<Rightarrow> bool" where
  "is_ascii s \<longleftrightarrow> list_all (\<lambda>c. c < 128) s"

definition compare_digest :: "pylib \<Rightarrow> ustr \<Rightarrow> ustr \<Rightarrow> bool res" where
  "compare_digest py a b =
     (if is_ascii a \<and> is_ascii b then Inr (a = b) else Inl (builtin py B_TypeError))"

definition check_bearer :: "pylib \<Rightarrow> ustr option \<Rightarrow> ustr \<Rightarrow> bool res" where
  "check_bearer py auth_header expected_token =
     (case auth_header of
        None \<Rightarrow> Inr False
      | Some h \<Rightarrow>
          if h = [] \<or> \<not> py_startswith h (u ''Bearer '') then Inr False
          else compare_digest py (py_strip (py_removeprefix h (u ''Bearer ''))) expected_token)"

definition mask_username :: "ustr \<Rightarrow> ustr" where
  "mask_username username =
     (if username = [] then []
      else if length username \<le> 2 then replicate (length username) 42
      else take 1 username @ u ''***'' @ drop (length username - 1) username)"

text \<open>\<open>redact(value)\<close>: at every depth, by key.\<close>

function redact :: "pylib \<Rightarrow> json \<Rightarrow> json" where
  "redact py (JDict kvs) = JDict (map (\<lambda>(key, item).
     (key, if py_lower py key \<in> set SENSITIVE_KEYS then JStr (u ''***'')
           else if py_lower py key = u ''username'' then JStr (mask_username (py_str py item))
           else redact py item)) kvs)"
| "redact py (JList xs) = JList (map (redact py) xs)"
| "redact py JNull = JNull"
| "redact py (JBool b) = JBool b"
| "redact py (JInt n) = JInt n"
| "redact py (JFloat f) = JFloat f"
| "redact py (JStr s) = JStr s"
  by pat_completeness auto
termination
  by (relation "measure (\<lambda>(py, v). size v)")
     (auto simp: less_Suc_eq_le size_list_estimation' intro: size_json_dict)

definition fingerprint_request :: "pylib \<Rightarrow> jdict \<Rightarrow> ustr res" where
  "fingerprint_request py payload =
     (case utf8_encode (dumps_canonical py (JDict payload)) of
        None \<Rightarrow> Inl (builtin py B_UnicodeEncodeError)
      | Some bytes \<Rightarrow> Inr (py_sha256_hex py bytes))"

section \<open>Bearer tokens\<close>

lemma check_bearer_True:
  "check_bearer py h token = Inr True \<Longrightarrow>
     \<exists>rest. h = Some (u ''Bearer '' @ rest) \<and> py_strip rest = token \<and> is_ascii token"
  by (auto simp: check_bearer_def compare_digest_def py_startswith_iff split: option.splits if_splits)

lemma check_bearer_complete:
  "py_strip rest = token \<Longrightarrow> is_ascii token \<Longrightarrow>
     check_bearer py (Some (u ''Bearer '' @ rest)) token = Inr True"
  by (simp add: check_bearer_def compare_digest_def)

section \<open>Masking and redaction\<close>

lemma mask_username_idem [simp]: "mask_username (mask_username s) = mask_username s"
  by (auto simp: mask_username_def u_def not_le Suc_le_eq drop_Cons' split: if_splits)

text \<open>
  What an observer may see of a payload: the values under sensitive keys erased. Redaction
  factors through the erasure, so it depends on nothing below a sensitive key.
\<close>

function erase_secrets :: "pylib \<Rightarrow> json \<Rightarrow> json" where
  "erase_secrets py (JDict kvs) = JDict (map (\<lambda>(key, item).
     (key, if py_lower py key \<in> set SENSITIVE_KEYS then JNull
           else if py_lower py key = u ''username'' then item
           else erase_secrets py item)) kvs)"
| "erase_secrets py (JList xs) = JList (map (erase_secrets py) xs)"
| "erase_secrets py JNull = JNull"
| "erase_secrets py (JBool b) = JBool b"
| "erase_secrets py (JInt n) = JInt n"
| "erase_secrets py (JFloat f) = JFloat f"
| "erase_secrets py (JStr s) = JStr s"
  by pat_completeness auto
termination
  by (relation "measure (\<lambda>(py, v). size v)")
     (auto simp: less_Suc_eq_le size_list_estimation' intro: size_json_dict)

lemma redact_erase: "redact py (erase_secrets py v) = redact py v"
  by (induction py v rule: erase_secrets.induct) auto

lemma redact_idem: "redact py (redact py v) = redact py v"
  by (induction py v rule: redact.induct) auto

text \<open>At every depth, a sensitive key holds three stars and a user name is masked.\<close>

fun redacted :: "pylib \<Rightarrow> json \<Rightarrow> bool" where
  "redacted py (JDict kvs) = list_all (\<lambda>(key, item).
     (if py_lower py key \<in> set SENSITIVE_KEYS then item = JStr (u ''***'')
      else if py_lower py key = u ''username''
      then (case item of JStr s \<Rightarrow> mask_username s = s | _ \<Rightarrow> False)
      else redacted py item)) kvs"
| "redacted py (JList xs) = list_all (redacted py) xs"
| "redacted py _ = True"

lemma redact_redacted: "redacted py (redact py v)"
  by (induction py v rule: redact.induct) (auto simp: list_all_iff)

lemma redact_keeps_keys: "redact py (JDict kvs) = JDict kvs' \<Longrightarrow> dict_keys kvs' = dict_keys kvs"
  by (auto simp: comp_def case_prod_beta)

lemma redact_wf: "wf_json v \<Longrightarrow> wf_json (redact py v)"
  by (induction py v rule: redact.induct) (auto simp: list_all_iff comp_def case_prod_beta)

section \<open>The fingerprint does not depend on the order of keys\<close>

inductive json_equiv :: "json \<Rightarrow> json \<Rightarrow> bool" where
  json_equiv_refl: "json_equiv v v"
| json_equiv_list: "list_all2 json_equiv xs ys \<Longrightarrow> json_equiv (JList xs) (JList ys)"
| json_equiv_dict: "list_all2 (rel_prod (=) json_equiv) a b \<Longrightarrow> mset b = mset c \<Longrightarrow>
     json_equiv (JDict a) (JDict c)"
monos list.rel_mono prod.rel_mono

lemma insort_key_map: "insort_key f (g x) (map g xs) = map g (insort_key (\<lambda>y. f (g y)) x xs)"
  by (induction xs) auto

lemma sort_key_map: "sort_key f (map g xs) = map g (sort_key (\<lambda>y. f (g y)) xs)"
  by (induction xs) (simp_all add: insort_key_map)

text \<open>Sorting by distinct keys depends on the entries only, not on their order.\<close>

lemma filter_key_distinct:
  "distinct (map f xs) \<Longrightarrow> x \<in> set xs \<Longrightarrow> filter (\<lambda>y. f x = f y) xs = [x]"
proof (induction xs)
  case (Cons z zs)
  show ?case
  proof (cases "x = z")
    case True
    with Cons.prems have "\<forall>y \<in> set zs. f x \<noteq> f y" by auto
    then have "filter (\<lambda>y. f x = f y) zs = []" by (simp add: filter_empty_conv)
    with True show ?thesis by simp
  next
    case False
    with Cons.prems have "x \<in> set zs" by simp
    moreover from this Cons.prems have "f x \<noteq> f z" by (auto simp: image_iff)
    ultimately show ?thesis using Cons by simp
  qed
qed simp

lemma sort_key_mset:
  assumes "mset xs = mset ys" and "distinct (map f xs)"
  shows "sort_key f xs = sort_key f ys"
proof (rule properties_for_sort_key)
  have mset: "mset (sort_key f ys) = mset xs" using assms(1) by simp
  then show "mset (sort_key f ys) = mset xs" .
  have set: "set (sort_key f ys) = set xs" using assms(1) by (metis mset_eq_setD set_sort)
  have "mset (map f (sort_key f ys)) = mset (map f xs)" using mset by simp
  then have d: "distinct (map f (sort_key f ys))" using assms(2) by (metis mset_eq_imp_distinct_iff)
  show "filter (\<lambda>x. f k = f x) (sort_key f ys) = filter (\<lambda>x. f k = f x) xs"
    if "k \<in> set (sort_key f ys)" for k
    using that set filter_key_distinct [OF d that] filter_key_distinct [OF assms(2), of k] by simp
  show "sorted (map f (sort_key f ys))" by simp
qed

text \<open>The entries of an object, each value already printed.\<close>

definition printed :: "pylib \<Rightarrow> ustr \<times> json \<Rightarrow> ustr \<times> ustr" where
  "printed py e = (fst e, dumps_canonical py (snd e))"

lemma dumps_canonical_dict:
  "dumps_canonical py (JDict kvs) =
     [123] @ py_join [44] (map (\<lambda>(k, t). json_quote k @ [58] @ t)
                             (sort_key fst (map (printed py) kvs))) @ [125]"
proof -
  have "sort_key fst (map (printed py) kvs) = map (printed py) (sort_key fst kvs)"
    by (simp add: sort_key_map printed_def)
  then show ?thesis
    by (simp add: comp_def printed_def case_prod_unfold)
qed

lemma dumps_canonical_equiv:
  "json_equiv v w \<Longrightarrow> wf_json v \<Longrightarrow> dumps_canonical py v = dumps_canonical py w"
proof (induction rule: json_equiv.induct)
  case (json_equiv_refl v)
  show ?case by simp
next
  case (json_equiv_list xs ys)
  have "map (dumps_canonical py) xs = map (dumps_canonical py) ys"
    using json_equiv_list by (auto simp: list_all2_conv_all_nth list_all_length intro!: nth_equalityI)
  then show ?case by (simp add: list_all2_lengthD)
next
  case (json_equiv_dict a b c)
  have ab: "map (printed py) a = map (printed py) b"
    using json_equiv_dict.IH json_equiv_dict.prems json_equiv_dict.hyps
    by (auto simp: list_all2_conv_all_nth list_all_length printed_def rel_prod_sel
        case_prod_beta intro!: nth_equalityI)
  have "map fst (map (printed py) b) = dict_keys a"
    using arg_cong [OF ab, of "map fst"] by (simp add: comp_def printed_def)
  then have "distinct (map fst (map (printed py) b))" using json_equiv_dict.prems by simp
  then have "sort_key fst (map (printed py) b) = sort_key fst (map (printed py) c)"
    using json_equiv_dict.hyps(1) by (intro sort_key_mset) simp_all
  with ab show ?case by (simp only: dumps_canonical_dict)
qed

lemma fingerprint_request_equiv:
  "json_equiv (JDict a) (JDict b) \<Longrightarrow> wf_json (JDict a) \<Longrightarrow>
     fingerprint_request py a = fingerprint_request py b"
  using dumps_canonical_equiv [of "JDict a" "JDict b" py] by (simp only: fingerprint_request_def)

section \<open>When a request has a fingerprint\<close>

definition encodable :: "ustr \<Rightarrow> bool" where
  "encodable s \<longleftrightarrow> (\<forall>c \<in> set s. \<not> is_surrogate c)"

lemma encodable_simps [simp]:
  "encodable []" "encodable (c # s) \<longleftrightarrow> \<not> is_surrogate c \<and> encodable s"
  "encodable (s @ s') \<longleftrightarrow> encodable s \<and> encodable s'"
  by (auto simp: encodable_def)

lemma encodable_u [simp]: "encodable (u s)"
proof -
  have "c < 256" if "c \<in> set (u s)" for c using that by (auto simp: u_def)
  then show ?thesis by (fastforce simp: encodable_def is_surrogate_def)
qed

text \<open>No text anywhere in the value holds a surrogate.\<close>

fun json_encodable :: "json \<Rightarrow> bool" where
  "json_encodable (JStr s) \<longleftrightarrow> encodable s"
| "json_encodable (JList xs) \<longleftrightarrow> list_all json_encodable xs"
| "json_encodable (JDict kvs) \<longleftrightarrow> list_all (\<lambda>(k, v). encodable k \<and> json_encodable v) kvs"
| "json_encodable _ \<longleftrightarrow> True"

lemma encodable_join: "encodable sep \<Longrightarrow> list_all encodable xs \<Longrightarrow> encodable (py_join sep xs)"
  by (induction sep xs rule: py_join.induct) auto

lemma encodable_concat: "encodable (concat xss) \<longleftrightarrow> list_all encodable xss"
  by (induction xss) auto

lemma json_escape_encodable: "\<not> is_surrogate c \<Longrightarrow> encodable (json_escape c)"
  by (auto simp: json_escape_def hex_digit_def is_surrogate_def)

lemma json_quote_encodable [simp]: "encodable s \<Longrightarrow> encodable (json_quote s)"
proof -
  assume "encodable s"
  then have "list_all encodable (map json_escape s)"
    using json_escape_encodable unfolding encodable_def by (auto simp: list_all_iff encodable_def)
  then show ?thesis by (simp add: json_quote_def encodable_concat is_surrogate_def)
qed

lemma str_of_int_encodable [simp]: "encodable (str_of_int n)"
proof -
  have "encodable (str_of_nat m)" for m
    using str_of_nat_digits [of m] by (fastforce simp: encodable_def is_surrogate_def)
  then show ?thesis by (simp add: str_of_int_def is_surrogate_def)
qed

lemma dumps_canonical_encodable:
  "(\<And>f. encodable (py_float_repr py f)) \<Longrightarrow> json_encodable v \<Longrightarrow> encodable (dumps_canonical py v)"
proof (induction py v rule: dumps_canonical.induct)
  case (6 py xs)
  then show ?case
    by (auto simp: is_surrogate_def list_all_iff intro!: encodable_join)
next
  case (7 py kvs)
  have "encodable (json_quote k @ [58] @ dumps_canonical py v)" if kv: "(k, v) \<in> set kvs" for k v
    using 7 kv by (fastforce simp: is_surrogate_def list_all_iff)
  then have "list_all encodable (map (\<lambda>(k, v). json_quote k @ [58] @ dumps_canonical py v) (sort_key fst kvs))"
    by (auto simp: list_all_iff)
  then show ?case by (simp add: is_surrogate_def encodable_join)
qed (auto simp: float_text_def split: pyfloat.splits)

lemma fingerprint_request_total:
  assumes "\<And>f. encodable (py_float_repr py f)" and "json_encodable (JDict payload)"
  shows "fingerprint_request py payload =
    Inr (py_sha256_hex py (concat (map utf8_char (dumps_canonical py (JDict payload)))))"
  using dumps_canonical_encodable [OF assms]
  by (auto simp: fingerprint_request_def utf8_encode_def encodable_def simp del: dumps_canonical.simps)

end
