(* ===== verification/Rate_Limiter.thy ===== *)
theory Rate_Limiter
  imports Py_Prelude
begin

text \<open>
  \<open>RateLimiter\<close> of \<open>service.py\<close>: two sliding windows of 60 seconds over the accepted
  creations, one for all users and one for each. Times are readings of \<open>time.monotonic\<close>
  in seconds. The window law is proved once, in a locale over any component that keeps such a
  queue, and interpreted for the global queue and for the queue of each user.
\<close>

section \<open>The limiter\<close>

record rate_limiter =
  global_limit :: int
  user_limit :: int
  global_events :: "rat list"
  user_events :: "(int, rat list) dict"

definition new_rate_limiter :: "int \<Rightarrow> int \<Rightarrow> rate_limiter" where
  "new_rate_limiter gl ul =
     \<lparr> global_limit = gl, user_limit = ul, global_events = [], user_events = [] \<rparr>"

text \<open>\<open>RateLimiter._trim\<close>: the loop that pops old events from the left.\<close>

fun trim :: "rat list \<Rightarrow> rat \<Rightarrow> rat list" where
  "trim [] cutoff = []"
| "trim (e # es) cutoff = (if e < cutoff then trim es cutoff else e # es)"

text \<open>\<open>self.user_events[user]\<close> of a \<open>defaultdict(deque)\<close>.\<close>

definition user_queue :: "rate_limiter \<Rightarrow> int \<Rightarrow> rat list" where
  "user_queue rl uid = (case dict_get (user_events rl) uid of None \<Rightarrow> [] | Some q \<Rightarrow> q)"

text \<open>
  \<open>RateLimiter.check\<close> at clock reading \<open>now\<close>. Both queues are trimmed, and the queue of the user
  exists afterwards, also when the answer is no.
\<close>

definition rl_check :: "rate_limiter \<Rightarrow> int \<Rightarrow> rat \<Rightarrow> bool \<times> rate_limiter" where
  "rl_check rl uid now =
     (let cutoff = now - 60;
          g = trim (global_events rl) cutoff;
          q = trim (user_queue rl uid) cutoff
      in if int (length g) \<ge> global_limit rl \<or> int (length q) \<ge> user_limit rl
         then (False, rl \<lparr> global_events := g, user_events := dict_set (user_events rl) uid q \<rparr>)
         else (True, rl \<lparr> global_events := g @ [now],
                          user_events := dict_set (user_events rl) uid (q @ [now]) \<rparr>))"

text \<open>
  A run: the calls of \<open>check\<close> in order, each with its subject and clock reading. The result
  lists the accepted ones.
\<close>

fun run_checks :: "('s \<Rightarrow> 'e \<Rightarrow> rat \<Rightarrow> bool \<times> 's) \<Rightarrow> 's \<Rightarrow> ('e \<times> rat) list \<Rightarrow> ('e \<times> rat) list \<times> 's" where
  "run_checks check s [] = ([], s)"
| "run_checks check s ((e, t) # es) =
     (case check s e t of (ok, s') \<Rightarrow>
        (case run_checks check s' es of (acc, s'') \<Rightarrow> ((if ok then [(e, t)] else []) @ acc, s'')))"

section \<open>Trimming sorted queues\<close>

lemma trim_dropWhile: "trim es c = dropWhile (\<lambda>e. e < c) es"
  by (induction es) auto

lemma trim_sorted: "sorted es \<Longrightarrow> trim es c = filter (\<lambda>e. c \<le> e) es"
proof (induction es)
  case (Cons e es)
  then show ?case
    by (cases "e < c") (auto simp: not_less dest: order_trans intro!: filter_True [symmetric])
qed simp

text \<open>The number of times in the closed window of 60 seconds that starts at \<open>a\<close>.\<close>

definition in_window :: "rat \<Rightarrow> rat list \<Rightarrow> nat" where
  "in_window a ts = length (filter (\<lambda>t. a \<le> t \<and> t \<le> a + 60) ts)"

lemma in_window_append: "in_window a (xs @ ys) = in_window a xs + in_window a ys"
  by (simp add: in_window_def)

lemma in_window_le_recent:
  assumes "now - 60 \<le> a" and "a \<le> now"
  shows "in_window a ts \<le> length (filter (\<lambda>t. now - 60 \<le> t) ts)"
  unfolding in_window_def using assms by (induction ts) auto

section \<open>The window law\<close>

text \<open>
  \<open>events s\<close> is a queue of the state, \<open>cap s\<close> its capacity and \<open>relevant\<close> says which
  subjects it counts. The laws are what \<open>check\<close> promises of the queue.
\<close>

locale sliding_window =
  fixes check :: "'s \<Rightarrow> 'e \<Rightarrow> rat \<Rightarrow> bool \<times> 's"
    and events :: "'s \<Rightarrow> rat list"
    and cap :: "'s \<Rightarrow> int"
    and relevant :: "'e \<Rightarrow> bool"
  assumes cap_const: "cap (snd (check s e now)) = cap s"
    and other: "\<not> relevant e \<Longrightarrow> events (snd (check s e now)) = events s"
    and accepted: "relevant e \<Longrightarrow> fst (check s e now) \<Longrightarrow>
      events (snd (check s e now)) = trim (events s) (now - 60) @ [now]
      \<and> int (length (trim (events s) (now - 60))) < cap s"
    and rejected: "relevant e \<Longrightarrow> \<not> fst (check s e now) \<Longrightarrow>
      events (snd (check s e now)) = trim (events s) (now - 60)"
begin

text \<open>
  The queue after the accepted times \<open>H\<close> holds those from a cut-off on, at most 60 seconds before
  the last reading \<open>prev\<close>.
\<close>

definition queue_inv :: "rat list \<Rightarrow> rat \<Rightarrow> 's \<Rightarrow> bool" where
  "queue_inv H prev s \<longleftrightarrow>
     sorted H \<and> (\<forall>t \<in> set H. t \<le> prev)
     \<and> (\<exists>cut. cut \<le> prev - 60 \<and> events s = filter (\<lambda>t. cut \<le> t) H)"

definition bounded :: "rat list \<Rightarrow> 's \<Rightarrow> bool" where
  "bounded H s \<longleftrightarrow> (\<forall>a. int (in_window a H) \<le> max 0 (cap s))"

definition history :: "rat list \<Rightarrow> 'e \<Rightarrow> rat \<Rightarrow> bool \<Rightarrow> rat list" where
  "history H e now ok = (if ok \<and> relevant e then H @ [now] else H)"

lemma trim_events:
  assumes "queue_inv H prev s" and "prev \<le> now"
  shows "trim (events s) (now - 60) = filter (\<lambda>t. now - 60 \<le> t) H"
proof -
  from assms obtain cut where cut: "cut \<le> prev - 60" and ev: "events s = filter (\<lambda>t. cut \<le> t) H"
    and H: "sorted H" by (auto simp: queue_inv_def)
  have "sorted (events s)" using ev H by (simp add: sorted_wrt_filter)
  then have "trim (events s) (now - 60) = filter (\<lambda>t. now - 60 \<le> t) (filter (\<lambda>t. cut \<le> t) H)"
    using ev by (simp add: trim_sorted)
  also have "\<dots> = filter (\<lambda>t. now - 60 \<le> t) H"
    using cut assms(2) by (auto intro!: filter_cong)
  finally show ?thesis .
qed

lemma queue_inv_step:
  assumes inv: "queue_inv H prev s" and now: "prev \<le> now"
  shows "queue_inv (history H e now (fst (check s e now))) now (snd (check s e now))"
proof -
  have H: "sorted H" "\<forall>t \<in> set H. t \<le> now" using inv now by (auto simp: queue_inv_def)
  note tr = trim_events [OF inv now]
  consider "\<not> relevant e" | "relevant e" "fst (check s e now)" | "relevant e" "\<not> fst (check s e now)"
    by blast
  then show ?thesis
  proof cases
    case 1
    from inv obtain cut where "cut \<le> prev - 60" "events s = filter (\<lambda>t. cut \<le> t) H"
      unfolding queue_inv_def by blast
    with now have "\<exists>cut. cut \<le> now - 60 \<and> events s = filter (\<lambda>t. cut \<le> t) H"
      by (intro exI [of _ cut]) simp
    with 1 H show ?thesis by (simp add: queue_inv_def history_def other)
  next
    case 2
    with H tr show ?thesis
      by (auto simp: queue_inv_def history_def accepted sorted_append intro!: exI [of _ "now - 60"])
  next
    case 3
    with H tr show ?thesis
      by (auto simp: queue_inv_def history_def rejected intro!: exI [of _ "now - 60"])
  qed
qed

lemma bounded_step:
  assumes inv: "queue_inv H prev s" and now: "prev \<le> now" and bd: "bounded H s"
  shows "bounded (history H e now (fst (check s e now))) (snd (check s e now))"
proof (cases "relevant e \<and> fst (check s e now)")
  case False
  with bd show ?thesis by (auto simp: bounded_def history_def cap_const)
next
  case True
  then have room: "int (length (filter (\<lambda>t. now - 60 \<le> t) H)) < cap s"
    using accepted trim_events [OF inv now] by metis
  have "int (in_window a (H @ [now])) \<le> max 0 (cap s)" for a
  proof (cases "a \<le> now \<and> now \<le> a + 60")
    case True
    then have "in_window a H \<le> length (filter (\<lambda>t. now - 60 \<le> t) H)"
      by (intro in_window_le_recent) auto
    with room show ?thesis by (simp add: in_window_append) (simp add: in_window_def)
  next
    case False
    then have "in_window a [now] = 0" by (auto simp: in_window_def)
    with bd show ?thesis by (simp add: in_window_append bounded_def)
  qed
  with True show ?thesis by (simp add: bounded_def history_def cap_const)
qed

lemma run_bounded:
  assumes "queue_inv H prev s" and "bounded H s" and "sorted (prev # map snd es)"
    and "run_checks check s es = (acc, s')"
  shows "bounded (H @ map snd (filter (\<lambda>x. relevant (fst x)) acc)) s'"
  using assms
proof (induction es arbitrary: H prev s acc s')
  case Nil
  then show ?case by simp
next
  case (Cons et es)
  obtain e t where et: "et = (e, t)" by fastforce
  obtain ok s1 where chk: "check s e t = (ok, s1)" by fastforce
  obtain acc1 where run: "run_checks check s1 es = (acc1, s')"
    and acc: "acc = (if ok then [(e, t)] else []) @ acc1"
    using Cons.prems(4) by (auto simp: et chk split: prod.splits)
  have t: "prev \<le> t" "sorted (t # map snd es)" using Cons.prems(3) by (auto simp: et)
  have "queue_inv (history H e t ok) t s1" "bounded (history H e t ok) s1"
    using queue_inv_step [OF Cons.prems(1) t(1), of e] bounded_step [OF Cons.prems(1) t(1) Cons.prems(2), of e]
    by (simp_all add: chk)
  from Cons.IH [OF this t(2) run] show ?case
    by (cases ok; cases "relevant e") (simp_all add: acc et history_def)
qed

lemma run_cap: "run_checks check s es = (acc, s') \<Longrightarrow> cap s' = cap s"
proof (induction es arbitrary: s acc)
  case (Cons et es)
  obtain e t where et: "et = (e, t)" by fastforce
  obtain ok s1 where chk: "check s e t = (ok, s1)" by fastforce
  have "cap s1 = cap s" using cap_const [of s e t] chk by simp
  with Cons show ?case by (auto simp: et chk split: prod.splits)
qed simp

text \<open>From an empty queue: no window ever holds more accepted events than the capacity.\<close>

lemma window_law:
  assumes "events s = []" and "sorted (map snd es)" and "run_checks check s es = (acc, s')"
  shows "int (in_window a (map snd (filter (\<lambda>x. relevant (fst x)) acc))) \<le> max 0 (cap s)"
proof (cases es)
  case Nil
  with assms(3) show ?thesis by (simp add: in_window_def)
next
  case (Cons e es')
  have "queue_inv [] (snd e) s" "bounded [] s"
    using assms(1) by (auto simp: queue_inv_def bounded_def in_window_def)
  moreover have "sorted (snd e # map snd es)" using assms(2) Cons by simp
  ultimately have "bounded ([] @ map snd (filter (\<lambda>x. relevant (fst x)) acc)) s'"
    using assms(3) by (rule run_bounded)
  with run_cap [OF assms(3)] show ?thesis by (simp add: bounded_def)
qed

end

section \<open>The limiter obeys the law\<close>

lemma user_queue_set:
  "user_queue (rl \<lparr> global_events := g, user_events := dict_set (user_events rl) uid q \<rparr>) v =
     (if v = uid then q else user_queue rl v)"
  by (simp add: user_queue_def)

interpretation global_window:
  sliding_window rl_check global_events global_limit "\<lambda>_. True"
  by unfold_locales (auto simp: rl_check_def Let_def split: if_splits)

interpretation user_window:
  sliding_window rl_check "\<lambda>rl. user_queue rl uid" user_limit "\<lambda>v. v = uid" for uid
  by unfold_locales (auto simp: rl_check_def Let_def user_queue_set split: if_splits)

lemma rl_check_limits [simp]:
  "global_limit (snd (rl_check rl uid now)) = global_limit rl"
  "user_limit (snd (rl_check rl uid now)) = user_limit rl"
  by (simp_all add: rl_check_def Let_def)

end
