(* ===== verification/Ip_Address.thy ===== *)
theory Ip_Address
  imports Py_Text "HOL-Library.Word"
begin

text \<open>
  The part of the library module \<open>ipaddress\<close> that the program uses: \<open>ip_address(text)\<close>,
  \<open>str\<close> of an IPv4 address and membership in the IPv4 network 172.26.0.0/15. An IPv6 address is
  recognised, but its value is never used: it belongs to no IPv4 network.
\<close>

unbundle bit_operations_syntax

section \<open>Parsing\<close>

datatype ip_addr = IPv4 "32 word" | IPv6 ustr

text \<open>\<open>_parse_octet\<close>: one to three ASCII digits, no leading zero, at most 255.\<close>

definition parse_octet :: "ustr \<Rightarrow> nat option" where
  "parse_octet s =
     (if s = [] \<or> \<not> list_all (\<lambda>c. 48 \<le> c \<and> c \<le> 57) s then None
      else if length s > 3 then None
      else if s \<noteq> [48] \<and> hd s = 48 then None
      else if nat_of_digits s > 255 then None
      else Some (nat_of_digits s))"

definition ip4_of_octets :: "nat \<Rightarrow> nat \<Rightarrow> nat \<Rightarrow> nat \<Rightarrow> 32 word" where
  "ip4_of_octets a b c d = word_of_nat (((a * 256 + b) * 256 + c) * 256 + d)"

definition parse_ipv4 :: "ustr \<Rightarrow> (32 word) option" where
  "parse_ipv4 s =
     (case map parse_octet (split_on 46 s) of
        [Some a, Some b, Some c, Some d] \<Rightarrow> Some (ip4_of_octets a b c d)
      | _ \<Rightarrow> None)"

definition is_hextet :: "ustr \<Rightarrow> bool" where
  "is_hextet s \<longleftrightarrow> s \<noteq> [] \<and> length s \<le> 4
     \<and> list_all (\<lambda>c. (48 \<le> c \<and> c \<le> 57) \<or> (65 \<le> c \<and> c \<le> 70) \<or> (97 \<le> c \<and> c \<le> 102)) s"

text \<open>
  \<open>IPv6Address(text)\<close> raises nothing: a scope id after one percent sign, colon-separated parts,
  an IPv4 suffix (worth two parts), at most one run of skipped zero parts.
\<close>

definition ipv6_parts_ok :: "ustr list \<Rightarrow> bool" where
  "ipv6_parts_ok parts =
     (let inner = filter (\<lambda>i. parts ! i = []) [1 ..< length parts - 1]
      in if length parts > 9 then False
         else case inner of
           [] \<Rightarrow> length parts = 8 \<and> list_all is_hextet parts
         | [i] \<Rightarrow>
             (let hi = (if hd parts = [] then i - 1 else i);
                  lo = (if List.last parts = [] then length parts - i - 2 else length parts - i - 1)
              in (hd parts = [] \<longrightarrow> hi = 0) \<and> (List.last parts = [] \<longrightarrow> lo = 0)
                 \<and> hi + lo \<le> 7
                 \<and> list_all is_hextet (take hi parts)
                 \<and> list_all is_hextet (drop (length parts - lo) parts))
         | _ \<Rightarrow> False)"

definition valid_ipv6 :: "ustr \<Rightarrow> bool" where
  "valid_ipv6 s =
     (case py_partition 37 s of (addr, sep, scope_id) \<Rightarrow>
        47 \<notin> set s \<and> (sep \<longrightarrow> scope_id \<noteq> [] \<and> 37 \<notin> set scope_id) \<and> addr \<noteq> []
        \<and> (let parts = split_on 58 addr
           in length parts \<ge> 3
              \<and> (if 46 \<in> set (List.last parts)
                 then parse_ipv4 (List.last parts) \<noteq> None
                      \<and> ipv6_parts_ok (butlast parts @ [[48], [48]])
                 else ipv6_parts_ok parts)))"

text \<open>\<open>ipaddress.ip_address(text)\<close>; \<open>None\<close> is the ValueError.\<close>

definition ip_address :: "ustr \<Rightarrow> ip_addr option" where
  "ip_address s =
     (case parse_ipv4 s of
        Some a \<Rightarrow> Some (IPv4 a)
      | None \<Rightarrow> if valid_ipv6 s then Some (IPv6 s) else None)"

section \<open>Printing and membership\<close>

text \<open>\<open>int.to_bytes(4, "big")\<close>.\<close>

definition ip4_octets :: "32 word \<Rightarrow> nat list" where
  "ip4_octets a =
     (let n = unat a in [n div 256 div 256 div 256, n div 256 div 256 mod 256, n div 256 mod 256, n mod 256])"

definition str_of_ip4 :: "32 word \<Rightarrow> ustr" where
  "str_of_ip4 a = py_join [46] (map str_of_nat (ip4_octets a))"

text \<open>\<open>str(address)\<close>; for IPv6 the program never gets this far.\<close>

fun str_of_ip :: "ip_addr \<Rightarrow> ustr" where
  "str_of_ip (IPv4 a) = str_of_ip4 a"
| "str_of_ip (IPv6 s) = s"

text \<open>\<open>address in ip_network("172.26.0.0/15")\<close>.\<close>

definition MNT_NETMASK :: "32 word" where
  "MNT_NETMASK = 0xFFFE0000"

definition MNT_NETWORK :: "32 word" where
  "MNT_NETWORK = 0xAC1A0000"

fun in_mnt_network :: "ip_addr \<Rightarrow> bool" where
  "in_mnt_network (IPv4 a) = (a AND MNT_NETMASK = MNT_NETWORK)"
| "in_mnt_network (IPv6 _) = False"

section \<open>Laws\<close>

lemma horner:
  assumes "(d :: nat) < m"
  shows "(x * m + d) div m = x" "(x * m + d) mod m = d"
  using assms by simp_all

lemma unat_bound: "unat (a :: 32 word) < 4294967296"
  using unsigned_less [of a] by simp

lemma ip4_octets_bound: "list_all (\<lambda>n. n < 256) (ip4_octets a)"
  using unat_bound [of a] by (simp add: ip4_octets_def Let_def)

lemma unat_ip4_of_octets:
  assumes "a < 256" "b < 256" "c < 256" "d < 256"
  shows "unat (ip4_of_octets a b c d) = ((a * 256 + b) * 256 + c) * 256 + d"
proof -
  have "((a * 256 + b) * 256 + c) * 256 + d < 2 ^ 32" using assms by simp
  then show ?thesis
    by (simp only: ip4_of_octets_def unat_of_nat) simp
qed

lemma ip4_octets_of_octets:
  assumes "a < 256" "b < 256" "c < 256" "d < 256"
  shows "ip4_octets (ip4_of_octets a b c d) = [a, b, c, d]"
  using assms by (simp only: ip4_octets_def Let_def unat_ip4_of_octets horner)

lemma ip4_octets_horner:
  assumes "ip4_octets a = [w, x, y, z]"
  shows "((w * 256 + x) * 256 + y) * 256 + z = unat a" and "x < 256" "y < 256" "z < 256"
proof -
  from assms have eq: "w = unat a div 256 div 256 div 256" "x = unat a div 256 div 256 mod 256"
    "y = unat a div 256 mod 256" "z = unat a mod 256"
    by (simp_all only: ip4_octets_def Let_def list.inject)
  show "((w * 256 + x) * 256 + y) * 256 + z = unat a"
    unfolding eq by (simp only: div_mult_mod_eq)
  show "x < 256" "y < 256" "z < 256" unfolding eq by simp_all
qed

lemma ip4_of_octets_octets: "ip4_octets a = [w, x, y, z] \<Longrightarrow> ip4_of_octets w x y z = a"
  unfolding ip4_of_octets_def by (subst ip4_octets_horner(1)) simp_all

lemma parse_octet_bound: "parse_octet s = Some n \<Longrightarrow> n < 256"
  by (auto simp: parse_octet_def split: if_splits)

text \<open>A decimal octet has exactly one spelling.\<close>

lemma parse_octet_canonical:
  assumes "parse_octet s = Some n"
  shows "str_of_nat n = s"
proof -
  have digits: "list_all (\<lambda>c. 48 \<le> c \<and> c \<le> 57) s" and len: "s \<noteq> []" "length s \<le> 3"
    and lead: "s = [48] \<or> hd s \<noteq> 48" and n: "n = nat_of_digits s"
    using assms by (auto simp: parse_octet_def split: if_splits)
  obtain x xs where s: "s = x # xs" using len by (cases s) auto
  have dig: "\<exists>k < 10. c = 48 + k" if "48 \<le> c" "c \<le> 57" for c :: nat
    using that by (intro exI [of _ "c - 48"]) auto
  consider "xs = []" | y where "xs = [y]" | y z where "xs = [y, z]"
    using len s by (cases xs; cases "tl xs") (auto simp: Suc_le_eq)
  then show ?thesis
  proof cases
    case 1
    with s digits n show ?thesis by (auto simp: str_of_nat_small)
  next
    case 2
    with s digits lead obtain i j where "x = 48 + i" "0 < i" "i < 10" "y = 48 + j" "j < 10"
      using dig [of x] dig [of y] by auto
    with s 2 n show ?thesis by (simp add: str_of_nat_big str_of_nat_small)
  next
    case 3
    with s digits lead obtain i j k where "x = 48 + i" "0 < i" "i < 10" "y = 48 + j" "j < 10"
      "z = 48 + k" "k < 10"
      using dig [of x] dig [of y] dig [of z] by auto
    then have nk: "n = (i * 10 + j) * 10 + k" using s 3 n by simp
    have "n div 10 = i * 10 + j" "n mod 10 = k" unfolding nk using \<open>k < 10\<close> by (rule horner)+
    moreover have "\<not> n < 10" and "\<not> i * 10 + j < 10" using nk \<open>0 < i\<close> by simp_all
    ultimately have "str_of_nat n = str_of_nat (i * 10 + j) @ [48 + k]" and "\<not> i * 10 + j < 10"
      using str_of_nat_big [of n] by simp_all
    with \<open>i < 10\<close> \<open>j < 10\<close> \<open>x = 48 + i\<close> \<open>y = 48 + j\<close> \<open>z = 48 + k\<close> s 3 show ?thesis
      by (simp add: str_of_nat_big [of "i * 10 + j"] horner str_of_nat_small)
  qed
qed

lemma split_on_join: "py_join [sep] (split_on sep s) = s"
proof (induction s)
  case (Cons c cs)
  then show ?case
    by (cases "split_on sep cs" rule: list.exhaust; cases "tl (split_on sep cs)") auto
qed simp

lemma map_eq_four:
  "map f xs = [a, b, c, d] \<longleftrightarrow> (\<exists>w x y z. xs = [w, x, y, z] \<and> f w = a \<and> f x = b \<and> f y = c \<and> f z = d)"
  by (auto simp: map_eq_Cons_conv)

lemma parse_ipv4_Some:
  assumes "parse_ipv4 s = Some ip"
  obtains a b c d where "split_on 46 s = map str_of_nat [a, b, c, d]"
    and "a < 256" "b < 256" "c < 256" "d < 256" and "ip = ip4_of_octets a b c d"
proof -
  obtain a b c d where map: "map parse_octet (split_on 46 s) = [Some a, Some b, Some c, Some d]"
    and ip: "ip = ip4_of_octets a b c d"
    using assms by (auto simp: parse_ipv4_def split: list.splits option.splits)
  then show thesis
    using that [of a b c d] parse_octet_canonical parse_octet_bound
    by (force simp: map_eq_four)
qed

text \<open>An accepted IPv4 text is the printed form of its address: nothing is normalised away.\<close>

lemma str_of_parse_ipv4: "parse_ipv4 s = Some ip \<Longrightarrow> str_of_ip4 ip = s"
proof (erule parse_ipv4_Some)
  fix a b c d
  assume split: "split_on 46 s = map str_of_nat [a, b, c, d]"
    and bounds: "a < 256" "b < 256" "c < 256" "d < 256" and ip: "ip = ip4_of_octets a b c d"
  have "str_of_ip4 ip = py_join [46] (split_on 46 s)"
    by (simp add: str_of_ip4_def ip ip4_octets_of_octets [OF bounds] split)
  then show "str_of_ip4 ip = s" by (simp add: split_on_join)
qed

lemma nat_of_digits_bound: "n < 256 \<Longrightarrow> parse_octet (str_of_nat n) = Some n"
proof -
  assume n: "n < 256"
  have "n < 10 \<or> (10 \<le> n \<and> n < 100) \<or> (100 \<le> n \<and> n < 256)" using n by linarith
  moreover have "\<forall>c \<in> set (str_of_nat n). 48 \<le> c \<and> c \<le> 57"
    using str_of_nat_digits [of n] by force
  ultimately show ?thesis
    using n nat_of_digits_str [of n]
    by (auto simp: parse_octet_def list_all_iff str_of_nat_small str_of_nat_big)
qed

lemma split_on_free: "sep \<notin> set w \<Longrightarrow> split_on sep (w @ sep # s) = w # split_on sep s"
  by (induction w) auto

lemma split_on_free_end: "sep \<notin> set w \<Longrightarrow> split_on sep w = [w]"
  by (induction w) auto

lemma parse_ipv4_str: "parse_ipv4 (str_of_ip4 a) = Some a"
proof -
  have free: "46 \<notin> set (str_of_nat n)" for n
    using str_of_nat_digits [of n] by force
  obtain w x y z where o: "ip4_octets a = [w, x, y, z]" by (simp add: ip4_octets_def Let_def)
  then have "w < 256" "x < 256" "y < 256" "z < 256" using ip4_octets_bound [of a] by auto
  moreover have "split_on 46 (str_of_ip4 a) = map str_of_nat [w, x, y, z]"
    by (simp add: str_of_ip4_def o split_on_free split_on_free_end free)
  ultimately show ?thesis
    using ip4_of_octets_octets [OF o] by (simp add: parse_ipv4_def nat_of_digits_bound)
qed

text \<open>The network by the octets of the address.\<close>

lemma mnt_netmask_mask: "MNT_NETMASK = NOT (mask 17)"
  unfolding MNT_NETMASK_def by (simp add: mask_eq_exp_minus_1)

lemma and_not_mask: "(a :: 32 word) AND NOT (mask 17) = push_bit 17 (drop_bit 17 a)"
  by (rule bit_word_eqI) (auto simp: bit_simps)

lemma in_mnt_network_div: "in_mnt_network (IPv4 a) \<longleftrightarrow> unat a div 131072 = 22029"
proof -
  have "a AND MNT_NETMASK = MNT_NETWORK \<longleftrightarrow> drop_bit 17 a = 22029"
  proof
    assume "a AND MNT_NETMASK = MNT_NETWORK"
    then have "drop_bit 17 (push_bit 17 (drop_bit 17 a)) = drop_bit 17 MNT_NETWORK"
      by (simp add: mnt_netmask_mask and_not_mask)
    moreover have "drop_bit 17 (push_bit 17 (drop_bit 17 a)) = drop_bit 17 a"
      by (rule bit_word_eqI) (auto simp: bit_simps dest: bit_imp_le_length)
    ultimately show "drop_bit 17 a = 22029" by (simp add: MNT_NETWORK_def)
  next
    assume "drop_bit 17 a = 22029"
    then show "a AND MNT_NETMASK = MNT_NETWORK"
      by (simp add: mnt_netmask_mask and_not_mask MNT_NETWORK_def)
  qed
  also have "\<dots> \<longleftrightarrow> unat (drop_bit 17 a) = unat (22029 :: 32 word)"
    by (simp only: word_unat_eq_iff)
  also have "unat (drop_bit 17 a) = unat a div 131072"
    unfolding unat_drop_bit_eq by (simp add: drop_bit_eq_div)
  finally show ?thesis by simp
qed

lemma in_mnt_network_octets:
  assumes "ip4_octets a = [w, x, y, z]"
  shows "in_mnt_network (IPv4 a) \<longleftrightarrow> w = 172 \<and> (x = 26 \<or> x = 27)"
proof -
  note n = ip4_octets_horner(1) [OF assms] and b = ip4_octets_horner(2-) [OF assms]
  have "unat a div 131072 = unat a div 256 div 256 div 2"
    by (simp add: div_mult2_eq [symmetric])
  also have "\<dots> = (w * 256 + x) div 2"
    unfolding n [symmetric] using b by (simp only: horner)
  finally have "in_mnt_network (IPv4 a) \<longleftrightarrow> (w * 256 + x) div 2 = 22029"
    by (simp only: in_mnt_network_div)
  also have "\<dots> \<longleftrightarrow> 44058 \<le> w * 256 + x \<and> w * 256 + x < 44060" by auto
  also have "\<dots> \<longleftrightarrow> w = 172 \<and> (x = 26 \<or> x = 27)"
  proof
    assume *: "44058 \<le> w * 256 + x \<and> w * 256 + x < 44060"
    with b have "w = 172" by linarith
    with * show "w = 172 \<and> (x = 26 \<or> x = 27)" by auto
  qed auto
  finally show ?thesis .
qed

end
