(* ===== verification/Vehicle_Inventory.thy ===== *)
theory Vehicle_Inventory
  imports Domain_Models Ip_Address
begin

text \<open>
  \<open>vehicle_inventory.py\<close>: the CSV inventory with its cache by modification time, and the
  resolution of a query or of a vehicle object to one record. The rows \<open>csv.DictReader\<close> yields
  are the content of the file; what \<open>stat\<close> and \<open>open\<close> answer is an argument.
\<close>

section \<open>Records\<close>

record inventory_record =
  ir_garage_number :: ustr
  ir_vehicle_id :: ustr
  ir_plate :: ustr
  ir_ip :: ustr
  ir_mac :: ustr
  ir_model :: ustr
  ir_branch :: ustr
  ir_updated_at :: ustr
  ir_comment :: ustr

definition IDENTIFIER_FIELDS :: "(ustr \<times> (inventory_record \<Rightarrow> ustr)) list" where
  "IDENTIFIER_FIELDS = [(u ''garage_number'', ir_garage_number), (u ''vehicle_id'', ir_vehicle_id),
     (u ''plate'', ir_plate)]"

definition OPTIONAL_FIELDS :: "(ustr \<times> (inventory_record \<Rightarrow> ustr)) list" where
  "OPTIONAL_FIELDS = [(u ''mac'', ir_mac), (u ''model'', ir_model), (u ''branch'', ir_branch),
     (u ''updated_at'', ir_updated_at), (u ''comment'', ir_comment)]"

text \<open>The property \<open>number\<close>: \<open>garage_number or vehicle_id or plate\<close>.\<close>

definition record_number :: "inventory_record \<Rightarrow> ustr" where
  "record_number r =
     (if ir_garage_number r \<noteq> [] then ir_garage_number r
      else if ir_vehicle_id r \<noteq> [] then ir_vehicle_id r else ir_plate r)"

definition to_vehicle :: "inventory_record \<Rightarrow> jdict" where
  "to_vehicle r = [(u ''number'', JStr (record_number r)), (u ''ip'', JStr (ir_ip r))]"

definition record_response :: "inventory_record \<Rightarrow> json" where
  "record_response r = JDict
     ([(u ''number'', JStr (record_number r)), (u ''garage_number'', JStr (ir_garage_number r)),
       (u ''vehicle_id'', JStr (ir_vehicle_id r)), (u ''plate'', JStr (ir_plate r)),
       (u ''ip'', JStr (ir_ip r))]
      @ map (\<lambda>(name, get). (name, JStr (get r)))
          (filter (\<lambda>(name, get). get r \<noteq> []) OPTIONAL_FIELDS))"

section \<open>Normalisation and rows\<close>

definition normalize_plate :: "ustr \<Rightarrow> ustr" where
  "normalize_plate value = py_join [32] (py_split value)"

definition normalize_identifier :: "ustr \<Rightarrow> ustr" where
  "normalize_identifier value = normalize_plate (py_strip value)"

definition inventory_error :: "int \<Rightarrow> ustr \<Rightarrow> ustr \<Rightarrow> exn" where
  "inventory_error status code message = WorkerError status code message"

definition ip_not_found :: "ustr \<Rightarrow> exn" where
  "ip_not_found message = inventory_error 422 (u ''vehicle_ip_not_found'') message"

definition ambiguous :: exn where
  "ambiguous = inventory_error 409 (u ''vehicle_inventory_ambiguous'')
     (u ''Vehicle inventory query is ambiguous'')"

text \<open>A row of \<open>csv.DictReader\<close>: a missing cell is \<open>None\<close>.\<close>

type_synonym csv_row = "(ustr, ustr option) dict"

definition cell :: "csv_row \<Rightarrow> ustr \<Rightarrow> ustr" where
  "cell row key = normalize_plate (case dict_get row key of Some (Some s) \<Rightarrow> s | _ \<Rightarrow> [])"

definition record_from_row :: "csv_row \<Rightarrow> nat \<Rightarrow> inventory_record res" where
  "record_from_row row row_number =
     (let c = cell row
      in if c (u ''ip'') = [] then
           Inl (ip_not_found (u ''Vehicle inventory row '' @ str_of_nat row_number @ u '' has empty IP''))
         else if c (u ''garage_number'') = [] \<and> c (u ''vehicle_id'') = [] \<and> c (u ''plate'') = [] then
           Inl (inventory_error 400 (u ''invalid_request'')
             (u ''Vehicle inventory row '' @ str_of_nat row_number @ u '' has no identifier''))
         else Inr \<lparr> ir_garage_number = c (u ''garage_number''), ir_vehicle_id = c (u ''vehicle_id''),
                    ir_plate = c (u ''plate''), ir_ip = c (u ''ip''), ir_mac = c (u ''mac''),
                    ir_model = c (u ''model''), ir_branch = c (u ''branch''),
                    ir_updated_at = c (u ''updated_at''), ir_comment = c (u ''comment'') \<rparr>)"

fun records_from_rows :: "csv_row list \<Rightarrow> nat \<Rightarrow> inventory_record list res" where
  "records_from_rows [] n = Inr []"
| "records_from_rows (row # rows) n =
     bindE (record_from_row row n) (\<lambda>r.
     bindE (records_from_rows rows (Suc n)) (\<lambda>rs. Inr (r # rs)))"

section \<open>The cached file\<close>

text \<open>
  What the file system answers: \<open>stat\<close> fails, or it gives a modification time and reading the
  file raises or yields rows.
\<close>

datatype inv_file = StatFails | InvFile int "csv_row list res"

record inventory =
  inv_records :: "inventory_record list"
  inv_loaded_mtime_ns :: "int option"

definition new_inventory :: inventory where
  "new_inventory = \<lparr> inv_records = [], inv_loaded_mtime_ns = None \<rparr>"

text \<open>\<open>VehicleInventory._load_records\<close>: on an error the cache is left as it was.\<close>

definition load_records :: "inv_file \<Rightarrow> inventory \<Rightarrow> inventory_record list res \<times> inventory" where
  "load_records file cache =
     (case file of
        StatFails \<Rightarrow> (Inl (ip_not_found (u ''Vehicle inventory is not configured'')), cache)
      | InvFile mtime content \<Rightarrow>
          if inv_loaded_mtime_ns cache = Some mtime then (Inr (inv_records cache), cache)
          else (case bindE content (\<lambda>rows. records_from_rows rows 2) of
                  Inl e \<Rightarrow> (Inl e, cache)
                | Inr records \<Rightarrow>
                    (Inr records, \<lparr> inv_records = records, inv_loaded_mtime_ns = Some mtime \<rparr>)))"

section \<open>Resolution\<close>

definition validate_resolved_record :: "inventory_record \<Rightarrow> inventory_record res" where
  "validate_resolved_record r =
     (if ip_address (ir_ip r) = None
      then Inl (ip_not_found (u ''Vehicle inventory record has invalid IP'')) else Inr r)"

definition matches :: "inventory_record list \<Rightarrow> (inventory_record \<Rightarrow> ustr) \<Rightarrow> ustr \<Rightarrow> inventory_record list" where
  "matches records field query = filter (\<lambda>r. normalize_identifier (field r) = query) records"

text \<open>The loop of \<open>resolve_query\<close> over the identifier fields, on a normalised query.\<close>

fun resolve_fields :: "inventory_record list \<Rightarrow> (ustr \<times> (inventory_record \<Rightarrow> ustr)) list \<Rightarrow> ustr
    \<Rightarrow> inventory_record res" where
  "resolve_fields records [] query = Inl (ip_not_found (u ''Vehicle IP not found in inventory''))"
| "resolve_fields records ((name, field) # fs) query =
     (case matches records field query of
        [r] \<Rightarrow> validate_resolved_record r
      | [] \<Rightarrow> resolve_fields records fs query
      | _ \<Rightarrow> Inl ambiguous)"

definition resolve_query :: "inv_file \<Rightarrow> ustr \<Rightarrow> inventory \<Rightarrow> inventory_record res \<times> inventory" where
  "resolve_query file query cache =
     (let q = normalize_identifier query
      in if q = [] then (Inl (ip_not_found (u ''Vehicle query is empty'')), cache)
         else case load_records file cache of
           (Inl e, cache') \<Rightarrow> (Inl e, cache')
         | (Inr records, cache') \<Rightarrow> (resolve_fields records IDENTIFIER_FIELDS q, cache'))"

text \<open>\<open>_resolve_by_field\<close>.\<close>

definition resolve_by_field :: "inv_file \<Rightarrow> (inventory_record \<Rightarrow> ustr) \<Rightarrow> ustr \<Rightarrow> inventory
    \<Rightarrow> inventory_record res \<times> inventory" where
  "resolve_by_field file field value cache =
     (case load_records file cache of
        (Inl e, cache') \<Rightarrow> (Inl e, cache')
      | (Inr records, cache') \<Rightarrow>
          ((case matches records field (normalize_identifier value) of
              [r] \<Rightarrow> validate_resolved_record r
            | [] \<Rightarrow> Inl (ip_not_found (u ''Vehicle IP not found in inventory''))
            | _ \<Rightarrow> Inl ambiguous), cache'))"

text \<open>\<open>isinstance(value, str) and value.strip()\<close>.\<close>

definition nonblank_str :: "json \<Rightarrow> ustr option" where
  "nonblank_str v = (case v of JStr s \<Rightarrow> if py_strip s \<noteq> [] then Some s else None | _ \<Rightarrow> None)"

fun first_identifier :: "jdict \<Rightarrow> (ustr \<times> (inventory_record \<Rightarrow> ustr)) list
    \<Rightarrow> ((inventory_record \<Rightarrow> ustr) \<times> ustr) option" where
  "first_identifier vehicle [] = None"
| "first_identifier vehicle ((name, field) # fs) =
     (case nonblank_str (jget vehicle name) of
        Some s \<Rightarrow> Some (field, s)
      | None \<Rightarrow> first_identifier vehicle fs)"

definition resolve_vehicle :: "inv_file \<Rightarrow> jdict \<Rightarrow> inventory \<Rightarrow> inventory_record res \<times> inventory" where
  "resolve_vehicle file vehicle cache =
     (case first_identifier vehicle IDENTIFIER_FIELDS of
        Some (field, value) \<Rightarrow> resolve_by_field file field value cache
      | None \<Rightarrow>
          (case nonblank_str (jget vehicle (u ''number'')) of
             Some number \<Rightarrow> resolve_query file number cache
           | None \<Rightarrow> (Inl (ip_not_found
               (u ''Vehicle identifier is required for inventory lookup'')), cache)))"

section \<open>Laws of normalisation and of records\<close>

lemma normalize_identifier_split: "normalize_identifier s = py_join [32] (py_split s)"
  by (simp add: normalize_identifier_def normalize_plate_def)

lemma normalize_identifier_idem [simp]:
  "normalize_identifier (normalize_identifier s) = normalize_identifier s"
  by (simp add: normalize_identifier_split)

lemma normalize_plate_idem [simp]: "normalize_plate (normalize_plate s) = normalize_plate s"
  by (simp add: normalize_plate_def)

lemma normalize_plate_Nil [simp]: "normalize_plate [] = []"
  by (simp add: normalize_plate_def py_split_def)

lemma normalize_plate_cell [simp]: "normalize_plate (cell row key) = cell row key"
  by (simp add: cell_def)

text \<open>What \<open>record_from_row\<close> promises of a record.\<close>

definition record_ok :: "inventory_record \<Rightarrow> bool" where
  "record_ok r \<longleftrightarrow> ir_ip r \<noteq> [] \<and> record_number r \<noteq> []
     \<and> (\<forall>(name, field) \<in> set IDENTIFIER_FIELDS. normalize_plate (field r) = field r)"

definition cache_ok :: "inventory \<Rightarrow> bool" where
  "cache_ok c \<longleftrightarrow> (\<forall>r \<in> set (inv_records c). record_ok r)"

lemma record_from_row_ok: "record_from_row row n = Inr r \<Longrightarrow> record_ok r"
  by (auto simp: record_from_row_def record_ok_def record_number_def IDENTIFIER_FIELDS_def
      Let_def split: if_splits)

lemma records_from_rows_ok: "records_from_rows rows n = Inr rs \<Longrightarrow> r \<in> set rs \<Longrightarrow> record_ok r"
  by (induction rows n arbitrary: rs rule: records_from_rows.induct)
    (auto simp: res_iff dest: record_from_row_ok)

lemma cache_ok_new [simp]: "cache_ok new_inventory"
  by (simp add: cache_ok_def new_inventory_def)

lemma load_records_ok:
  assumes "cache_ok c" and "load_records file c = (res, c')"
  shows "cache_ok c'" and "res = Inr rs \<Longrightarrow> rs = inv_records c'" and "res = Inl e \<Longrightarrow> c' = c"
  using assms
  by (auto simp: load_records_def cache_ok_def res_iff dest: records_from_rows_ok
      split: inv_file.splits if_splits sum.splits)

text \<open>
  The cache is coherent: what it holds is the parse of the content the file had at the
  modification time it remembers, whatever \<open>content\<close> gives for each time.
\<close>

definition coherent :: "(int \<Rightarrow> csv_row list res) \<Rightarrow> inventory \<Rightarrow> bool" where
  "coherent content c \<longleftrightarrow> (\<forall>m. inv_loaded_mtime_ns c = Some m \<longrightarrow>
     bindE (content m) (\<lambda>rows. records_from_rows rows 2) = Inr (inv_records c))"

lemma coherent_new [simp]: "coherent content new_inventory"
  by (simp add: coherent_def new_inventory_def)

lemma load_records_coherent:
  assumes "coherent content c"
  shows "fst (load_records (InvFile m (content m)) c) = bindE (content m) (\<lambda>rows. records_from_rows rows 2)"
    and "coherent content (snd (load_records (InvFile m (content m)) c))"
  using assms by (auto simp: load_records_def coherent_def split: sum.splits)

section \<open>Laws of resolution\<close>

lemma validate_resolved_Inr_iff [res_iff]:
  "validate_resolved_record r = Inr r' \<longleftrightarrow> r' = r \<and> ip_address (ir_ip r) \<noteq> None"
  by (auto simp: validate_resolved_record_def)

lemma matches_in: "matches rs field q = [r] \<Longrightarrow> r \<in> set rs"
  by (metis filter_is_subset list.set_intros(1) matches_def subset_iff)

text \<open>The record is the only match on the first field that has a match at all.\<close>

definition resolves_to :: "inventory_record list \<Rightarrow> (ustr \<times> (inventory_record \<Rightarrow> ustr)) list \<Rightarrow> ustr
    \<Rightarrow> inventory_record \<Rightarrow> bool" where
  "resolves_to rs fs q r \<longleftrightarrow> (\<exists>i < length fs. matches rs (snd (fs ! i)) q = [r]
     \<and> (\<forall>j < i. matches rs (snd (fs ! j)) q = []))"

lemma resolves_to_Cons:
  "resolves_to rs ((n, f) # fs) q r \<longleftrightarrow>
     matches rs f q = [r] \<or> (matches rs f q = [] \<and> resolves_to rs fs q r)"
  unfolding resolves_to_def
  using first_index_Cons [of "(n, f)" fs "\<lambda>e. matches rs (snd e) q = [r]" "\<lambda>e. matches rs (snd e) q = []"]
  by simp

lemma resolve_fields_Inr_iff:
  "resolve_fields rs fs q = Inr r \<longleftrightarrow> resolves_to rs fs q r \<and> ip_address (ir_ip r) \<noteq> None"
proof (induction rs fs q rule: resolve_fields.induct)
  case (1 rs q)
  show ?case by (simp add: resolves_to_def)
next
  case (2 rs n f fs q)
  then show ?case by (auto simp: resolves_to_Cons res_iff split: list.splits)
qed

lemma resolve_fields_ambiguous_iff:
  "resolve_fields rs fs q = Inl ambiguous \<longleftrightarrow>
     (\<exists>i < length fs. 1 < length (matches rs (snd (fs ! i)) q)
        \<and> (\<forall>j < i. matches rs (snd (fs ! j)) q = []))"
proof (induction rs fs q rule: resolve_fields.induct)
  case (1 rs q)
  show ?case by (simp add: ambiguous_def ip_not_found_def inventory_error_def)
next
  case (2 rs n f fs q)
  note first = first_index_Cons [of "(n, f)" fs "\<lambda>e. 1 < length (matches rs (snd e) q)"
      "\<lambda>e. matches rs (snd e) q = []"]
  show ?case
  proof (cases "matches rs f q")
    case Nil
    with 2 show ?thesis by (simp only: first) simp
  next
    case (Cons r rest)
    then show ?thesis
      by (simp only: first, cases rest) (simp_all add: validate_resolved_record_def
          ambiguous_def ip_not_found_def inventory_error_def)
  qed
qed

lemma resolves_to_in: "resolves_to rs fs q r \<Longrightarrow> r \<in> set rs"
  by (auto simp: resolves_to_def dest: matches_in)

lemma resolve_query_cache:
  "cache_ok c \<Longrightarrow> resolve_query file q c = (res, c') \<Longrightarrow> cache_ok c'"
  by (auto simp: resolve_query_def Let_def dest: load_records_ok(1) split: if_splits prod.splits sum.splits)

lemma resolve_query_result:
  assumes "cache_ok c" and "resolve_query file q c = (Inr r, c')"
  shows "record_ok r" and "ip_address (ir_ip r) \<noteq> None"
proof -
  obtain rs where load: "load_records file c = (Inr rs, c')"
    and res: "resolve_fields rs IDENTIFIER_FIELDS (normalize_identifier q) = Inr r"
    using assms(2) by (auto simp: resolve_query_def Let_def split: if_splits prod.splits sum.splits)
  have "rs = inv_records c'" "cache_ok c'" using load_records_ok [OF assms(1) load] by simp_all
  with res show "record_ok r" "ip_address (ir_ip r) \<noteq> None"
    by (auto simp: resolve_fields_Inr_iff cache_ok_def dest: resolves_to_in)
qed

lemma resolve_by_field_result:
  assumes "cache_ok c" and "resolve_by_field file f v c = (res, c')"
  shows "cache_ok c'" and "res = Inr r \<Longrightarrow> record_ok r \<and> ip_address (ir_ip r) \<noteq> None"
proof -
  obtain lr where load: "load_records file c = (lr, c')"
    using assms(2) by (auto simp: resolve_by_field_def split: prod.splits sum.splits)
  then show ok: "cache_ok c'" using assms(1) load_records_ok(1) by blast
  assume r: "res = Inr r"
  then obtain rs where "lr = Inr rs" "matches rs f (normalize_identifier v) = [r]"
    "ip_address (ir_ip r) \<noteq> None"
    using assms(2) load
    by (auto simp: resolve_by_field_def res_iff split: prod.splits sum.splits list.splits)
  then show "record_ok r \<and> ip_address (ir_ip r) \<noteq> None"
    using ok load_records_ok(2) [OF assms(1) load] by (auto simp: cache_ok_def dest: matches_in)
qed

section \<open>The interface of the resolver\<close>

text \<open>What the worker relies on when it builds a vehicle from the inventory.\<close>

locale vehicle_resolver =
  fixes resolve :: "jdict \<Rightarrow> 'c \<Rightarrow> inventory_record res \<times> 'c"
    and ok :: "'c \<Rightarrow> bool"
  assumes resolve_keeps: "ok c \<Longrightarrow> ok (snd (resolve v c))"
    and resolve_number: "ok c \<Longrightarrow> fst (resolve v c) = Inr r \<Longrightarrow> record_number r \<noteq> []"
    and resolve_ip: "ok c \<Longrightarrow> fst (resolve v c) = Inr r \<Longrightarrow> ip_address (ir_ip r) \<noteq> None"

interpretation inventory_resolver: vehicle_resolver "resolve_vehicle inv_file" cache_ok for inv_file
proof unfold_locales
  fix c v r
  assume ok: "cache_ok c"
  obtain res c' where rv: "resolve_vehicle inv_file v c = (res, c')" by fastforce
  have "cache_ok c' \<and> (res = Inr r \<longrightarrow> record_ok r \<and> ip_address (ir_ip r) \<noteq> None)" for r
    using rv ok resolve_by_field_result [OF ok] resolve_query_cache [OF ok] resolve_query_result [OF ok]
    by (auto simp: resolve_vehicle_def split: option.splits prod.splits)
  then show "cache_ok (snd (resolve_vehicle inv_file v c))"
    and "fst (resolve_vehicle inv_file v c) = Inr r \<Longrightarrow> record_number r \<noteq> []"
    and "fst (resolve_vehicle inv_file v c) = Inr r \<Longrightarrow> ip_address (ir_ip r) \<noteq> None"
    by (auto simp: rv record_ok_def)
qed

end
