(* ===== verification/Artifacts_Audit.thy ===== *)
theory Artifacts_Audit
  imports Domain_Models
begin

text \<open>
  \<open>artifacts.py\<close> and \<open>audit.py\<close>: the artifact files of a directory with their size limit and
  life time, and the audit line of a task. Files are written to a dictionary from path to
  bytes; whether the operating system accepts a write is an argument.
\<close>

section \<open>Artifacts\<close>

record artifact_store =
  as_directory :: ustr
  as_ttl_hours :: int
  as_max_bytes :: int

type_synonym files = "(ustr, nat list) dict"

definition artifact_path :: "artifact_store \<Rightarrow> ustr \<Rightarrow> ustr \<Rightarrow> ustr" where
  "artifact_path store artifact_id filename =
     as_directory store @ u ''/'' @ artifact_id @ u ''-'' @ filename"

text \<open>
  \<open>create_text_artifact\<close> with a fresh \<open>artifact_id\<close> and the clock at \<open>now\<close>. The size is checked
  before anything is written.
\<close>

definition create_text_artifact :: "pylib \<Rightarrow> artifact_store \<Rightarrow> (ustr \<Rightarrow> bool) \<Rightarrow> ustr \<Rightarrow> int \<Rightarrow> ustr \<Rightarrow> ustr
    \<Rightarrow> ustr \<Rightarrow> files \<Rightarrow> json res \<times> files" where
  "create_text_artifact py store can_write artifact_id now filename content content_type files =
     (case utf8_encode content of
        None \<Rightarrow> (Inl (builtin py B_UnicodeEncodeError), files)
      | Some payload \<Rightarrow>
          if int (length payload) > as_max_bytes store then
            (Inl (ValueErr (u ''artifact exceeds max size'')), files)
          else
            let path = artifact_path store artifact_id filename
            in if \<not> can_write path then (Inl (builtin py B_OSError), files)
               else (Inr (JDict
                 [(u ''artifact_id'', JStr artifact_id),
                  (u ''type'', JStr (u ''diagnostic_bundle'')),
                  (u ''filename'', JStr filename),
                  (u ''content_type'', JStr content_type),
                  (u ''size_bytes'', JInt (int (length payload))),
                  (u ''expires_at'', JStr (isoformat py (now + as_ttl_hours store * 3600000000)))]),
                 dict_set files path payload))"

text \<open>
  A directory entry: its name, whether it is a regular file, its modification time in seconds.
  \<open>cleanup_expired\<close> unlinks the files older than the life time, in a directory that exists.
\<close>

type_synonym dir_entry = "ustr \<times> bool \<times> rat"

definition expired :: "artifact_store \<Rightarrow> rat \<Rightarrow> dir_entry \<Rightarrow> bool" where
  "expired store now e =
     (case e of (name, is_file, mtime) \<Rightarrow>
        is_file \<and> now - mtime > of_int (as_ttl_hours store * 60 * 60))"

definition cleanup_expired :: "artifact_store \<Rightarrow> rat \<Rightarrow> dir_entry list option \<Rightarrow> dir_entry list option" where
  "cleanup_expired store now dir = map_option (filter (\<lambda>e. \<not> expired store now e)) dir"

lemma create_text_artifact_Inr:
  assumes "create_text_artifact py store cw aid now fn c ct fs = (Inr j, fs')"
  shows "\<exists>payload. utf8_encode c = Some payload \<and> int (length payload) \<le> as_max_bytes store
     \<and> fs' = dict_set fs (artifact_path store aid fn) payload"
  using assms by (auto simp: create_text_artifact_def Let_def split: option.splits if_splits)

lemma create_text_artifact_Inl:
  "create_text_artifact py store cw aid now fn c ct fs = (Inl e, fs') \<Longrightarrow> fs' = fs"
  by (auto simp: create_text_artifact_def Let_def split: option.splits if_splits)

section \<open>Audit\<close>

text \<open>\<open>AuditLogger.write_task_event\<close>: the record of the line, in the order of the source.\<close>

definition audit_record :: "pylib \<Rightarrow> int \<Rightarrow> int \<Rightarrow> task \<Rightarrow> json" where
  "audit_record py now now' t = JDict
     [(u ''timestamp'', JStr (isoformat py now)),
      (u ''request_id'', JStr (t_request_id t)),
      (u ''task_id'', JStr (t_task_id t)),
      (u ''telegram_user_id'', JInt (t_telegram_user_id t)),
      (u ''user_role'', JStr (t_user_role t)),
      (u ''operation'', JStr (t_operation t)),
      (u ''vehicle_number'', JStr (v_number (t_vehicle t))),
      (u ''vehicle_ip'', JStr (v_ip (t_vehicle t))),
      (u ''result_state'', JStr (t_state t)),
      (u ''error_code'', opt_json (t_error_code t)),
      (u ''duration_sec'', opt_int (duration_sec now' t)),
      (u ''runner_mode'', JStr (t_runner_mode t)),
      (u ''risk_level'', JStr (t_risk t)),
      (u ''state_changing'', JBool (t_state_changing t)),
      (u ''cleanup_failed'', JBool (t_cleanup_failed t))]"

text \<open>The line is appended, unless opening or writing the log raises.\<close>

definition write_task_event :: "pylib \<Rightarrow> bool \<Rightarrow> int \<Rightarrow> int \<Rightarrow> task \<Rightarrow> json list \<Rightarrow> json list" where
  "write_task_event py log_ok now now' t lines =
     (if log_ok then lines @ [audit_record py now now' t] else lines)"

end
