(* ===== verification/Runner.thy ===== *)
theory Runner
  imports Artifacts_Audit
begin

text \<open>
  \<open>runner.py\<close>: the local runners and the client of the runner daemon. A run is the list of the
  state callbacks it makes and its outcome (a result, or what it raises); what the network,
  the clock and the file system answer is the environment. A client that polls for ever
  has no run.
\<close>

section \<open>Results and environments\<close>

record runner_result =
  rr_summary :: ustr
  rr_data :: jdict
  rr_artifacts :: "json list option"
  rr_warnings :: "json list option"

type_synonym callback = "ustr \<times> ustr"

type_synonym outcome = "runner_result res"

type_synonym run = "callback list \<times> outcome \<times> files"

text \<open>
  An HTTP exchange with the daemon: a JSON body, an exception while the body is read or parsed,
  an HTTP error with its body (\<open>None\<close> when it is no JSON), or no connection.
\<close>

datatype http_reply =
    HttpOk json
  | HttpRaises exn
  | HttpStatusError "json option"
  | HttpUnavailable

record runner_env =
  re_http :: "nat \<Rightarrow> http_reply"
  re_tcp :: "ustr \<Rightarrow> int \<Rightarrow> bool"
  re_uuid :: ustr
  re_now :: int
  re_can_write :: "ustr \<Rightarrow> bool"
  re_files :: files

definition plain_result :: "ustr \<Rightarrow> jdict \<Rightarrow> runner_result" where
  "plain_result summary data =
     \<lparr> rr_summary = summary, rr_data = data, rr_artifacts = None, rr_warnings = None \<rparr>"

section \<open>The dry run\<close>

definition simulate_lifecycle :: "callback list" where
  "simulate_lifecycle =
     [(u ''starting_vpn'', msg_phase_starting_vpn),
      (u ''vpn_connected'', msg_phase_vpn_connected),
      (u ''checking_vehicle'', msg_phase_checking_vehicle),
      (u ''running_operation'', msg_phase_running_operation),
      (u ''collecting_result'', msg_phase_collecting)]"

definition dry_operation_result :: "pylib \<Rightarrow> artifact_store \<Rightarrow> runner_env \<Rightarrow> task \<Rightarrow> outcome \<times> files" where
  "dry_operation_result py store env t =
     (if t_operation t = u ''vehicle_reachability'' then
        (Inr (plain_result msg_dry_reachable
          [(u ''tcp'', JDict [(u ''22'', JBool True), (u ''443'', JBool True), (u ''80'', JBool False)]),
           (u ''ping'', JNull)]), re_files env)
      else if t_operation t = u ''basic_status'' then
        (Inr (plain_result msg_dry_status_ok
          [(u ''hostname'', JStr (u ''dry-run-vehicle'')),
           (u ''uptime'', JStr (u ''2 days, 04:11'')),
           (u ''date'', JStr (u ''2026-06-29T10:15:42Z'')),
           (u ''disk'', JDict [(u ''root_used_percent'', JInt 41)]),
           (u ''memory'', JDict [(u ''used_percent'', JInt 53)]),
           (u ''ssh_22'', JBool True),
           (u ''https_443'', JBool True),
           (u ''services'', JDict [(u ''mnt-brd'', JStr (u ''active'')), (u ''mnt-rout'', JStr (u ''active''))])]),
         re_files env)
      else if t_operation t = u ''validators_status'' then
        (Inr (plain_result msg_dry_validators_ok
          [(u ''validators'', JList
             [JDict [(u ''id'', JStr (u ''front'')), (u ''reachable'', JBool True), (u ''status'', JStr (u ''ok''))],
              JDict [(u ''id'', JStr (u ''rear'')), (u ''reachable'', JBool True), (u ''status'', JStr (u ''ok''))]]),
           (u ''read_only'', JBool True)]), re_files env)
      else if t_operation t = u ''collect_bundle_light'' then
        (case create_text_artifact py store (re_can_write env) (re_uuid env) (re_now env)
                (u ''vehicle-'' @ v_number (t_vehicle t) @ u ''-collect-bundle-light.txt'')
                (u ''dry-run diagnostic bundle'' @ [10] @ u ''secrets: redacted'' @ [10])
                (u ''text/plain'') (re_files env) of
           (Inl e, fs) \<Rightarrow> (Inl e, fs)
         | (Inr artifact, fs) \<Rightarrow>
             (Inr \<lparr> rr_summary = msg_dry_bundle_done,
                    rr_data = [(u ''bundle'', JStr (u ''light'')), (u ''read_only'', JBool True)],
                    rr_artifacts = Some [artifact], rr_warnings = None \<rparr>, fs))
      else (Inr (plain_result msg_operation_done []), re_files env))"

definition dry_run :: "pylib \<Rightarrow> artifact_store \<Rightarrow> runner_env \<Rightarrow> task \<Rightarrow> vpn_credentials \<Rightarrow> run option" where
  "dry_run py store env t vpn =
     (case dry_operation_result py store env t of (out, fs) \<Rightarrow> Some (simulate_lifecycle, out, fs))"

section \<open>The local runner of an existing container\<close>

definition existing_container_run :: "pylib \<Rightarrow> artifact_store \<Rightarrow> runner_env \<Rightarrow> task \<Rightarrow> vpn_credentials
    \<Rightarrow> run option" where
  "existing_container_run py store env t vpn =
     (let before = [(u ''starting_vpn'', msg_existing_use),
                    (u ''vpn_connected'', msg_existing_selected),
                    (u ''checking_vehicle'', msg_checking_tcp)];
          ip = v_ip (t_vehicle t);
          tcp = [(u ''22'', JBool (re_tcp env ip 22)), (u ''443'', JBool (re_tcp env ip 443)),
                 (u ''80'', JBool (re_tcp env ip 80))]
      in if \<not> (re_tcp env ip 22 \<or> re_tcp env ip 443 \<or> re_tcp env ip 80)
         then Some (before, Inl (RunnerFailure (u ''vehicle_unreachable'') msg_unreachable_ports), re_files env)
         else Some (before @ [(u ''running_operation'', msg_running_read_only),
                              (u ''collecting_result'', msg_phase_collecting)],
                    Inr (plain_result msg_existing_reachable
                      [(u ''tcp'', JDict tcp),
                       (u ''runner_note'', JStr (u ''existing_container mode expects execution inside VPN namespace''))]),
                    re_files env))"

section \<open>The job container placeholder\<close>

definition job_container_run :: "pylib \<Rightarrow> artifact_store \<Rightarrow> runner_env \<Rightarrow> task \<Rightarrow> vpn_credentials
    \<Rightarrow> run option" where
  "job_container_run py store env t vpn =
     Some ([(u ''starting_vpn'', msg_job_container_prepare)],
           Inl (RunnerFailure (u ''vpn_client_error'') msg_job_container_needs_daemon), re_files env)"

section \<open>The client of the runner daemon\<close>

text \<open>\<open>_request\<close>: an error body that is JSON but no object raises on \<open>get\<close>.\<close>

definition runner_http_failure :: "pylib \<Rightarrow> jdict \<Rightarrow> exn" where
  "runner_http_failure py err =
     RunnerFailure (py_str py (py_or (jget err (u ''error_code'')) (JStr (u ''runner_http_error''))))
       (py_str py (py_or (jget err (u ''message'')) (JStr (u ''Runner daemon HTTP error''))))"

definition runner_request :: "pylib \<Rightarrow> http_reply \<Rightarrow> json res" where
  "runner_request py reply =
     (case reply of
        HttpOk j \<Rightarrow> Inr j
      | HttpRaises e \<Rightarrow> Inl e
      | HttpStatusError None \<Rightarrow> Inl (runner_http_failure py [])
      | HttpStatusError (Some (JDict err)) \<Rightarrow> Inl (runner_http_failure py err)
      | HttpStatusError (Some _) \<Rightarrow> Inl (builtin py B_AttributeError)
      | HttpUnavailable \<Rightarrow> Inl (RunnerFailure (u ''runner_unavailable'') msg_runner_unavailable))"

definition create_job_payload :: "task \<Rightarrow> vpn_credentials \<Rightarrow> jdict" where
  "create_job_payload t vpn =
     [(u ''request_id'', JStr (t_request_id t)),
      (u ''runner_mode'', JStr (t_runner_mode t)),
      (u ''vehicle'', vehicle_response (t_vehicle t)),
      (u ''vpn'', JDict [(u ''mode'', JStr (vpn_mode vpn)), (u ''username'', JStr (vpn_username vpn)),
                        (u ''password'', JStr (vpn_password vpn))]),
      (u ''operation'', JStr (t_operation t)),
      (u ''params'', JDict (t_params t)),
      (u ''timeout_sec'', JInt (t_timeout_sec t))]"

definition FORWARDED_STATES :: "ustr list" where
  "FORWARDED_STATES = [u ''starting_vpn'', u ''vpn_connected'', u ''checking_vehicle'',
     u ''running_operation'', u ''collecting_result'', u ''cleanup'']"

definition dict_or_empty :: "json \<Rightarrow> jdict" where
  "dict_or_empty v = (case v of JDict d \<Rightarrow> d | _ \<Rightarrow> [])"

definition list_or_empty :: "json \<Rightarrow> json list" where
  "list_or_empty v = (case v of JList xs \<Rightarrow> xs | _ \<Rightarrow> [])"

text \<open>One look at a job: the callback it causes, and the outcome if the job has ended.\<close>

definition job_state :: "pylib \<Rightarrow> jdict \<Rightarrow> ustr" where
  "job_state py job = py_str py (get_or job (u ''state'') (JStr (u ''created'')))"

definition job_callback :: "pylib \<Rightarrow> jdict \<Rightarrow> callback list" where
  "job_callback py job =
     (let state = job_state py job
      in if state \<in> set FORWARDED_STATES
         then [(state, py_str py (get_or job (u ''phase_message'') (JStr state)))] else [])"

definition job_failure :: "pylib \<Rightarrow> jdict \<Rightarrow> ustr \<Rightarrow> ustr \<Rightarrow> exn" where
  "job_failure py job code message =
     RunnerFailure (py_str py (py_or (jget job (u ''error_code'')) (JStr code)))
       (py_str py (py_or (jget job (u ''message'')) (JStr message)))"

definition job_outcome :: "pylib \<Rightarrow> jdict \<Rightarrow> outcome option" where
  "job_outcome py job =
     (let state = job_state py job
      in if state = u ''finished'' then
           Some (Inr \<lparr> rr_summary = py_str py (get_or job (u ''summary'') (JStr msg_operation_done)),
                       rr_data = dict_or_empty (jget job (u ''data'')),
                       rr_artifacts = Some (list_or_empty (jget job (u ''artifacts''))),
                       rr_warnings = Some (list_or_empty (jget job (u ''warnings''))) \<rparr>)
         else if state = u ''timeout'' then
           Some (Inl (job_failure py job (u ''operation_timeout'') msg_operation_timeout))
         else if state = u ''failed'' then
           Some (Inl (job_failure py job (u ''runner_failed'') (u ''Runner job failed'')))
         else None)"

text \<open>
  One round of the loop on the job the daemon last returned: the callbacks it makes, and how it
  ends the run, if it does. A reply that is no object raises on \<open>get\<close>.
\<close>

definition poll_look :: "pylib \<Rightarrow> json \<Rightarrow> callback list \<times> outcome option" where
  "poll_look py job =
     (case job of
        JDict d \<Rightarrow> (job_callback py d, job_outcome py d)
      | _ \<Rightarrow> ([], Some (Inl (builtin py B_AttributeError))))"

text \<open>The loop of \<open>RunnerDaemonClient.run\<close>; \<open>n\<close> counts the exchanges.\<close>

partial_function (option) poll_job :: "pylib \<Rightarrow> (nat \<Rightarrow> http_reply) \<Rightarrow> nat \<Rightarrow> json
    \<Rightarrow> (callback list \<times> outcome) option" where
  "poll_job py http n job =
     (case snd (poll_look py job) of
        Some out \<Rightarrow> Some (fst (poll_look py job), out)
      | None \<Rightarrow>
          (case runner_request py (http n) of
             Inl e \<Rightarrow> Some (fst (poll_look py job), Inl e)
           | Inr job' \<Rightarrow>
               Option.bind (poll_job py http (Suc n) job')
                 (\<lambda>r. Some (fst (poll_look py job) @ fst r, snd r))))"

text \<open>\<open>RunnerDaemonClient.run\<close>: the first reply must be an object with a \<open>job_id\<close>.\<close>

definition daemon_client_run :: "pylib \<Rightarrow> artifact_store \<Rightarrow> runner_env \<Rightarrow> task \<Rightarrow> vpn_credentials
    \<Rightarrow> run option" where
  "daemon_client_run py store env t vpn =
     (case runner_request py (re_http env 0) of
        Inl e \<Rightarrow> Some ([], Inl e, re_files env)
      | Inr (JDict job) \<Rightarrow>
          (case dict_get job (u ''job_id'') of
             None \<Rightarrow> Some ([], Inl (builtin py B_KeyError), re_files env)
           | Some job_id \<Rightarrow>
               map_option (\<lambda>(evs, out). (evs, out, re_files env)) (poll_job py (re_http env) 1 (JDict job)))
      | Inr _ \<Rightarrow> Some ([], Inl (builtin py B_TypeError), re_files env))"

section \<open>The factory\<close>

datatype runner_kind = RunnerDaemonClient | DryRunRunner | ExistingContainerRunner | JobContainerRunner

definition create_runner :: "ustr \<Rightarrow> ustr option \<Rightarrow> runner_kind res" where
  "create_runner mode runner_url =
     (if runner_url \<noteq> None \<and> runner_url \<noteq> Some [] then Inr RunnerDaemonClient
      else if mode = u ''dry_run'' then Inr DryRunRunner
      else if mode = u ''existing_container'' then Inr ExistingContainerRunner
      else if mode = u ''job_container'' then Inr JobContainerRunner
      else Inl (ValueErr (u ''unknown runner mode: '' @ mode)))"

fun run_runner :: "runner_kind \<Rightarrow> pylib \<Rightarrow> artifact_store \<Rightarrow> runner_env \<Rightarrow> task \<Rightarrow> vpn_credentials
    \<Rightarrow> run option" where
  "run_runner DryRunRunner = dry_run"
| "run_runner ExistingContainerRunner = existing_container_run"
| "run_runner JobContainerRunner = job_container_run"
| "run_runner RunnerDaemonClient = daemon_client_run"

section \<open>Laws of the polling loop\<close>

text \<open>The loop with a bound on its rounds, and the two directions between them.\<close>

fun poll_fuel :: "pylib \<Rightarrow> (nat \<Rightarrow> http_reply) \<Rightarrow> nat \<Rightarrow> nat \<Rightarrow> json
    \<Rightarrow> (callback list \<times> outcome) option" where
  "poll_fuel py http 0 n job = None"
| "poll_fuel py http (Suc k) n job =
     (case snd (poll_look py job) of
        Some out \<Rightarrow> Some (fst (poll_look py job), out)
      | None \<Rightarrow>
          (case runner_request py (http n) of
             Inl e \<Rightarrow> Some (fst (poll_look py job), Inl e)
           | Inr job' \<Rightarrow>
               map_option (\<lambda>r. (fst (poll_look py job) @ fst r, snd r)) (poll_fuel py http k (Suc n) job')))"

lemma poll_fuel_job: "poll_fuel py http k n job = Some r \<Longrightarrow> poll_job py http n job = Some r"
proof (induction k arbitrary: n job r)
  case (Suc k)
  then show ?case
    by (subst poll_job.simps) (auto split: option.splits sum.splits)
qed simp

lemma poll_job_fuel:
  assumes "poll_job py http n job = Some r"
  shows "\<exists>k. poll_fuel py http k n job = Some r"
proof (rule poll_job.raw_induct
    [where P = "\<lambda>py http n job r. \<exists>k. poll_fuel py http k n job = Some r", OF _ assms])
  fix f py http n job r
  assume IH: "\<And>py http n job r. f py http n job = Some r \<Longrightarrow> \<exists>k. poll_fuel py http k n job = Some r"
    and eq: "(case snd (poll_look py job) of
        Some out \<Rightarrow> Some (fst (poll_look py job), out)
      | None \<Rightarrow>
          (case runner_request py (http n) of
             Inl e \<Rightarrow> Some (fst (poll_look py job), Inl e)
           | Inr job' \<Rightarrow> Option.bind (f py http (Suc n) job')
                 (\<lambda>r. Some (fst (poll_look py job) @ fst r, snd r)))) = Some r"
  show "\<exists>k. poll_fuel py http k n job = Some r"
  proof (cases "snd (poll_look py job)")
    case (Some out)
    with eq show ?thesis by (intro exI [of _ 1]) simp
  next
    case None
    show ?thesis
    proof (cases "runner_request py (http n)")
      case (Inl e)
      with None eq show ?thesis by (intro exI [of _ 1]) simp
    next
      case (Inr job')
      with None eq obtain r' where f: "f py http (Suc n) job' = Some r'"
        and r: "r = (fst (poll_look py job) @ fst r', snd r')"
        by (auto split: Option.bind_splits)
      from IH [OF f] obtain k where "poll_fuel py http k (Suc n) job' = Some r'" ..
      with None Inr r show ?thesis by (intro exI [of _ "Suc k"]) simp
    qed
  qed
qed

lemma poll_job_iff: "poll_job py http n job = Some r \<longleftrightarrow> (\<exists>k. poll_fuel py http k n job = Some r)"
  using poll_fuel_job poll_job_fuel by blast

text \<open>A daemon that keeps answering with a job that has not ended keeps the client for ever.\<close>

lemma poll_fuel_stuck:
  "poll_look py job = (cbs, None) \<Longrightarrow> (\<And>i. http i = HttpOk job) \<Longrightarrow> poll_fuel py http k n job = None"
  by (induction k arbitrary: n) (simp_all add: runner_request_def)

lemma poll_job_stuck:
  assumes "poll_look py job = (cbs, None)" and "\<And>i. http i = HttpOk job"
  shows "poll_job py http n job = None"
proof (rule ccontr)
  assume "poll_job py http n job \<noteq> None"
  then obtain r k where "poll_fuel py http k n job = Some r" by (auto simp: poll_job_iff)
  moreover have "poll_fuel py http k n job = None" by (rule poll_fuel_stuck [OF assms])
  ultimately show False by simp
qed

text \<open>
  The daemon answers with the objects \<open>jobs 0\<close>, \<open>jobs 1\<close>, \<open>\<dots>\<close>; the first that has ended is
  number \<open>k\<close>. Then the run is over after \<open>k\<close> exchanges, with the callbacks of every round.
\<close>

lemma poll_fuel_ends:
  assumes "\<And>i. i < k \<Longrightarrow> job_outcome py (jobs i) = None \<and> http (n + i) = HttpOk (JDict (jobs (Suc i)))"
    and "job_outcome py (jobs k) = Some out"
  shows "poll_fuel py http (Suc k) n (JDict (jobs 0)) =
     Some (concat (map (\<lambda>i. job_callback py (jobs i)) [0 ..< Suc k]), out)"
  using assms
proof (induction k arbitrary: n jobs)
  case 0
  then show ?case by (simp add: poll_look_def)
next
  case (Suc k)
  have "poll_fuel py http (Suc k) (Suc n) (JDict (jobs (Suc 0))) =
     Some (concat (map (\<lambda>i. job_callback py (jobs (Suc i))) [0 ..< Suc k]), out)"
  proof (rule Suc.IH)
    show "job_outcome py (jobs (Suc i)) = None \<and> http (Suc n + i) = HttpOk (JDict (jobs (Suc (Suc i))))"
      if "i < k" for i
      using Suc.prems(1) [of "Suc i"] that by simp
    show "job_outcome py (jobs (Suc k)) = Some out" by (rule Suc.prems(2))
  qed
  moreover have "job_outcome py (jobs 0) = None" "http n = HttpOk (JDict (jobs (Suc 0)))"
    using Suc.prems(1) [of 0] by simp_all
  moreover have "concat (map (\<lambda>i. job_callback py (jobs i)) [0 ..< Suc (Suc k)]) =
     job_callback py (jobs 0) @ concat (map (\<lambda>i. job_callback py (jobs (Suc i))) [0 ..< Suc k])"
    by (subst upt_conv_Cons) (simp_all add: map_Suc_upt [symmetric] comp_def del: upt_Suc)
  ultimately show ?case
    by (simp add: poll_look_def runner_request_def del: poll_fuel.simps(2) upt_Suc)
      (simp add: poll_look_def runner_request_def del: upt_Suc)
qed

text \<open>The callbacks of the first \<open>k\<close> rounds, whether or not the loop ends.\<close>

fun poll_rounds :: "pylib \<Rightarrow> (nat \<Rightarrow> http_reply) \<Rightarrow> nat \<Rightarrow> nat \<Rightarrow> json \<Rightarrow> callback list" where
  "poll_rounds py http 0 n job = []"
| "poll_rounds py http (Suc k) n job =
     fst (poll_look py job) @
     (case (snd (poll_look py job), runner_request py (http n)) of
        (None, Inr job') \<Rightarrow> poll_rounds py http k (Suc n) job'
      | _ \<Rightarrow> [])"

lemma poll_fuel_rounds:
  "poll_fuel py http k n job = Some (evs, out) \<Longrightarrow> poll_rounds py http k n job = evs"
  by (induction k arbitrary: n job evs) (auto split: option.splits sum.splits)

section \<open>The interface of a runner\<close>

text \<open>A runner reports only states of the lifecycle, and never a terminal one.\<close>

definition callbacks_ok :: "callback list \<Rightarrow> bool" where
  "callbacks_ok evs \<longleftrightarrow> (\<forall>(s, m) \<in> set evs. s \<in> set TASK_STATES \<and> \<not> terminal_state s)"

lemma callbacks_ok_simps [simp]:
  "callbacks_ok []" "callbacks_ok (a @ b) \<longleftrightarrow> callbacks_ok a \<and> callbacks_ok b"
  "callbacks_ok ((s, m) # evs) \<longleftrightarrow> s \<in> set TASK_STATES \<and> \<not> terminal_state s \<and> callbacks_ok evs"
  by (auto simp: callbacks_ok_def)

locale runner =
  fixes run :: "runner_env \<Rightarrow> task \<Rightarrow> vpn_credentials \<Rightarrow> run option"
  assumes reports: "run env t vpn = Some (evs, out, fs) \<Longrightarrow> callbacks_ok evs"

lemma job_callback_ok: "callbacks_ok (job_callback py d)"
  by (auto simp: job_callback_def Let_def FORWARDED_STATES_def TASK_STATES_def TERMINAL_STATES_def)

lemma poll_fuel_callbacks: "poll_fuel py http k n job = Some (evs, out) \<Longrightarrow> callbacks_ok evs"
proof (induction k arbitrary: n job evs)
  case (Suc k)
  have "callbacks_ok (fst (poll_look py job))"
    by (auto simp: poll_look_def job_callback_ok split: json.splits)
  with Suc show ?case by (fastforce split: option.splits sum.splits)
qed simp

lemma poll_rounds_callbacks: "callbacks_ok (poll_rounds py http k n job)"
proof (induction k arbitrary: n job)
  case (Suc k)
  have "callbacks_ok (fst (poll_look py job))"
    by (auto simp: poll_look_def job_callback_ok split: json.splits)
  with Suc show ?case by (auto split: option.splits sum.splits)
qed simp

lemma daemon_client_callbacks: "daemon_client_run py store env t vpn = Some (evs, out, fs) \<Longrightarrow> callbacks_ok evs"
  by (auto simp: daemon_client_run_def poll_job_iff dest: poll_fuel_callbacks
      split: sum.splits json.splits option.splits)

interpretation dry: runner "dry_run py store" for py store
  by unfold_locales
    (auto simp: dry_run_def simulate_lifecycle_def TASK_STATES_def TERMINAL_STATES_def split: prod.splits)

interpretation existing: runner "existing_container_run py store" for py store
  by unfold_locales
    (auto simp: existing_container_run_def Let_def TASK_STATES_def TERMINAL_STATES_def split: if_splits)

interpretation job_container: runner "job_container_run py store" for py store
  by unfold_locales (auto simp: job_container_run_def TASK_STATES_def TERMINAL_STATES_def)

interpretation daemon_client: runner "daemon_client_run py store" for py store
  by unfold_locales (rule daemon_client_callbacks)

interpretation any_runner: runner "run_runner kind py store" for kind py store
  by unfold_locales
    (cases kind; auto dest: dry.reports existing.reports job_container.reports daemon_client.reports)

section \<open>What can be seen of a run\<close>

text \<open>
  The callbacks of a run in progress and how it will end: a run that returns or raises makes the
  callbacks of its list; a client that polls for ever makes those of some number of rounds.
\<close>

definition possible_run :: "runner_kind \<Rightarrow> pylib \<Rightarrow> artifact_store \<Rightarrow> runner_env \<Rightarrow> task \<Rightarrow> vpn_credentials
    \<Rightarrow> callback list \<Rightarrow> outcome option \<Rightarrow> bool" where
  "possible_run kind py store env t vpn evs out \<longleftrightarrow>
     (case run_runner kind py store env t vpn of
        Some (evs', out', fs) \<Rightarrow> evs = evs' \<and> out = Some out'
      | None \<Rightarrow> out = None \<and>
          (\<exists>k job. runner_request py (re_http env 0) = Inr job \<and> evs = poll_rounds py (re_http env) k 1 job))"

lemma possible_run_callbacks: "possible_run kind py store env t vpn evs out \<Longrightarrow> callbacks_ok evs"
  by (auto simp: possible_run_def dest: any_runner.reports split: option.splits intro: poll_rounds_callbacks)

lemma possible_run_exists: "\<exists>evs out. possible_run kind py store env t vpn evs out"
proof (cases "run_runner kind py store env t vpn")
  case (Some r)
  then show ?thesis by (cases r) (auto simp: possible_run_def)
next
  case None
  then have "kind = RunnerDaemonClient"
    by (cases kind) (auto simp: dry_run_def existing_container_run_def job_container_run_def Let_def
        split: prod.splits if_splits)
  with None obtain job where "runner_request py (re_http env 0) = Inr job"
    by (auto simp: daemon_client_run_def split: sum.splits)
  with None show ?thesis by (auto simp: possible_run_def)
qed

end
