(* ===== verification/Py_Utf8.thy ===== *)
theory Py_Utf8
  imports Py_Json
begin

text \<open>
  The UTF-8 decoder: \<open>bytes.decode("utf-8")\<close> in its strict form and with
  \<open>errors="ignore"\<close>, and how both relate to the encoder: decoding inverts encoding, and a
  truncated encoding loses exactly the characters it cuts.
\<close>

section \<open>Decoding\<close>

definition is_cont :: "nat \<Rightarrow> bool" where
  "is_cont b \<longleftrightarrow> 128 \<le> b \<and> b < 192"

text \<open>The character at the head of a byte sequence, with its length, if there is a valid one.\<close>

fun utf8_next :: "nat list \<Rightarrow> (nat \<times> nat) option" where
  "utf8_next [] = None"
| "utf8_next (a # bs) =
     (if a < 128 then Some (a, 1)
      else if 194 \<le> a \<and> a < 224 then
        (case bs of b # _ \<Rightarrow> if is_cont b then Some ((a - 192) * 64 + (b - 128), 2) else None
         | _ \<Rightarrow> None)
      else if 224 \<le> a \<and> a < 240 then
        (case bs of b # c # _ \<Rightarrow>
            if is_cont b \<and> is_cont c \<and> (a = 224 \<longrightarrow> 160 \<le> b) \<and> (a = 237 \<longrightarrow> b < 160)
            then Some ((a - 224) * 4096 + (b - 128) * 64 + (c - 128), 3) else None
         | _ \<Rightarrow> None)
      else if 240 \<le> a \<and> a < 245 then
        (case bs of b # c # d # _ \<Rightarrow>
            if is_cont b \<and> is_cont c \<and> is_cont d \<and> (a = 240 \<longrightarrow> 144 \<le> b) \<and> (a = 244 \<longrightarrow> b < 144)
            then Some ((a - 240) * 262144 + (b - 128) * 4096 + (c - 128) * 64 + (d - 128), 4) else None
         | _ \<Rightarrow> None)
      else None)"

text \<open>
  With \<open>errors="ignore"\<close> the bytes of an invalid sequence are dropped. Its continuation bytes
  start no character, so dropping one byte at a time drops the same bytes.
\<close>

function utf8_decode_ignore :: "nat list \<Rightarrow> ustr" where
  "utf8_decode_ignore [] = []"
| "utf8_decode_ignore (b # bs) =
     (case utf8_next (b # bs) of
        None \<Rightarrow> utf8_decode_ignore bs
      | Some (c, k) \<Rightarrow> c # utf8_decode_ignore (drop (k - 1) bs))"
  by pat_completeness auto
termination
  by (relation "measure length") auto

function utf8_decode :: "nat list \<Rightarrow> ustr option" where
  "utf8_decode [] = Some []"
| "utf8_decode (b # bs) =
     (case utf8_next (b # bs) of
        None \<Rightarrow> None
      | Some (c, k) \<Rightarrow> map_option ((#) c) (utf8_decode (drop (k - 1) bs)))"
  by pat_completeness auto
termination
  by (relation "measure length") auto

text \<open>
  With \<open>errors="replace"\<close> each longest sequence of bytes that begins a character but does not end it
  is replaced by one \<open>U+FFFD\<close>: this is its length.
\<close>

fun utf8_bad :: "nat list \<Rightarrow> nat" where
  "utf8_bad (a # b # c # rest) =
     (if 224 \<le> a \<and> a < 240 \<and> is_cont b \<and> (a = 224 \<longrightarrow> 160 \<le> b) \<and> (a = 237 \<longrightarrow> b < 160) then 2
      else if 240 \<le> a \<and> a < 245 \<and> is_cont b \<and> (a = 240 \<longrightarrow> 144 \<le> b) \<and> (a = 244 \<longrightarrow> b < 144)
      then (if is_cont c then 3 else 2) else 1)"
| "utf8_bad [a, b] =
     (if 224 \<le> a \<and> a < 240 \<and> is_cont b \<and> (a = 224 \<longrightarrow> 160 \<le> b) \<and> (a = 237 \<longrightarrow> b < 160)
         \<or> 240 \<le> a \<and> a < 245 \<and> is_cont b \<and> (a = 240 \<longrightarrow> 144 \<le> b) \<and> (a = 244 \<longrightarrow> b < 144) then 2 else 1)"
| "utf8_bad _ = 1"

function utf8_decode_replace :: "nat list \<Rightarrow> ustr" where
  "utf8_decode_replace [] = []"
| "utf8_decode_replace (b # bs) =
     (case utf8_next (b # bs) of
        None \<Rightarrow> 65533 # utf8_decode_replace (drop (utf8_bad (b # bs) - 1) bs)
      | Some (c, k) \<Rightarrow> c # utf8_decode_replace (drop (k - 1) bs))"
  by pat_completeness auto
termination
  by (relation "measure length") auto

lemma decode_replace_valid: "utf8_decode bs = Some s \<Longrightarrow> utf8_decode_replace bs = s"
  by (induction bs arbitrary: s rule: utf8_decode.induct) (auto split: option.splits)

section \<open>Decoding inverts encoding\<close>

definition scalar :: "nat \<Rightarrow> bool" where
  "scalar c \<longleftrightarrow> c < 1114112 \<and> \<not> is_surrogate c"

lemma utf8_char_Cons: obtains b bs where "utf8_char c = b # bs"
  by (cases "utf8_char c") (auto simp: utf8_char_def split: if_splits)

text \<open>The digits of a number in base 64.\<close>

lemma base64_digits:
  fixes c :: nat
  shows "c div 64 * 64 + c mod 64 = c"
    and "c div 4096 * 4096 + c div 64 mod 64 * 64 + c mod 64 = c"
    and "c div 262144 * 262144 + c div 4096 mod 64 * 4096 + c div 64 mod 64 * 64 + c mod 64 = c"
proof -
  have q: "c div 64 div 64 = c div 4096" "c div 4096 div 64 = c div 262144"
    by (simp_all add: div_mult2_eq [symmetric])
  have "c div 64 = c div 4096 * 64 + c div 64 mod 64"
    using div_mult_mod_eq [of "c div 64" 64] q by simp
  moreover have "c div 4096 = c div 262144 * 64 + c div 4096 mod 64"
    using div_mult_mod_eq [of "c div 4096" 64] q by simp
  moreover show "c div 64 * 64 + c mod 64 = c" by simp
  ultimately show "c div 4096 * 4096 + c div 64 mod 64 * 64 + c mod 64 = c"
    and "c div 262144 * 262144 + c div 4096 mod 64 * 4096 + c div 64 mod 64 * 64 + c mod 64 = c"
    by linarith+
qed

lemma utf8_next_char:
  assumes "scalar c"
  shows "utf8_next (utf8_char c @ rest) = Some (c, length (utf8_char c))"
proof -
  consider "c < 128" | "128 \<le> c" "c < 2048" | "2048 \<le> c" "c < 65536" | "65536 \<le> c" by linarith
  then show ?thesis
  proof cases
    case 1
    then show ?thesis by (simp add: utf8_char_def)
  next
    case 2
    have "2 \<le> c div 64" "c div 64 < 32" using 2 by simp_all
    moreover have "c div 64 * 64 + c mod 64 = c" by simp
    ultimately show ?thesis using 2 by (simp add: utf8_char_def is_cont_def)
  next
    case 3
    define p q r where "p = c div 4096" and "q = c div 64 mod 64" and "r = c mod 64"
    have lt: "q < 64" "r < 64" by (simp_all add: q_def r_def)
    have c: "c = p * 4096 + q * 64 + r" using base64_digits(2) [of c] by (simp add: p_def q_def r_def)
    from 3 have p: "p < 16" by (simp add: p_def)
    have low: "p = 0 \<Longrightarrow> 32 \<le> q" using 3 c lt by linarith
    have sur: "p = 13 \<Longrightarrow> q < 32"
      using assms c lt unfolding scalar_def is_surrogate_def by linarith
    have "utf8_char c = [224 + p, 128 + q, 128 + r]"
      using 3 by (simp add: utf8_char_def p_def q_def r_def)
    with p lt low sur c show ?thesis by (auto simp: is_cont_def)
  next
    case 4
    define e p q r where "e = c div 262144" and "p = c div 4096 mod 64" and "q = c div 64 mod 64"
      and "r = c mod 64"
    have lt: "p < 64" "q < 64" "r < 64" by (simp_all add: p_def q_def r_def)
    have c: "c = e * 262144 + p * 4096 + q * 64 + r"
      using base64_digits(3) [of c] by (simp add: e_def p_def q_def r_def)
    from assms have e: "e < 5"
      unfolding e_def by (intro less_mult_imp_div_less) (simp add: scalar_def)
    have low: "e = 0 \<Longrightarrow> 16 \<le> p" using 4 c lt by linarith
    have high: "e = 4 \<Longrightarrow> p < 16"
      using assms c lt unfolding scalar_def by linarith
    have "utf8_char c = [240 + e, 128 + p, 128 + q, 128 + r]"
      using 4 by (simp add: utf8_char_def e_def p_def q_def r_def)
    with e lt low high c show ?thesis by (auto simp: is_cont_def)
  qed
qed

text \<open>A character cut short is no character.\<close>

lemma conts_ignored: "list_all is_cont bs \<Longrightarrow> utf8_decode_ignore bs = []"
  by (induction bs) (auto simp: is_cont_def)

lemma utf8_next_cut:
  assumes "scalar c" and "k < length (utf8_char c)"
  shows "utf8_decode_ignore (take k (utf8_char c)) = []"
proof -
  have cont: "is_cont (128 + x mod 64)" for x by (simp add: is_cont_def)
  have head: "utf8_next (a # take n bs) = None \<Longrightarrow> list_all is_cont bs \<Longrightarrow>
      utf8_decode_ignore (a # take n bs) = []" for a n bs
    by (simp add: conts_ignored list_all_length)
  consider "c < 128" | "128 \<le> c" "c < 2048" | "2048 \<le> c" "c < 65536" | "65536 \<le> c" by linarith
  then show ?thesis
  proof cases
    case 1
    with assms(2) show ?thesis by (simp add: utf8_char_def)
  next
    case 2
    define a b where "a = 192 + c div 64" and "b = 128 + c mod 64"
    have "utf8_char c = [a, b]" "194 \<le> a" "a < 224" using 2 by (simp_all add: a_def b_def utf8_char_def)
    with assms(2) show ?thesis by (cases k) auto
  next
    case 3
    define a b d where "a = 224 + c div 4096" and "b = 128 + c div 64 mod 64" and "d = 128 + c mod 64"
    have u: "utf8_char c = a # [b, d]" and a: "224 \<le> a" "a < 240"
      using 3 by (simp_all add: a_def b_def d_def utf8_char_def)
    have "list_all is_cont [b, d]" using cont by (simp add: b_def d_def)
    with assms(2) a head [of a 0 "[b, d]"] head [of a 1 "[b, d]"] show ?thesis
      unfolding u by (cases k) (auto simp: less_Suc_eq)
  next
    case 4
    define a b d e where "a = 240 + c div 262144" and "b = 128 + c div 4096 mod 64"
      and "d = 128 + c div 64 mod 64" and "e = 128 + c mod 64"
    have u: "utf8_char c = a # [b, d, e]" and a: "240 \<le> a"
      using 4 by (simp_all add: a_def b_def d_def e_def utf8_char_def)
    have "list_all is_cont [b, d, e]" using cont by (simp add: b_def d_def e_def)
    with assms(2) a head [of a 0 "[b, d, e]"] head [of a 1 "[b, d, e]"] head [of a 2 "[b, d, e]"]
    show ?thesis
      unfolding u by (cases k) (auto simp: less_Suc_eq)
  qed
qed

lemma utf8_encode_scalar:
  "(\<And>c. c \<in> set s \<Longrightarrow> scalar c) \<Longrightarrow> utf8_encode s = Some (concat (map utf8_char s))"
  by (auto simp: utf8_encode_def scalar_def)

lemma utf8_encode_Some:
  assumes "utf8_encode s = Some bytes" and "valid_ustr s"
  shows "bytes = concat (map utf8_char s)" and "\<And>c. c \<in> set s \<Longrightarrow> scalar c"
  using assms by (auto simp: utf8_encode_def valid_ustr_def scalar_def split: if_splits)

lemma decode_ignore_char:
  assumes "scalar c"
  shows "utf8_decode_ignore (utf8_char c @ rest) = c # utf8_decode_ignore rest"
proof -
  obtain b bs where b: "utf8_char c = b # bs" by (rule utf8_char_Cons)
  with utf8_next_char [OF assms, of rest] show ?thesis by simp
qed

lemma decode_char:
  assumes "scalar c"
  shows "utf8_decode (utf8_char c @ rest) = map_option ((#) c) (utf8_decode rest)"
proof -
  obtain b bs where b: "utf8_char c = b # bs" by (rule utf8_char_Cons)
  with utf8_next_char [OF assms, of rest] show ?thesis by simp
qed

lemma utf8_decode_encode:
  assumes "utf8_encode s = Some bytes" and "valid_ustr s"
  shows "utf8_decode bytes = Some s"
proof -
  have "utf8_decode (concat (map utf8_char s)) = Some s" if "\<And>c. c \<in> set s \<Longrightarrow> scalar c" for s
    using that by (induction s) (simp_all add: decode_char)
  with utf8_encode_Some [OF assms] show ?thesis by simp
qed

text \<open>Truncating an encoding leaves the characters that fit, and no part of the next.\<close>

lemma decode_ignore_truncated:
  assumes "\<And>c. c \<in> set s \<Longrightarrow> scalar c"
  shows "\<exists>k \<le> length s. utf8_decode_ignore (take n (concat (map utf8_char s))) = take k s
    \<and> length (concat (map utf8_char (take k s))) \<le> n
    \<and> (k < length s \<longrightarrow> n < length (concat (map utf8_char (take (Suc k) s))))"
  using assms
proof (induction s arbitrary: n)
  case (Cons c s)
  have c: "scalar c" using Cons.prems by simp
  show ?case
  proof (cases "n < length (utf8_char c)")
    case True
    with utf8_next_cut [OF c True] show ?thesis
      by (intro exI [of _ 0]) simp
  next
    case False
    from Cons.IH [of "n - length (utf8_char c)"] Cons.prems obtain k where
      "k \<le> length s"
      "utf8_decode_ignore (take (n - length (utf8_char c)) (concat (map utf8_char s))) = take k s"
      "length (concat (map utf8_char (take k s))) \<le> n - length (utf8_char c)"
      "k < length s \<longrightarrow> n - length (utf8_char c) < length (concat (map utf8_char (take (Suc k) s)))"
      by auto
    with False decode_ignore_char [OF c] show ?thesis
      by (intro exI [of _ "Suc k"]) auto
  qed
qed simp

end
