(* ===== verification/Worker_Service.thy ===== *)
theory Worker_Service
  imports Config Operations Security Rate_Limiter Vehicle_Inventory Runner Py_Utf8
begin

text \<open>
  \<open>WorkerService\<close> of \<open>service.py\<close>: the state the lock protects, and every operation on it. Task
  objects are shared by two dictionaries and mutated in place, so they live in a heap: a task
  is an index into \<open>ws_tasks\<close>, and the dictionaries hold indices.
\<close>

section \<open>State\<close>

record worker_state =
  ws_tasks :: "task list"
  ws_tasks_by_id :: "(ustr, nat) dict"
  ws_tasks_by_request_id :: "(ustr, nat) dict"
  ws_secrets_by_task_id :: "(ustr, vpn_credentials) dict"
  ws_rate_limiter :: rate_limiter
  ws_inventory :: "inventory option"
  ws_audit :: "json list"

definition new_worker :: "worker_config \<Rightarrow> worker_state" where
  "new_worker cfg =
     \<lparr> ws_tasks = [], ws_tasks_by_id = [], ws_tasks_by_request_id = [], ws_secrets_by_task_id = [],
       ws_rate_limiter = new_rate_limiter (wc_global_create_limit_per_minute cfg)
                           (wc_user_create_limit_per_minute cfg),
       ws_inventory = map_option (\<lambda>_. new_inventory) (wc_vehicle_inventory_path cfg),
       ws_audit = [] \<rparr>"

definition worker_artifact_store :: "worker_config \<Rightarrow> artifact_store" where
  "worker_artifact_store cfg =
     \<lparr> as_directory = wc_artifact_dir cfg, as_ttl_hours = wc_artifact_ttl_hours cfg,
       as_max_bytes = wc_max_artifact_bytes cfg \<rparr>"

text \<open>\<open>_active_task\<close>: the first task, in order of creation, that has not ended.\<close>

definition active_task :: "worker_state \<Rightarrow> nat option" where
  "active_task ws = find (\<lambda>r. \<not> terminal_state (t_state (ws_tasks ws ! r))) (map snd (ws_tasks_by_id ws))"

definition health :: "worker_state \<Rightarrow> json" where
  "health ws = JDict [(u ''ok'', JBool True), (u ''worker'', JStr (u ''bo-vpn-worker'')),
     (u ''status'', JStr (if active_task ws \<noteq> None then u ''busy'' else u ''idle''))]"

section \<open>Reading the payload\<close>

text \<open>\<open>_require_str(payload, key, label)\<close> and \<open>_require_int\<close>; \<open>True\<close> is an int for Python.\<close>

definition require_str :: "jdict \<Rightarrow> ustr \<Rightarrow> ustr \<Rightarrow> ustr res" where
  "require_str payload key label =
     (case jget payload key of
        JStr s \<Rightarrow> if s = [] then Inl (ValidationError (label @ msg_suffix_required)) else Inr s
      | _ \<Rightarrow> Inl (ValidationError (label @ msg_suffix_required)))"

definition require_int :: "jdict \<Rightarrow> ustr \<Rightarrow> int res" where
  "require_int payload key =
     (case jget payload key of
        JInt n \<Rightarrow> Inr n
      | JBool b \<Rightarrow> Inr (if b then 1 else 0)
      | _ \<Rightarrow> Inl (ValidationError (key @ msg_suffix_required)))"

definition require_dict :: "jdict \<Rightarrow> ustr \<Rightarrow> ustr \<Rightarrow> jdict res" where
  "require_dict payload key message =
     (case jget payload key of JDict d \<Rightarrow> Inr d | _ \<Rightarrow> Inl (ValidationError message))"

text \<open>
  \<open>_build_vehicle\<close>: an address in the request wins; otherwise the inventory is asked, through the
  resolver it offers (\<open>None\<close> when the worker has no inventory).
\<close>

definition build_vehicle :: "(jdict \<Rightarrow> 'c \<Rightarrow> inventory_record res \<times> 'c) \<Rightarrow> jdict
    \<Rightarrow> 'c option \<Rightarrow> vehicle res \<times> 'c option" where
  "build_vehicle resolve vehicle_raw inventory =
     (case nonblank_str (jget vehicle_raw (u ''ip'')) of
        Some ip \<Rightarrow>
          (bindE (require_str vehicle_raw (u ''number'') (u ''vehicle.number''))
             (\<lambda>number. Inr \<lparr> v_number = number, v_ip = py_strip ip \<rparr>), inventory)
      | None \<Rightarrow>
          (case inventory of
             None \<Rightarrow> (Inl (ip_not_found (u ''Vehicle inventory is not configured'')), None)
           | Some c \<Rightarrow>
               (case resolve vehicle_raw c of
                  (Inl e, c') \<Rightarrow> (Inl e, Some c')
                | (Inr r, c') \<Rightarrow> (Inr \<lparr> v_number = record_number r, v_ip = ir_ip r \<rparr>, Some c'))))"

definition build_vpn :: "jdict \<Rightarrow> vpn_credentials res" where
  "build_vpn vpn_raw =
     bindE (require_str vpn_raw (u ''mode'') (u ''vpn.mode'')) (\<lambda>mode.
       if mode = u ''inline_once'' then
         bindE (require_str vpn_raw (u ''username'') (u ''vpn.username'')) (\<lambda>username.
         bindE (require_str vpn_raw (u ''password'') (u ''vpn.password'')) (\<lambda>password.
         Inr \<lparr> vpn_mode = mode, vpn_username = username, vpn_password = password \<rparr>))
       else if mode = u ''container_secret'' then
         Inr \<lparr> vpn_mode = mode, vpn_username = [], vpn_password = [] \<rparr>
       else Inl (ValidationError msg_vpn_mode_unsupported))"

text \<open>
  What a creation reads from outside: the monotonic clock, the two readings of \<open>utc_now\<close> of the new
  task, the fresh identifier, and the inventory file.
\<close>

record create_env =
  ce_monotonic :: rat
  ce_now :: int
  ce_now' :: int
  ce_uuid :: ustr
  ce_file :: inv_file

text \<open>The rest of \<open>_build_task\<close>, once the vehicle is known.\<close>

definition build_task_fields :: "pylib \<Rightarrow> worker_config \<Rightarrow> create_env \<Rightarrow> jdict \<Rightarrow> ustr \<Rightarrow> vehicle
    \<Rightarrow> (task \<times> vpn_credentials) res" where
  "build_task_fields py cfg env payload fingerprint vehicle =
     bindE (require_dict payload (u ''vpn'') msg_vpn_required) (\<lambda>vpn_raw.
     bindE (build_vpn vpn_raw) (\<lambda>vpn.
     bindE (require_str payload (u ''operation'') (u ''operation'')) (\<lambda>operation_name.
     bindE (get_operation operation_name) (\<lambda>operation.
     let user_role = py_str py (get_or payload (u ''user_role'')
                                 (get_or payload (u ''role'') (JStr (u ''engineer'')))) in
     bindE (raise_if (user_role \<notin> set (op_roles_allowed operation))
              (WorkerError 403 (u ''operation_not_allowed'') msg_role_forbidden)) (\<lambda>_.
     bindE (case get_or payload (u ''params'') (JDict []) of
              JDict d \<Rightarrow> Inr d | _ \<Rightarrow> Inl (ValidationError msg_params_object)) (\<lambda>params.
     bindE (py_int py (get_or payload (u ''timeout_sec'') (JInt (op_timeout_sec_default operation)))) (\<lambda>timeout_sec.
     bindE (raise_if (timeout_sec \<le> 0) (ValidationError msg_timeout_positive)) (\<lambda>_.
     let runner_mode = py_str py (get_or payload (u ''runner_mode'') (JStr (wc_runner_mode cfg))) in
     bindE (require_str payload (u ''request_id'') (u ''request_id'')) (\<lambda>request_id.
     bindE (require_int payload (u ''telegram_user_id'')) (\<lambda>user_id.
     Inr (new_task (ce_uuid env) request_id user_id user_role vehicle (op_name operation) params
            timeout_sec fingerprint runner_mode (op_risk operation) (op_state_changing operation)
            (ce_now env) (ce_now' env), vpn)))))))))))"

definition build_task :: "pylib \<Rightarrow> worker_config \<Rightarrow> create_env \<Rightarrow> jdict \<Rightarrow> ustr \<Rightarrow> inventory option
    \<Rightarrow> (task \<times> vpn_credentials) res \<times> inventory option" where
  "build_task py cfg env payload fingerprint inventory =
     (case require_dict payload (u ''vehicle'') msg_vehicle_required of
        Inl e \<Rightarrow> (Inl e, inventory)
      | Inr vehicle_raw \<Rightarrow>
          (case build_vehicle (resolve_vehicle (ce_file env)) vehicle_raw inventory of
             (Inl e, inventory') \<Rightarrow> (Inl e, inventory')
           | (Inr vehicle, inventory') \<Rightarrow>
               (build_task_fields py cfg env payload fingerprint vehicle, inventory')))"

section \<open>Creating and reading tasks\<close>

text \<open>The new task object, reachable from both dictionaries, and its credentials.\<close>

definition register_task :: "task \<Rightarrow> vpn_credentials \<Rightarrow> worker_state \<Rightarrow> worker_state" where
  "register_task t vpn ws =
     (let r = length (ws_tasks ws)
      in ws \<lparr> ws_tasks := ws_tasks ws @ [t],
              ws_tasks_by_id := dict_set (ws_tasks_by_id ws) (t_task_id t) r,
              ws_tasks_by_request_id := dict_set (ws_tasks_by_request_id ws) (t_request_id t) r,
              ws_secrets_by_task_id := dict_set (ws_secrets_by_task_id ws) (t_task_id t) vpn \<rparr>)"

text \<open>The body of \<open>create_task\<close> for a \<open>request_id\<close> that is not known yet.\<close>

definition create_new_task :: "pylib \<Rightarrow> worker_config \<Rightarrow> create_env \<Rightarrow> jdict \<Rightarrow> ustr \<Rightarrow> worker_state
    \<Rightarrow> (int \<times> json) res \<times> worker_state" where
  "create_new_task py cfg env payload fingerprint ws =
     (case require_int payload (u ''telegram_user_id'') of
        Inl e \<Rightarrow> (Inl e, ws)
      | Inr user_id \<Rightarrow>
          (case rl_check (ws_rate_limiter ws) user_id (ce_monotonic env) of
             (ok, rl) \<Rightarrow>
               let ws1 = ws \<lparr> ws_rate_limiter := rl \<rparr>
               in if \<not> ok then (Inl (WorkerError 429 (u ''rate_limited'') msg_rate_limited), ws1)
                  else if active_task ws1 \<noteq> None then
                    (Inl (WorkerError 409 (u ''worker_busy'') msg_worker_busy), ws1)
                  else (case build_task py cfg env payload fingerprint (ws_inventory ws1) of
                      (Inl e, inventory') \<Rightarrow> (Inl e, ws1 \<lparr> ws_inventory := inventory' \<rparr>)
                    | (Inr (t, vpn), inventory') \<Rightarrow>
                        (Inr (201, to_create_response t),
                         register_task t vpn (ws1 \<lparr> ws_inventory := inventory' \<rparr>)))))"

text \<open>\<open>create_task\<close>: status and response; the execution thread it starts is a step of the system.\<close>

definition create_task :: "pylib \<Rightarrow> worker_config \<Rightarrow> create_env \<Rightarrow> jdict \<Rightarrow> worker_state
    \<Rightarrow> (int \<times> json) res \<times> worker_state" where
  "create_task py cfg env payload ws =
     (case require_str payload (u ''request_id'') (u ''request_id'') of
        Inl e \<Rightarrow> (Inl e, ws)
      | Inr request_id \<Rightarrow>
          (case fingerprint_request py payload of
             Inl e \<Rightarrow> (Inl e, ws)
           | Inr fingerprint \<Rightarrow>
               (case dict_get (ws_tasks_by_request_id ws) request_id of
                  Some r \<Rightarrow>
                    let existing = ws_tasks ws ! r
                    in if t_request_fingerprint existing \<noteq> fingerprint then
                         (Inl (WorkerError 409 (u ''request_id_conflict'') msg_request_id_conflict), ws)
                       else (Inr (200, to_create_response existing), ws)
                | None \<Rightarrow> create_new_task py cfg env payload fingerprint ws)))"

definition get_task :: "pylib \<Rightarrow> int \<Rightarrow> int \<Rightarrow> ustr \<Rightarrow> worker_state \<Rightarrow> json res" where
  "get_task py now1 now2 task_id ws =
     (case dict_get (ws_tasks_by_id ws) task_id of
        None \<Rightarrow> Inl (WorkerError 404 (u ''task_not_found'') msg_task_not_found)
      | Some r \<Rightarrow> Inr (to_response py now1 now2 (ws_tasks ws ! r)))"

definition service_resolve_vehicle :: "inv_file \<Rightarrow> ustr \<Rightarrow> worker_state \<Rightarrow> json res \<times> worker_state" where
  "service_resolve_vehicle file query ws =
     (case ws_inventory ws of
        None \<Rightarrow> (Inl (ip_not_found (u ''Vehicle inventory is not configured'')), ws)
      | Some c \<Rightarrow>
          (case resolve_query file query c of
             (Inl e, c') \<Rightarrow> (Inl e, ws \<lparr> ws_inventory := Some c' \<rparr>)
           | (Inr r, c') \<Rightarrow>
               (Inr (JDict [(u ''ok'', JBool True), (u ''query'', JStr query),
                            (u ''vehicle'', record_response r)]),
                ws \<lparr> ws_inventory := Some c' \<rparr>)))"

section \<open>The execution thread\<close>

text \<open>Mutating the task object \<open>self.tasks_by_id[task_id]\<close>; a missing key raises and changes nothing.\<close>

definition update_task :: "ustr \<Rightarrow> (task \<Rightarrow> task) \<Rightarrow> worker_state \<Rightarrow> worker_state" where
  "update_task task_id f ws =
     (case dict_get (ws_tasks_by_id ws) task_id of
        None \<Rightarrow> ws
      | Some r \<Rightarrow> ws \<lparr> ws_tasks := (ws_tasks ws)[r := f (ws_tasks ws ! r)] \<rparr>)"

definition task_of :: "ustr \<Rightarrow> worker_state \<Rightarrow> task option" where
  "task_of task_id ws = map_option (\<lambda>r. ws_tasks ws ! r) (dict_get (ws_tasks_by_id ws) task_id)"

text \<open>\<open>_set_state\<close>, the callback of the runner thread: a task that has ended is left alone.\<close>

definition guarded_set_state :: "int \<Rightarrow> callback \<Rightarrow> task \<Rightarrow> task" where
  "guarded_set_state now cb t =
     (if terminal_state (t_state t) then t
      else case set_state now (fst cb) (Some (snd cb)) t of Inl e \<Rightarrow> t | Inr t' \<Rightarrow> t')"

definition service_set_state :: "int \<Rightarrow> ustr \<Rightarrow> callback \<Rightarrow> worker_state \<Rightarrow> worker_state" where
  "service_set_state now task_id cb = update_task task_id (guarded_set_state now cb)"

text \<open>Every ending passes through the state \<open>cleanup\<close>.\<close>

definition end_task :: "int \<Rightarrow> int \<Rightarrow> ustr \<Rightarrow> ustr \<Rightarrow> ustr \<Rightarrow> task \<Rightarrow> task" where
  "end_task now1 now2 cleanup_message state message t =
     task_with_state now2 state (Some message)
       (task_with_state now1 (u ''cleanup'') (Some cleanup_message) t)"

definition timeout_task :: "int \<Rightarrow> int \<Rightarrow> task \<Rightarrow> task" where
  "timeout_task now1 now2 t =
     end_task now1 now2 msg_cleanup_timeout (u ''timeout'') msg_operation_timeout
       (t \<lparr> t_error_code := Some (u ''operation_timeout''), t_message := Some msg_operation_timeout \<rparr>)"

definition fail_task :: "int \<Rightarrow> int \<Rightarrow> ustr \<Rightarrow> ustr \<Rightarrow> task \<Rightarrow> task" where
  "fail_task now1 now2 code message t =
     end_task now1 now2 msg_cleanup_error (u ''failed'') message
       (t \<lparr> t_error_code := Some code, t_message := Some message \<rparr>)"

definition crash_task :: "int \<Rightarrow> int \<Rightarrow> exn \<Rightarrow> task \<Rightarrow> task" where
  "crash_task now1 now2 e t =
     end_task now1 now2 msg_cleanup_error (u ''failed'') msg_internal_error
       (t \<lparr> t_error_code := Some (u ''internal_error''), t_message := Some (exn_str e) \<rparr>)"

definition finish_task :: "int \<Rightarrow> int \<Rightarrow> runner_result \<Rightarrow> task \<Rightarrow> task" where
  "finish_task now1 now2 result t =
     end_task now1 now2 msg_cleanup (u ''finished'') msg_diagnostics_done
       (t \<lparr> t_summary := Some (rr_summary result), t_data := rr_data result,
            t_artifacts := (case rr_artifacts result of None \<Rightarrow> [] | Some xs \<Rightarrow> xs),
            t_warnings := t_warnings t @ (case rr_warnings result of None \<Rightarrow> [] | Some xs \<Rightarrow> xs) \<rparr>)"

text \<open>
  The runner thread is over: a \<open>RunnerFailure\<close> fails the task with its code, any other exception is
  raised again and ends in the handler of last resort.
\<close>

definition conclude_task :: "int \<Rightarrow> int \<Rightarrow> outcome \<Rightarrow> task \<Rightarrow> task" where
  "conclude_task now1 now2 out t =
     (case out of
        Inr result \<Rightarrow> finish_task now1 now2 result t
      | Inl (RunnerFailure code message) \<Rightarrow> fail_task now1 now2 code message t
      | Inl e \<Rightarrow> crash_task now1 now2 e t)"

text \<open>
  The \<open>finally\<close> block: the credentials are dropped, a task that has not ended is failed, the audit
  line is written (unless the log refuses it).
\<close>

definition abandon_task :: "int \<Rightarrow> int \<Rightarrow> task \<Rightarrow> task" where
  "abandon_task now1 now2 t =
     (if terminal_state (t_state t) then t
      else end_task now1 now2 msg_cleanup (u ''failed'') msg_no_result t)"

definition finalize_task :: "pylib \<Rightarrow> bool \<Rightarrow> int \<Rightarrow> int \<Rightarrow> ustr \<Rightarrow> worker_state \<Rightarrow> worker_state" where
  "finalize_task py log_ok now1 now2 task_id ws =
     (let ws1 = update_task task_id (abandon_task now1 now2)
                  (ws \<lparr> ws_secrets_by_task_id := dict_pop (ws_secrets_by_task_id ws) task_id \<rparr>)
      in case task_of task_id ws1 of
           None \<Rightarrow> ws1
         | Some t \<Rightarrow> ws1 \<lparr> ws_audit := write_task_event py log_ok now2 now2 t (ws_audit ws1) \<rparr>)"

section \<open>Reading a request body\<close>

text \<open>\<open>load_json_body\<close>: UTF-8, then JSON, then an object.\<close>

definition load_json_body :: "pylib \<Rightarrow> nat list \<Rightarrow> jdict res" where
  "load_json_body py raw_body =
     (case utf8_decode raw_body of
        None \<Rightarrow> Inl (ValidationError msg_bad_json)
      | Some text \<Rightarrow>
          (case py_json_loads py text of
             Inl (Builtin B_JSONDecodeError m) \<Rightarrow> Inl (ValidationError msg_bad_json)
           | Inl e \<Rightarrow> Inl e
           | Inr (JDict payload) \<Rightarrow> Inr payload
           | Inr _ \<Rightarrow> Inl (ValidationError msg_body_object)))"

end
