(* ===== verification/Worker_Laws.thy ===== *)
theory Worker_Laws
  imports Worker_Service
begin

text \<open>
  Laws of the operations of \<open>WorkerService\<close>: the two dictionaries and the heap agree, what a
  mutation of one task does to every other, what a creation leaves alone when it raises and
  what it adds when it succeeds.
\<close>

section \<open>Well-formed worker states\<close>

definition request_of :: "ustr \<Rightarrow> worker_state \<Rightarrow> task option" where
  "request_of rid ws = map_option (\<lambda>r. ws_tasks ws ! r) (dict_get (ws_tasks_by_request_id ws) rid)"

definition wf_worker :: "worker_state \<Rightarrow> bool" where
  "wf_worker ws \<longleftrightarrow>
     distinct (dict_keys (ws_tasks_by_id ws)) \<and> distinct (dict_keys (ws_tasks_by_request_id ws))
     \<and> (\<forall>tid r. dict_get (ws_tasks_by_id ws) tid = Some r \<longleftrightarrow>
          r < length (ws_tasks ws) \<and> t_task_id (ws_tasks ws ! r) = tid)
     \<and> (\<forall>rid r. dict_get (ws_tasks_by_request_id ws) rid = Some r \<longleftrightarrow>
          r < length (ws_tasks ws) \<and> t_request_id (ws_tasks ws ! r) = rid)
     \<and> (\<forall>tid. dict_get (ws_secrets_by_task_id ws) tid \<noteq> None \<longrightarrow> task_of tid ws \<noteq> None)
     \<and> (\<forall>c. ws_inventory ws = Some c \<longrightarrow> cache_ok c)"

lemma wf_new_worker: "wf_worker (new_worker cfg)"
  by (auto simp: wf_worker_def new_worker_def task_of_def)

lemma wf_by_id:
  "wf_worker ws \<Longrightarrow> dict_get (ws_tasks_by_id ws) tid = Some r \<longleftrightarrow>
     r < length (ws_tasks ws) \<and> t_task_id (ws_tasks ws ! r) = tid"
  by (simp add: wf_worker_def)

lemma wf_by_request:
  "wf_worker ws \<Longrightarrow> dict_get (ws_tasks_by_request_id ws) rid = Some r \<longleftrightarrow>
     r < length (ws_tasks ws) \<and> t_request_id (ws_tasks ws ! r) = rid"
  by (simp add: wf_worker_def)

lemma task_of_Some:
  "wf_worker ws \<Longrightarrow> task_of tid ws = Some t \<longleftrightarrow>
     (\<exists>r < length (ws_tasks ws). ws_tasks ws ! r = t \<and> t_task_id t = tid)"
  by (auto simp: task_of_def wf_by_id)

lemma request_of_Some:
  "wf_worker ws \<Longrightarrow> request_of rid ws = Some t \<longleftrightarrow>
     (\<exists>r < length (ws_tasks ws). ws_tasks ws ! r = t \<and> t_request_id t = rid)"
  by (auto simp: request_of_def wf_by_request)

lemma task_of_id: "wf_worker ws \<Longrightarrow> task_of tid ws = Some t \<Longrightarrow> t_task_id t = tid"
  by (auto simp: task_of_Some)

lemma request_of_task_of:
  "wf_worker ws \<Longrightarrow> request_of rid ws = Some t \<longleftrightarrow>
     task_of (t_task_id t) ws = Some t \<and> t_request_id t = rid"
  by (auto simp: task_of_Some request_of_Some)

lemma task_of_request_of: "wf_worker ws \<Longrightarrow> task_of tid ws = Some t \<Longrightarrow> request_of (t_request_id t) ws = Some t"
  by (auto simp: task_of_Some request_of_Some)

section \<open>The active task\<close>

lemma active_task_None_iff:
  assumes "wf_worker ws"
  shows "active_task ws = None \<longleftrightarrow> (\<forall>tid t. task_of tid ws = Some t \<longrightarrow> terminal_state (t_state t))"
proof -
  have "set (map snd (ws_tasks_by_id ws)) = {r. r < length (ws_tasks ws)}"
  proof (intro set_eqI iffI)
    fix r assume "r \<in> set (map snd (ws_tasks_by_id ws))"
    then obtain tid where "(tid, r) \<in> set (ws_tasks_by_id ws)" by auto
    then have "dict_get (ws_tasks_by_id ws) tid = Some r"
      using assms by (simp add: wf_worker_def)
    then show "r \<in> {r. r < length (ws_tasks ws)}" using wf_by_id [OF assms] by simp
  next
    fix r assume "r \<in> {r. r < length (ws_tasks ws)}"
    then have "dict_get (ws_tasks_by_id ws) (t_task_id (ws_tasks ws ! r)) = Some r"
      using wf_by_id [OF assms] by simp
    then show "r \<in> set (map snd (ws_tasks_by_id ws))" by (force dest: map_of_SomeD)
  qed
  then show ?thesis
    by (auto simp: active_task_def find_None_iff task_of_Some [OF assms])
qed

section \<open>Mutating one task\<close>

text \<open>What the task took from its request, and a mutation that keeps it.\<close>

definition same_request :: "task \<Rightarrow> task \<Rightarrow> bool" where
  "same_request t t' \<longleftrightarrow> t_task_id t' = t_task_id t \<and> t_request_id t' = t_request_id t
     \<and> t_request_fingerprint t' = t_request_fingerprint t \<and> t_telegram_user_id t' = t_telegram_user_id t
     \<and> t_user_role t' = t_user_role t \<and> t_vehicle t' = t_vehicle t \<and> t_operation t' = t_operation t
     \<and> t_params t' = t_params t \<and> t_timeout_sec t' = t_timeout_sec t
     \<and> t_runner_mode t' = t_runner_mode t \<and> t_risk t' = t_risk t
     \<and> t_state_changing t' = t_state_changing t"

lemma same_request_refl [simp]: "same_request t t"
  by (simp add: same_request_def)

lemma same_request_trans: "same_request t t' \<Longrightarrow> same_request t' t'' \<Longrightarrow> same_request t t''"
  by (simp add: same_request_def)

definition keeps_identity :: "(task \<Rightarrow> task) \<Rightarrow> bool" where
  "keeps_identity f \<longleftrightarrow> (\<forall>t. same_request t (f t))"

lemma update_task_fields [simp]:
  "ws_tasks_by_id (update_task tid f ws) = ws_tasks_by_id ws"
  "ws_tasks_by_request_id (update_task tid f ws) = ws_tasks_by_request_id ws"
  "ws_secrets_by_task_id (update_task tid f ws) = ws_secrets_by_task_id ws"
  "ws_rate_limiter (update_task tid f ws) = ws_rate_limiter ws"
  "ws_inventory (update_task tid f ws) = ws_inventory ws"
  "ws_audit (update_task tid f ws) = ws_audit ws"
  "length (ws_tasks (update_task tid f ws)) = length (ws_tasks ws)"
  by (simp_all add: update_task_def split: option.splits)

lemma nth_update_task:
  assumes "wf_worker ws" and "r < length (ws_tasks ws)"
  shows "ws_tasks (update_task tid f ws) ! r =
     (if t_task_id (ws_tasks ws ! r) = tid then f (ws_tasks ws ! r) else ws_tasks ws ! r)"
proof (cases "dict_get (ws_tasks_by_id ws) tid")
  case None
  then have "t_task_id (ws_tasks ws ! r) \<noteq> tid"
    using wf_by_id [OF assms(1), of tid r] assms(2) by auto
  with None show ?thesis by (simp add: update_task_def)
next
  case (Some q)
  then have "t_task_id (ws_tasks ws ! r) = tid \<longleftrightarrow> r = q"
    using wf_by_id [OF assms(1), of tid r] wf_by_id [OF assms(1), of tid q] assms(2) by auto
  with Some assms(2) show ?thesis by (auto simp: update_task_def)
qed

lemma task_of_update:
  assumes "wf_worker ws"
  shows "task_of tid' (update_task tid f ws) =
     (if tid' = tid then map_option f (task_of tid ws) else task_of tid' ws)"
proof (cases "dict_get (ws_tasks_by_id ws) tid'")
  case None
  then show ?thesis by (auto simp: task_of_def)
next
  case (Some r)
  then have "r < length (ws_tasks ws)" "t_task_id (ws_tasks ws ! r) = tid'"
    using wf_by_id [OF assms] by auto
  with Some show ?thesis by (auto simp: task_of_def nth_update_task [OF assms])
qed

lemma wf_update_task:
  assumes wf: "wf_worker ws" and keeps: "keeps_identity f"
  shows "wf_worker (update_task tid f ws)"
proof -
  have "t_task_id (ws_tasks (update_task tid f ws) ! r) = t_task_id (ws_tasks ws ! r)"
    and "t_request_id (ws_tasks (update_task tid f ws) ! r) = t_request_id (ws_tasks ws ! r)"
    if "r < length (ws_tasks ws)" for r
    using keeps by (simp_all add: nth_update_task [OF wf that] keeps_identity_def same_request_def)
  then show ?thesis
    using wf by (auto simp: wf_worker_def task_of_update [OF wf])
qed

lemma keeps_identity_intros [intro, simp]:
  "keeps_identity (guarded_set_state now cb)"
  "keeps_identity (timeout_task n1 n2)"
  "keeps_identity (conclude_task n1 n2 out)"
  "keeps_identity (crash_task n1 n2 e)"
  "keeps_identity (abandon_task n1 n2)"
  by (auto simp: keeps_identity_def same_request_def guarded_set_state_def timeout_task_def conclude_task_def
      fail_task_def finish_task_def crash_task_def abandon_task_def end_task_def res_iff
      split: sum.splits exn.splits)

section \<open>Endings\<close>

lemma end_task_state [simp]: "t_state (end_task n1 n2 cm s m t) = s"
  by (simp add: end_task_def)

lemma end_task_updated [simp]: "t_updated_at (end_task n1 n2 cm s m t) = n2"
  by (simp add: end_task_def)

lemma wf_end_task:
  assumes "wf_task t" and "t_updated_at t \<le> n1" and "n1 \<le> n2" and "s \<in> set TASK_STATES"
  shows "wf_task (end_task n1 n2 cm s m t)"
  unfolding end_task_def using assms
  by (intro wf_task_with_state) (simp_all add: TASK_STATES_def)

lemma wf_task_upd [simp]:
  "wf_task (t \<lparr> t_error_code := ec, t_message := msg \<rparr>) = wf_task t"
  "wf_task (t \<lparr> t_summary := su, t_data := d, t_artifacts := a, t_warnings := w \<rparr>) = wf_task t"
  by (simp_all add: wf_task_def stamps_ordered_def)

lemma ending_laws:
  assumes "wf_task t" and "t_updated_at t \<le> n1" and "n1 \<le> n2"
  shows "wf_task (timeout_task n1 n2 t)" and "wf_task (conclude_task n1 n2 out t)"
    and "wf_task (crash_task n1 n2 e t)" and "wf_task (abandon_task n1 n2 t)"
  using assms
  by (auto simp: timeout_task_def conclude_task_def fail_task_def finish_task_def crash_task_def
      abandon_task_def intro!: wf_end_task terminal_is_task_state split: sum.splits exn.splits)

lemma ending_states [simp]:
  "t_state (timeout_task n1 n2 t) = u ''timeout''"
  "terminal_state (t_state (conclude_task n1 n2 out t))"
  "t_state (crash_task n1 n2 e t) = u ''failed''"
  "terminal_state (t_state (abandon_task n1 n2 t))"
  by (auto simp: timeout_task_def conclude_task_def fail_task_def finish_task_def crash_task_def
      abandon_task_def split: sum.splits exn.splits)

lemma ending_updated:
  assumes "t_updated_at t \<le> n2"
  shows "t_updated_at (timeout_task n1 n2 t) \<le> n2" and "t_updated_at (conclude_task n1 n2 out t) \<le> n2"
    and "t_updated_at (crash_task n1 n2 e t) \<le> n2" and "t_updated_at (abandon_task n1 n2 t) \<le> n2"
  using assms
  by (auto simp: timeout_task_def conclude_task_def fail_task_def finish_task_def crash_task_def
      abandon_task_def split: sum.splits exn.splits)

section \<open>Callbacks\<close>

lemma guarded_terminal [simp]: "terminal_state (t_state t) \<Longrightarrow> guarded_set_state now cb t = t"
  by (simp add: guarded_set_state_def)

lemma guarded_callback:
  assumes "\<not> terminal_state (t_state t)" and "callbacks_ok [cb]"
  shows "guarded_set_state now cb t = task_with_state now (fst cb) (Some (snd cb)) t"
  using assms by (cases cb) (auto simp: guarded_set_state_def set_state_def)

text \<open>
  In the context of any runner: its callbacks, delivered one after the other to a task that is
  running, are all accepted, and leave it running.
\<close>

fun deliver :: "int \<Rightarrow> callback list \<Rightarrow> task \<Rightarrow> task" where
  "deliver now [] t = t"
| "deliver now (cb # cbs) t = deliver now cbs (guarded_set_state now cb t)"

lemma deliver_running:
  "callbacks_ok cbs \<Longrightarrow> \<not> terminal_state (t_state t) \<Longrightarrow> \<not> terminal_state (t_state (deliver now cbs t))"
  by (induction cbs arbitrary: t) (auto simp: guarded_callback)

lemma deliver_last:
  "callbacks_ok (cbs @ [cb]) \<Longrightarrow> \<not> terminal_state (t_state t) \<Longrightarrow>
     t_state (deliver now (cbs @ [cb]) t) = fst cb \<and> t_phase_message (deliver now (cbs @ [cb]) t) = snd cb"
proof (induction cbs arbitrary: t)
  case Nil
  then show ?case
    by (cases cb) (simp add: guarded_callback task_with_state_def)
next
  case (Cons c cbs)
  then show ?case by (cases c) (simp add: guarded_callback)
qed

context runner
begin

lemma run_keeps_running:
  "run env t vpn = Some (evs, out, fs) \<Longrightarrow> \<not> terminal_state (t_state t') \<Longrightarrow>
     \<not> terminal_state (t_state (deliver now evs t'))"
  by (rule deliver_running) (rule reports)

end

section \<open>Vehicles\<close>

lemma ip_address_Nil: "ip_address [] = None"
  by (simp add: ip_address_def parse_ipv4_def valid_ipv6_def parse_octet_def)

context vehicle_resolver
begin

lemma built_vehicle_complete:
  assumes "\<And>c. inventory = Some c \<Longrightarrow> ok c"
    and "build_vehicle resolve raw inventory = (Inr v, inventory')"
  shows "v_number v \<noteq> [] \<and> v_ip v \<noteq> []"
proof (cases "nonblank_str (jget raw (u ''ip''))")
  case (Some ip)
  with assms(2) show ?thesis
    by (auto simp: build_vehicle_def res_iff require_str_def nonblank_str_def
        split: json.splits if_splits)
next
  case None
  with assms(2) obtain c r c' where c: "inventory = Some c" "resolve raw c = (Inr r, c')"
    and v: "v = \<lparr> v_number = record_number r, v_ip = ir_ip r \<rparr>"
    by (auto simp: build_vehicle_def split: option.splits sum.splits prod.splits)
  have "record_number r \<noteq> []" and "ip_address (ir_ip r) \<noteq> None"
    using resolve_number [OF assms(1) [OF c(1)], of raw r] resolve_ip [OF assms(1) [OF c(1)], of raw r] c(2)
    by simp_all
  then show ?thesis using ip_address_Nil v by auto
qed

lemma built_vehicle_keeps:
  assumes "\<And>c. inventory = Some c \<Longrightarrow> ok c"
    and "build_vehicle resolve raw inventory = (res, inventory')"
  shows "inventory' = Some c' \<Longrightarrow> ok c'"
  using assms resolve_keeps
  by (auto simp: build_vehicle_def split: option.splits sum.splits prod.splits) (metis snd_conv)+

end

end
