(* ===== verification/Worker_Create.thy ===== *)
theory Worker_Create
  imports Worker_Laws
begin

text \<open>
  Laws of \<open>create_task\<close>: its three kinds of outcome, what a created task satisfies, and that
  every outcome keeps the worker state well formed.
\<close>

section \<open>What a built task satisfies\<close>

text \<open>The contract of an accepted request, as the rest of the worker uses it.\<close>

definition accepted_task :: "task \<Rightarrow> vpn_credentials \<Rightarrow> bool" where
  "accepted_task t vpn \<longleftrightarrow>
     t_request_id t \<noteq> [] \<and> t_operation t \<in> set (dict_keys MVP_OPERATIONS)
     \<and> t_user_role t \<in> {u ''engineer'', u ''admin''}
     \<and> t_risk t = u ''read_only'' \<and> \<not> t_state_changing t \<and> 0 < t_timeout_sec t
     \<and> v_number (t_vehicle t) \<noteq> [] \<and> v_ip (t_vehicle t) \<noteq> []
     \<and> (vpn_mode vpn = u ''inline_once'' \<and> vpn_username vpn \<noteq> [] \<and> vpn_password vpn \<noteq> []
        \<or> vpn = \<lparr> vpn_mode = u ''container_secret'', vpn_username = [], vpn_password = [] \<rparr>)"

lemma require_str_Inr [res_iff]: "require_str d k l = Inr s \<longleftrightarrow> jget d k = JStr s \<and> s \<noteq> []"
  by (auto simp: require_str_def split: json.splits)

lemma require_str_Inl: "require_str d k l = Inl e \<Longrightarrow> e = ValidationError (l @ msg_suffix_required)"
  by (auto simp: require_str_def split: json.splits if_splits)

lemma require_dict_Inr [res_iff]: "require_dict d k m = Inr x \<longleftrightarrow> jget d k = JDict x"
  by (auto simp: require_dict_def split: json.splits)

lemma require_int_Inr:
  "require_int d k = Inr n \<longleftrightarrow> jget d k = JInt n \<or> (\<exists>b. jget d k = JBool b \<and> n = (if b then 1 else 0))"
  by (auto simp: require_int_def split: json.splits)

lemma build_vpn_Inr:
  "build_vpn d = Inr vpn \<Longrightarrow>
     vpn_mode vpn = u ''inline_once'' \<and> vpn_username vpn \<noteq> [] \<and> vpn_password vpn \<noteq> []
     \<or> vpn = \<lparr> vpn_mode = u ''container_secret'', vpn_username = [], vpn_password = [] \<rparr>"
  by (auto simp: build_vpn_def res_iff split: if_splits)

lemma build_task_fields_Inr:
  assumes "build_task_fields py cfg env payload fp v = Inr (t, vpn)"
  obtains op role params tmo mode rid uid where
    "t = new_task (ce_uuid env) rid uid role v (op_name op) params tmo fp mode (op_risk op)
           (op_state_changing op) (ce_now env) (ce_now' env)"
    and "get_operation (op_name op) = Inr op" and "role \<in> set (op_roles_allowed op)" and "0 < tmo"
    and "require_str payload (u ''request_id'') (u ''request_id'') = Inr rid"
    and "require_int payload (u ''telegram_user_id'') = Inr uid"
    and "\<exists>d. build_vpn d = Inr vpn"
proof -
  from assms obtain d name op params tmo rid uid where
    parts: "build_vpn d = Inr vpn" "get_operation name = Inr op"
    "py_str py (get_or payload (u ''user_role'') (get_or payload (u ''role'') (JStr (u ''engineer''))))
       \<in> set (op_roles_allowed op)" "\<not> tmo \<le> 0"
    "require_str payload (u ''request_id'') (u ''request_id'') = Inr rid"
    "require_int payload (u ''telegram_user_id'') = Inr uid"
    "t = new_task (ce_uuid env) rid uid
       (py_str py (get_or payload (u ''user_role'') (get_or payload (u ''role'') (JStr (u ''engineer'')))))
       v (op_name op) params tmo fp
       (py_str py (get_or payload (u ''runner_mode'') (JStr (wc_runner_mode cfg))))
       (op_risk op) (op_state_changing op) (ce_now env) (ce_now' env)"
    unfolding build_task_fields_def by (auto simp: bindE_Inr_iff raise_if_Inr_iff Let_def)
  have name: "op_name op = name" using get_operation_Inr(1) [OF parts(2)] .
  show thesis
    by (rule that [OF parts(7)]) (use parts name in auto)
qed

lemma new_task_fields [simp]:
  "t_task_id (new_task i r uid ro v op ps tmo fp md rk sc n n') = i"
  "t_request_id (new_task i r uid ro v op ps tmo fp md rk sc n n') = r"
  "t_request_fingerprint (new_task i r uid ro v op ps tmo fp md rk sc n n') = fp"
  "t_state (new_task i r uid ro v op ps tmo fp md rk sc n n') = u ''created''"
  "t_updated_at (new_task i r uid ro v op ps tmo fp md rk sc n n') = n'"
  "t_telegram_user_id (new_task i r uid ro v op ps tmo fp md rk sc n n') = uid"
  "t_vehicle (new_task i r uid ro v op ps tmo fp md rk sc n n') = v"
  "t_operation (new_task i r uid ro v op ps tmo fp md rk sc n n') = op"
  "t_user_role (new_task i r uid ro v op ps tmo fp md rk sc n n') = ro"
  "t_timeout_sec (new_task i r uid ro v op ps tmo fp md rk sc n n') = tmo"
  "t_risk (new_task i r uid ro v op ps tmo fp md rk sc n n') = rk"
  "t_state_changing (new_task i r uid ro v op ps tmo fp md rk sc n n') = sc"
  "t_runner_mode (new_task i r uid ro v op ps tmo fp md rk sc n n') = md"
  by (simp_all add: new_task_def)

lemma build_task_Inr:
  assumes "build_task py cfg env payload fp inventory = (Inr (t, vpn), inventory')"
    and "\<And>c. inventory = Some c \<Longrightarrow> cache_ok c"
  shows "accepted_task t vpn" and "t_task_id t = ce_uuid env"
    and "require_str payload (u ''request_id'') (u ''request_id'') = Inr (t_request_id t)"
    and "require_int payload (u ''telegram_user_id'') = Inr (t_telegram_user_id t)"
    and "t_request_fingerprint t = fp" and "t_state t = u ''created''"
    and "t_updated_at t = ce_now' env" and "ce_now env \<le> ce_now' env \<Longrightarrow> wf_task t"
proof -
  from assms(1) obtain raw v where
    veh: "build_vehicle (resolve_vehicle (ce_file env)) raw inventory = (Inr v, inventory')"
    and flds: "build_task_fields py cfg env payload fp v = Inr (t, vpn)"
    by (auto simp: build_task_def split: sum.splits prod.splits)
  from inventory_resolver.built_vehicle_complete [OF assms(2) veh]
  have v: "v_number v \<noteq> [] \<and> v_ip v \<noteq> []" .
  from build_task_fields_Inr [OF flds] obtain op role params tmo mode rid uid where
    t: "t = new_task (ce_uuid env) rid uid role v (op_name op) params tmo fp mode (op_risk op)
           (op_state_changing op) (ce_now env) (ce_now' env)"
    and op: "get_operation (op_name op) = Inr op" and role: "role \<in> set (op_roles_allowed op)"
    and tmo: "0 < tmo"
    and rid: "require_str payload (u ''request_id'') (u ''request_id'') = Inr rid"
    and uid: "require_int payload (u ''telegram_user_id'') = Inr uid"
    and vpn: "\<exists>d. build_vpn d = Inr vpn" .
  have "op_name op \<in> set (dict_keys MVP_OPERATIONS)" and "read_only_operation op"
    using get_operation_Inr(2,3) [OF op] by simp_all
  moreover have "rid \<noteq> []" using rid by (simp add: res_iff)
  moreover obtain d where "build_vpn d = Inr vpn" using vpn ..
  ultimately show "accepted_task t vpn"
    using role tmo v build_vpn_Inr by (auto simp: accepted_task_def t read_only_operation_def)
  show "t_task_id t = ce_uuid env" "require_str payload (u ''request_id'') (u ''request_id'') = Inr (t_request_id t)"
    "require_int payload (u ''telegram_user_id'') = Inr (t_telegram_user_id t)"
    "t_request_fingerprint t = fp" "t_state t = u ''created''" "t_updated_at t = ce_now' env"
    using rid uid by (simp_all add: t)
  show "ce_now env \<le> ce_now' env \<Longrightarrow> wf_task t" unfolding t by (rule wf_task_new)
qed

lemma build_task_inventory:
  assumes "build_task py cfg env payload fp inventory = (res, inventory')"
    and "\<And>c. inventory = Some c \<Longrightarrow> cache_ok c" and "inventory' = Some c'"
  shows "cache_ok c'"
  using assms inventory_resolver.built_vehicle_keeps [of inventory "ce_file env" _ _ inventory' c']
  by (auto simp: build_task_def split: sum.splits prod.splits)

section \<open>The outcomes of a creation\<close>

text \<open>The tasks, the credentials and the audit log are untouched.\<close>

definition same_tasks :: "worker_state \<Rightarrow> worker_state \<Rightarrow> bool" where
  "same_tasks ws ws' \<longleftrightarrow> ws_tasks ws' = ws_tasks ws \<and> ws_tasks_by_id ws' = ws_tasks_by_id ws
     \<and> ws_tasks_by_request_id ws' = ws_tasks_by_request_id ws
     \<and> ws_secrets_by_task_id ws' = ws_secrets_by_task_id ws \<and> ws_audit ws' = ws_audit ws"

lemma active_task_limiter [simp]:
  "active_task (ws \<lparr> ws_rate_limiter := rl \<rparr>) = active_task ws"
  "active_task (ws \<lparr> ws_inventory := i \<rparr>) = active_task ws"
  by (simp_all add: active_task_def)

lemma create_task_cases [consumes 1, case_names raised replayed created]:
  assumes "create_task py cfg env payload ws = (res, ws')"
  obtains e rl i where "res = Inl e" and "ws' = ws \<lparr> ws_rate_limiter := rl, ws_inventory := i \<rparr>"
      and "i = ws_inventory ws \<or> (\<exists>fp. build_task py cfg env payload fp (ws_inventory ws) = (Inl e, i))"
    | rid fp t where "res = Inr (200, to_create_response t)" and "ws' = ws"
      and "require_str payload (u ''request_id'') (u ''request_id'') = Inr rid"
      and "fingerprint_request py payload = Inr fp"
      and "request_of rid ws = Some t" and "t_request_fingerprint t = fp"
    | rid uid fp t vpn rl i where "res = Inr (201, to_create_response t)"
      and "ws' = register_task t vpn (ws \<lparr> ws_rate_limiter := rl, ws_inventory := i \<rparr>)"
      and "require_str payload (u ''request_id'') (u ''request_id'') = Inr rid"
      and "fingerprint_request py payload = Inr fp" and "request_of rid ws = None"
      and "require_int payload (u ''telegram_user_id'') = Inr uid"
      and "rl_check (ws_rate_limiter ws) uid (ce_monotonic env) = (True, rl)"
      and "active_task ws = None"
      and "build_task py cfg env payload fp (ws_inventory ws) = (Inr (t, vpn), i)"
proof -
  note raised = that(1) and replayed = that(2) and created = that(3)
  have r0: thesis if "res = Inl e" and "ws' = ws" for e
    by (rule raised [where e = e and rl = "ws_rate_limiter ws" and i = "ws_inventory ws"]) (use that in simp_all)
  have r1: thesis if "res = Inl e" and "ws' = ws \<lparr> ws_rate_limiter := rl \<rparr>" for e rl
    by (rule raised [where e = e and rl = rl and i = "ws_inventory ws"]) (use that in simp_all)
  show thesis
  proof (cases "require_str payload (u ''request_id'') (u ''request_id'')")
    case (Inl e)
    with assms show ?thesis by (intro r0 [of e]) (simp_all add: create_task_def)
  next
    case rid: (Inr rid)
    show ?thesis
    proof (cases "fingerprint_request py payload")
      case (Inl e)
      with rid assms show ?thesis by (intro r0 [of e]) (simp_all add: create_task_def)
    next
      case fp: (Inr fp)
      show ?thesis
      proof (cases "dict_get (ws_tasks_by_request_id ws) rid")
        case (Some r)
        then have "request_of rid ws = Some (ws_tasks ws ! r)" by (simp add: request_of_def)
        with Some rid fp assms show ?thesis
          using r0 replayed [OF _ _ rid fp]
          by (auto simp: create_task_def Let_def split: if_splits)
      next
        case None
        then have req: "request_of rid ws = None" by (simp add: request_of_def)
        from None rid fp assms have new: "create_new_task py cfg env payload fp ws = (res, ws')"
          by (simp add: create_task_def)
        show ?thesis
        proof (cases "require_int payload (u ''telegram_user_id'')")
          case (Inl e)
          with new show ?thesis by (intro r0 [of e]) (simp_all add: create_new_task_def)
        next
          case uid: (Inr uid)
          obtain ok rl where chk: "rl_check (ws_rate_limiter ws) uid (ce_monotonic env) = (ok, rl)"
            by fastforce
          obtain b i where bt: "build_task py cfg env payload fp (ws_inventory ws) = (b, i)" by fastforce
          show ?thesis
          proof (cases "ok \<and> active_task ws = None")
            case False
            with new uid chk have "\<exists>e. res = Inl e \<and> ws' = ws \<lparr> ws_rate_limiter := rl \<rparr>"
              by (auto simp: create_new_task_def Let_def split: if_splits)
            then show ?thesis using r1 by blast
          next
            case True
            with new uid chk bt show ?thesis
              using raised [where rl = rl and i = i] created [OF _ _ rid fp req uid, where rl = rl and i = i]
              by (cases b) (auto simp: create_new_task_def Let_def)
          qed
        qed
      qed
    qed
  qed
qed

lemma busy_refusal:
  assumes "require_str payload (u ''request_id'') (u ''request_id'') = Inr rid"
    and "fingerprint_request py payload = Inr fp" and "request_of rid ws = None"
    and "require_int payload (u ''telegram_user_id'') = Inr uid"
    and "rl_check (ws_rate_limiter ws) uid (ce_monotonic env) = (True, rl)" and "active_task ws \<noteq> None"
  shows "create_task py cfg env payload ws =
    (Inl (WorkerError 409 (u ''worker_busy'') msg_worker_busy), ws \<lparr> ws_rate_limiter := rl \<rparr>)"
  using assms by (simp add: create_task_def create_new_task_def request_of_def)

section \<open>Well-formedness\<close>

lemma task_of_limiter [simp]:
  "task_of tid (ws \<lparr> ws_rate_limiter := rl \<rparr>) = task_of tid ws"
  "task_of tid (ws \<lparr> ws_inventory := i \<rparr>) = task_of tid ws"
  "request_of tid (ws \<lparr> ws_rate_limiter := rl \<rparr>) = request_of tid ws"
  "request_of tid (ws \<lparr> ws_inventory := i \<rparr>) = request_of tid ws"
  by (simp_all add: task_of_def request_of_def)

lemma wf_worker_limiter:
  "wf_worker ws \<Longrightarrow> (\<And>c. i = Some c \<Longrightarrow> cache_ok c) \<Longrightarrow>
     wf_worker (ws \<lparr> ws_rate_limiter := rl, ws_inventory := i \<rparr>)"
  by (auto simp: wf_worker_def)

lemma register_task_fields [simp]:
  "ws_tasks (register_task t vpn ws) = ws_tasks ws @ [t]"
  "ws_tasks_by_id (register_task t vpn ws) = dict_set (ws_tasks_by_id ws) (t_task_id t) (length (ws_tasks ws))"
  "ws_tasks_by_request_id (register_task t vpn ws) =
     dict_set (ws_tasks_by_request_id ws) (t_request_id t) (length (ws_tasks ws))"
  "ws_secrets_by_task_id (register_task t vpn ws) = dict_set (ws_secrets_by_task_id ws) (t_task_id t) vpn"
  "ws_rate_limiter (register_task t vpn ws) = ws_rate_limiter ws"
  "ws_inventory (register_task t vpn ws) = ws_inventory ws"
  "ws_audit (register_task t vpn ws) = ws_audit ws"
  by (simp_all add: register_task_def Let_def)

lemma task_of_register:
  assumes "wf_worker ws"
  shows "task_of tid (register_task t vpn ws) = (if tid = t_task_id t then Some t else task_of tid ws)"
proof (cases "dict_get (ws_tasks_by_id ws) tid")
  case (Some r)
  then have "r < length (ws_tasks ws)" using wf_by_id [OF assms] by auto
  with Some show ?thesis by (simp add: task_of_def nth_append)
qed (simp add: task_of_def)

lemma wf_register_task:
  assumes wf: "wf_worker ws" and id: "task_of (t_task_id t) ws = None"
    and rid: "request_of (t_request_id t) ws = None"
  shows "wf_worker (register_task t vpn ws)"
proof -
  have ids: "t_task_id (ws_tasks ws ! r) \<noteq> t_task_id t" if "r < length (ws_tasks ws)" for r
    using id that by (metis task_of_Some [OF wf] option.distinct(1))
  have rids: "t_request_id (ws_tasks ws ! r) \<noteq> t_request_id t" if "r < length (ws_tasks ws)" for r
    using rid that by (metis request_of_Some [OF wf] option.distinct(1))
  have "dict_get (ws_tasks_by_id (register_task t vpn ws)) tid = Some r \<longleftrightarrow>
      r < length (ws_tasks ws @ [t]) \<and> t_task_id ((ws_tasks ws @ [t]) ! r) = tid" for tid r
    using wf_by_id [OF wf, of tid r] ids by (auto simp: nth_append less_Suc_eq)
  moreover have "dict_get (ws_tasks_by_request_id (register_task t vpn ws)) q = Some r \<longleftrightarrow>
      r < length (ws_tasks ws @ [t]) \<and> t_request_id ((ws_tasks ws @ [t]) ! r) = q" for q r
    using wf_by_request [OF wf, of q r] rids by (auto simp: nth_append less_Suc_eq)
  ultimately show ?thesis
    using wf by (auto simp: wf_worker_def task_of_register [OF wf] distinct_update)
qed

lemma wf_create_refused:
  assumes "create_task py cfg env payload ws = (res, ws')" and "\<nexists>j. res = Inr (201, j)"
    and wf: "wf_worker ws"
  shows "wf_worker ws'"
  using assms(1)
proof (cases rule: create_task_cases)
  case (raised e rl i)
  have "i = Some c \<Longrightarrow> cache_ok c" for c
    using raised(3) wf build_task_inventory [of py cfg env payload _ "ws_inventory ws" "Inl e" i c]
    by (auto simp: wf_worker_def)
  with raised(2) wf show ?thesis by (simp add: wf_worker_limiter)
qed (use assms(2) wf in simp_all)

lemma wf_create_task:
  assumes res: "create_task py cfg env payload ws = (res, ws')" and wf: "wf_worker ws"
    and fresh: "task_of (ce_uuid env) ws = None"
  shows "wf_worker ws'"
  using res
proof (cases rule: create_task_cases)
  case (raised e rl i)
  then show ?thesis using wf_create_refused [OF res _ wf] by simp
next
  case (replayed rid fp t)
  with wf show ?thesis by simp
next
  case (created rid uid fp t vpn rl i)
  have inv: "ws_inventory ws = Some c \<Longrightarrow> cache_ok c" for c using wf by (simp add: wf_worker_def)
  note t = build_task_Inr [OF created(9) inv]
  have "wf_worker (ws \<lparr> ws_rate_limiter := rl, ws_inventory := i \<rparr>)"
    using wf build_task_inventory [OF created(9) inv] by (intro wf_worker_limiter)
  moreover have "t_request_id t = rid" using t(3) created(3) by simp
  ultimately show ?thesis
    unfolding created(2) using fresh created(5) t(2) by (intro wf_register_task) simp_all
qed

end
