(* ===== verification/Worker_System.thy ===== *)
theory Worker_System
  imports Worker_Create
begin

text \<open>
  The worker as it runs: requests on one side, one execution thread and one runner thread per
  created task on the other, interleaved at the granularity of the critical sections that the
  lock of \<open>WorkerService\<close> makes atomic.
\<close>

section \<open>Threads\<close>

text \<open>
  Where the execution thread of a task (\<open>_execute_task\<close>) is. The list holds the callbacks the
  runner thread has still to make; it survives the end of the execution thread, because a
  runner that is timed out is not stopped.
    \<^item> \<open>Spawned\<close>: started by \<open>create_task\<close>, nothing done yet.
    \<^item> \<open>Raised\<close>: an exception is on its way to the handler of last resort.
    \<^item> \<open>Running\<close>: waiting for the runner thread, whose outcome (\<open>None\<close>: it never ends) is given.
    \<^item> \<open>Finalizing\<close>: before the \<open>finally\<close> block.
    \<^item> \<open>Detached\<close>: over.
\<close>

datatype phase =
    Spawned
  | Raised exn "callback list"
  | Running "callback list" "outcome option"
  | Finalizing "callback list"
  | Detached "callback list"

fun pending :: "phase \<Rightarrow> callback list" where
  "pending Spawned = []"
| "pending (Raised e cbs) = cbs"
| "pending (Running cbs out) = cbs"
| "pending (Finalizing cbs) = cbs"
| "pending (Detached cbs) = cbs"

fun delivered :: "phase \<Rightarrow> phase" where
  "delivered Spawned = Spawned"
| "delivered (Raised e cbs) = Raised e (tl cbs)"
| "delivered (Running cbs out) = Running (tl cbs) out"
| "delivered (Finalizing cbs) = Finalizing (tl cbs)"
| "delivered (Detached cbs) = Detached (tl cbs)"

text \<open>
  The whole system: the service, the threads by task, and the clock. \<open>utc_now\<close> may be set back;
  \<open>sy_mono\<close> tells whether its readings have never decreased so far.
\<close>

record wsys =
  sy_svc :: worker_state
  sy_thr :: "ustr \<rightharpoonup> phase"
  sy_clk :: int
  sy_mono :: bool

definition initial_system :: "worker_config \<Rightarrow> int \<Rightarrow> wsys" where
  "initial_system cfg now =
     \<lparr> sy_svc = new_worker cfg, sy_thr = (\<lambda>_. None), sy_clk = now, sy_mono = True \<rparr>"

text \<open>A critical section of the thread of \<open>tid\<close>, which reads the clock at \<open>n1\<close> and then at \<open>n2\<close>.\<close>

definition advance :: "int \<Rightarrow> int \<Rightarrow> ustr \<Rightarrow> phase \<Rightarrow> worker_state \<Rightarrow> wsys \<Rightarrow> wsys" where
  "advance n1 n2 tid ph svc s =
     \<lparr> sy_svc = svc, sy_thr = (sy_thr s)(tid \<mapsto> ph), sy_clk = n2,
       sy_mono = (sy_mono s \<and> sy_clk s \<le> n1 \<and> n1 \<le> n2) \<rparr>"

text \<open>How \<open>_execute_task\<close> begins: it reads the credentials, then builds the runner.\<close>

definition start_runner :: "worker_config \<Rightarrow> task \<Rightarrow> vpn_credentials option
    \<Rightarrow> (vpn_credentials \<times> runner_kind) res" where
  "start_runner cfg t vpn =
     (case vpn of
        None \<Rightarrow> Inl (RunnerFailure (u ''vpn_client_error'') msg_credentials_missing)
      | Some v \<Rightarrow> bindE (create_runner (t_runner_mode t) (wc_runner_url cfg)) (\<lambda>kind. Inr (v, kind)))"

inductive wstep :: "pylib \<Rightarrow> worker_config \<Rightarrow> wsys \<Rightarrow> wsys \<Rightarrow> bool"
  for py :: pylib and cfg :: worker_config where
  create: "create_task py cfg env payload (sy_svc s) = (Inr (201, j), svc') \<Longrightarrow>
     task_of (ce_uuid env) (sy_svc s) = None \<Longrightarrow>
     wstep py cfg s (advance (ce_now env) (ce_now' env) (ce_uuid env) Spawned svc' s)"
| refuse: "create_task py cfg env payload (sy_svc s) = (res, svc') \<Longrightarrow> (\<nexists>j. res = Inr (201, j)) \<Longrightarrow>
     wstep py cfg s (s \<lparr> sy_svc := svc' \<rparr>)"
| resolve: "service_resolve_vehicle file query (sy_svc s) = (res, svc') \<Longrightarrow>
     wstep py cfg s (s \<lparr> sy_svc := svc' \<rparr>)"
| start: "sy_thr s tid = Some Spawned \<Longrightarrow> task_of tid (sy_svc s) = Some t \<Longrightarrow>
     start_runner cfg t (dict_get (ws_secrets_by_task_id (sy_svc s)) tid) = Inr (vpn, kind) \<Longrightarrow>
     possible_run kind py (worker_artifact_store cfg) env t vpn evs out \<Longrightarrow>
     wstep py cfg s (s \<lparr> sy_thr := (sy_thr s)(tid \<mapsto> Running evs out) \<rparr>)"
| start_raises: "sy_thr s tid = Some Spawned \<Longrightarrow> task_of tid (sy_svc s) = Some t \<Longrightarrow>
     start_runner cfg t (dict_get (ws_secrets_by_task_id (sy_svc s)) tid) = Inl e \<Longrightarrow>
     wstep py cfg s (s \<lparr> sy_thr := (sy_thr s)(tid \<mapsto> Raised e []) \<rparr>)"
| join_raises: "sy_thr s tid = Some (Running cbs out) \<Longrightarrow>
     wstep py cfg s (s \<lparr> sy_thr := (sy_thr s)(tid \<mapsto> Raised (Builtin b txt) cbs) \<rparr>)"
| event: "sy_thr s tid = Some ph \<Longrightarrow> pending ph = cb # cbs \<Longrightarrow>
     wstep py cfg s (advance now now tid (delivered ph) (service_set_state now tid cb (sy_svc s)) s)"
| conclude: "sy_thr s tid = Some (Running [] (Some out)) \<Longrightarrow>
     wstep py cfg s (advance n1 n2 tid (Finalizing []) (update_task tid (conclude_task n1 n2 out) (sy_svc s)) s)"
| expire: "sy_thr s tid = Some (Running cbs out) \<Longrightarrow>
     wstep py cfg s (advance n1 n2 tid (Finalizing cbs) (update_task tid (timeout_task n1 n2) (sy_svc s)) s)"
| crash: "sy_thr s tid = Some (Raised e cbs) \<Longrightarrow>
     wstep py cfg s (advance n1 n2 tid (Finalizing cbs) (update_task tid (crash_task n1 n2 e) (sy_svc s)) s)"
| finalize: "sy_thr s tid = Some (Finalizing cbs) \<Longrightarrow>
     wstep py cfg s (advance n1 n2 tid (Detached cbs) (finalize_task py log_ok n1 n2 tid (sy_svc s)) s)"

definition reachable :: "pylib \<Rightarrow> worker_config \<Rightarrow> wsys \<Rightarrow> bool" where
  "reachable py cfg s \<longleftrightarrow> (\<exists>now. (wstep py cfg)\<^sup>*\<^sup>* (initial_system cfg now) s)"

lemma reachable_initial: "reachable py cfg (initial_system cfg now)"
  by (auto simp: reachable_def)

lemma reachable_steps: "reachable py cfg s \<Longrightarrow> (wstep py cfg)\<^sup>*\<^sup>* s s' \<Longrightarrow> reachable py cfg s'"
  by (auto simp: reachable_def intro: rtranclp_trans)

lemma reachable_induct [consumes 1, case_names initial step]:
  assumes "reachable py cfg s" and "\<And>now. P (initial_system cfg now)"
    and "\<And>s s'. reachable py cfg s \<Longrightarrow> P s \<Longrightarrow> wstep py cfg s s' \<Longrightarrow> P s'"
  shows "P s"
proof -
  from assms(1) obtain now where "(wstep py cfg)\<^sup>*\<^sup>* (initial_system cfg now) s"
    by (auto simp: reachable_def)
  then show ?thesis
  proof (induction rule: rtranclp_induct)
    case (step s s')
    then show ?case using assms(3) by (auto simp: reachable_def)
  qed (rule assms(2))
qed

section \<open>The invariant\<close>

text \<open>What the phase of the thread says of its task and of the stored credentials.\<close>

fun phase_ok :: "phase \<Rightarrow> task \<Rightarrow> vpn_credentials option \<Rightarrow> bool" where
  "phase_ok Spawned t vpn \<longleftrightarrow> t_state t = u ''created'' \<and> vpn \<noteq> None"
| "phase_ok (Raised e cbs) t vpn \<longleftrightarrow> \<not> terminal_state (t_state t) \<and> vpn \<noteq> None"
| "phase_ok (Running cbs out) t vpn \<longleftrightarrow> \<not> terminal_state (t_state t) \<and> vpn \<noteq> None"
| "phase_ok (Finalizing cbs) t vpn \<longleftrightarrow> terminal_state (t_state t) \<and> vpn \<noteq> None"
| "phase_ok (Detached cbs) t vpn \<longleftrightarrow> terminal_state (t_state t) \<and> vpn = None"

definition secret_of :: "ustr \<Rightarrow> worker_state \<Rightarrow> vpn_credentials option" where
  "secret_of tid ws = dict_get (ws_secrets_by_task_id ws) tid"

fun thread_ok :: "phase option \<Rightarrow> task option \<Rightarrow> vpn_credentials option \<Rightarrow> bool" where
  "thread_ok None None vpn \<longleftrightarrow> True"
| "thread_ok (Some ph) (Some t) vpn \<longleftrightarrow> callbacks_ok (pending ph) \<and> phase_ok ph t vpn"
| "thread_ok _ _ vpn \<longleftrightarrow> False"

definition threads_ok :: "wsys \<Rightarrow> bool" where
  "threads_ok s \<longleftrightarrow>
     (\<forall>tid. thread_ok (sy_thr s tid) (task_of tid (sy_svc s)) (secret_of tid (sy_svc s)))"

definition single_flight :: "worker_state \<Rightarrow> bool" where
  "single_flight ws \<longleftrightarrow> (\<forall>tid tid' t t'. task_of tid ws = Some t \<longrightarrow> task_of tid' ws = Some t' \<longrightarrow>
     \<not> terminal_state (t_state t) \<longrightarrow> \<not> terminal_state (t_state t') \<longrightarrow> tid = tid')"

definition stamps_ok :: "wsys \<Rightarrow> bool" where
  "stamps_ok s \<longleftrightarrow> (sy_mono s \<longrightarrow>
     (\<forall>tid t. task_of tid (sy_svc s) = Some t \<longrightarrow> wf_task t \<and> t_updated_at t \<le> sy_clk s))"

definition winv :: "wsys \<Rightarrow> bool" where
  "winv s \<longleftrightarrow> wf_worker (sy_svc s) \<and> threads_ok s \<and> single_flight (sy_svc s) \<and> stamps_ok s"

lemma advance_fields [simp]:
  "sy_svc (advance n1 n2 tid ph svc s) = svc"
  "sy_thr (advance n1 n2 tid ph svc s) = (sy_thr s)(tid \<mapsto> ph)"
  "sy_clk (advance n1 n2 tid ph svc s) = n2"
  "sy_mono (advance n1 n2 tid ph svc s) \<longleftrightarrow> sy_mono s \<and> sy_clk s \<le> n1 \<and> n1 \<le> n2"
  by (simp_all add: advance_def)

lemma winv_initial: "winv (initial_system cfg now)"
proof -
  have "task_of tid (new_worker cfg) = None" for tid by (simp add: new_worker_def task_of_def)
  then show ?thesis
    by (simp add: winv_def initial_system_def wf_new_worker threads_ok_def single_flight_def stamps_ok_def)
qed

lemma winvD:
  assumes "winv s"
  shows "wf_worker (sy_svc s)" and "threads_ok s" and "single_flight (sy_svc s)" and "stamps_ok s"
  using assms by (auto simp: winv_def)

lemma thread_ok_Some:
  "thread_ok (Some ph) x vpn \<longleftrightarrow> (\<exists>t. x = Some t \<and> callbacks_ok (pending ph) \<and> phase_ok ph t vpn)"
  "thread_ok y (Some t) vpn \<longleftrightarrow> (\<exists>ph. y = Some ph \<and> callbacks_ok (pending ph) \<and> phase_ok ph t vpn)"
  by (cases x; simp) (cases y; simp)

lemma winv_thread:
  assumes "winv s" and "sy_thr s tid = Some ph"
  obtains t where "task_of tid (sy_svc s) = Some t" and "callbacks_ok (pending ph)"
    and "phase_ok ph t (secret_of tid (sy_svc s))"
  using winvD(2) [OF assms(1)] assms(2) unfolding threads_ok_def by (metis thread_ok_Some(1))

lemma winv_task:
  assumes "winv s" and "task_of tid (sy_svc s) = Some t"
  obtains ph where "sy_thr s tid = Some ph" and "callbacks_ok (pending ph)"
    and "phase_ok ph t (secret_of tid (sy_svc s))"
  using winvD(2) [OF assms(1)] assms(2) unfolding threads_ok_def by (metis thread_ok_Some(2))

lemma single_flightD:
  "single_flight ws \<Longrightarrow> task_of tid ws = Some t \<Longrightarrow> task_of tid' ws = Some t' \<Longrightarrow>
     \<not> terminal_state (t_state t) \<Longrightarrow> \<not> terminal_state (t_state t') \<Longrightarrow> tid = tid'"
  by (auto simp: single_flight_def)

text \<open>
  A critical section that replaces the task of \<open>tid\<close> by \<open>t'\<close> and leaves every other task and its
  credentials alone keeps the invariant, if \<open>t'\<close> agrees with the new phase.
\<close>

lemma winv_advance:
  assumes inv: "winv s" and wf: "wf_worker svc'"
    and tasks: "\<And>x. task_of x svc' = (if x = tid then Some t' else task_of x (sy_svc s))"
    and secrets: "\<And>x. x \<noteq> tid \<Longrightarrow> secret_of x svc' = secret_of x (sy_svc s)"
    and ph: "callbacks_ok (pending ph)" "phase_ok ph t' (secret_of tid svc')"
    and flight: "\<not> terminal_state (t_state t') \<Longrightarrow>
      (\<exists>t. task_of tid (sy_svc s) = Some t \<and> \<not> terminal_state (t_state t)) \<or> active_task (sy_svc s) = None"
    and stamps: "sy_mono s \<Longrightarrow> sy_clk s \<le> n1 \<Longrightarrow> n1 \<le> n2 \<Longrightarrow> wf_task t' \<and> t_updated_at t' \<le> n2"
  shows "winv (advance n1 n2 tid ph svc' s)"
proof -
  have "threads_ok (advance n1 n2 tid ph svc' s)"
    using winvD(2) [OF inv] ph by (simp add: threads_ok_def tasks secrets)
  moreover have only: "x = tid"
    if "\<not> terminal_state (t_state t')" and "task_of x (sy_svc s) = Some tx" and "\<not> terminal_state (t_state tx)"
    for x tx
    using flight [OF that(1)] single_flightD [OF winvD(3) [OF inv] that(2)] that(2,3)
      active_task_None_iff [OF winvD(1) [OF inv]] by blast
  have "single_flight svc'"
    unfolding single_flight_def tasks using single_flightD [OF winvD(3) [OF inv]] only
    by (metis option.inject)
  moreover have "stamps_ok (advance n1 n2 tid ph svc' s)"
    using winvD(4) [OF inv] stamps by (fastforce simp: stamps_ok_def tasks)
  ultimately show ?thesis using wf by (simp add: winv_def)
qed

text \<open>The special case of a mutation of a task that exists.\<close>

lemma winv_update:
  assumes inv: "winv s" and t: "task_of tid (sy_svc s) = Some t" and keeps: "keeps_identity f"
    and ph: "callbacks_ok (pending ph)" "phase_ok ph (f t) (secret_of tid (sy_svc s))"
    and flight: "\<not> terminal_state (t_state (f t)) \<Longrightarrow> \<not> terminal_state (t_state t)"
    and stamps: "\<And>c. c \<le> n1 \<Longrightarrow> n1 \<le> n2 \<Longrightarrow> wf_task t \<Longrightarrow> t_updated_at t \<le> c \<Longrightarrow>
       wf_task (f t) \<and> t_updated_at (f t) \<le> n2"
  shows "winv (advance n1 n2 tid ph (update_task tid f (sy_svc s)) s)"
proof (rule winv_advance [OF inv])
  show "wf_worker (update_task tid f (sy_svc s))" using wf_update_task [OF winvD(1) [OF inv] keeps] .
  show "task_of x (update_task tid f (sy_svc s)) = (if x = tid then Some (f t) else task_of x (sy_svc s))" for x
    using t by (simp add: task_of_update [OF winvD(1) [OF inv]])
  show "wf_task (f t) \<and> t_updated_at (f t) \<le> n2" if "sy_mono s" "sy_clk s \<le> n1" "n1 \<le> n2"
    using winvD(4) [OF inv] that t by (intro stamps [of "sy_clk s"]) (auto simp: stamps_ok_def)
qed (use ph flight t in \<open>auto simp: secret_of_def\<close>)

section \<open>Every step keeps the invariant\<close>

lemma task_of_secrets [simp]:
  "task_of x (ws \<lparr> ws_secrets_by_task_id := d \<rparr>) = task_of x ws"
  "task_of x (ws \<lparr> ws_audit := ls \<rparr>) = task_of x ws"
  by (simp_all add: task_of_def)

lemma wf_drop_secret:
  "wf_worker ws \<Longrightarrow> wf_worker (ws \<lparr> ws_secrets_by_task_id := dict_pop (ws_secrets_by_task_id ws) tid \<rparr>)"
  by (auto simp: wf_worker_def)

lemma wf_write_audit: "wf_worker ws \<Longrightarrow> wf_worker (ws \<lparr> ws_audit := ls \<rparr>)"
  by (simp add: wf_worker_def)

lemma finalize_task_laws:
  assumes wf: "wf_worker ws" and t: "task_of tid ws = Some t"
  shows "wf_worker (finalize_task py log_ok n1 n2 tid ws)"
    and "task_of x (finalize_task py log_ok n1 n2 tid ws) =
      (if x = tid then Some (abandon_task n1 n2 t) else task_of x ws)"
    and "secret_of x (finalize_task py log_ok n1 n2 tid ws) = (if x = tid then None else secret_of x ws)"
    and "ws_audit (finalize_task py log_ok n1 n2 tid ws) =
      write_task_event py log_ok n2 n2 (abandon_task n1 n2 t) (ws_audit ws)"
proof -
  define ws1 where "ws1 = ws \<lparr> ws_secrets_by_task_id := dict_pop (ws_secrets_by_task_id ws) tid \<rparr>"
  have wf1: "wf_worker ws1" unfolding ws1_def using wf by (rule wf_drop_secret)
  have t1: "task_of tid (update_task tid (abandon_task n1 n2) ws1) = Some (abandon_task n1 n2 t)"
    using t by (simp add: task_of_update [OF wf1]) (simp add: ws1_def)
  have eq: "finalize_task py log_ok n1 n2 tid ws = (update_task tid (abandon_task n1 n2) ws1)
      \<lparr> ws_audit := write_task_event py log_ok n2 n2 (abandon_task n1 n2 t) (ws_audit ws) \<rparr>"
    using t1 by (simp add: finalize_task_def Let_def ws1_def)
  show "wf_worker (finalize_task py log_ok n1 n2 tid ws)"
    unfolding eq by (intro wf_write_audit wf_update_task wf1 keeps_identity_intros)
  show "task_of x (finalize_task py log_ok n1 n2 tid ws) =
      (if x = tid then Some (abandon_task n1 n2 t) else task_of x ws)"
    unfolding eq using t by (simp add: task_of_update [OF wf1]) (simp add: ws1_def)
  show "secret_of x (finalize_task py log_ok n1 n2 tid ws) = (if x = tid then None else secret_of x ws)"
    unfolding eq by (simp add: secret_of_def) (simp add: ws1_def)
  show "ws_audit (finalize_task py log_ok n1 n2 tid ws) =
      write_task_event py log_ok n2 n2 (abandon_task n1 n2 t) (ws_audit ws)"
    unfolding eq by simp
qed

lemma abandon_ended [simp]: "terminal_state (t_state t) \<Longrightarrow> abandon_task n1 n2 t = t"
  by (simp add: abandon_task_def)

text \<open>A refused or replayed request, and a vehicle lookup, touch no task.\<close>

lemma same_tasks_of:
  assumes "same_tasks ws ws'"
  shows "task_of x ws' = task_of x ws" and "request_of x ws' = request_of x ws"
    and "secret_of x ws' = secret_of x ws" and "ws_audit ws' = ws_audit ws"
  using assms by (simp_all add: same_tasks_def task_of_def request_of_def secret_of_def)

lemma create_task_refused:
  assumes "create_task py cfg env payload ws = (res, ws')" and "\<nexists>j. res = Inr (201, j)"
  shows "same_tasks ws ws'"
  using assms(1) by (cases rule: create_task_cases) (use assms(2) in \<open>simp_all add: same_tasks_def\<close>)

lemma service_resolve_vehicle_laws:
  assumes "service_resolve_vehicle file query ws = (res, ws')" and "wf_worker ws"
  shows "same_tasks ws ws'" and "wf_worker ws'"
proof -
  have "\<exists>i. ws' = ws \<lparr> ws_inventory := i \<rparr> \<and> (\<forall>c. i = Some c \<longrightarrow> cache_ok c)"
  proof (cases "ws_inventory ws")
    case None
    with assms(1) show ?thesis by (intro exI [of _ None]) (auto simp: service_resolve_vehicle_def)
  next
    case (Some c)
    then have ok: "cache_ok c" using assms(2) by (simp add: wf_worker_def)
    obtain r c' where rc: "resolve_query file query c = (r, c')" by fastforce
    have "cache_ok c'" using resolve_query_cache [OF ok rc] .
    with Some rc assms(1) show ?thesis
      by (intro exI [of _ "Some c'"]) (cases r; auto simp: service_resolve_vehicle_def)
  qed
  then obtain i where i: "ws' = ws \<lparr> ws_inventory := i \<rparr>" "\<forall>c. i = Some c \<longrightarrow> cache_ok c" by blast
  show "same_tasks ws ws'" by (simp add: i(1) same_tasks_def)
  have "wf_worker (ws \<lparr> ws_rate_limiter := ws_rate_limiter ws, ws_inventory := i \<rparr>)"
    using i(2) assms(2) by (intro wf_worker_limiter) simp_all
  then show "wf_worker ws'" by (simp add: i(1))
qed

lemma winv_same_tasks:
  assumes "winv s" and "same_tasks (sy_svc s) svc'" and "wf_worker svc'"
  shows "winv (s \<lparr> sy_svc := svc' \<rparr>)"
  using assms by (simp add: winv_def threads_ok_def single_flight_def stamps_ok_def same_tasks_of)

lemma winv_phase:
  assumes inv: "winv s" and t: "task_of tid (sy_svc s) = Some t"
    and "callbacks_ok (pending ph)" and "phase_ok ph t (secret_of tid (sy_svc s))"
  shows "winv (s \<lparr> sy_thr := (sy_thr s)(tid \<mapsto> ph) \<rparr>)"
  using assms by (simp add: winv_def threads_ok_def stamps_ok_def)

text \<open>A callback delivered to any thread.\<close>

lemma delivered_ok:
  assumes "pending ph = cb # cbs" and "callbacks_ok (pending ph)" and "phase_ok ph t vpn"
  shows "callbacks_ok (pending (delivered ph))" and "phase_ok (delivered ph) (guarded_set_state now cb t) vpn"
    and "callbacks_ok [cb]"
proof -
  from assms(1,2) show cb: "callbacks_ok [cb]" by (cases cb) simp
  from assms(1,2) show "callbacks_ok (pending (delivered ph))"
    by (cases ph; cases cb) simp_all
  show "phase_ok (delivered ph) (guarded_set_state now cb t) vpn"
    using assms cb by (cases ph; cases cb) (auto simp: guarded_callback)
qed

lemma guarded_stamps:
  assumes "callbacks_ok [cb]" and "c \<le> n" and "wf_task t" and "t_updated_at t \<le> c"
  shows "wf_task (guarded_set_state n cb t) \<and> t_updated_at (guarded_set_state n cb t) \<le> n"
proof (cases "terminal_state (t_state t)")
  case False
  have "wf_task (task_with_state n (fst cb) (Some (snd cb)) t)"
    using assms by (intro wf_task_with_state) (auto simp: callbacks_ok_def)
  with guarded_callback [OF False assms(1)] show ?thesis by simp
qed (use assms in simp)

lemma ending_stamps:
  assumes "c \<le> n1" and "n1 \<le> n2" and "wf_task t" and "t_updated_at t \<le> c"
  shows "wf_task (timeout_task n1 n2 t) \<and> t_updated_at (timeout_task n1 n2 t) \<le> n2"
    and "wf_task (conclude_task n1 n2 out t) \<and> t_updated_at (conclude_task n1 n2 out t) \<le> n2"
    and "wf_task (crash_task n1 n2 e t) \<and> t_updated_at (crash_task n1 n2 e t) \<le> n2"
  using ending_laws [of t n1 n2] ending_updated [of t n2] assms by simp_all

lemma winv_create:
  assumes inv: "winv s" and res: "create_task py cfg env payload (sy_svc s) = (Inr (201, j), svc')"
    and fresh: "task_of (ce_uuid env) (sy_svc s) = None"
  shows "winv (advance (ce_now env) (ce_now' env) (ce_uuid env) Spawned svc' s)"
  using res
proof (cases rule: create_task_cases)
  case (created rid uid fp t vpn rl i)
  note wf = winvD(1) [OF inv]
  have inv_ok: "ws_inventory (sy_svc s) = Some c \<Longrightarrow> cache_ok c" for c using wf by (simp add: wf_worker_def)
  note t = build_task_Inr [OF created(9) inv_ok]
  have wf1: "wf_worker ((sy_svc s) \<lparr> ws_rate_limiter := rl, ws_inventory := i \<rparr>)"
    using wf build_task_inventory [OF created(9) inv_ok] by (intro wf_worker_limiter)
  show ?thesis
  proof (rule winv_advance [OF inv wf_create_task [OF res wf fresh]])
    show "task_of x svc' = (if x = ce_uuid env then Some t else task_of x (sy_svc s))" for x
      by (simp add: created(2) task_of_register [OF wf1] t(2))
    show "secret_of x svc' = secret_of x (sy_svc s)" if "x \<noteq> ce_uuid env" for x
      using that t(2) by (simp add: created(2) secret_of_def)
    show "phase_ok Spawned t (secret_of (ce_uuid env) svc')"
      using t(2,6) by (simp add: created(2) secret_of_def)
    show "wf_task t \<and> t_updated_at t \<le> ce_now' env" if "ce_now env \<le> ce_now' env"
      using t(7,8) that by simp
  qed (simp_all add: created(8))
qed simp_all

lemma winv_step:
  assumes step: "wstep py cfg s s'" and inv: "winv s"
  shows "winv s'"
  using step
proof cases
  case (create env payload j svc')
  then show ?thesis using winv_create [OF inv] by simp
next
  case (refuse env payload res svc')
  have "wf_worker svc'" using wf_create_refused [OF refuse(2,3) winvD(1) [OF inv]] .
  then show ?thesis
    unfolding refuse(1) by (intro winv_same_tasks inv create_task_refused [OF refuse(2,3)])
next
  case (resolve fl query res svc')
  then show ?thesis
    using winv_same_tasks [OF inv] service_resolve_vehicle_laws winvD(1) [OF inv] by blast
next
  case (start tid t vpn kind env evs out)
  have "phase_ok Spawned t (secret_of tid (sy_svc s))"
    using winv_thread [OF inv start(2)] start(3) by (metis option.inject)
  with possible_run_callbacks [OF start(5)] show ?thesis
    unfolding start(1) by (intro winv_phase [OF inv start(3)]) auto
next
  case (start_raises tid t e)
  have "phase_ok Spawned t (secret_of tid (sy_svc s))"
    using winv_thread [OF inv start_raises(2)] start_raises(3) by (metis option.inject)
  then show ?thesis
    unfolding start_raises(1) by (intro winv_phase [OF inv start_raises(3)]) auto
next
  case (join_raises tid cbs out b x)
  obtain t where t: "task_of tid (sy_svc s) = Some t" "callbacks_ok (pending (Running cbs out))"
    "phase_ok (Running cbs out) t (secret_of tid (sy_svc s))" by (rule winv_thread [OF inv join_raises(2)])
  then show ?thesis
    unfolding join_raises(1) by (intro winv_phase [OF inv t(1)]) auto
next
  case (event tid ph cb cbs now)
  obtain t where t: "task_of tid (sy_svc s) = Some t" "callbacks_ok (pending ph)"
    "phase_ok ph t (secret_of tid (sy_svc s))" by (rule winv_thread [OF inv event(2)])
  note ok = delivered_ok [OF event(3) t(2,3)]
  show ?thesis
    unfolding event(1) service_set_state_def
  proof (rule winv_update [OF inv t(1)])
    show "wf_task (guarded_set_state now cb t) \<and> t_updated_at (guarded_set_state now cb t) \<le> now"
      if "c \<le> now" "wf_task t" "t_updated_at t \<le> c" for c
      using guarded_stamps [OF ok(3) that] .
  qed (use ok in auto)
next
  case (conclude tid out n1 n2)
  obtain t where t: "task_of tid (sy_svc s) = Some t" "phase_ok (Running [] (Some out)) t (secret_of tid (sy_svc s))"
    using winv_thread [OF inv conclude(2)] .
  show ?thesis
    unfolding conclude(1) by (rule winv_update [OF inv t(1)]) (use t ending_stamps(2) in auto)
next
  case (expire tid cbs out n1 n2)
  obtain t where t: "task_of tid (sy_svc s) = Some t" "callbacks_ok cbs"
    "phase_ok (Running cbs out) t (secret_of tid (sy_svc s))"
    using winv_thread [OF inv expire(2)] by auto
  show ?thesis
    unfolding expire(1) by (rule winv_update [OF inv t(1)]) (use t ending_stamps(1) in auto)
next
  case (crash tid e cbs n1 n2)
  obtain t where t: "task_of tid (sy_svc s) = Some t" "callbacks_ok cbs"
    "phase_ok (Raised e cbs) t (secret_of tid (sy_svc s))"
    using winv_thread [OF inv crash(2)] by auto
  show ?thesis
    unfolding crash(1) by (rule winv_update [OF inv t(1)]) (use t ending_stamps(3) in auto)
next
  case (finalize tid cbs n1 n2 log_ok)
  obtain t where t: "task_of tid (sy_svc s) = Some t" "callbacks_ok cbs"
    "phase_ok (Finalizing cbs) t (secret_of tid (sy_svc s))"
    using winv_thread [OF inv finalize(2)] by auto
  note fin = finalize_task_laws [OF winvD(1) [OF inv] t(1), where py = py and log_ok = log_ok and ?n1.0 = n1 and ?n2.0 = n2]
  have "wf_task t \<and> t_updated_at t \<le> n2" if "sy_mono s" "sy_clk s \<le> n1" "n1 \<le> n2"
    using winvD(4) [OF inv] that t(1) by (fastforce simp: stamps_ok_def)
  then show ?thesis
    unfolding finalize(1) using t fin by (intro winv_advance [OF inv fin(1), where t' = t]) auto
qed

lemma winv_reachable: "reachable py cfg s \<Longrightarrow> winv s"
  by (induction rule: reachable_induct) (auto intro: winv_initial winv_step)

end
