(* ===== verification/Worker_Guarantees.thy ===== *)
theory Worker_Guarantees
  imports Worker_System
begin

text \<open>
  What the worker guarantees in every interleaving: how a step can change the tasks, what every
  later state keeps, the life of the credentials, the audit log, and the abstract machine the
  worker implements.
\<close>

section \<open>What a step does to the tasks\<close>

text \<open>Nothing, or a mutation of one task that has not ended, or one new task while none is active.\<close>

lemma wstep_tasks [consumes 2, case_names idle mutate accept]:
  assumes inv: "winv s" and step: "wstep py cfg s s'"
  obtains "\<And>x. task_of x (sy_svc s') = task_of x (sy_svc s)"
    | tid t t' where "task_of tid (sy_svc s) = Some t" and "same_request t t'"
      and "\<not> terminal_state (t_state t)"
      and "\<And>x. task_of x (sy_svc s') = (if x = tid then Some t' else task_of x (sy_svc s))"
    | tid t vpn where "task_of tid (sy_svc s) = None" and "active_task (sy_svc s) = None"
      and "accepted_task t vpn" and "t_state t = u ''created''"
      and "\<And>x. task_of x (sy_svc s') = (if x = tid then Some t else task_of x (sy_svc s))"
proof -
  note idle = that(1) and mutate = that(2) and accept = that(3)
  have upd: thesis
    if "sy_svc s' = update_task tid f (sy_svc s)" and "task_of tid (sy_svc s) = Some t"
      and "keeps_identity f" and "terminal_state (t_state t) \<Longrightarrow> f t = t" for tid t f
  proof (cases "terminal_state (t_state t)")
    case True
    with that show ?thesis
      by (intro idle) (simp add: task_of_update [OF winvD(1) [OF inv]])
  next
    case False
    with that show ?thesis
      by (intro mutate [of tid t "f t"])
        (auto simp: task_of_update [OF winvD(1) [OF inv]] keeps_identity_def)
  qed
  show thesis
    using step
  proof cases
    case (create env payload j svc')
    have ok: "ws_inventory (sy_svc s) = Some c \<Longrightarrow> cache_ok c" for c
      using winvD(1) [OF inv] by (simp add: wf_worker_def)
    from create(2) show ?thesis
    proof (cases rule: create_task_cases)
      case (created rid uid fp t vpn rl i)
      note t = build_task_Inr [OF created(9) ok]
      have "wf_worker ((sy_svc s) \<lparr> ws_rate_limiter := rl, ws_inventory := i \<rparr>)"
        using winvD(1) [OF inv] build_task_inventory [OF created(9) ok] by (intro wf_worker_limiter)
      then show ?thesis
        using create(1,3) created(2,8) t(1,2,6)
        by (intro accept [of "ce_uuid env" t vpn]) (simp_all add: task_of_register)
    qed simp_all
  next
    case (refuse env payload res svc')
    with same_tasks_of(1) [OF create_task_refused [OF refuse(2,3)]] show ?thesis by (intro idle) simp
  next
    case (resolve fl query res svc')
    with same_tasks_of(1) [OF service_resolve_vehicle_laws(1) [OF resolve(2) winvD(1) [OF inv]]]
    show ?thesis by (intro idle) simp
  next
    case (event tid ph cb cbs now)
    obtain t where "task_of tid (sy_svc s) = Some t" by (rule winv_thread [OF inv event(2)])
    with event(1) show ?thesis
      by (intro upd [of tid "guarded_set_state now cb" t]) (simp_all add: service_set_state_def)
  next
    case (conclude tid out n1 n2)
    obtain t where "task_of tid (sy_svc s) = Some t" "\<not> terminal_state (t_state t)"
      using winv_thread [OF inv conclude(2)] by auto
    with conclude(1) show ?thesis by (intro upd [of tid "conclude_task n1 n2 out" t]) simp_all
  next
    case (expire tid cbs out n1 n2)
    obtain t where "task_of tid (sy_svc s) = Some t" "\<not> terminal_state (t_state t)"
      using winv_thread [OF inv expire(2)] by auto
    with expire(1) show ?thesis by (intro upd [of tid "timeout_task n1 n2" t]) simp_all
  next
    case (crash tid e cbs n1 n2)
    obtain t where "task_of tid (sy_svc s) = Some t" "\<not> terminal_state (t_state t)"
      using winv_thread [OF inv crash(2)] by auto
    with crash(1) show ?thesis by (intro upd [of tid "crash_task n1 n2 e" t]) simp_all
  next
    case (finalize tid cbs n1 n2 log_ok)
    obtain t where t: "task_of tid (sy_svc s) = Some t" "terminal_state (t_state t)"
      using winv_thread [OF inv finalize(2)] by auto
    with finalize_task_laws(2) [OF winvD(1) [OF inv] t(1)] finalize(1) show ?thesis
      by (intro idle) simp
  qed (auto intro: idle)
qed

lemma wstep_keeps_task:
  assumes "winv s" and "wstep py cfg s s'" and t: "task_of tid (sy_svc s) = Some t"
  shows "\<exists>t'. task_of tid (sy_svc s') = Some t' \<and> same_request t t'
     \<and> (terminal_state (t_state t) \<longrightarrow> t' = t)"
  using assms(1,2)
proof (cases rule: wstep_tasks)
  case idle
  with t show ?thesis by simp
next
  case (mutate tid' t0 t')
  with t show ?thesis by auto
next
  case (accept tid' t0 vpn)
  with t show ?thesis by auto
qed

lemma wsteps_keep_task:
  assumes "(wstep py cfg)\<^sup>*\<^sup>* s s'" and "winv s" and "task_of tid (sy_svc s) = Some t"
  shows "winv s' \<and> (\<exists>t'. task_of tid (sy_svc s') = Some t' \<and> same_request t t'
     \<and> (terminal_state (t_state t) \<longrightarrow> t' = t))"
  using assms(1)
proof (induction rule: rtranclp_induct)
  case base
  with assms(2,3) show ?case by simp
next
  case (step s1 s2)
  then obtain t1 where inv: "winv s1" and t1: "task_of tid (sy_svc s1) = Some t1" "same_request t t1"
    "terminal_state (t_state t) \<longrightarrow> t1 = t" by blast
  from wstep_keeps_task [OF inv step(2) t1(1)] obtain t2 where
    "task_of tid (sy_svc s2) = Some t2" "same_request t1 t2" "terminal_state (t_state t1) \<longrightarrow> t2 = t1" by blast
  with t1 winv_step [OF step(2) inv] show ?case
    by (auto intro: same_request_trans)
qed

section \<open>Requests\<close>

text \<open>The mapping from request to task never changes once it is there.\<close>

lemma wsteps_keep_request:
  assumes "(wstep py cfg)\<^sup>*\<^sup>* s s'" and "winv s" and "request_of rid (sy_svc s) = Some t"
  shows "\<exists>t'. request_of rid (sy_svc s') = Some t' \<and> same_request t t'"
proof -
  have t: "task_of (t_task_id t) (sy_svc s) = Some t" "t_request_id t = rid"
    using request_of_task_of [OF winvD(1) [OF assms(2)], of rid t] assms(3) by simp_all
  from wsteps_keep_task [OF assms(1,2) t(1)] obtain t' where "winv s'"
    and t': "task_of (t_task_id t) (sy_svc s') = Some t'" "same_request t t'" by blast
  with t(2) task_of_request_of [of "sy_svc s'" "t_task_id t" t'] show ?thesis
    by (auto simp: winv_def same_request_def)
qed

text \<open>A request that was accepted is answered, at any later time, with the task it created.\<close>

lemma create_task_replays:
  assumes "require_str payload (u ''request_id'') (u ''request_id'') = Inr rid"
    and "fingerprint_request py payload = Inr fp"
    and "request_of rid ws = Some t"
  shows "create_task py cfg env payload ws =
    (if t_request_fingerprint t = fp then (Inr (200, to_create_response t), ws)
     else (Inl (WorkerError 409 (u ''request_id_conflict'') msg_request_id_conflict), ws))"
proof -
  from assms(3) obtain r where "dict_get (ws_tasks_by_request_id ws) rid = Some r" "ws_tasks ws ! r = t"
    by (auto simp: request_of_def)
  with assms(1,2) show ?thesis by (simp add: create_task_def)
qed

section \<open>Every task came from an accepted request\<close>

lemma accepted_task_same_request:
  "accepted_task t vpn \<Longrightarrow> same_request t t' \<Longrightarrow> accepted_task t' vpn"
  by (simp add: accepted_task_def same_request_def)

lemma reachable_accepted:
  assumes "reachable py cfg s" and "task_of tid (sy_svc s) = Some t"
  shows "\<exists>vpn. accepted_task t vpn"
  using assms
proof (induction arbitrary: tid t rule: reachable_induct)
  case (initial now)
  then show ?case by (simp add: initial_system_def new_worker_def task_of_def)
next
  case (step s s')
  have inv: "winv s" by (rule winv_reachable [OF step.hyps(1)])
  from inv step.hyps(2) show ?case
  proof (cases rule: wstep_tasks)
    case idle
    with step.IH [of tid t] step.prems show ?thesis by simp
  next
    case (mutate tid' t0 t')
    show ?thesis
    proof (cases "tid = tid'")
      case True
      with mutate step.prems have "t = t'" by simp
      with step.IH [OF mutate(1)] accepted_task_same_request [OF _ mutate(2)] show ?thesis by blast
    next
      case False
      with mutate(4) step.IH [of tid t] step.prems show ?thesis by simp
    qed
  next
    case (accept tid' t0 vpn)
    with step.IH [of tid t] step.prems show ?thesis by (auto split: if_splits)
  qed
qed

section \<open>The machine the worker implements\<close>

text \<open>
  Seen from outside: one job at a time, and for every job that is over its final state. A job is
  accepted when there is none, ends in a terminal state, and is never reopened.
\<close>

record job_machine =
  jm_busy :: "ustr option"
  jm_ended :: "ustr \<rightharpoonup> ustr"

inductive job_step :: "job_machine \<Rightarrow> job_machine \<Rightarrow> bool" where
  accept: "jm_busy m = None \<Longrightarrow> jm_ended m tid = None \<Longrightarrow> job_step m (m \<lparr> jm_busy := Some tid \<rparr>)"
| finish: "jm_busy m = Some tid \<Longrightarrow> terminal_state st \<Longrightarrow>
     job_step m (m \<lparr> jm_busy := None, jm_ended := (jm_ended m)(tid \<mapsto> st) \<rparr>)"

definition active_id :: "worker_state \<Rightarrow> ustr option" where
  "active_id ws = map_option (\<lambda>r. t_task_id (ws_tasks ws ! r)) (active_task ws)"

definition abs_machine :: "worker_state \<Rightarrow> job_machine" where
  "abs_machine ws =
     \<lparr> jm_busy = active_id ws,
       jm_ended = (\<lambda>tid. case task_of tid ws of
          None \<Rightarrow> None
        | Some t \<Rightarrow> if terminal_state (t_state t) then Some (t_state t) else None) \<rparr>"

lemma active_task_Some:
  assumes wf: "wf_worker ws" and "active_task ws = Some r"
  shows "task_of (t_task_id (ws_tasks ws ! r)) ws = Some (ws_tasks ws ! r)"
    and "\<not> terminal_state (t_state (ws_tasks ws ! r))"
proof -
  from assms(2) show "\<not> terminal_state (t_state (ws_tasks ws ! r))"
    by (auto simp: active_task_def find_Some_iff)
  from assms(2) have "r \<in> set (map snd (ws_tasks_by_id ws))"
    by (auto simp: active_task_def find_Some_iff)
  then obtain x where "(x, r) \<in> set (ws_tasks_by_id ws)" by auto
  then have "dict_get (ws_tasks_by_id ws) x = Some r" using wf by (simp add: wf_worker_def)
  with wf_by_id [OF wf, of x r] show "task_of (t_task_id (ws_tasks ws ! r)) ws = Some (ws_tasks ws ! r)"
    by (auto simp: task_of_def)
qed

lemma active_id_Some:
  assumes wf: "wf_worker ws" and "single_flight ws"
  shows "active_id ws = Some tid \<longleftrightarrow> (\<exists>t. task_of tid ws = Some t \<and> \<not> terminal_state (t_state t))"
proof
  assume "active_id ws = Some tid"
  then show "\<exists>t. task_of tid ws = Some t \<and> \<not> terminal_state (t_state t)"
    using active_task_Some [OF wf] by (auto simp: active_id_def)
next
  assume "\<exists>t. task_of tid ws = Some t \<and> \<not> terminal_state (t_state t)"
  then obtain t where t: "task_of tid ws = Some t" "\<not> terminal_state (t_state t)" by blast
  then obtain r where r: "active_task ws = Some r"
    using active_task_None_iff [OF wf] by (cases "active_task ws") auto
  with single_flightD [OF assms(2) t(1) active_task_Some(1) [OF wf r] t(2) active_task_Some(2) [OF wf r]]
  show "active_id ws = Some tid" by (simp add: active_id_def)
qed

lemma active_id_cong:
  assumes "wf_worker ws" "single_flight ws" "wf_worker ws'" "single_flight ws'"
    and "\<And>x. (\<exists>t. task_of x ws' = Some t \<and> \<not> terminal_state (t_state t)) \<longleftrightarrow>
      (\<exists>t. task_of x ws = Some t \<and> \<not> terminal_state (t_state t))"
  shows "active_id ws' = active_id ws"
proof (cases "active_id ws")
  case None
  then have "active_id ws' \<noteq> Some x" for x
    using active_id_Some [OF assms(1,2), of x] active_id_Some [OF assms(3,4), of x] assms(5) by simp
  with None show ?thesis by (metis option.exhaust)
next
  case (Some x)
  then show ?thesis
    using active_id_Some [OF assms(1,2), of x] active_id_Some [OF assms(3,4), of x] assms(5) by simp
qed

lemma active_id_None: "active_id ws = None \<longleftrightarrow> active_task ws = None"
  by (simp add: active_id_def)

text \<open>Every step of the system is a step of the machine, or invisible to it.\<close>

lemma wstep_refines:
  assumes inv: "winv s" and step: "wstep py cfg s s'"
  shows "abs_machine (sy_svc s') = abs_machine (sy_svc s)
     \<or> job_step (abs_machine (sy_svc s)) (abs_machine (sy_svc s'))"
proof -
  let ?ws = "sy_svc s" and ?ws' = "sy_svc s'"
  note inv' = winv_step [OF step inv]
  note act = active_id_Some [OF winvD(1,3) [OF inv]] and act' = active_id_Some [OF winvD(1,3) [OF inv']]
  note cong = active_id_cong [OF winvD(1,3) [OF inv] winvD(1,3) [OF inv']]
  from inv step show ?thesis
  proof (cases rule: wstep_tasks)
    case idle
    with cong show ?thesis by (simp add: abs_machine_def)
  next
    case (mutate tid t t')
    show ?thesis
    proof (cases "terminal_state (t_state t')")
      case False
      with mutate have "active_id ?ws' = active_id ?ws" by (intro cong) auto
      with mutate False have "abs_machine ?ws' = abs_machine ?ws"
        by (auto simp: abs_machine_def fun_eq_iff)
      then show ?thesis ..
    next
      case True
      have busy: "active_id ?ws = Some tid" using act mutate by auto
      moreover have "active_id ?ws' \<noteq> Some x" for x
        using act' [of x] mutate True act [of x] busy by (auto split: if_splits)
      then have "active_id ?ws' = None" by (metis option.exhaust)
      ultimately have "abs_machine ?ws' = (abs_machine ?ws)
          \<lparr> jm_busy := None, jm_ended := (jm_ended (abs_machine ?ws))(tid \<mapsto> t_state t') \<rparr>"
        using mutate(4) True by (auto simp: abs_machine_def fun_eq_iff)
      moreover have "jm_busy (abs_machine ?ws) = Some tid" using busy by (simp add: abs_machine_def)
      ultimately show ?thesis using job_step.finish [of "abs_machine ?ws" tid "t_state t'"] True by simp
    qed
  next
    case (accept tid t vpn)
    have "active_id ?ws' = Some tid" using act' [of tid] accept(4,5) by simp
    then have "abs_machine ?ws' = (abs_machine ?ws) \<lparr> jm_busy := Some tid \<rparr>"
      using accept by (auto simp: abs_machine_def fun_eq_iff)
    moreover have "jm_busy (abs_machine ?ws) = None" "jm_ended (abs_machine ?ws) tid = None"
      using accept(1,2) by (simp_all add: abs_machine_def active_id_None)
    ultimately show ?thesis using job_step.accept [of "abs_machine ?ws" tid] by simp
  qed
qed

lemma wsteps_refine:
  assumes "(wstep py cfg)\<^sup>*\<^sup>* s s'" and "winv s"
  shows "winv s' \<and> job_step\<^sup>*\<^sup>* (abs_machine (sy_svc s)) (abs_machine (sy_svc s'))"
  using assms(1)
proof (induction rule: rtranclp_induct)
  case (step s1 s2)
  then have inv: "winv s1" by simp
  from wstep_refines [OF inv step(2)] step.IH winv_step [OF step(2) inv] show ?case
    by (auto intro: rtranclp.rtrancl_into_rtrancl)
qed (simp add: assms(2))

end
