(* ===== verification/Worker_Progress.thy ===== *)
theory Worker_Progress
  imports Worker_Guarantees
begin

text \<open>
  The execution threads of the worker: they only move forward, none is ever stuck, each writes
  its audit line once, and the credentials live exactly as long as the thread.
\<close>

section \<open>Threads move forward\<close>

fun rank :: "phase \<Rightarrow> nat" where
  "rank Spawned = 4"
| "rank (Running cbs out) = 3"
| "rank (Raised e cbs) = 2"
| "rank (Finalizing cbs) = 1"
| "rank (Detached cbs) = 0"

lemma rank_delivered [simp]: "rank (delivered ph) = rank ph"
  by (cases ph) simp_all

lemma rank_0_iff: "rank ph = 0 \<longleftrightarrow> (\<exists>cbs. ph = Detached cbs)"
  by (cases ph) simp_all

lemma winv_fresh_thread:
  assumes "winv s" and "task_of tid (sy_svc s) = None"
  shows "sy_thr s tid = None"
proof (rule ccontr)
  assume "sy_thr s tid \<noteq> None"
  then obtain ph where "sy_thr s tid = Some ph" by blast
  then show False by (rule winv_thread [OF assms(1)]) (simp add: assms(2))
qed

lemma wstep_thread:
  assumes inv: "winv s" and step: "wstep py cfg s s'" and "sy_thr s tid = Some ph"
  shows "\<exists>ph'. sy_thr s' tid = Some ph' \<and> rank ph' \<le> rank ph"
  using step
proof cases
  case (create env payload j svc')
  with winv_fresh_thread [OF inv create(3)] assms(3) show ?thesis by auto
qed (use assms(3) in auto)

lemma wsteps_thread:
  assumes "(wstep py cfg)\<^sup>*\<^sup>* s s'" and "winv s" and "sy_thr s tid = Some ph"
  shows "winv s' \<and> (\<exists>ph'. sy_thr s' tid = Some ph' \<and> rank ph' \<le> rank ph)"
  using assms(1)
proof (induction rule: rtranclp_induct)
  case (step s1 s2)
  then obtain ph1 where inv: "winv s1" and ph1: "sy_thr s1 tid = Some ph1" "rank ph1 \<le> rank ph" by blast
  with wstep_thread [OF inv step(2) ph1(1)] winv_step [OF step(2) inv] show ?case by force
qed (use assms in auto)

text \<open>A thread that is not over can always take a step of its own, whatever the runner does.\<close>

lemma task_of_update_other:
  "wf_worker ws \<Longrightarrow> x \<noteq> tid \<Longrightarrow> task_of x (update_task tid f ws) = task_of x ws"
  by (simp add: task_of_update)

lemma thread_progress:
  assumes inv: "winv s" and thr: "sy_thr s tid = Some ph" and "0 < rank ph"
  shows "\<exists>s' ph'. wstep py cfg s s' \<and> sy_thr s' tid = Some ph' \<and> rank ph' < rank ph
    \<and> (\<forall>x. x \<noteq> tid \<longrightarrow> task_of x (sy_svc s') = task_of x (sy_svc s))"
proof (cases ph)
  case Spawned
  obtain t where t: "task_of tid (sy_svc s) = Some t" by (rule winv_thread [OF inv thr])
  show ?thesis
  proof (cases "start_runner cfg t (dict_get (ws_secrets_by_task_id (sy_svc s)) tid)")
    case (Inl e)
    show ?thesis
      using wstep.start_raises [OF _ t Inl] thr Spawned
      by (intro exI [of _ "s \<lparr> sy_thr := (sy_thr s)(tid \<mapsto> Raised e []) \<rparr>"]) simp
  next
    case (Inr b)
    obtain vpn kind where b: "b = (vpn, kind)" by fastforce
    fix env
    obtain evs out where "possible_run kind py (worker_artifact_store cfg) env t vpn evs out"
      using possible_run_exists by blast
    then show ?thesis
      using wstep.start [OF _ t Inr [unfolded b]] thr Spawned
      by (intro exI [of _ "s \<lparr> sy_thr := (sy_thr s)(tid \<mapsto> Running evs out) \<rparr>"]) simp
  qed
next
  case (Running cbs out)
  with thr wstep.expire [of s tid cbs out py cfg 0 0] task_of_update_other [OF winvD(1) [OF inv]] show ?thesis
    by (intro exI [of _ "advance 0 0 tid (Finalizing cbs) (update_task tid (timeout_task 0 0) (sy_svc s)) s"]) simp
next
  case (Raised e cbs)
  with thr wstep.crash [of s tid e cbs py cfg 0 0] task_of_update_other [OF winvD(1) [OF inv]] show ?thesis
    by (intro exI [of _ "advance 0 0 tid (Finalizing cbs) (update_task tid (crash_task 0 0 e) (sy_svc s)) s"]) simp
next
  case (Finalizing cbs)
  obtain t where t: "task_of tid (sy_svc s) = Some t" by (rule winv_thread [OF inv thr])
  with Finalizing thr wstep.finalize [of s tid cbs py cfg 0 0 True]
    finalize_task_laws(2) [OF winvD(1) [OF inv] t, where py = py and log_ok = True and ?n1.0 = 0 and ?n2.0 = 0]
  show ?thesis
    by (intro exI [of _ "advance 0 0 tid (Detached cbs) (finalize_task py True 0 0 tid (sy_svc s)) s"]) simp
qed (use assms(3) in simp)

lemma thread_ends:
  assumes "winv s" and "sy_thr s tid = Some ph"
  shows "\<exists>s' cbs. (wstep py cfg)\<^sup>*\<^sup>* s s' \<and> sy_thr s' tid = Some (Detached cbs)
    \<and> (\<forall>x. x \<noteq> tid \<longrightarrow> task_of x (sy_svc s') = task_of x (sy_svc s))"
  using assms
proof (induction "rank ph" arbitrary: s ph rule: less_induct)
  case less
  show ?case
  proof (cases "rank ph = 0")
    case True
    with less.prems(2) show ?thesis by (auto simp: rank_0_iff)
  next
    case False
    with thread_progress [OF less.prems, of py cfg] obtain s1 ph1 where
      step: "wstep py cfg s s1" and ph1: "sy_thr s1 tid = Some ph1" "rank ph1 < rank ph"
      and other: "\<forall>x. x \<noteq> tid \<longrightarrow> task_of x (sy_svc s1) = task_of x (sy_svc s)" by auto
    from less.hyps [OF ph1(2) winv_step [OF step less.prems(1)] ph1(1)] obtain s' cbs where
      "(wstep py cfg)\<^sup>*\<^sup>* s1 s'" "sy_thr s' tid = Some (Detached cbs)"
      "\<forall>x. x \<noteq> tid \<longrightarrow> task_of x (sy_svc s') = task_of x (sy_svc s1)" by blast
    with step other show ?thesis
      by (intro exI [of _ s'] exI [of _ cbs]) (auto intro: converse_rtranclp_into_rtranclp)
  qed
qed

lemma becomes_idle:
  assumes inv: "winv s"
  shows "\<exists>s'. (wstep py cfg)\<^sup>*\<^sup>* s s' \<and> active_task (sy_svc s') = None"
proof (cases "active_id (sy_svc s)")
  case None
  then show ?thesis by (auto simp: active_id_None)
next
  case (Some tid)
  note act = active_id_Some [OF winvD(1,3) [OF inv]]
  from Some act obtain t where "task_of tid (sy_svc s) = Some t" by blast
  then obtain ph where "sy_thr s tid = Some ph" by (rule winv_task [OF inv])
  from thread_ends [OF inv this, of py cfg] obtain s' cbs where
    steps: "(wstep py cfg)\<^sup>*\<^sup>* s s'" and thr: "sy_thr s' tid = Some (Detached cbs)"
    and other: "\<forall>x. x \<noteq> tid \<longrightarrow> task_of x (sy_svc s') = task_of x (sy_svc s)" by blast
  have inv': "winv s'" using wsteps_refine [OF steps inv] by simp
  obtain t' where "task_of tid (sy_svc s') = Some t'" "terminal_state (t_state t')"
    using winv_thread [OF inv' thr] by auto
  moreover have "\<not> (\<exists>t. task_of x (sy_svc s') = Some t \<and> \<not> terminal_state (t_state t))" if "x \<noteq> tid" for x
    using that other act [of x] Some by auto
  ultimately have "active_id (sy_svc s') \<noteq> Some x" for x
    using active_id_Some [OF winvD(1,3) [OF inv'], of x] by (cases "x = tid") auto
  then have "active_id (sy_svc s') = None" by (metis option.exhaust)
  with steps show ?thesis by (auto simp: active_id_None)
qed

section \<open>Credentials\<close>

lemma secret_iff_running:
  assumes inv: "winv s"
  shows "secret_of tid (sy_svc s) \<noteq> None \<longleftrightarrow> (\<exists>ph. sy_thr s tid = Some ph \<and> rank ph \<noteq> 0)"
proof
  assume "secret_of tid (sy_svc s) \<noteq> None"
  moreover from this have "task_of tid (sy_svc s) \<noteq> None"
    using winvD(1) [OF inv] by (simp add: wf_worker_def secret_of_def)
  then obtain t where "task_of tid (sy_svc s) = Some t" by blast
  then obtain ph where "sy_thr s tid = Some ph" "phase_ok ph t (secret_of tid (sy_svc s))"
    using winv_task [OF inv] by metis
  ultimately show "\<exists>ph. sy_thr s tid = Some ph \<and> rank ph \<noteq> 0"
    by (auto simp: rank_0_iff)
next
  assume "\<exists>ph. sy_thr s tid = Some ph \<and> rank ph \<noteq> 0"
  then obtain ph t where "rank ph \<noteq> 0" "phase_ok ph t (secret_of tid (sy_svc s))"
    using winv_thread [OF inv] by metis
  then show "secret_of tid (sy_svc s) \<noteq> None" by (cases ph) auto
qed

section \<open>The audit log\<close>

definition audit_task_id :: "json \<Rightarrow> json" where
  "audit_task_id line = (case line of JDict d \<Rightarrow> jget d (u ''task_id'') | _ \<Rightarrow> JNull)"

lemma audit_task_id_record [simp]: "audit_task_id (audit_record py n n' t) = JStr (t_task_id t)"
  by (simp add: audit_task_id_def audit_record_def jget_def get_or_def)

text \<open>
  Every line is the record of a task whose thread is over, taken when the task had ended, and no
  task has two lines.
\<close>

definition audit_ok :: "pylib \<Rightarrow> wsys \<Rightarrow> bool" where
  "audit_ok py s \<longleftrightarrow>
     (\<forall>line \<in> set (ws_audit (sy_svc s)). \<exists>t n cbs. line = audit_record py n n t
        \<and> task_of (t_task_id t) (sy_svc s) = Some t \<and> sy_thr s (t_task_id t) = Some (Detached cbs))
     \<and> distinct (map audit_task_id (ws_audit (sy_svc s)))"

lemma audit_ok_same_log:
  assumes ok: "audit_ok py s" and inv: "winv s" and step: "wstep py cfg s s'"
    and log: "ws_audit (sy_svc s') = ws_audit (sy_svc s)"
  shows "audit_ok py s'"
  unfolding audit_ok_def log
proof (intro conjI ballI)
  fix line assume "line \<in> set (ws_audit (sy_svc s))"
  with ok obtain t n cbs where line: "line = audit_record py n n t"
    and t: "task_of (t_task_id t) (sy_svc s) = Some t" and thr: "sy_thr s (t_task_id t) = Some (Detached cbs)"
    by (auto simp: audit_ok_def)
  have "terminal_state (t_state t)" using winv_thread [OF inv thr] t by auto
  with wstep_keeps_task [OF inv step t] have "task_of (t_task_id t) (sy_svc s') = Some t" by auto
  moreover have "\<exists>cbs. sy_thr s' (t_task_id t) = Some (Detached cbs)"
    using wstep_thread [OF inv step thr] by (auto simp: rank_0_iff)
  ultimately show "\<exists>t n cbs. line = audit_record py n n t \<and> task_of (t_task_id t) (sy_svc s') = Some t
      \<and> sy_thr s' (t_task_id t) = Some (Detached cbs)"
    using line by blast
qed (use ok in \<open>simp add: audit_ok_def\<close>)

lemma audit_ok_finalize:
  assumes ok: "audit_ok py s" and inv: "winv s" and thr: "sy_thr s tid = Some (Finalizing cbs)"
  shows "audit_ok py (advance n1 n2 tid (Detached cbs) (finalize_task py True n1 n2 tid (sy_svc s)) s)"
proof -
  obtain t where t: "task_of tid (sy_svc s) = Some t" "terminal_state (t_state t)"
    using winv_thread [OF inv thr] by auto
  note fin = finalize_task_laws [OF winvD(1) [OF inv] t(1), where py = py and log_ok = True
      and ?n1.0 = n1 and ?n2.0 = n2]
  have tid: "t_task_id t = tid" using task_of_id [OF winvD(1) [OF inv] t(1)] .
  have other: "\<exists>t' n cbs'. line = audit_record py n n t' \<and> task_of (t_task_id t') (sy_svc s) = Some t'
      \<and> t_task_id t' \<noteq> tid \<and> sy_thr s (t_task_id t') = Some (Detached cbs')"
    if "line \<in> set (ws_audit (sy_svc s))" for line
    using ok that thr by (fastforce simp: audit_ok_def)
  then have "JStr tid \<notin> audit_task_id ` set (ws_audit (sy_svc s))" by fastforce
  with ok other t(1,2) tid show ?thesis
    by (auto simp: audit_ok_def fin(2,4) write_task_event_def) metis
qed

lemma audit_ok_step:
  assumes ok: "audit_ok py s" and inv: "winv s" and step: "wstep py cfg s s'"
  shows "audit_ok py s'"
  using step
proof cases
  case (create env payload j svc')
  have "ws_audit svc' = ws_audit (sy_svc s)"
    using create(2) by (cases rule: create_task_cases) simp_all
  with create(1) show ?thesis by (intro audit_ok_same_log [OF ok inv step]) simp
next
  case (refuse env payload res svc')
  with same_tasks_of(4) [OF create_task_refused [OF refuse(2,3)]] show ?thesis
    by (intro audit_ok_same_log [OF ok inv step]) simp
next
  case (resolve fl query res svc')
  with same_tasks_of(4) [OF service_resolve_vehicle_laws(1) [OF resolve(2) winvD(1) [OF inv]]]
  show ?thesis by (intro audit_ok_same_log [OF ok inv step]) simp
next
  case (finalize tid cbs n1 n2 log_ok)
  obtain t where t: "task_of tid (sy_svc s) = Some t"
    by (rule winv_thread [OF inv finalize(2)])
  show ?thesis
  proof (cases log_ok)
    case True
    with audit_ok_finalize [OF ok inv finalize(2)] finalize(1) show ?thesis by simp
  next
    case False
    with finalize_task_laws(4) [OF winvD(1) [OF inv] t] finalize(1) show ?thesis
      by (intro audit_ok_same_log [OF ok inv step]) (simp add: write_task_event_def)
  qed
qed (intro audit_ok_same_log [OF ok inv step]; simp add: service_set_state_def)+

lemma audit_ok_reachable: "reachable py cfg s \<Longrightarrow> audit_ok py s"
proof (induction rule: reachable_induct)
  case (initial now)
  then show ?case by (simp add: audit_ok_def initial_system_def new_worker_def)
next
  case (step s s')
  then show ?case using audit_ok_step winv_reachable by blast
qed

end
