(* ===== verification/Command_Exec.thy ===== *)
theory Command_Exec
  imports Domain_Models Py_Utf8
begin

text \<open>
  \<open>command_exec.py\<close>: the result of a command and the executor over \<open>subprocess.run\<close>, which cuts
  the output at a number of bytes without leaving a broken character.
\<close>

record command_result =
  cr_args :: "ustr list"
  cr_returncode :: int
  cr_stdout :: ustr
  cr_stderr :: ustr
  cr_timed_out :: bool
  cr_output_truncated :: bool

text \<open>\<open>encoded[:n]\<close>: a negative bound counts from the end.\<close>

definition take_bytes :: "int \<Rightarrow> nat list \<Rightarrow> nat list" where
  "take_bytes n bs = (if 0 \<le> n then take (nat n) bs else take (length bs - nat (- n)) bs)"

definition limit_text :: "pylib \<Rightarrow> ustr \<Rightarrow> int \<Rightarrow> ustr res" where
  "limit_text py s max_bytes =
     (case utf8_encode s of
        None \<Rightarrow> Inl (builtin py B_UnicodeEncodeError)
      | Some encoded \<Rightarrow>
          if int (length encoded) \<le> max_bytes then Inr s
          else Inr (utf8_decode_ignore (take_bytes max_bytes encoded)))"

definition is_truncated :: "pylib \<Rightarrow> ustr \<Rightarrow> int \<Rightarrow> bool res" where
  "is_truncated py s max_bytes =
     (case utf8_encode s of
        None \<Rightarrow> Inl (builtin py B_UnicodeEncodeError)
      | Some encoded \<Rightarrow> Inr (int (length encoded) > max_bytes))"

text \<open>
  What \<open>subprocess.run\<close> does: the process ends, or its time is over (with the text it wrote, where
  that is a \<open>str\<close>), or starting it or decoding its output raises.
\<close>

datatype process_outcome =
    Completed int ustr ustr
  | TimedOut "ustr option" "ustr option"
  | ProcessRaises exn

definition text_or_empty :: "ustr option \<Rightarrow> ustr" where
  "text_or_empty x = (case x of None \<Rightarrow> [] | Some s \<Rightarrow> s)"

text \<open>\<open>SubprocessCommandExecutor.run\<close>.\<close>

definition limited_result :: "pylib \<Rightarrow> int \<Rightarrow> ustr list \<Rightarrow> int \<Rightarrow> ustr \<Rightarrow> ustr \<Rightarrow> bool \<Rightarrow> command_result res" where
  "limited_result py max_bytes args rc out err timed_out =
     bindE (limit_text py out max_bytes) (\<lambda>out'.
     bindE (limit_text py err max_bytes) (\<lambda>err'.
     bindE (is_truncated py out max_bytes) (\<lambda>t1.
     bindE (is_truncated py err max_bytes) (\<lambda>t2.
     Inr \<lparr> cr_args = args, cr_returncode = rc, cr_stdout = out', cr_stderr = err',
           cr_timed_out = timed_out, cr_output_truncated = (t1 \<or> t2) \<rparr>))))"

definition subprocess_run :: "pylib \<Rightarrow> int \<Rightarrow> ustr list \<Rightarrow> process_outcome \<Rightarrow> command_result res" where
  "subprocess_run py max_bytes args outcome =
     (case outcome of
        Completed rc out err \<Rightarrow> limited_result py max_bytes args rc out err False
      | TimedOut out err \<Rightarrow>
          limited_result py max_bytes args 124 (text_or_empty out) (text_or_empty err) True
      | ProcessRaises e \<Rightarrow> Inl e)"

section \<open>Laws\<close>

text \<open>What is kept is the longest prefix that fits.\<close>

lemma limit_text_prefix:
  assumes "valid_ustr s" and "0 \<le> n" and "limit_text py s n = Inr r"
  shows "\<exists>k \<le> length s. r = take k s \<and> int (length (concat (map utf8_char r))) \<le> n
    \<and> (k < length s \<longrightarrow> n < int (length (concat (map utf8_char (take (Suc k) s)))))"
proof -
  from assms(3) obtain bytes where e: "utf8_encode s = Some bytes"
    by (auto simp: limit_text_def split: option.splits)
  note b = utf8_encode_Some [OF e assms(1)]
  show ?thesis
  proof (cases "int (length bytes) \<le> n")
    case True
    with assms(3) e b(1) show ?thesis by (intro exI [of _ "length s"]) (simp add: limit_text_def)
  next
    case False
    with assms(2,3) e b(1) have r: "r = utf8_decode_ignore (take (nat n) (concat (map utf8_char s)))"
      by (simp add: limit_text_def take_bytes_def)
    from decode_ignore_truncated [OF b(2), where n = "nat n"] obtain k where "k \<le> length s" "r = take k s"
      "length (concat (map utf8_char (take k s))) \<le> nat n"
      "k < length s \<longrightarrow> nat n < length (concat (map utf8_char (take (Suc k) s)))"
      unfolding r by blast
    with assms(2) show ?thesis by (intro exI [of _ k]) (auto simp: le_nat_iff nat_less_iff)
  qed
qed

lemma limit_text_truncated:
  assumes "valid_ustr s" and "0 \<le> n" and "limit_text py s n = Inr r"
  shows "is_truncated py s n = Inr (r \<noteq> s)"
proof -
  from assms(3) obtain bytes where e: "utf8_encode s = Some bytes"
    by (auto simp: limit_text_def split: option.splits)
  note b = utf8_encode_Some [OF e assms(1)]
  from limit_text_prefix [OF assms] have fits: "r = s \<Longrightarrow> int (length bytes) \<le> n"
    using b(1) by auto
  from assms(3) e have "int (length bytes) \<le> n \<Longrightarrow> r = s" by (simp add: limit_text_def)
  with fits have "int (length bytes) > n \<longleftrightarrow> r \<noteq> s" by linarith
  with e show ?thesis by (simp add: is_truncated_def)
qed

end
