(* ===== verification/Py_State.thy ===== *)
theory Py_State
  imports Py_Json
begin

text \<open>
  Methods that change state and may raise: a computation takes the state and gives a result or an
  exception together with the state it leaves, so that what was done before a raise stays done.
  The locale \<open>effect_relation\<close> lifts a reflexive and transitive relation between states (an
  invariant that is kept, a part of the state that is left alone, a log that only grows) from the
  basic computations to everything built from them.
\<close>

section \<open>Computations\<close>

type_synonym ('s, 'a) st = "'s \<Rightarrow> 'a res \<times> 's"

definition x_return :: "'a \<Rightarrow> ('s, 'a) st" where
  "x_return a s = (Inr a, s)"

definition x_raise :: "exn \<Rightarrow> ('s, 'a) st" where
  "x_raise e s = (Inl e, s)"

definition x_bind :: "('s, 'a) st \<Rightarrow> ('a \<Rightarrow> ('s, 'b) st) \<Rightarrow> ('s, 'b) st" where
  "x_bind m f s = (case m s of (Inl e, s') \<Rightarrow> (Inl e, s') | (Inr a, s') \<Rightarrow> f a s')"

definition x_raise_if :: "bool \<Rightarrow> exn \<Rightarrow> ('s, unit) st" where
  "x_raise_if c e = (if c then x_raise e else x_return ())"

text \<open>A computation without effects, one that reads the state, one that changes it.\<close>

definition x_lift :: "'a res \<Rightarrow> ('s, 'a) st" where
  "x_lift r s = (r, s)"

definition x_get :: "('s \<Rightarrow> 'a) \<Rightarrow> ('s, 'a) st" where
  "x_get f s = (Inr (f s), s)"

definition x_modify :: "('s \<Rightarrow> 's) \<Rightarrow> ('s, unit) st" where
  "x_modify g s = (Inr (), g s)"

text \<open>Statements one after the other; \<open>try\<close> with a handler for some exceptions.\<close>

fun x_seq :: "('s, unit) st list \<Rightarrow> ('s, unit) st" where
  "x_seq [] = x_return ()"
| "x_seq (m # ms) = x_bind m (\<lambda>_. x_seq ms)"

definition x_try :: "('s, 'a) st \<Rightarrow> (exn \<Rightarrow> bool) \<Rightarrow> (exn \<Rightarrow> ('s, 'a) st) \<Rightarrow> ('s, 'a) st" where
  "x_try m caught h s =
     (case m s of
        (Inl e, s') \<Rightarrow> if caught e then h e s' else (Inl e, s')
      | (Inr a, s') \<Rightarrow> (Inr a, s'))"

text \<open>\<open>try: m finally: fin\<close>; an exception of \<open>fin\<close> replaces what \<open>m\<close> gave.\<close>

definition x_finally :: "('s, 'a) st \<Rightarrow> ('s, unit) st \<Rightarrow> ('s, 'a) st" where
  "x_finally m fin s =
     (case m s of (r, s1) \<Rightarrow> (case fin s1 of (Inl e, s2) \<Rightarrow> (Inl e, s2) | (Inr _, s2) \<Rightarrow> (r, s2)))"

lemma x_simps [simp]:
  "x_return a s = (Inr a, s)" "x_raise e s = (Inl e, s)" "x_lift r s = (r, s)"
  "x_raise_if c e s = (if c then Inl e else Inr (), s)" "x_get f s = (Inr (f s), s)" "x_modify g s = (Inr (), g s)"
  by (simp_all add: x_return_def x_raise_def x_lift_def x_raise_if_def x_get_def x_modify_def)

lemma x_bind_lift [simp]:
  "x_bind (x_lift (Inr a)) f = f a" "x_bind (x_lift (Inl e)) f = x_raise e"
  by (simp_all add: fun_eq_iff x_bind_def)

lemma x_bind_simps [simp]:
  "x_bind (x_return a) f = f a" "x_bind (x_raise e) f = x_raise e"
  "x_bind (x_get g) f s = f (g s) s" "x_bind (x_modify h) k s = k () (h s)"
  by (simp_all add: fun_eq_iff x_bind_def)

lemma x_bind_return [simp]: "x_bind m x_return = m"
  by (auto simp: fun_eq_iff x_bind_def split: prod.split sum.split)

lemma x_bind_eq:
  "x_bind m f s = (r, s') \<longleftrightarrow>
     (\<exists>e. m s = (Inl e, s') \<and> r = Inl e) \<or> (\<exists>a s1. m s = (Inr a, s1) \<and> f a s1 = (r, s'))"
  by (auto simp: x_bind_def split: prod.splits sum.splits)

section \<open>What a computation does to the state\<close>

named_theorems move_rules \<open>how computations move the state\<close>

definition moves :: "('s \<Rightarrow> 's \<Rightarrow> bool) \<Rightarrow> ('s, 'a) st \<Rightarrow> bool" where
  "moves R m \<longleftrightarrow> (\<forall>s. R s (snd (m s)))"

lemma movesI: "(\<And>s. R s (snd (m s))) \<Longrightarrow> moves R m"
  by (simp add: moves_def)

lemma movesD: "moves R m \<Longrightarrow> m s = (r, s') \<Longrightarrow> R s s'"
  by (metis moves_def snd_conv)

lemma moves_modify: "moves R (x_modify g) \<longleftrightarrow> (\<forall>s. R s (g s))"
  by (simp add: moves_def)

text \<open>What was read from the state is a value the state had.\<close>

lemma moves_get_bind: "(\<And>s. moves R (g (f s))) \<Longrightarrow> moves R (x_bind (x_get f) g)"
  by (simp add: moves_def)

locale effect_relation =
  fixes R :: "'s \<Rightarrow> 's \<Rightarrow> bool"
  assumes refl: "R s s"
    and trans: "R s s' \<Longrightarrow> R s' s'' \<Longrightarrow> R s s''"
begin

lemma return [move_rules]: "moves R (x_return a)"
  and raise [move_rules]: "moves R (x_raise e)"
  and lift [move_rules]: "moves R (x_lift r)"
  and raise_if [move_rules]: "moves R (x_raise_if c e)"
  and get [move_rules]: "moves R (x_get f)"
  by (simp_all add: moves_def refl)

lemma bind [move_rules]:
  assumes "moves R m" and "\<And>a. moves R (f a)"
  shows "moves R (x_bind m f)"
proof (rule movesI)
  fix s
  show "R s (snd (x_bind m f s))"
    using assms movesD [OF assms(1)]
    by (cases "m s"; cases "fst (m s)") (auto simp: x_bind_def moves_def intro: trans)
qed

lemma seq [move_rules]: "(\<And>m. m \<in> set ms \<Longrightarrow> moves R m) \<Longrightarrow> moves R (x_seq ms)"
  by (induction ms) (auto intro: return bind)

lemma try_with [move_rules]:
  assumes "moves R m" and "\<And>e. moves R (h e)"
  shows "moves R (x_try m c h)"
proof (rule movesI)
  fix s
  show "R s (snd (x_try m c h s))"
    using assms movesD [OF assms(1)]
    by (cases "m s"; cases "fst (m s)") (auto simp: x_try_def moves_def intro: trans)
qed

lemma finally_with [move_rules]:
  assumes "moves R m" and "moves R fin"
  shows "moves R (x_finally m fin)"
proof (rule movesI)
  fix s
  obtain r s1 where m: "m s = (r, s1)" by fastforce
  obtain r' s2 where fin: "fin s1 = (r', s2)" by fastforce
  have "R s s2" using movesD [OF assms(1) m] movesD [OF assms(2) fin] by (rule trans)
  then show "R s (snd (x_finally m fin s))" using m fin by (cases r') (simp_all add: x_finally_def)
qed

lemma if_cases [move_rules]:
  "(c \<Longrightarrow> moves R m) \<Longrightarrow> (\<not> c \<Longrightarrow> moves R m') \<Longrightarrow> moves R (if c then m else m')"
  by simp

end

end
