(* ===== verification/Executor_Base.thy ===== *)
theory Executor_Base
  imports Command_Exec Runner Config Py_State
begin

text \<open>
  What the two executors of the daemon share: a computation that may raise and that keeps a
  record of its effects (the commands it runs, the state callbacks it makes, the lines it writes
  to the control FIFO), the TCP probe and the parser of the SSH report.
\<close>

section \<open>Computations\<close>

record exec_state =
  xs_commands :: "(ustr list \<times> int) list"
  xs_events :: "callback list"
  xs_written :: "ustr list"
  xs_attempts :: nat
  xs_reads :: nat

definition exec_start :: exec_state where
  "exec_start = \<lparr> xs_commands = [], xs_events = [], xs_written = [], xs_attempts = 0, xs_reads = 0 \<rparr>"

text \<open>
  What the system answers: to the commands, in order, to the attempts to write the FIFO, to the
  readings of the monotonic clock, and the files.
\<close>

record exec_env =
  xe_process :: "nat \<Rightarrow> ustr list \<Rightarrow> int \<Rightarrow> process_outcome"
  xe_fifo_ok :: "nat \<Rightarrow> bool"
  xe_clock :: "nat \<Rightarrow> rat"
  xe_key_is_file :: bool
  xe_secret_lines :: "ustr list res"

type_synonym 'a exec = "(exec_state, 'a) st"

definition x_event :: "callback \<Rightarrow> unit exec" where
  "x_event cb s = (Inr (), s \<lparr> xs_events := xs_events s @ [cb] \<rparr>)"

text \<open>\<open>self.command_executor.run(args, timeout_sec)\<close> of the executor that \<open>from_config\<close> builds.\<close>

definition x_command :: "pylib \<Rightarrow> daemon_config \<Rightarrow> exec_env \<Rightarrow> ustr list \<Rightarrow> int \<Rightarrow> command_result exec" where
  "x_command py cfg env args timeout_sec s =
     (subprocess_run py (dc_command_output_max_bytes cfg) args
        (xe_process env (length (xs_commands s)) args timeout_sec),
      s \<lparr> xs_commands := xs_commands s @ [(args, timeout_sec)] \<rparr>)"

lemma x_event_simp [simp]: "x_event cb s = (Inr (), s \<lparr> xs_events := xs_events s @ [cb] \<rparr>)"
  by (simp add: x_event_def)

section \<open>The TCP probe\<close>

text \<open>\<open>json.dumps\<close> of a text with \<open>ensure_ascii\<close>: \<open>\\uXXXX\<close>, in pairs above the basic plane.\<close>

definition json_unicode_escape :: "nat \<Rightarrow> ustr" where
  "json_unicode_escape c =
     [92, 117, hex_digit (c div 4096), hex_digit (c div 256 mod 16), hex_digit (c div 16 mod 16),
      hex_digit (c mod 16)]"

definition json_escape_ascii :: "nat \<Rightarrow> ustr" where
  "json_escape_ascii c =
     (if c < 127 then json_escape c
      else if c < 65536 then json_unicode_escape c
      else json_unicode_escape (55296 + (c - 65536) div 1024)
           @ json_unicode_escape (56320 + (c - 65536) mod 1024))"

definition json_quote_ascii :: "ustr \<Rightarrow> ustr" where
  "json_quote_ascii s = [34] @ concat (map json_escape_ascii s) @ [34]"

text \<open>\<open>json.dumps(payload, separators=(",", ":"))\<close> of the probe's payload.\<close>

definition probe_payload :: "ustr \<Rightarrow> int \<Rightarrow> ustr" where
  "probe_payload host timeout =
     u ''{'' @ json_quote_ascii (u ''host'') @ u '':'' @ json_quote_ascii host @ u '',''
     @ json_quote_ascii (u ''ports'') @ u '':[22,443,80],''
     @ json_quote_ascii (u ''timeout'') @ u '':'' @ str_of_int timeout @ u ''}''"

definition tcp_probe_script :: "pylib \<Rightarrow> ustr \<Rightarrow> int \<Rightarrow> ustr" where
  "tcp_probe_script py host timeout =
     u ''import json, socket; '' @
     u ''payload=json.loads('' @ py_repr py (JStr (probe_payload host timeout)) @ u ''); '' @
     u ''out={}; '' @
     u ''host=payload['' @ [39] @ u ''host'' @ [39] @ u '']; '' @
     u ''timeout=float(payload['' @ [39] @ u ''timeout'' @ [39] @ u '']); '' @
     [10] @ u ''for port in payload['' @ [39] @ u ''ports'' @ [39] @ u '']:'' @ [10] @
     u ''    sock=socket.socket(socket.AF_INET, socket.SOCK_STREAM)'' @ [10] @
     u ''    sock.settimeout(timeout)'' @ [10] @
     u ''    try:'' @ [10] @
     u ''        sock.connect((host, int(port)))'' @ [10] @
     u ''        out[str(port)]='' @ [39] @ u ''open'' @ [39] @ [10] @
     u ''    except OSError:'' @ [10] @
     u ''        out[str(port)]='' @ [39] @ u ''closed'' @ [39] @ [10] @
     u ''    finally:'' @ [10] @
     u ''        sock.close()'' @ [10] @
     u ''print(json.dumps(out, sort_keys=True))'' @ [10]"

text \<open>What both executors make of the answer of the probe.\<close>

definition tcp_open :: "pylib \<Rightarrow> jdict \<Rightarrow> ustr \<Rightarrow> ustr" where
  "tcp_open py probe port = py_str py (get_or probe port (JStr (u ''closed'')))"

definition probe_result :: "pylib \<Rightarrow> ustr \<Rightarrow> ustr \<Rightarrow> outcome" where
  "probe_result py summary stdout =
     (case py_json_loads py stdout of
        Inl (Builtin B_JSONDecodeError m) \<Rightarrow> Inl (RunnerFailure (u ''vpn_client_error'') msg_tcp_bad_json)
      | Inl e \<Rightarrow> Inl e
      | Inr (JDict probe) \<Rightarrow>
          if tcp_open py probe (u ''22'') \<noteq> u ''open'' \<and> tcp_open py probe (u ''443'') \<noteq> u ''open''
          then Inl (RunnerFailure (u ''vehicle_unreachable'') msg_unreachable_22_443)
          else Inr (plain_result summary
            [(u ''tcp_22'', JStr (tcp_open py probe (u ''22''))),
             (u ''tcp_443'', JStr (tcp_open py probe (u ''443''))),
             (u ''tcp_80'', JStr (tcp_open py probe (u ''80'')))])
      | Inr _ \<Rightarrow> Inl (builtin py B_AttributeError))"

section \<open>The SSH report\<close>

text \<open>\<open>_find_line_index\<close>.\<close>

fun find_line_index :: "ustr list \<Rightarrow> ustr \<Rightarrow> nat option" where
  "find_line_index [] prefix = None"
| "find_line_index (line # lines) prefix =
     (if py_startswith (py_lstrip line) prefix then Some 0
      else map_option Suc (find_line_index lines prefix))"

text \<open>\<open>lines[i].strip() if len(lines) > i else ""\<close>, and the slices \<open>lines[a:b]\<close>, \<open>lines[a:]\<close>.\<close>

definition line_at :: "ustr list \<Rightarrow> nat \<Rightarrow> ustr" where
  "line_at lines i = (if i < length lines then py_strip (lines ! i) else [])"

definition slice_lines :: "nat \<Rightarrow> nat option \<Rightarrow> ustr list \<Rightarrow> ustr list" where
  "slice_lines a b lines = drop a (case b of None \<Rightarrow> lines | Some e \<Rightarrow> take e lines)"

definition parse_basic_status :: "ustr \<Rightarrow> jdict" where
  "parse_basic_status stdout =
     (let lines = py_splitlines stdout;
          disk_start = find_line_index lines (u ''Filesystem'');
          memory_start = find_line_index lines (u ''total'')
      in [(u ''hostname'', JStr (line_at lines 0)),
          (u ''uptime_raw'', JStr (line_at lines 1)),
          (u ''system_time'', JStr (line_at lines 2)),
          (u ''disk_root_raw'', JStr (case disk_start of None \<Rightarrow> []
             | Some d \<Rightarrow> py_strip (py_join [10] (slice_lines d memory_start lines)))),
          (u ''memory_raw'', JStr (case memory_start of None \<Rightarrow> []
             | Some m \<Rightarrow> py_strip (py_join [10] (slice_lines m None lines))))])"

text \<open>The SSH command of \<open>_basic_status\<close>, the same in both executors.\<close>

definition ssh_status_command :: "daemon_config \<Rightarrow> task \<Rightarrow> ustr list" where
  "ssh_status_command cfg t =
     [dc_ssh_bin cfg, u ''-i'', dc_ssh_key_path cfg, u ''-o'',
      u ''ConnectTimeout='' @ str_of_int (dc_nsenter_timeout_sec cfg), u ''-o'',
      u ''StrictHostKeyChecking=no'', dc_default_ssh_user cfg @ u ''@'' @ v_ip (t_vehicle t),
      u ''hostname; uptime; date -Is; df -h /; free -m'']"

end
