(* ===== verification/Existing_Container.thy ===== *)
theory Existing_Container
  imports Executor_Base
begin

text \<open>
  \<open>existing_container_executor.py\<close>: an operation inside the network namespace of a running VPN
  container, reached with \<open>docker inspect\<close> and \<open>nsenter\<close>.
\<close>

definition vpn_failure :: "ustr \<Rightarrow> exn" where
  "vpn_failure m = RunnerFailure (u ''vpn_client_error'') m"

definition timeout_failure :: "ustr \<Rightarrow> exn" where
  "timeout_failure m = RunnerFailure (u ''operation_timeout'') m"

definition REQUIRED_VPN_ROUTE :: ustr where
  "REQUIRED_VPN_ROUTE = u ''172.26.0.0/15''"

definition container_pid :: "pylib \<Rightarrow> daemon_config \<Rightarrow> exec_env \<Rightarrow> ustr exec" where
  "container_pid py cfg env =
     x_bind (x_command py cfg env
       [dc_docker_bin cfg, u ''inspect'', u ''-f'', u ''{{.State.Pid}}'', dc_existing_container_name cfg]
       (dc_nsenter_timeout_sec cfg)) (\<lambda>r.
     x_bind (x_raise_if (cr_timed_out r) (timeout_failure msg_inspect_timeout)) (\<lambda>_.
     let pid = py_strip (cr_stdout r) in
     x_bind (x_raise_if (cr_returncode r \<noteq> 0 \<or> pid = [] \<or> pid = u ''0'') (vpn_failure msg_no_pid)) (\<lambda>_.
     x_return pid)))"

definition nsenter :: "pylib \<Rightarrow> daemon_config \<Rightarrow> exec_env \<Rightarrow> ustr \<Rightarrow> ustr list \<Rightarrow> int \<Rightarrow> command_result exec" where
  "nsenter py cfg env pid command timeout_sec =
     x_command py cfg env ([dc_nsenter_bin cfg, u ''-t'', pid, u ''-n''] @ command)
       (min timeout_sec (dc_nsenter_timeout_sec cfg))"

definition is_permission_denied :: "pylib \<Rightarrow> command_result \<Rightarrow> bool" where
  "is_permission_denied py r \<longleftrightarrow>
     cr_returncode r \<noteq> 0
     \<and> py_contains (py_lower py (cr_stderr r @ [10] @ cr_stdout r)) (u ''permission denied'')"

definition preflight :: "pylib \<Rightarrow> daemon_config \<Rightarrow> exec_env \<Rightarrow> ustr \<Rightarrow> unit exec" where
  "preflight py cfg env pid =
     x_bind (nsenter py cfg env pid [u ''ip'', u ''addr'', u ''show'', u ''cnem_vnic'']
               (dc_nsenter_timeout_sec cfg)) (\<lambda>addr.
     x_bind (x_raise_if (cr_timed_out addr) (timeout_failure msg_preflight_vnic_timeout)) (\<lambda>_.
     x_bind (x_raise_if (is_permission_denied py addr)
               (vpn_failure (u ''VPN preflight: nsenter permission denied''))) (\<lambda>_.
     x_bind (x_raise_if (cr_returncode addr \<noteq> 0 \<or> \<not> py_contains (cr_stdout addr) (u ''cnem_vnic''))
               (vpn_failure msg_preflight_no_vnic)) (\<lambda>_.
     x_bind (nsenter py cfg env pid [u ''ip'', u ''route''] (dc_nsenter_timeout_sec cfg)) (\<lambda>routes.
     x_bind (x_raise_if (cr_timed_out routes) (timeout_failure msg_preflight_routes_timeout)) (\<lambda>_.
     x_bind (x_raise_if (is_permission_denied py routes)
               (vpn_failure (u ''VPN preflight: nsenter permission denied''))) (\<lambda>_.
     x_bind (x_raise_if (cr_returncode routes \<noteq> 0) (vpn_failure msg_preflight_no_routes)) (\<lambda>_.
     x_raise_if (\<not> py_contains (cr_stdout routes) REQUIRED_VPN_ROUTE)
       (vpn_failure msg_preflight_route_missing)))))))))"

definition existing_reachability :: "pylib \<Rightarrow> daemon_config \<Rightarrow> exec_env \<Rightarrow> ustr \<Rightarrow> task \<Rightarrow> runner_result exec" where
  "existing_reachability py cfg env pid t =
     x_bind (nsenter py cfg env pid
       [u ''python3'', u ''-c'',
        tcp_probe_script py (v_ip (t_vehicle t)) (min (dc_nsenter_timeout_sec cfg) (t_timeout_sec t))]
       (t_timeout_sec t)) (\<lambda>r.
     x_bind (x_raise_if (cr_timed_out r) (timeout_failure msg_nsenter_tcp_timeout)) (\<lambda>_.
     x_bind (x_raise_if (cr_returncode r \<noteq> 0) (vpn_failure msg_nsenter_tcp_failed)) (\<lambda>_.
     x_lift (probe_result py msg_existing_ns_reachable (cr_stdout r)))))"

definition existing_basic_status :: "pylib \<Rightarrow> daemon_config \<Rightarrow> exec_env \<Rightarrow> ustr \<Rightarrow> task \<Rightarrow> runner_result exec" where
  "existing_basic_status py cfg env pid t =
     x_bind (x_raise_if (\<not> xe_key_is_file env)
       (RunnerFailure (u ''ssh_failed'') (msg_ssh_key_missing @ dc_ssh_key_path cfg))) (\<lambda>_.
     x_bind (nsenter py cfg env pid (ssh_status_command cfg t) (t_timeout_sec t)) (\<lambda>r.
     x_bind (x_raise_if (cr_timed_out r) (timeout_failure msg_nsenter_ssh_timeout)) (\<lambda>_.
     x_bind (x_raise_if (cr_returncode r \<noteq> 0) (RunnerFailure (u ''ssh_failed'') msg_nsenter_ssh_failed)) (\<lambda>_.
     x_return (plain_result msg_ssh_status_done (parse_basic_status (cr_stdout r)))))))"

text \<open>\<open>ExistingContainerExecutor.run\<close>.\<close>

definition existing_executor_run :: "pylib \<Rightarrow> daemon_config \<Rightarrow> exec_env \<Rightarrow> task \<Rightarrow> runner_result exec" where
  "existing_executor_run py cfg env t =
     x_bind (container_pid py cfg env) (\<lambda>pid.
     x_bind (preflight py cfg env pid) (\<lambda>_.
     if t_operation t = u ''vehicle_reachability'' then existing_reachability py cfg env pid t
     else if t_operation t = u ''basic_status'' then existing_basic_status py cfg env pid t
     else x_raise (RunnerFailure (u ''operation_not_allowed'') msg_op_not_implemented_existing)))"

end
