(* ===== verification/Container_Namespace.thy ===== *)
theory Container_Namespace
  imports Existing_Container
begin

text \<open>
  \<open>container_namespace_executor.py\<close>: an operation inside the daemon's own network namespace,
  with the UniVPN session brought up through the control FIFO when it is down, and taken down
  afterwards. The wait for the session is a loop that may not end; a run without an end is
  \<open>None\<close>.
\<close>

section \<open>Sleeping, the control FIFO and the secret file\<close>

definition x_sleep :: "pylib \<Rightarrow> rat \<Rightarrow> unit exec" where
  "x_sleep py seconds = x_raise_if (seconds < 0) (builtin py B_ValueError)"

text \<open>One append to the FIFO: creating, opening or writing it may raise, and so may the encoder.\<close>

definition x_write :: "pylib \<Rightarrow> exec_env \<Rightarrow> ustr \<Rightarrow> unit exec" where
  "x_write py env payload s =
     (let s1 = s \<lparr> xs_attempts := Suc (xs_attempts s) \<rparr>
      in if \<not> xe_fifo_ok env (xs_attempts s) then (Inl (builtin py B_OSError), s1)
         else case utf8_encode payload of
           None \<Rightarrow> (Inl (builtin py B_UnicodeEncodeError), s1)
         | Some bytes \<Rightarrow> (Inr (), s1 \<lparr> xs_written := xs_written s @ [payload] \<rparr>))"

definition write_control_line :: "pylib \<Rightarrow> exec_env \<Rightarrow> ustr \<Rightarrow> unit exec" where
  "write_control_line py env line = x_write py env (line @ [10])"

definition control_sequence :: "ustr list \<Rightarrow> ustr" where
  "control_sequence lines = rstrip_char 10 (py_join [10] lines) @ [10]"

definition write_control_sequence :: "pylib \<Rightarrow> exec_env \<Rightarrow> ustr list \<Rightarrow> unit exec" where
  "write_control_sequence py env lines = x_write py env (control_sequence lines)"

text \<open>\<open>_read_env_file\<close>, line by line.\<close>

definition env_line :: "ustr \<Rightarrow> (ustr \<times> ustr) option" where
  "env_line raw_line =
     (let line = py_strip raw_line
      in if line = [] \<or> py_startswith line (u ''#'') then None
         else case py_partition 61 line of (key, found, value) \<Rightarrow>
           if \<not> found then None
           else Some (py_strip key, strip_char 39 (strip_char 34 (py_strip value))))"

fun read_env_lines :: "(ustr, ustr) dict \<Rightarrow> ustr list \<Rightarrow> (ustr, ustr) dict" where
  "read_env_lines result [] = result"
| "read_env_lines result (line # lines) =
     read_env_lines (case env_line line of None \<Rightarrow> result | Some (k, v) \<Rightarrow> dict_set result k v) lines"

section \<open>Logging in\<close>

definition credentials :: "daemon_config \<Rightarrow> exec_env \<Rightarrow> vpn_credentials \<Rightarrow> (ustr \<times> ustr) res" where
  "credentials cfg env vpn =
     (if vpn_mode vpn = u ''inline_once'' then
        if vpn_username vpn = [] \<or> vpn_password vpn = [] then Inl (vpn_failure msg_univpn_credentials_missing)
        else Inr (vpn_username vpn, vpn_password vpn)
      else if vpn_mode vpn \<noteq> u ''container_secret'' \<or> dc_univpn_login_mode cfg \<noteq> u ''container_secret'' then
        Inl (vpn_failure msg_login_mode_unsupported)
      else case xe_secret_lines env of
          Inl (Builtin B_OSError m) \<Rightarrow> Inl (vpn_failure msg_secret_unavailable)
        | Inl e \<Rightarrow> Inl e
        | Inr lines \<Rightarrow>
            let secrets = read_env_lines [] lines;
                username = text_or_empty (dict_get secrets (u ''VPN_USERNAME''));
                password = text_or_empty (dict_get secrets (u ''VPN_PASSWORD''))
            in if username = [] \<or> password = [] then Inl (vpn_failure msg_secret_incomplete)
               else Inr (username, password))"

text \<open>\<open>try: ... except OSError\<close>.\<close>

definition x_catch_os :: "'a exec \<Rightarrow> 'a exec \<Rightarrow> 'a exec" where
  "x_catch_os m handler s =
     (case m s of (Inl (Builtin B_OSError txt), s') \<Rightarrow> handler s' | r \<Rightarrow> r)"

definition login_dialogue :: "pylib \<Rightarrow> daemon_config \<Rightarrow> exec_env \<Rightarrow> ustr \<Rightarrow> ustr \<Rightarrow> unit exec" where
  "login_dialogue py cfg env username password =
     x_bind (write_control_line py env (dc_univpn_profile_menu_index cfg)) (\<lambda>_.
     x_bind (x_sleep py (dc_univpn_login_after_profile_delay_sec cfg)) (\<lambda>_.
     x_bind (write_control_line py env (u ''1'')) (\<lambda>_.
     x_bind (x_sleep py (dc_univpn_login_after_connect_delay_sec cfg)) (\<lambda>_.
     x_bind (write_control_line py env username) (\<lambda>_.
     x_bind (x_sleep py (dc_univpn_login_after_username_delay_sec cfg)) (\<lambda>_.
     x_bind (write_control_line py env password) (\<lambda>_.
     x_sleep py (dc_univpn_post_login_wait_sec cfg))))))))"

definition ns_login :: "pylib \<Rightarrow> daemon_config \<Rightarrow> exec_env \<Rightarrow> vpn_credentials \<Rightarrow> unit exec" where
  "ns_login py cfg env vpn =
     x_bind (x_lift (credentials cfg env vpn)) (\<lambda>c.
     x_catch_os (login_dialogue py cfg env (fst c) (snd c))
       (x_raise (vpn_failure msg_fifo_unavailable)))"

section \<open>The session\<close>

text \<open>\<open>_is_connected\<close>: the interface exists and the route is there.\<close>

definition is_connected :: "pylib \<Rightarrow> daemon_config \<Rightarrow> exec_env \<Rightarrow> bool exec" where
  "is_connected py cfg env =
     x_bind (x_command py cfg env [u ''ip'', u ''-br'', u ''addr'', u ''show'', dc_univpn_interface cfg]
               (dc_nsenter_timeout_sec cfg)) (\<lambda>addr.
     x_bind (x_raise_if (cr_timed_out addr)
               (timeout_failure (msg_preflight_check @ dc_univpn_interface cfg @ msg_timeout_suffix))) (\<lambda>_.
     if \<not> (cr_returncode addr = 0 \<and> py_contains (cr_stdout addr) (dc_univpn_interface cfg))
     then x_return False
     else
       x_bind (x_command py cfg env [u ''ip'', u ''route''] (dc_nsenter_timeout_sec cfg)) (\<lambda>routes.
       x_bind (x_raise_if (cr_timed_out routes) (timeout_failure msg_preflight_routes_timeout)) (\<lambda>_.
       x_bind (x_raise_if (cr_returncode routes \<noteq> 0) (vpn_failure msg_preflight_no_routes)) (\<lambda>_.
       x_return (py_contains (cr_stdout routes) (dc_univpn_route_cidr cfg)))))))"

text \<open>
  One round of the wait: a check, then the clock, then a pause. \<open>None\<close> is another round.
\<close>

definition login_timed_out :: "daemon_config \<Rightarrow> exn" where
  "login_timed_out cfg =
     vpn_failure (msg_login_no_interface @ dc_univpn_interface cfg @ msg_and_route @ dc_univpn_route_cidr cfg)"

definition wait_round :: "pylib \<Rightarrow> daemon_config \<Rightarrow> exec_env \<Rightarrow> rat \<Rightarrow> exec_state
    \<Rightarrow> unit res option \<times> exec_state" where
  "wait_round py cfg env deadline s =
     (case is_connected py cfg env s of
        (Inl e, s1) \<Rightarrow> (Some (Inl e), s1)
      | (Inr True, s1) \<Rightarrow> (Some (Inr ()), s1)
      | (Inr False, s1) \<Rightarrow>
          let s2 = s1 \<lparr> xs_reads := Suc (xs_reads s1) \<rparr>
          in if xe_clock env (xs_reads s1) \<ge> deadline then (Some (Inl (login_timed_out cfg)), s2)
             else (case x_sleep py (dc_univpn_connect_poll_interval_sec cfg) s2 of
                     (Inl e, s3) \<Rightarrow> (Some (Inl e), s3)
                   | (Inr _, s3) \<Rightarrow> (None, s3)))"

partial_function (option) wait_connected :: "pylib \<Rightarrow> daemon_config \<Rightarrow> exec_env \<Rightarrow> rat \<Rightarrow> exec_state
    \<Rightarrow> (unit res \<times> exec_state) option" where
  "wait_connected py cfg env deadline s =
     (case fst (wait_round py cfg env deadline s) of
        Some r \<Rightarrow> Some (r, snd (wait_round py cfg env deadline s))
      | None \<Rightarrow> wait_connected py cfg env deadline (snd (wait_round py cfg env deadline s)))"

definition ensure_vpn_connected :: "pylib \<Rightarrow> daemon_config \<Rightarrow> exec_env \<Rightarrow> vpn_credentials \<Rightarrow> exec_state
    \<Rightarrow> (unit res \<times> exec_state) option" where
  "ensure_vpn_connected py cfg env vpn s =
     (case is_connected py cfg env s of
        (Inl e, s1) \<Rightarrow> Some (Inl e, s1)
      | (Inr True, s1) \<Rightarrow> Some (Inr (), s1)
      | (Inr False, s1) \<Rightarrow>
          if \<not> dc_manage_vpn_session cfg then
            Some (Inl (vpn_failure (msg_preflight_interface @ dc_univpn_interface cfg @ msg_or_route
              @ dc_univpn_route_cidr cfg @ msg_missing_suffix)), s1)
          else (case ns_login py cfg env vpn s1 of
              (Inl e, s2) \<Rightarrow> Some (Inl e, s2)
            | (Inr _, s2) \<Rightarrow>
                wait_connected py cfg env
                  (xe_clock env (xs_reads s2) + of_int (dc_univpn_login_timeout_sec cfg))
                  (s2 \<lparr> xs_reads := Suc (xs_reads s2) \<rparr>)))"

section \<open>The operations\<close>

definition ns_reachability :: "pylib \<Rightarrow> daemon_config \<Rightarrow> exec_env \<Rightarrow> task \<Rightarrow> runner_result exec" where
  "ns_reachability py cfg env t =
     x_bind (x_command py cfg env
       [u ''python3'', u ''-c'',
        tcp_probe_script py (v_ip (t_vehicle t)) (min (dc_nsenter_timeout_sec cfg) (t_timeout_sec t))]
       (t_timeout_sec t)) (\<lambda>r.
     x_bind (x_raise_if (cr_timed_out r) (timeout_failure msg_ns_tcp_timeout)) (\<lambda>_.
     x_bind (x_raise_if (cr_returncode r \<noteq> 0) (vpn_failure msg_ns_tcp_failed)) (\<lambda>_.
     x_lift (probe_result py msg_ns_reachable (cr_stdout r)))))"

definition ns_basic_status :: "pylib \<Rightarrow> daemon_config \<Rightarrow> exec_env \<Rightarrow> task \<Rightarrow> runner_result exec" where
  "ns_basic_status py cfg env t =
     x_bind (x_raise_if (\<not> xe_key_is_file env)
       (RunnerFailure (u ''ssh_failed'') (msg_ssh_key_missing @ dc_ssh_key_path cfg))) (\<lambda>_.
     x_bind (x_command py cfg env (ssh_status_command cfg t) (t_timeout_sec t)) (\<lambda>r.
     x_bind (x_raise_if (cr_timed_out r) (timeout_failure msg_ns_ssh_timeout)) (\<lambda>_.
     x_bind (x_raise_if (cr_returncode r \<noteq> 0) (RunnerFailure (u ''ssh_failed'') msg_ns_ssh_failed)) (\<lambda>_.
     x_return (plain_result msg_ssh_status_done (parse_basic_status (cr_stdout r)))))))"

definition ns_operation :: "pylib \<Rightarrow> daemon_config \<Rightarrow> exec_env \<Rightarrow> task \<Rightarrow> runner_result exec" where
  "ns_operation py cfg env t =
     (if t_operation t = u ''vehicle_reachability'' then
        x_bind (x_event (u ''checking_vehicle'', msg_checking_tcp)) (\<lambda>_. ns_reachability py cfg env t)
      else if t_operation t = u ''basic_status'' then
        x_bind (x_event (u ''checking_vehicle'', msg_ns_check_before_ssh)) (\<lambda>_.
        x_bind (x_event (u ''running_operation'', msg_ns_status_by_ssh)) (\<lambda>_.
        ns_basic_status py cfg env t))
      else x_raise (RunnerFailure (u ''operation_not_allowed'') msg_op_not_implemented_ns))"

section \<open>The cleanup and the run\<close>

definition ns_cleanup :: "pylib \<Rightarrow> daemon_config \<Rightarrow> exec_env \<Rightarrow> json list exec" where
  "ns_cleanup py cfg env =
     (if \<not> dc_stop_vpn_after_task cfg then x_return []
      else
        x_bind (x_event (u ''cleanup'', u ''Cleanup UniVPN session'')) (\<lambda>_.
        if text_or_empty (dc_univpn_disconnect_sequence cfg) = [] then
          x_return [JStr (u ''UniVPN cleanup requested, but disconnect sequence is not configured'')]
        else
          x_catch_os
            (x_bind (write_control_sequence py env
                       (py_splitlines (text_or_empty (dc_univpn_disconnect_sequence cfg)))) (\<lambda>_.
             x_return []))
            (x_return [JStr (u ''UniVPN cleanup failed'')])))"

text \<open>
  The \<open>finally\<close> block: it runs whatever the body did; what it raises replaces the outcome; its
  warnings reach the result already returned, which shares the list.
\<close>

definition with_cleanup :: "outcome \<times> exec_state \<Rightarrow> json list res \<times> exec_state \<Rightarrow> outcome \<times> exec_state" where
  "with_cleanup body cleanup =
     (case fst cleanup of
        Inl e \<Rightarrow> (Inl e, snd cleanup)
      | Inr ws \<Rightarrow>
          (case fst body of
             Inl e \<Rightarrow> (Inl e, snd cleanup)
           | Inr r \<Rightarrow>
               (Inr (r \<lparr> rr_warnings := Some ((case rr_warnings r of None \<Rightarrow> [] | Some w \<Rightarrow> w) @ ws) \<rparr>),
                snd cleanup)))"

definition ns_body :: "pylib \<Rightarrow> daemon_config \<Rightarrow> exec_env \<Rightarrow> task \<Rightarrow> unit res \<times> exec_state
    \<Rightarrow> outcome \<times> exec_state" where
  "ns_body py cfg env t session =
     x_bind (x_lift (fst session)) (\<lambda>_.
     x_bind (x_event (u ''vpn_connected'', msg_ns_session_ok)) (\<lambda>_.
     ns_operation py cfg env t)) (snd session)"

definition ns_run :: "pylib \<Rightarrow> daemon_config \<Rightarrow> exec_env \<Rightarrow> task \<Rightarrow> vpn_credentials \<Rightarrow> exec_state
    \<Rightarrow> (outcome \<times> exec_state) option" where
  "ns_run py cfg env t vpn s =
     map_option
       (\<lambda>session.
          let body = ns_body py cfg env t session
          in with_cleanup body (ns_cleanup py cfg env (snd body)))
       (ensure_vpn_connected py cfg env vpn
          (snd (x_event (u ''starting_vpn'', msg_ns_check_session) s)))"

end
