(* ===== verification/Executor_Laws.thy ===== *)
theory Executor_Laws
  imports Container_Namespace
begin

text \<open>
  Laws of the two executors: which commands they can run, what they write and report, that the
  cleanup is never skipped, and that the wait for the session ends when the clock advances.
\<close>

section \<open>Effects\<close>

text \<open>
  The second state comes after the first: more commands, all satisfying \<open>P\<close>; more texts in the
  FIFO, all satisfying \<open>W\<close>; more callbacks, all acceptable to a task.
\<close>

definition extends :: "(ustr list \<times> int \<Rightarrow> bool) \<Rightarrow> (ustr \<Rightarrow> bool) \<Rightarrow> exec_state \<Rightarrow> exec_state \<Rightarrow> bool" where
  "extends P W s s' \<longleftrightarrow>
     (\<exists>cs. xs_commands s' = xs_commands s @ cs \<and> list_all P cs)
     \<and> (\<exists>ws. xs_written s' = xs_written s @ ws \<and> list_all W ws)
     \<and> (\<exists>es. xs_events s' = xs_events s @ es \<and> callbacks_ok es)"

lemma extends_refl [simp]: "extends P W s s"
  by (simp add: extends_def)

lemma extends_trans: "extends P W s s' \<Longrightarrow> extends P W s' s'' \<Longrightarrow> extends P W s s''"
  unfolding extends_def by (elim conjE exE) simp

lemma extends_reads [simp]:
  "extends P W s (s' \<lparr> xs_reads := n \<rparr>) \<longleftrightarrow> extends P W s s'"
  "extends P W s (s' \<lparr> xs_attempts := n \<rparr>) \<longleftrightarrow> extends P W s s'"
  by (simp_all add: extends_def)

abbreviation effects :: "(ustr list \<times> int \<Rightarrow> bool) \<Rightarrow> (ustr \<Rightarrow> bool) \<Rightarrow> 'a exec \<Rightarrow> bool" where
  "effects P W \<equiv> moves (extends P W)"

interpretation exec_effects: effect_relation "extends P W" for P W
  by unfold_locales (auto intro: extends_trans)

lemma effects_catch [move_rules]: "effects P W m \<Longrightarrow> effects P W h \<Longrightarrow> effects P W (x_catch_os m h)"
  by (auto simp: moves_def x_catch_os_def split: prod.splits sum.splits exn.splits builtin_exn.splits)
    (metis extends_trans snd_conv)+

lemma effects_command [move_rules]: "P (args, n) \<Longrightarrow> effects P W (x_command py cfg env args n)"
  by (simp add: moves_def extends_def x_command_def)

lemma effects_event [move_rules]: "callbacks_ok [cb] \<Longrightarrow> effects P W (x_event cb)"
  by (simp add: moves_def extends_def)

lemma effects_write [move_rules]: "W payload \<Longrightarrow> effects P W (x_write py env payload)"
  by (auto simp: moves_def extends_def x_write_def Let_def split: option.splits)

lemma effects_sleep [move_rules]: "effects P W (x_sleep py r)"
  by (simp add: x_sleep_def move_rules)

lemma progress_states [simp]:
  "u ''starting_vpn'' \<in> set TASK_STATES" "\<not> terminal_state (u ''starting_vpn'')"
  "u ''vpn_connected'' \<in> set TASK_STATES" "\<not> terminal_state (u ''vpn_connected'')"
  "u ''checking_vehicle'' \<in> set TASK_STATES" "\<not> terminal_state (u ''checking_vehicle'')"
  "u ''running_operation'' \<in> set TASK_STATES" "\<not> terminal_state (u ''running_operation'')"
  "u ''cleanup'' \<in> set TASK_STATES" "\<not> terminal_state (u ''cleanup'')"
  by (simp_all add: TASK_STATES_def TERMINAL_STATES_def)

section \<open>The commands\<close>

text \<open>The commands of an operation on a vehicle: the TCP probe and the SSH report.\<close>

definition vehicle_command :: "pylib \<Rightarrow> daemon_config \<Rightarrow> task \<Rightarrow> ustr list \<Rightarrow> bool" where
  "vehicle_command py cfg t args \<longleftrightarrow>
     args = ssh_status_command cfg t
     \<or> args = [u ''python3'', u ''-c'',
          tcp_probe_script py (v_ip (t_vehicle t)) (min (dc_nsenter_timeout_sec cfg) (t_timeout_sec t))]"

definition existing_command :: "pylib \<Rightarrow> daemon_config \<Rightarrow> task \<Rightarrow> ustr list \<times> int \<Rightarrow> bool" where
  "existing_command py cfg t c \<longleftrightarrow>
     snd c \<le> dc_nsenter_timeout_sec cfg
     \<and> (fst c = [dc_docker_bin cfg, u ''inspect'', u ''-f'', u ''{{.State.Pid}}'', dc_existing_container_name cfg]
        \<or> (\<exists>pid args. fst c = [dc_nsenter_bin cfg, u ''-t'', pid, u ''-n''] @ args \<and> pid \<noteq> [] \<and> pid \<noteq> u ''0''
             \<and> (args = [u ''ip'', u ''addr'', u ''show'', u ''cnem_vnic''] \<or> args = [u ''ip'', u ''route'']
                \<or> vehicle_command py cfg t args)))"

lemma effects_nsenter:
  assumes "pid \<noteq> []" and "pid \<noteq> u ''0''"
    and "args = [u ''ip'', u ''addr'', u ''show'', u ''cnem_vnic''] \<or> args = [u ''ip'', u ''route'']
      \<or> vehicle_command py cfg t args"
  shows "effects (existing_command py cfg t) W (nsenter py cfg env pid args n)"
  unfolding nsenter_def by (rule effects_command) (use assms in \<open>auto simp: existing_command_def\<close>)

lemma container_pid_Inr:
  "container_pid py cfg env s = (Inr pid, s') \<Longrightarrow> pid \<noteq> [] \<and> pid \<noteq> u ''0''"
  by (auto simp: container_pid_def x_bind_eq Let_def split: if_splits)

lemma effects_container_pid: "effects (existing_command py cfg t) W (container_pid py cfg env)"
  unfolding container_pid_def Let_def
  by (intro move_rules) (simp add: existing_command_def)

lemma existing_executor_effects:
  assumes "existing_executor_run py cfg env t s = (r, s')"
  shows "extends (existing_command py cfg t) (\<lambda>_. False) s s'"
proof -
  let ?E = "effects (existing_command py cfg t) (\<lambda>_. False)"
  have ops: "?E (x_bind (preflight py cfg env pid) (\<lambda>_.
     if t_operation t = u ''vehicle_reachability'' then existing_reachability py cfg env pid t
     else if t_operation t = u ''basic_status'' then existing_basic_status py cfg env pid t
     else x_raise (RunnerFailure (u ''operation_not_allowed'') msg_op_not_implemented_existing)))"
    if pid: "pid \<noteq> []" "pid \<noteq> u ''0''" for pid
    unfolding preflight_def existing_reachability_def existing_basic_status_def
    by (intro move_rules effects_nsenter pid) (simp_all add: vehicle_command_def)
  from assms show ?thesis
    unfolding existing_executor_run_def x_bind_eq [of "container_pid py cfg env"]
  proof (elim disjE exE conjE)
    fix e assume "container_pid py cfg env s = (Inl e, s')"
    then show ?thesis by (rule movesD [OF effects_container_pid])
  next
    fix pid s1
    assume pid: "container_pid py cfg env s = (Inr pid, s1)"
      and rest: "x_bind (preflight py cfg env pid) (\<lambda>_.
        if t_operation t = u ''vehicle_reachability'' then existing_reachability py cfg env pid t
        else if t_operation t = u ''basic_status'' then existing_basic_status py cfg env pid t
        else x_raise (RunnerFailure (u ''operation_not_allowed'') msg_op_not_implemented_existing)) s1 = (r, s')"
    note ok = container_pid_Inr [OF pid]
    show ?thesis
      using movesD [OF effects_container_pid pid] movesD [OF ops rest] ok by (blast intro: extends_trans)
  qed
qed

text \<open>A vehicle that answers on neither 22 nor 443 is never reported as reachable.\<close>

lemma probe_result_Inr:
  assumes "probe_result py summary stdout = Inr r"
  shows "rr_summary r = summary"
    and "jget (rr_data r) (u ''tcp_22'') = JStr (u ''open'') \<or> jget (rr_data r) (u ''tcp_443'') = JStr (u ''open'')"
  using assms
  by (auto simp: probe_result_def plain_result_def jget_def get_or_def
      split: sum.splits json.splits exn.splits builtin_exn.splits if_splits)

section \<open>The session\<close>

definition ns_command :: "pylib \<Rightarrow> daemon_config \<Rightarrow> task \<Rightarrow> ustr list \<times> int \<Rightarrow> bool" where
  "ns_command py cfg t c \<longleftrightarrow>
     snd c \<in> {dc_nsenter_timeout_sec cfg, t_timeout_sec t}
     \<and> (fst c = [u ''ip'', u ''-br'', u ''addr'', u ''show'', dc_univpn_interface cfg]
        \<or> fst c = [u ''ip'', u ''route''] \<or> vehicle_command py cfg t (fst c))"

text \<open>What can be written to the control FIFO for the credentials \<open>c\<close> in use.\<close>

definition ns_text :: "daemon_config \<Rightarrow> exec_env \<Rightarrow> vpn_credentials \<Rightarrow> ustr \<Rightarrow> bool" where
  "ns_text cfg env vpn text \<longleftrightarrow>
     text = dc_univpn_profile_menu_index cfg @ [10] \<or> text = u ''1'' @ [10]
     \<or> (\<exists>name password. credentials cfg env vpn = Inr (name, password)
          \<and> (text = name @ [10] \<or> text = password @ [10]))
     \<or> text = control_sequence (py_splitlines (text_or_empty (dc_univpn_disconnect_sequence cfg)))"

lemma effects_connected: "effects (ns_command py cfg t) W (is_connected py cfg env)"
  unfolding is_connected_def by (intro move_rules) (simp_all add: ns_command_def)

lemma effects_login: "effects P (ns_text cfg env vpn) (ns_login py cfg env vpn)"
proof (cases "credentials cfg env vpn")
  case (Inr c)
  then have "ns_text cfg env vpn (fst c @ [10])" "ns_text cfg env vpn (snd c @ [10])"
    "ns_text cfg env vpn (u ''1'' @ [10])" "ns_text cfg env vpn (dc_univpn_profile_menu_index cfg @ [10])"
    by (cases c; simp add: ns_text_def)+
  then have "effects P (ns_text cfg env vpn) (login_dialogue py cfg env (fst c) (snd c))"
    unfolding login_dialogue_def write_control_line_def by (intro move_rules)
  then show ?thesis by (simp add: ns_login_def Inr move_rules)
qed (simp add: ns_login_def move_rules)

lemma effects_cleanup: "effects P (ns_text cfg env vpn) (ns_cleanup py cfg env)"
  unfolding ns_cleanup_def write_control_sequence_def
  by (intro move_rules) (simp_all add: ns_text_def)

lemma effects_operation: "effects (ns_command py cfg t) W (ns_operation py cfg env t)"
  unfolding ns_operation_def ns_reachability_def ns_basic_status_def
  by (intro move_rules) (simp_all add: ns_command_def vehicle_command_def)

lemma wait_round_extends:
  assumes "wait_round py cfg env deadline s = (x, s')"
  shows "extends (ns_command py cfg t) W s s'"
proof -
  obtain r s1 where c: "is_connected py cfg env s = (r, s1)" by fastforce
  from movesD [OF effects_connected c] assms show ?thesis
    by (auto simp: wait_round_def c x_sleep_def Let_def split: sum.splits bool.splits if_splits)
qed

text \<open>The loop with a bound on its rounds.\<close>

fun wait_fuel :: "pylib \<Rightarrow> daemon_config \<Rightarrow> exec_env \<Rightarrow> rat \<Rightarrow> nat \<Rightarrow> exec_state
    \<Rightarrow> (unit res \<times> exec_state) option" where
  "wait_fuel py cfg env deadline 0 s = None"
| "wait_fuel py cfg env deadline (Suc k) s =
     (case wait_round py cfg env deadline s of
        (Some r, s') \<Rightarrow> Some (r, s')
      | (None, s') \<Rightarrow> wait_fuel py cfg env deadline k s')"

lemma wait_fuel_connected:
  "wait_fuel py cfg env deadline k s = Some x \<Longrightarrow> wait_connected py cfg env deadline s = Some x"
  by (induction k arbitrary: s) (subst wait_connected.simps; auto split: prod.splits option.splits)+

lemma wait_connected_fuel:
  assumes "wait_connected py cfg env deadline s = Some x"
  shows "\<exists>k. wait_fuel py cfg env deadline k s = Some x"
proof (rule wait_connected.raw_induct
    [where P = "\<lambda>py cfg env deadline s x. \<exists>k. wait_fuel py cfg env deadline k s = Some x", OF _ assms])
  fix f py cfg env deadline s x
  assume IH: "\<And>py cfg env deadline s x. f py cfg env deadline s = Some x \<Longrightarrow>
      \<exists>k. wait_fuel py cfg env deadline k s = Some x"
    and eq: "(case fst (wait_round py cfg env deadline s) of
        Some r \<Rightarrow> Some (r, snd (wait_round py cfg env deadline s))
      | None \<Rightarrow> f py cfg env deadline (snd (wait_round py cfg env deadline s))) = Some x"
  obtain o' s' where round: "wait_round py cfg env deadline s = (o', s')" by fastforce
  show "\<exists>k. wait_fuel py cfg env deadline k s = Some x"
  proof (cases o')
    case (Some r)
    with round eq show ?thesis by (intro exI [of _ 1]) simp
  next
    case None
    with round eq IH obtain k where "wait_fuel py cfg env deadline k s' = Some x" by fastforce
    with None round show ?thesis by (intro exI [of _ "Suc k"]) simp
  qed
qed

lemma wait_fuel_extends:
  "wait_fuel py cfg env deadline k s = Some (r, s') \<Longrightarrow> extends (ns_command py cfg t) W s s'"
  by (induction k arbitrary: s)
    (auto split: prod.splits option.splits dest: wait_round_extends intro: extends_trans)

lemma wait_connected_extends:
  "wait_connected py cfg env deadline s = Some (r, s') \<Longrightarrow> extends (ns_command py cfg t) W s s'"
  using wait_connected_fuel wait_fuel_extends by blast

text \<open>Each round reads the clock once, and only the round that sees the deadline is the last.\<close>

lemma connected_reads: "is_connected py cfg env s = (r, s') \<Longrightarrow> xs_reads s' = xs_reads s"
  by (auto simp: is_connected_def x_bind_eq x_command_def split: if_splits)

lemma wait_round_None:
  assumes "wait_round py cfg env deadline s = (None, s')"
  shows "xs_reads s' = Suc (xs_reads s)" and "xe_clock env (xs_reads s) < deadline"
  using assms connected_reads
  by (auto simp: wait_round_def Let_def x_sleep_def split: prod.splits sum.splits bool.splits if_splits)

lemma wait_connected_ends:
  assumes "deadline \<le> xe_clock env n" and "xs_reads s \<le> n"
  shows "wait_connected py cfg env deadline s \<noteq> None"
  using assms(2)
proof (induction "n - xs_reads s" arbitrary: s rule: less_induct)
  case less
  obtain o' s' where round: "wait_round py cfg env deadline s = (o', s')" by fastforce
  show ?case
  proof (cases o')
    case (Some r)
    with round show ?thesis by (subst wait_connected.simps) simp
  next
    case None
    note reads = wait_round_None [OF round [unfolded None]]
    have "xs_reads s \<noteq> n" using reads(2) assms(1) by auto
    with less.prems reads(1) less.hyps [of s'] round None show ?thesis
      by (subst wait_connected.simps) simp
  qed
qed

lemma ensure_connected_ends:
  assumes "\<And>x. \<exists>N. \<forall>n \<ge> N. x \<le> xe_clock env n"
  shows "ensure_vpn_connected py cfg env vpn s \<noteq> None"
proof -
  have "wait_connected py cfg env d s' \<noteq> None" for d s'
  proof -
    from assms [of d] obtain N where "\<forall>n \<ge> N. d \<le> xe_clock env n" ..
    then show ?thesis by (intro wait_connected_ends [of _ _ "max N (xs_reads s')"]) simp_all
  qed
  then show ?thesis
    by (auto simp: ensure_vpn_connected_def split: prod.splits sum.splits bool.splits)
qed

lemma ensure_connected_extends:
  assumes "ensure_vpn_connected py cfg env vpn s = Some (r, s')"
  shows "extends (ns_command py cfg t) (ns_text cfg env vpn) s s'"
proof -
  obtain rc s1 where c: "is_connected py cfg env s = (rc, s1)" by fastforce
  obtain rl s2 where l: "ns_login py cfg env vpn s1 = (rl, s2)" by fastforce
  note e1 = movesD [OF effects_connected c, of t "ns_text cfg env vpn"]
  note e2 = movesD [OF effects_login l, of "ns_command py cfg t"]
  show ?thesis
  proof (cases "rc = Inr False \<and> dc_manage_vpn_session cfg \<and> rl = Inr ()")
    case True
    with assms c l have "wait_connected py cfg env
        (xe_clock env (xs_reads s2) + of_int (dc_univpn_login_timeout_sec cfg))
        (s2 \<lparr> xs_reads := Suc (xs_reads s2) \<rparr>) = Some (r, s')"
      by (simp add: ensure_vpn_connected_def)
    from wait_connected_extends [OF this, of t "ns_text cfg env vpn"]
    have "extends (ns_command py cfg t) (ns_text cfg env vpn) s2 s'" by (simp add: extends_def)
    with e1 e2 show ?thesis by (blast intro: extends_trans)
  next
    case False
    with assms c l e1 e2 show ?thesis
      by (auto simp: ensure_vpn_connected_def split: sum.splits bool.splits if_splits intro: extends_trans)
  qed
qed

section \<open>The run\<close>

lemma ns_body_extends:
  assumes "ns_body py cfg env t (r, s) = (out, s')"
  shows "extends (ns_command py cfg t) (ns_text cfg env vpn) s s'"
proof -
  have "effects (ns_command py cfg t) (ns_text cfg env vpn)
     (x_bind (x_lift r) (\<lambda>_. x_bind (x_event (u ''vpn_connected'', msg_ns_session_ok)) (\<lambda>_.
      ns_operation py cfg env t)))"
    by (intro move_rules effects_operation) simp
  from movesD [OF this] assms show ?thesis by (simp add: ns_body_def)
qed

lemma snd_with_cleanup: "snd (with_cleanup body cl) = snd cl"
  by (simp add: with_cleanup_def split: sum.splits)

lemma ns_run_extends:
  assumes "ns_run py cfg env t vpn s = Some (out, s')"
  shows "extends (ns_command py cfg t) (ns_text cfg env vpn) s s'"
proof -
  let ?X = "extends (ns_command py cfg t) (ns_text cfg env vpn)"
  from assms obtain r s1 where e: "ensure_vpn_connected py cfg env vpn
      (snd (x_event (u ''starting_vpn'', msg_ns_check_session) s)) = Some (r, s1)"
    and w: "with_cleanup (ns_body py cfg env t (r, s1))
      (ns_cleanup py cfg env (snd (ns_body py cfg env t (r, s1)))) = (out, s')"
    by (auto simp: ns_run_def Let_def)
  have "?X s (snd (x_event (u ''starting_vpn'', msg_ns_check_session) s))"
    by (simp add: extends_def)
  moreover have "?X s1 (snd (ns_body py cfg env t (r, s1)))" using ns_body_extends by (metis prod.collapse)
  moreover have "?X (snd (ns_body py cfg env t (r, s1))) s'"
    using effects_cleanup [of "ns_command py cfg t" cfg env vpn py] snd_with_cleanup w
    by (metis moves_def snd_conv)
  ultimately show ?thesis using ensure_connected_extends [OF e] by (blast intro: extends_trans)
qed

text \<open>The cleanup is never skipped: it is the last thing reported, and the sequence is the last text.\<close>

lemma ns_run_cleanup:
  assumes "ns_run py cfg env t vpn s = Some (out, s')" and "dc_stop_vpn_after_task cfg"
  shows "last (xs_events s') = (u ''cleanup'', u ''Cleanup UniVPN session'')"
    and "text_or_empty (dc_univpn_disconnect_sequence cfg) = q \<Longrightarrow> q \<noteq> [] \<Longrightarrow>
      (\<And>n. xe_fifo_ok env n) \<Longrightarrow> utf8_encode (control_sequence (py_splitlines q)) \<noteq> None \<Longrightarrow>
      last (xs_written s') = control_sequence (py_splitlines q)"
proof -
  from assms(1) have "\<exists>body. with_cleanup body (ns_cleanup py cfg env (snd body)) = (out, s')"
    unfolding ns_run_def Let_def by blast
  then obtain body where "with_cleanup body (ns_cleanup py cfg env (snd body)) = (out, s')" ..
  then have "s' = snd (ns_cleanup py cfg env (snd body))" using snd_with_cleanup by (metis snd_conv)
  then show "last (xs_events s') = (u ''cleanup'', u ''Cleanup UniVPN session'')"
    and "text_or_empty (dc_univpn_disconnect_sequence cfg) = q \<Longrightarrow> q \<noteq> [] \<Longrightarrow>
      (\<And>n. xe_fifo_ok env n) \<Longrightarrow> utf8_encode (control_sequence (py_splitlines q)) \<noteq> None \<Longrightarrow>
      last (xs_written s') = control_sequence (py_splitlines q)"
    using assms(2)
    by (auto simp: ns_cleanup_def x_bind_def x_catch_os_def write_control_sequence_def x_write_def Let_def
        split: sum.splits exn.splits builtin_exn.splits option.splits)
qed

end
