(* ===== verification/Runner_Daemon.thy ===== *)
theory Runner_Daemon
  imports Worker_Service Executor_Laws
begin

text \<open>
  \<open>RunnerDaemonService\<close> of \<open>runner_daemon.py\<close>: the jobs it keeps, its operations, and the
  critical sections of the thread that executes a job.
\<close>

section \<open>Jobs\<close>

record runner_job =
  rj_job_id :: ustr
  rj_request_id :: ustr
  rj_task :: task
  rj_vpn :: vpn_credentials
  rj_state :: ustr
  rj_phase_message :: ustr
  rj_summary :: "ustr option"
  rj_data :: jdict
  rj_artifacts :: "json list"
  rj_warnings :: "json list"
  rj_error_code :: "ustr option"
  rj_message :: "ustr option"

definition new_job :: "ustr \<Rightarrow> ustr \<Rightarrow> task \<Rightarrow> vpn_credentials \<Rightarrow> runner_job" where
  "new_job job_id request_id t vpn =
     \<lparr> rj_job_id = job_id, rj_request_id = request_id, rj_task = t, rj_vpn = vpn,
       rj_state = u ''created'', rj_phase_message = msg_job_created, rj_summary = None, rj_data = [],
       rj_artifacts = [], rj_warnings = [], rj_error_code = None, rj_message = None \<rparr>"

definition job_with_state :: "ustr \<Rightarrow> ustr \<Rightarrow> runner_job \<Rightarrow> runner_job" where
  "job_with_state state message j = j \<lparr> rj_state := state, rj_phase_message := message \<rparr>"

definition job_set_state :: "ustr \<Rightarrow> ustr \<Rightarrow> runner_job \<Rightarrow> runner_job res" where
  "job_set_state state message j =
     (if state \<notin> set TASK_STATES \<and> state \<noteq> u ''cancelled''
      then Inl (ValueErr (u ''unknown job state: '' @ state))
      else Inr (job_with_state state message j))"

definition job_to_response :: "runner_job \<Rightarrow> jdict" where
  "job_to_response j =
     [(u ''ok'', JBool (rj_state j = u ''finished'')),
      (u ''job_id'', JStr (rj_job_id j)),
      (u ''request_id'', JStr (rj_request_id j)),
      (u ''state'', JStr (rj_state j)),
      (u ''phase_message'', JStr (rj_phase_message j)),
      (u ''operation'', JStr (t_operation (rj_task j))),
      (u ''warnings'', JList (rj_warnings j))]
     @ field_if (rj_summary j \<noteq> None) (u ''summary'') (opt_json (rj_summary j))
     @ field_if (rj_data j \<noteq> []) (u ''data'') (JDict (rj_data j))
     @ field_if (rj_artifacts j \<noteq> []) (u ''artifacts'') (JList (rj_artifacts j))
     @ field_if (rj_error_code j \<noteq> None) (u ''error_code'') (opt_json (rj_error_code j))
     @ field_if (rj_message j \<noteq> None) (u ''message'') (opt_json (rj_message j))"

section \<open>The service\<close>

record daemon_state =
  ds_jobs :: "(ustr, runner_job) dict"

definition daemon_artifact_store :: "daemon_config \<Rightarrow> artifact_store" where
  "daemon_artifact_store cfg =
     \<lparr> as_directory = dc_artifact_dir cfg, as_ttl_hours = dc_artifact_ttl_hours cfg,
       as_max_bytes = dc_max_artifact_bytes cfg \<rparr>"

definition daemon_health :: json where
  "daemon_health = JDict [(u ''ok'', JBool True), (u ''runner'', JStr (u ''bo-vpn-runner-daemon'')),
     (u ''status'', JStr (u ''ready''))]"

definition build_job_vpn :: "jdict \<Rightarrow> vpn_credentials res" where
  "build_job_vpn vpn_raw =
     bindE (require_str vpn_raw (u ''mode'') (u ''vpn.mode'')) (\<lambda>mode.
       if mode = u ''inline_once'' then
         bindE (require_str vpn_raw (u ''username'') (u ''vpn.username'')) (\<lambda>username.
         bindE (require_str vpn_raw (u ''password'') (u ''vpn.password'')) (\<lambda>password.
         Inr \<lparr> vpn_mode = mode, vpn_username = username, vpn_password = password \<rparr>))
       else if mode = u ''container_secret'' then
         Inr \<lparr> vpn_mode = mode, vpn_username = [], vpn_password = [] \<rparr>
       else Inl (ValidationError msg_job_vpn_mode))"

text \<open>The two fresh identifiers and the two readings of the clock a new job takes.\<close>

record job_env =
  je_task_uuid :: ustr
  je_job_uuid :: ustr
  je_now :: int
  je_now' :: int

definition build_job :: "pylib \<Rightarrow> job_env \<Rightarrow> jdict \<Rightarrow> runner_job res" where
  "build_job py env payload =
     bindE (require_str payload (u ''request_id'') (u ''request_id'')) (\<lambda>request_id.
     bindE (require_str payload (u ''runner_mode'') (u ''runner_mode'')) (\<lambda>runner_mode.
     bindE (require_dict payload (u ''vehicle'') msg_vehicle_required) (\<lambda>vehicle_raw.
     bindE (require_dict payload (u ''vpn'') msg_vpn_required) (\<lambda>vpn_raw.
     bindE (require_str vehicle_raw (u ''number'') (u ''vehicle.number'')) (\<lambda>number.
     bindE (require_str vehicle_raw (u ''ip'') (u ''vehicle.ip'')) (\<lambda>ip.
     bindE (build_job_vpn vpn_raw) (\<lambda>vpn.
     bindE (require_str payload (u ''operation'') (u ''operation'')) (\<lambda>operation.
     bindE (py_int py (get_or payload (u ''timeout_sec'') (JInt 120))) (\<lambda>timeout_sec.
     Inr (new_job (je_job_uuid env) request_id
       (new_task (je_task_uuid env) request_id 0 (u ''runner-daemon'')
          \<lparr> v_number = number, v_ip = ip \<rparr> operation (dict_or_empty (jget payload (u ''params'')))
          timeout_sec (u ''runner-daemon'') runner_mode (u ''read_only'') False (je_now env) (je_now' env))
       vpn))))))))))"

text \<open>
  The job is stored under its identifier; the thread that executes it is a step of the system.
  The response is read after that thread has started, so it may already show its progress.
\<close>

definition create_job :: "pylib \<Rightarrow> job_env \<Rightarrow> jdict \<Rightarrow> daemon_state \<Rightarrow> runner_job res \<times> daemon_state" where
  "create_job py env payload ds =
     (case build_job py env payload of
        Inl e \<Rightarrow> (Inl e, ds)
      | Inr job \<Rightarrow> (Inr job, ds \<lparr> ds_jobs := dict_set (ds_jobs ds) (rj_job_id job) job \<rparr>))"

definition get_job :: "ustr \<Rightarrow> daemon_state \<Rightarrow> json res" where
  "get_job job_id ds =
     (case dict_get (ds_jobs ds) job_id of
        None \<Rightarrow> Inl (WorkerError 404 (u ''job_not_found'') msg_job_not_found)
      | Some job \<Rightarrow> Inr (JDict (job_to_response job)))"

definition cancelled :: "runner_job \<Rightarrow> runner_job" where
  "cancelled j =
     (if terminal_state (rj_state j) then j
      else job_with_state (u ''failed'') msg_job_cancelled
        (j \<lparr> rj_error_code := Some (u ''operation_cancelled''), rj_message := Some msg_job_cancelled \<rparr>))"

definition update_job :: "ustr \<Rightarrow> (runner_job \<Rightarrow> runner_job) \<Rightarrow> daemon_state \<Rightarrow> daemon_state" where
  "update_job job_id f ds =
     (case dict_get (ds_jobs ds) job_id of
        None \<Rightarrow> ds
      | Some j \<Rightarrow> ds \<lparr> ds_jobs := dict_set (ds_jobs ds) job_id (f j) \<rparr>)"

definition cancel_job :: "ustr \<Rightarrow> daemon_state \<Rightarrow> json res \<times> daemon_state" where
  "cancel_job job_id ds =
     (case dict_get (ds_jobs ds) job_id of
        None \<Rightarrow> (Inl (WorkerError 404 (u ''job_not_found'') msg_job_not_found), ds)
      | Some job \<Rightarrow> (Inr (JDict (job_to_response (cancelled job))), update_job job_id cancelled ds))"

section \<open>The execution of a job\<close>

text \<open>Which executor runs the job. An unknown mode raises, before the \<open>try\<close> of \<open>_execute_job\<close>.\<close>

datatype job_executor = ExistingExecutor | NamespaceExecutor | LocalRunner runner_kind

definition choose_executor :: "ustr \<Rightarrow> job_executor res" where
  "choose_executor mode =
     (if mode = u ''existing_container'' then Inr ExistingExecutor
      else if mode = u ''container_namespace'' then Inr NamespaceExecutor
      else bindE (create_runner mode None) (\<lambda>kind. Inr (LocalRunner kind)))"

text \<open>The callbacks \<open>run_runner\<close> makes for a job and how it ends (\<open>None\<close>: it waits for ever).\<close>

fun job_run :: "job_executor \<Rightarrow> pylib \<Rightarrow> daemon_config \<Rightarrow> exec_env \<Rightarrow> runner_env \<Rightarrow> runner_job
    \<Rightarrow> callback list \<Rightarrow> outcome option \<Rightarrow> bool" where
  "job_run ExistingExecutor py cfg xenv renv job evs out \<longleftrightarrow>
     evs = [(u ''starting_vpn'', msg_job_searching)]
     \<and> out = Some (fst (existing_executor_run py cfg xenv (rj_task job) exec_start))"
| "job_run NamespaceExecutor py cfg xenv renv job evs out \<longleftrightarrow>
     (case ns_run py cfg xenv (rj_task job) (rj_vpn job) exec_start of
        Some (res, s) \<Rightarrow> evs = xs_events s \<and> out = Some res
      | None \<Rightarrow> evs = [(u ''starting_vpn'', msg_ns_check_session)] \<and> out = None)"
| "job_run (LocalRunner kind) py cfg xenv renv job evs out \<longleftrightarrow>
     possible_run kind py (daemon_artifact_store cfg) renv (rj_task job) (rj_vpn job) evs out"

text \<open>The callback: a job that has ended is left alone.\<close>

definition guarded_job_state :: "callback \<Rightarrow> runner_job \<Rightarrow> runner_job" where
  "guarded_job_state cb j =
     (if terminal_state (rj_state j) then j
      else case job_set_state (fst cb) (snd cb) j of Inl e \<Rightarrow> j | Inr j' \<Rightarrow> j')"

text \<open>After the join: a job already ended (cancelled) is left alone in all three cases.\<close>

definition timeout_job :: "runner_job \<Rightarrow> runner_job" where
  "timeout_job j =
     (if terminal_state (rj_state j) then j
      else job_with_state (u ''timeout'') msg_job_timeout
        (j \<lparr> rj_error_code := Some (u ''operation_timeout''), rj_message := Some msg_job_timeout \<rparr>))"

definition fail_job :: "ustr \<Rightarrow> ustr \<Rightarrow> runner_job \<Rightarrow> runner_job" where
  "fail_job code message j =
     job_with_state (u ''failed'') message
       (j \<lparr> rj_error_code := Some code, rj_message := Some message \<rparr>)"

definition finish_job :: "runner_result \<Rightarrow> runner_job \<Rightarrow> runner_job" where
  "finish_job result j =
     job_with_state (u ''finished'') msg_job_done
       (j \<lparr> rj_summary := Some (rr_summary result), rj_data := rr_data result,
            rj_artifacts := (case rr_artifacts result of None \<Rightarrow> [] | Some xs \<Rightarrow> xs),
            rj_warnings := (case rr_warnings result of None \<Rightarrow> [] | Some xs \<Rightarrow> xs) \<rparr>)"

definition conclude_job :: "outcome \<Rightarrow> runner_job \<Rightarrow> runner_job" where
  "conclude_job out j =
     (if terminal_state (rj_state j) then j
      else case out of
          Inr result \<Rightarrow> finish_job result j
        | Inl (RunnerFailure code message) \<Rightarrow> fail_job code message j
        | Inl e \<Rightarrow> fail_job (u ''runner_internal_error'') (exn_str e) j)"

text \<open>The \<open>finally\<close> block.\<close>

definition clear_credentials :: "runner_job \<Rightarrow> runner_job" where
  "clear_credentials j =
     j \<lparr> rj_vpn := \<lparr> vpn_mode = u ''inline_once'', vpn_username = [], vpn_password = [] \<rparr> \<rparr>"

section \<open>The daemon as it runs\<close>

text \<open>
  Where the thread of a job is. \<open>JDead\<close>: choosing the executor raised, outside the \<open>try\<close>. The
  flag of the last two tells whether the thread ended the job: it does not when the join raises,
  for a timeout above what the platform accepts.
\<close>

datatype job_phase =
    JSpawned
  | JRunning "callback list" "outcome option"
  | JClearing bool "callback list"
  | JDone bool "callback list"
  | JDead

fun job_pending :: "job_phase \<Rightarrow> callback list" where
  "job_pending (JRunning cbs out) = cbs"
| "job_pending (JClearing ended cbs) = cbs"
| "job_pending (JDone ended cbs) = cbs"
| "job_pending _ = []"

fun job_delivered :: "job_phase \<Rightarrow> job_phase" where
  "job_delivered (JRunning cbs out) = JRunning (tl cbs) out"
| "job_delivered (JClearing ended cbs) = JClearing ended (tl cbs)"
| "job_delivered (JDone ended cbs) = JDone ended (tl cbs)"
| "job_delivered ph = ph"

record dsys =
  sd_svc :: daemon_state
  sd_thr :: "ustr \<rightharpoonup> job_phase"

definition initial_daemon :: dsys where
  "initial_daemon = \<lparr> sd_svc = \<lparr> ds_jobs = [] \<rparr>, sd_thr = (\<lambda>_. None) \<rparr>"

definition job_moves :: "ustr \<Rightarrow> job_phase \<Rightarrow> (runner_job \<Rightarrow> runner_job) \<Rightarrow> dsys \<Rightarrow> dsys" where
  "job_moves jid ph f s =
     \<lparr> sd_svc = update_job jid f (sd_svc s), sd_thr = (sd_thr s)(jid \<mapsto> ph) \<rparr>"

inductive dstep :: "pylib \<Rightarrow> daemon_config \<Rightarrow> int \<Rightarrow> dsys \<Rightarrow> dsys \<Rightarrow> bool"
  for py :: pylib and cfg :: daemon_config and max_join :: int where
  create: "create_job py env payload (sd_svc s) = (Inr job, ds') \<Longrightarrow>
     dict_get (ds_jobs (sd_svc s)) (je_job_uuid env) = None \<Longrightarrow>
     dstep py cfg max_join s \<lparr> sd_svc = ds', sd_thr = (sd_thr s)(je_job_uuid env \<mapsto> JSpawned) \<rparr>"
| cancel: "cancel_job jid (sd_svc s) = (res, ds') \<Longrightarrow>
     dstep py cfg max_join s (s \<lparr> sd_svc := ds' \<rparr>)"
| start: "sd_thr s jid = Some JSpawned \<Longrightarrow> dict_get (ds_jobs (sd_svc s)) jid = Some job \<Longrightarrow>
     choose_executor (t_runner_mode (rj_task job)) = Inr ex \<Longrightarrow>
     job_run ex py cfg xenv renv job evs out \<Longrightarrow>
     dstep py cfg max_join s (s \<lparr> sd_thr := (sd_thr s)(jid \<mapsto> JRunning evs out) \<rparr>)"
| die: "sd_thr s jid = Some JSpawned \<Longrightarrow> dict_get (ds_jobs (sd_svc s)) jid = Some job \<Longrightarrow>
     choose_executor (t_runner_mode (rj_task job)) = Inl e \<Longrightarrow>
     dstep py cfg max_join s (s \<lparr> sd_thr := (sd_thr s)(jid \<mapsto> JDead) \<rparr>)"
| event: "sd_thr s jid = Some ph \<Longrightarrow> job_pending ph = cb # cbs \<Longrightarrow>
     dstep py cfg max_join s (job_moves jid (job_delivered ph) (guarded_job_state cb) s)"
| conclude: "sd_thr s jid = Some (JRunning [] (Some out)) \<Longrightarrow>
     dstep py cfg max_join s (job_moves jid (JClearing True []) (conclude_job out) s)"
| expire: "sd_thr s jid = Some (JRunning cbs out) \<Longrightarrow>
     dstep py cfg max_join s (job_moves jid (JClearing True cbs) timeout_job s)"
| join_raises: "sd_thr s jid = Some (JRunning cbs out) \<Longrightarrow>
     dict_get (ds_jobs (sd_svc s)) jid = Some job \<Longrightarrow> max_join < t_timeout_sec (rj_task job) \<Longrightarrow>
     dstep py cfg max_join s (s \<lparr> sd_thr := (sd_thr s)(jid \<mapsto> JClearing False cbs) \<rparr>)"
| clear: "sd_thr s jid = Some (JClearing ended cbs) \<Longrightarrow>
     dstep py cfg max_join s (job_moves jid (JDone ended cbs) clear_credentials s)"

definition daemon_reachable :: "pylib \<Rightarrow> daemon_config \<Rightarrow> int \<Rightarrow> dsys \<Rightarrow> bool" where
  "daemon_reachable py cfg max_join s \<longleftrightarrow> (dstep py cfg max_join)\<^sup>*\<^sup>* initial_daemon s"

end
