(* ===== verification/Api.thy ===== *)
theory Api
  imports Worker_Service Runner_Daemon
begin

text \<open>
  The HTTP handlers of \<open>api.py\<close> and \<open>runner_daemon.py\<close>: routing, authentication, the limits on
  the body, and the translation of a \<open>WorkerError\<close> to a response. Any other exception leaves the
  handler without a response: the reply is then that exception.
\<close>

section \<open>Requests and replies\<close>

text \<open>
  A request as the handler sees it: path and \<open>query\<close> parameter after \<open>urlparse\<close> and \<open>parse_qs\<close>,
  the headers it reads, and what \<open>rfile.read(n)\<close> gives.
\<close>

record http_request =
  hr_path :: ustr
  hr_query :: "ustr option"
  hr_authorization :: "ustr option"
  hr_x_request_id :: "ustr option"
  hr_content_length :: "ustr option"
  hr_body :: "nat \<Rightarrow> nat list"

type_synonym reply = "(int \<times> json) res"

definition catch_worker_error :: "reply \<Rightarrow> reply" where
  "catch_worker_error r =
     (case r of Inl (WorkerError status code message) \<Rightarrow> Inr (status, error_response code message)
      | _ \<Rightarrow> r)"

definition not_found :: exn where
  "not_found = WorkerError 404 (u ''not_found'') msg_endpoint_not_found"

definition invalid_request :: "ustr \<Rightarrow> exn" where
  "invalid_request message = WorkerError 400 (u ''invalid_request'') message"

text \<open>\<open>int(self.headers.get("Content-Length", "0"))\<close>.\<close>

definition content_length :: "pylib \<Rightarrow> http_request \<Rightarrow> int res" where
  "content_length py q =
     py_int py (JStr (case hr_content_length q of None \<Rightarrow> u ''0'' | Some s \<Rightarrow> s))"

section \<open>The worker\<close>

definition validate_service_headers :: "pylib \<Rightarrow> ustr \<Rightarrow> http_request \<Rightarrow> unit res" where
  "validate_service_headers py service_token q =
     bindE (check_bearer py (hr_authorization q) service_token) (\<lambda>ok.
     bindE (raise_if (\<not> ok) (WorkerError 401 (u ''unauthorized'') msg_unauthorized)) (\<lambda>_.
     raise_if (hr_x_request_id q = None \<or> hr_x_request_id q = Some [])
       (WorkerError 400 (u ''invalid_request'') msg_x_request_id_required)))"

text \<open>What the handler reads besides the request: the inventory file, the clock, fresh identifiers.\<close>

record api_env =
  ae_file :: inv_file
  ae_now1 :: int
  ae_now2 :: int
  ae_create :: create_env

definition worker_routes_get :: "pylib \<Rightarrow> api_env \<Rightarrow> http_request \<Rightarrow> worker_state \<Rightarrow> reply \<times> worker_state" where
  "worker_routes_get py env q ws =
     (if hr_path q = u ''/capabilities'' then (Inr (200, capabilities_response), ws)
      else if hr_path q = u ''/vehicles/resolve'' then
        (case service_resolve_vehicle (ae_file env) (text_or_empty (hr_query q)) ws of
           (r, ws') \<Rightarrow> (bindE r (\<lambda>j. Inr (200, j)), ws'))
      else if py_startswith (hr_path q) (u ''/tasks/'') then
        (bindE (get_task py (ae_now1 env) (ae_now2 env) (py_removeprefix (hr_path q) (u ''/tasks/'')) ws)
           (\<lambda>j. Inr (200, j)), ws)
      else (Inl not_found, ws))"

definition worker_do_GET :: "pylib \<Rightarrow> worker_config \<Rightarrow> api_env \<Rightarrow> http_request \<Rightarrow> worker_state
    \<Rightarrow> reply \<times> worker_state" where
  "worker_do_GET py cfg env q ws =
     (if hr_path q = u ''/health'' then (Inr (200, health ws), ws)
      else case validate_service_headers py (wc_service_token cfg) q of
          Inl e \<Rightarrow> (catch_worker_error (Inl e), ws)
        | Inr _ \<Rightarrow>
            (case worker_routes_get py env q ws of (r, ws') \<Rightarrow> (catch_worker_error r, ws')))"

text \<open>The body of a creation: its announced length is bounded before it is read.\<close>

definition read_payload :: "pylib \<Rightarrow> http_request \<Rightarrow> jdict res" where
  "read_payload py q =
     bindE (content_length py q) (\<lambda>n.
     bindE (raise_if (n \<le> 0) (invalid_request msg_empty_body)) (\<lambda>_.
     bindE (raise_if (n > 1024 * 1024) (invalid_request msg_body_too_large)) (\<lambda>_.
     load_json_body py (hr_body q (nat n)))))"

definition worker_routes_post :: "pylib \<Rightarrow> worker_config \<Rightarrow> api_env \<Rightarrow> http_request \<Rightarrow> worker_state
    \<Rightarrow> reply \<times> worker_state" where
  "worker_routes_post py cfg env q ws =
     (if hr_path q \<noteq> u ''/tasks'' then (Inl not_found, ws)
      else case read_payload py q of
          Inl e \<Rightarrow> (Inl e, ws)
        | Inr payload \<Rightarrow> create_task py cfg (ae_create env) payload ws)"

definition worker_do_POST :: "pylib \<Rightarrow> worker_config \<Rightarrow> api_env \<Rightarrow> http_request \<Rightarrow> worker_state
    \<Rightarrow> reply \<times> worker_state" where
  "worker_do_POST py cfg env q ws =
     (case validate_service_headers py (wc_service_token cfg) q of
        Inl e \<Rightarrow> (catch_worker_error (Inl e), ws)
      | Inr _ \<Rightarrow>
          (case worker_routes_post py cfg env q ws of (r, ws') \<Rightarrow> (catch_worker_error r, ws')))"

section \<open>The runner daemon\<close>

definition validate_runner_headers :: "pylib \<Rightarrow> ustr option \<Rightarrow> http_request \<Rightarrow> unit res" where
  "validate_runner_headers py auth_token q =
     (case auth_token of
        None \<Rightarrow> Inr ()
      | Some token \<Rightarrow>
          if token = [] then Inr ()
          else bindE (check_bearer py (hr_authorization q) token) (\<lambda>ok.
            raise_if (\<not> ok) (WorkerError 401 (u ''unauthorized'') msg_runner_unauthorized)))"

definition runner_do_GET :: "pylib \<Rightarrow> daemon_config \<Rightarrow> http_request \<Rightarrow> daemon_state \<Rightarrow> reply \<times> daemon_state" where
  "runner_do_GET py cfg q ds =
     (if hr_path q = u ''/health'' then (Inr (200, daemon_health), ds)
      else case validate_runner_headers py (dc_auth_token cfg) q of
          Inl e \<Rightarrow> (catch_worker_error (Inl e), ds)
        | Inr _ \<Rightarrow>
            (catch_worker_error
               (if py_startswith (hr_path q) (u ''/jobs/'')
                then bindE (get_job (py_removeprefix (hr_path q) (u ''/jobs/'')) ds) (\<lambda>j. Inr (200, j))
                else Inl not_found), ds))"

definition read_job_payload :: "pylib \<Rightarrow> http_request \<Rightarrow> jdict res" where
  "read_job_payload py q =
     bindE (content_length py q) (\<lambda>n.
     bindE (raise_if (n \<le> 0) (invalid_request msg_empty_body)) (\<lambda>_.
     load_json_body py (hr_body q (nat n))))"

text \<open>The reply to a creation shows the job as its thread has left it by then.\<close>

definition runner_routes_post :: "pylib \<Rightarrow> job_env \<Rightarrow> http_request \<Rightarrow> daemon_state \<Rightarrow> reply \<times> daemon_state" where
  "runner_routes_post py env q ds =
     (if hr_path q = u ''/jobs'' then
        (case read_job_payload py q of
           Inl e \<Rightarrow> (Inl e, ds)
         | Inr payload \<Rightarrow>
             (case create_job py env payload ds of
                (r, ds') \<Rightarrow> (bindE r (\<lambda>job. Inr (201, JDict (job_to_response job))), ds')))
      else if py_startswith (hr_path q) (u ''/jobs/'') \<and> py_endswith (hr_path q) (u ''/cancel'') then
        (case cancel_job (py_removesuffix (py_removeprefix (hr_path q) (u ''/jobs/'')) (u ''/cancel'')) ds of
           (r, ds') \<Rightarrow> (bindE r (\<lambda>j. Inr (200, j)), ds'))
      else (Inl not_found, ds))"

definition runner_do_POST :: "pylib \<Rightarrow> daemon_config \<Rightarrow> job_env \<Rightarrow> http_request \<Rightarrow> daemon_state
    \<Rightarrow> reply \<times> daemon_state" where
  "runner_do_POST py cfg env q ds =
     (case validate_runner_headers py (dc_auth_token cfg) q of
        Inl e \<Rightarrow> (catch_worker_error (Inl e), ds)
      | Inr _ \<Rightarrow>
          (case runner_routes_post py env q ds of (r, ds') \<Rightarrow> (catch_worker_error r, ds')))"

section \<open>The contract of an authenticated handler\<close>

text \<open>
  Four handlers, one contract: outside its open paths a handler consults nothing but the
  request before it is authenticated.
\<close>

locale guarded_handler =
  fixes handle :: "http_request \<Rightarrow> 's \<Rightarrow> reply \<times> 's"
    and auth :: "http_request \<Rightarrow> unit res"
    and open_path :: "http_request \<Rightarrow> bool"
  assumes rejects: "\<not> open_path q \<Longrightarrow> auth q = Inl e \<Longrightarrow> handle q s = (catch_worker_error (Inl e), s)"
    and open_reads: "open_path q \<Longrightarrow> snd (handle q s) = s"
begin

lemma refused_blind:
  assumes "\<not> open_path q" and "auth q = Inl e"
  shows "fst (handle q s) = fst (handle q s')" and "snd (handle q s) = s"
  using rejects [OF assms] by simp_all

text \<open>No sequence of unauthenticated requests has any effect on the state.\<close>

lemma unauthenticated_inert:
  assumes "\<And>q. q \<in> set qs \<Longrightarrow> open_path q \<or> (\<exists>e. auth q = Inl e)"
  shows "fold (\<lambda>q s. snd (handle q s)) qs s = s"
  using assms
proof (induction qs arbitrary: s)
  case (Cons q qs)
  from Cons.prems [of q] have "snd (handle q s) = s"
    using open_reads refused_blind(2) by (cases "open_path q") auto
  with Cons show ?case by simp
qed simp

end

interpretation worker_get: guarded_handler "worker_do_GET py cfg env"
    "validate_service_headers py (wc_service_token cfg)" "\<lambda>q. hr_path q = u ''/health''" for py cfg env
  by unfold_locales (simp_all add: worker_do_GET_def)

interpretation worker_post: guarded_handler "worker_do_POST py cfg env"
    "validate_service_headers py (wc_service_token cfg)" "\<lambda>q. False" for py cfg env
  by unfold_locales (simp_all add: worker_do_POST_def)

interpretation runner_get: guarded_handler "runner_do_GET py cfg"
    "validate_runner_headers py (dc_auth_token cfg)" "\<lambda>q. hr_path q = u ''/health''" for py cfg
  by unfold_locales (simp_all add: runner_do_GET_def)

interpretation runner_post: guarded_handler "runner_do_POST py cfg env"
    "validate_runner_headers py (dc_auth_token cfg)" "\<lambda>q. False" for py cfg env
  by unfold_locales (simp_all add: runner_do_POST_def)

section \<open>Laws\<close>

lemma validate_service_headers_Inr:
  assumes "validate_service_headers py token q = Inr ()"
  shows "\<exists>rest. hr_authorization q = Some (u ''Bearer '' @ rest) \<and> py_strip rest = token"
    and "\<exists>rid. hr_x_request_id q = Some rid \<and> rid \<noteq> []"
  using assms check_bearer_True
  by (fastforce simp: validate_service_headers_def bindE_Inr_iff raise_if_Inr_iff)+

lemma read_payload_Inr:
  "read_payload py q = Inr payload \<Longrightarrow>
     \<exists>n. content_length py q = Inr n \<and> 0 < n \<and> n \<le> 1048576 \<and> load_json_body py (hr_body q (nat n)) = Inr payload"
  by (auto simp: read_payload_def bindE_Inr_iff raise_if_Inr_iff)

text \<open>A state that changed was changed by \<open>create_task\<close>, for an authenticated, bounded request.\<close>

lemma worker_do_POST_changes:
  assumes "worker_do_POST py cfg env q ws = (r, ws')" and "ws' \<noteq> ws"
  shows "validate_service_headers py (wc_service_token cfg) q = Inr ()" and "hr_path q = u ''/tasks''"
    and "\<exists>payload res. read_payload py q = Inr payload
      \<and> create_task py cfg (ae_create env) payload ws = (res, ws') \<and> r = catch_worker_error res"
  using assms
  by (auto simp: worker_do_POST_def worker_routes_post_def split: sum.splits prod.splits if_splits)

lemma catch_worker_error_Inl:
  "catch_worker_error r = Inl e \<Longrightarrow> r = Inl e \<and> (\<forall>st c m. e \<noteq> WorkerError st c m)"
  by (auto simp: catch_worker_error_def split: sum.splits exn.splits)

end
