(* ===== verification/Daemon_Laws.thy ===== *)
theory Daemon_Laws
  imports Runner_Daemon
begin

text \<open>
  Laws of the runner daemon: an ended job keeps its outcome, the credentials of a job are cleared
  when its thread is over, and the one way a thread can be lost. Then the two sides of the wire:
  the daemon accepts what the worker sends, and the worker reads what the daemon reports.
\<close>

section \<open>Mutations of a job\<close>

lemma job_with_state_fields [simp]:
  "rj_state (job_with_state s m j) = s" "rj_phase_message (job_with_state s m j) = m"
  "rj_task (job_with_state s m j) = rj_task j" "rj_job_id (job_with_state s m j) = rj_job_id j"
  "rj_vpn (job_with_state s m j) = rj_vpn j" "rj_request_id (job_with_state s m j) = rj_request_id j"
  by (simp_all add: job_with_state_def)

lemma clear_credentials_fields [simp]:
  "rj_state (clear_credentials j) = rj_state j" "rj_task (clear_credentials j) = rj_task j"
  "rj_job_id (clear_credentials j) = rj_job_id j" "rj_error_code (clear_credentials j) = rj_error_code j"
  "rj_vpn (clear_credentials j) = \<lparr> vpn_mode = u ''inline_once'', vpn_username = [], vpn_password = [] \<rparr>"
  by (simp_all add: clear_credentials_def)

text \<open>The two jobs differ at most in the credentials.\<close>

definition same_outcome :: "runner_job \<Rightarrow> runner_job \<Rightarrow> bool" where
  "same_outcome j j' \<longleftrightarrow> clear_credentials j' = clear_credentials j"

lemma same_outcome_refl [simp]: "same_outcome j j"
  by (simp add: same_outcome_def)

lemma same_outcome_trans: "same_outcome j j' \<Longrightarrow> same_outcome j' j'' \<Longrightarrow> same_outcome j j''"
  by (simp add: same_outcome_def)

lemma same_outcome_state: "same_outcome j j' \<Longrightarrow> rj_state j' = rj_state j"
  by (metis same_outcome_def clear_credentials_fields(1))

lemma same_outcome_clear [simp]: "same_outcome j (clear_credentials j)"
  by (simp add: same_outcome_def clear_credentials_def)

text \<open>A mutation that keeps the identity of the job, and the outcome of one that has ended.\<close>

definition job_safe :: "(runner_job \<Rightarrow> runner_job) \<Rightarrow> bool" where
  "job_safe f \<longleftrightarrow> (\<forall>j. rj_task (f j) = rj_task j \<and> rj_job_id (f j) = rj_job_id j
     \<and> (terminal_state (rj_state j) \<longrightarrow> same_outcome j (f j)))"

lemma job_safeD:
  "job_safe f \<Longrightarrow> rj_task (f j) = rj_task j" "job_safe f \<Longrightarrow> rj_job_id (f j) = rj_job_id j"
  "job_safe f \<Longrightarrow> terminal_state (rj_state j) \<Longrightarrow> same_outcome j (f j)"
  by (simp_all add: job_safe_def)

lemma job_safe_intros [intro, simp]:
  "job_safe (guarded_job_state cb)" "job_safe timeout_job" "job_safe (conclude_job out)"
  "job_safe cancelled" "job_safe clear_credentials"
  by (auto simp: job_safe_def guarded_job_state_def timeout_job_def conclude_job_def cancelled_def
      fail_job_def finish_job_def job_set_state_def split: sum.splits exn.splits if_splits)

lemma job_endings [simp]:
  "terminal_state (rj_state (timeout_job j))" "terminal_state (rj_state (conclude_job out j))"
  "terminal_state (rj_state (cancelled j))"
  by (auto simp: timeout_job_def conclude_job_def cancelled_def fail_job_def finish_job_def
      split: sum.splits exn.splits)

lemma job_ended [simp]:
  "terminal_state (rj_state j) \<Longrightarrow> guarded_job_state cb j = j"
  "terminal_state (rj_state j) \<Longrightarrow> timeout_job j = j"
  "terminal_state (rj_state j) \<Longrightarrow> conclude_job out j = j"
  "terminal_state (rj_state j) \<Longrightarrow> cancelled j = j"
  by (simp_all add: guarded_job_state_def timeout_job_def conclude_job_def cancelled_def)

lemma guarded_job_vpn [simp]: "rj_vpn (guarded_job_state cb j) = rj_vpn j"
  by (auto simp: guarded_job_state_def job_set_state_def split: sum.splits if_splits)

lemma cancelled_vpn [simp]: "rj_vpn (cancelled j) = rj_vpn j"
  by (simp add: cancelled_def)

section \<open>The invariant\<close>

definition job_of :: "ustr \<Rightarrow> dsys \<Rightarrow> runner_job option" where
  "job_of jid s = dict_get (ds_jobs (sd_svc s)) jid"

definition no_credentials :: vpn_credentials where
  "no_credentials = \<lparr> vpn_mode = u ''inline_once'', vpn_username = [], vpn_password = [] \<rparr>"

fun job_phase_ok :: "int \<Rightarrow> job_phase \<Rightarrow> runner_job \<Rightarrow> bool" where
  "job_phase_ok m JSpawned j \<longleftrightarrow> True"
| "job_phase_ok m (JRunning cbs out) j \<longleftrightarrow> True"
| "job_phase_ok m (JClearing ended cbs) j \<longleftrightarrow>
     (if ended then terminal_state (rj_state j) else m < t_timeout_sec (rj_task j))"
| "job_phase_ok m (JDone ended cbs) j \<longleftrightarrow>
     (if ended then terminal_state (rj_state j) else m < t_timeout_sec (rj_task j))
     \<and> rj_vpn j = no_credentials"
| "job_phase_ok m JDead j \<longleftrightarrow> (\<exists>e. choose_executor (t_runner_mode (rj_task j)) = Inl e)"

fun job_thread_ok :: "int \<Rightarrow> ustr \<Rightarrow> job_phase option \<Rightarrow> runner_job option \<Rightarrow> bool" where
  "job_thread_ok m jid None None \<longleftrightarrow> True"
| "job_thread_ok m jid (Some ph) (Some j) \<longleftrightarrow> rj_job_id j = jid \<and> job_phase_ok m ph j"
| "job_thread_ok m jid _ _ \<longleftrightarrow> False"

definition dinv :: "int \<Rightarrow> dsys \<Rightarrow> bool" where
  "dinv m s \<longleftrightarrow> (\<forall>jid. job_thread_ok m jid (sd_thr s jid) (job_of jid s))"

lemma job_thread_ok_Some:
  "job_thread_ok m jid (Some ph) x \<longleftrightarrow> (\<exists>j. x = Some j \<and> rj_job_id j = jid \<and> job_phase_ok m ph j)"
  "job_thread_ok m jid y (Some j) \<longleftrightarrow> (\<exists>ph. y = Some ph \<and> rj_job_id j = jid \<and> job_phase_ok m ph j)"
  by (cases x; simp) (cases y; simp)

lemma dinv_thread:
  assumes "dinv m s" and "sd_thr s jid = Some ph"
  obtains j where "job_of jid s = Some j" and "job_phase_ok m ph j" and "rj_job_id j = jid"
  using assms unfolding dinv_def by (metis job_thread_ok_Some(1))

lemma dinv_job:
  assumes "dinv m s" and "job_of jid s = Some j"
  obtains ph where "sd_thr s jid = Some ph" and "job_phase_ok m ph j"
  using assms unfolding dinv_def by (metis job_thread_ok_Some(2))

lemma job_of_moves [simp]:
  "job_of x (job_moves jid ph f s) = (if x = jid then map_option f (job_of x s) else job_of x s)"
  by (auto simp: job_of_def job_moves_def update_job_def split: option.splits)

lemma thr_moves [simp]: "sd_thr (job_moves jid ph f s) = (sd_thr s)(jid \<mapsto> ph)"
  by (simp add: job_moves_def)

lemma job_of_thr [simp]: "job_of x (s \<lparr> sd_thr := t \<rparr>) = job_of x s"
  by (simp add: job_of_def)

lemma job_of_cancel:
  assumes "cancel_job jid (sd_svc s) = (res, ds')"
  shows "job_of x (s \<lparr> sd_svc := ds' \<rparr>) = (if x = jid then map_option cancelled (job_of x s) else job_of x s)"
  using assms by (auto simp: job_of_def cancel_job_def update_job_def split: option.splits)

lemma build_job_id: "build_job py env payload = Inr j \<Longrightarrow> rj_job_id j = je_job_uuid env"
  by (auto simp: build_job_def res_iff new_job_def)

lemma job_of_create:
  assumes "create_job py env payload (sd_svc s) = (Inr job, ds')"
  shows "job_of x \<lparr> sd_svc = ds', sd_thr = t \<rparr> = (if x = je_job_uuid env then Some job else job_of x s)"
    and "rj_job_id job = je_job_uuid env"
proof -
  from assms have b: "build_job py env payload = Inr job"
    "ds' = (sd_svc s) \<lparr> ds_jobs := dict_set (ds_jobs (sd_svc s)) (rj_job_id job) job \<rparr>"
    by (auto simp: create_job_def split: sum.splits)
  show "rj_job_id job = je_job_uuid env" using build_job_id [OF b(1)] .
  with b(2) show "job_of x \<lparr> sd_svc = ds', sd_thr = t \<rparr> = (if x = je_job_uuid env then Some job else job_of x s)"
    by (simp add: job_of_def)
qed

lemma job_phase_cancelled: "job_phase_ok m ph j \<Longrightarrow> job_phase_ok m ph (cancelled j)"
  by (cases ph) (auto simp: job_safeD split: if_splits)

lemma job_phase_delivered:
  "job_phase_ok m ph j \<Longrightarrow> job_phase_ok m (job_delivered ph) (guarded_job_state cb j)"
  by (cases ph) (auto simp: job_safeD split: if_splits)

lemma dinv_moves:
  assumes "dinv m s" and "\<And>j. job_of jid s = Some j \<Longrightarrow> job_phase_ok m ph (f j)" and "job_safe f"
    and "sd_thr s jid \<noteq> None"
  shows "dinv m (job_moves jid ph f s)"
  unfolding dinv_def
proof
  fix x
  from assms(4) obtain ph0 j where "job_of jid s = Some j" "rj_job_id j = jid"
    using dinv_thread [OF assms(1)] by blast
  with assms show "job_thread_ok m x (sd_thr (job_moves jid ph f s) x) (job_of x (job_moves jid ph f s))"
    by (simp add: dinv_def job_safeD)
qed

lemma dinv_thr:
  assumes "dinv m s" and "job_of jid s = Some j" and "job_phase_ok m ph j"
  shows "dinv m (s \<lparr> sd_thr := (sd_thr s)(jid \<mapsto> ph) \<rparr>)"
proof -
  have "rj_job_id j = jid" using assms(1,2) unfolding dinv_def by (metis job_thread_ok_Some(2))
  with assms show ?thesis by (simp add: dinv_def)
qed

lemma dinv_step:
  assumes step: "dstep py cfg m s s'" and inv: "dinv m s"
  shows "dinv m s'"
  using step
proof cases
  case (create env payload job ds')
  with inv show ?thesis by (simp add: dinv_def job_of_create)
next
  case (cancel jid res ds')
  have "job_thread_ok m x (sd_thr s x) (if x = jid then map_option cancelled (job_of x s) else job_of x s)" for x
    using inv [unfolded dinv_def, rule_format, of x]
    by (cases "sd_thr s x"; cases "job_of x s") (auto simp: job_phase_cancelled job_safeD)
  with cancel show ?thesis by (simp add: dinv_def job_of_cancel)
next
  case (start jid job ex xenv renv evs out)
  then show ?thesis using inv by (simp add: dinv_thr job_of_def)
next
  case (die jid job e)
  then show ?thesis using inv by (simp add: dinv_thr job_of_def)
next
  case (event jid ph cb cbs)
  obtain j where "job_of jid s = Some j" "job_phase_ok m ph j" by (rule dinv_thread [OF inv event(2)])
  with event inv show ?thesis by (auto intro!: dinv_moves job_phase_delivered)
next
  case (conclude jid out)
  with inv show ?thesis by (auto intro!: dinv_moves)
next
  case (expire jid cbs out)
  with inv show ?thesis by (auto intro!: dinv_moves)
next
  case (join_raises jid cbs out job)
  then show ?thesis using inv by (simp add: dinv_thr job_of_def)
next
  case (clear jid ended cbs)
  obtain j where "job_of jid s = Some j" "job_phase_ok m (JClearing ended cbs) j"
    by (rule dinv_thread [OF inv clear(2)])
  with clear inv show ?thesis by (auto intro!: dinv_moves simp: no_credentials_def)
qed

lemma dinv_reachable: "daemon_reachable py cfg m s \<Longrightarrow> dinv m s"
  unfolding daemon_reachable_def
proof (induction rule: rtranclp_induct)
  case base
  then show ?case by (simp add: dinv_def initial_daemon_def job_of_def)
qed (rule dinv_step)

section \<open>Ended jobs\<close>

lemma moved_job:
  "job_safe f \<Longrightarrow> job_of jid s = Some j \<Longrightarrow> \<exists>j'. job_of jid (job_moves x ph f s) = Some j'
     \<and> rj_task j' = rj_task j \<and> (terminal_state (rj_state j) \<longrightarrow> same_outcome j j')"
  by (cases "x = jid") (simp_all add: job_safeD)

lemma dstep_job:
  assumes "dstep py cfg m s s'" and "job_of jid s = Some j"
  shows "\<exists>j'. job_of jid s' = Some j' \<and> rj_task j' = rj_task j
    \<and> (terminal_state (rj_state j) \<longrightarrow> same_outcome j j')"
  using assms(1)
proof cases
  case (create env payload job ds')
  then have "je_job_uuid env \<noteq> jid" using assms(2) by (auto simp: job_of_def)
  with create assms(2) show ?thesis by (simp add: job_of_create)
next
  case (cancel x res ds')
  with assms(2) show ?thesis by (cases "x = jid") (simp_all add: job_of_cancel job_safeD)
next
  case (event x ph cb cbs)
  show ?thesis unfolding event(1) by (rule moved_job [OF _ assms(2)]) simp
next
  case (conclude x out)
  show ?thesis unfolding conclude(1) by (rule moved_job [OF _ assms(2)]) simp
next
  case (expire x cbs out)
  show ?thesis unfolding expire(1) by (rule moved_job [OF _ assms(2)]) simp
next
  case (clear x ended cbs)
  show ?thesis unfolding clear(1) by (rule moved_job [OF _ assms(2)]) simp
qed (use assms(2) in simp_all)

lemma dsteps_job:
  assumes "(dstep py cfg m)\<^sup>*\<^sup>* s s'" and "job_of jid s = Some j"
  shows "\<exists>j'. job_of jid s' = Some j' \<and> rj_task j' = rj_task j
    \<and> (terminal_state (rj_state j) \<longrightarrow> same_outcome j j')"
  using assms(1)
proof (induction rule: rtranclp_induct)
  case (step s1 s2)
  then obtain j1 where j1: "job_of jid s1 = Some j1" "rj_task j1 = rj_task j"
    "terminal_state (rj_state j) \<longrightarrow> same_outcome j j1" by blast
  from dstep_job [OF step(2) j1(1)] j1 show ?case
    by (metis same_outcome_state same_outcome_trans)
qed (use assms(2) in simp)

section \<open>A lost thread\<close>

lemma dstep_dead:
  assumes inv: "dinv m s" and step: "dstep py cfg m s s'"
    and thr: "sd_thr s jid = Some JDead" and j: "job_of jid s = Some j"
  shows "sd_thr s' jid = Some JDead \<and> (job_of jid s' = Some j \<or> job_of jid s' = Some (cancelled j))"
  using step
proof cases
  case (create env payload job ds')
  then have "je_job_uuid env \<noteq> jid" using j by (auto simp: job_of_def)
  with create j thr show ?thesis by (simp add: job_of_create)
next
  case (cancel x res ds')
  with j thr show ?thesis by (cases "x = jid") (simp_all add: job_of_cancel)
next
  case (event x ph cb cbs)
  with thr have "x \<noteq> jid" by auto
  with event(1) j thr show ?thesis by simp
next
  case (clear x ended cbs)
  with thr have "x \<noteq> jid" by auto
  with clear(1) j thr show ?thesis by simp
qed (use thr j in auto)

lemma cancelled_idem [simp]: "cancelled (cancelled j) = cancelled j"
  by simp

lemma dsteps_dead:
  assumes "(dstep py cfg m)\<^sup>*\<^sup>* s s'" and "dinv m s"
    and "sd_thr s jid = Some JDead" and "job_of jid s = Some j"
  shows "dinv m s' \<and> sd_thr s' jid = Some JDead
    \<and> (job_of jid s' = Some j \<or> job_of jid s' = Some (cancelled j))"
  using assms(1)
proof (induction rule: rtranclp_induct)
  case (step s1 s2)
  then have inv: "dinv m s1" and thr: "sd_thr s1 jid = Some JDead" by simp_all
  from step.IH have "job_of jid s1 = Some j \<or> job_of jid s1 = Some (cancelled j)" by simp
  with dstep_dead [OF inv step(2) thr] dinv_step [OF step(2) inv] show ?case by fastforce
qed (use assms in simp)

end
