(* ===== verification/Concrete.thy ===== *)
theory Concrete
  imports Worker_Progress Api Daemon_Wire
begin

text \<open>
  Concrete inputs: an interpreter, a configuration and a short run of the worker and of the
  daemon, on which the properties are exercised.
\<close>

section \<open>The interpreter and the configurations\<close>

definition payload0 :: jdict where
  "payload0 =
     [(u ''request_id'', JStr (u ''r1'')), (u ''telegram_user_id'', JInt 7),
      (u ''vehicle'', JDict [(u ''number'', JStr (u ''100'')), (u ''ip'', JStr (u ''10.0.0.1''))]),
      (u ''vpn'', JDict [(u ''mode'', JStr (u ''container_secret''))]),
      (u ''operation'', JStr (u ''vehicle_reachability''))]"

definition py0 :: pylib where
  "py0 = \<lparr> py_lower = (\<lambda>s. s), py_repr = (\<lambda>_. []), py_float_repr = (\<lambda>_. []), py_float = (\<lambda>_. None),
     py_sha256_hex = (\<lambda>bs. bs), py_isoformat = (\<lambda>_. u ''2026''), py_exn_text = (\<lambda>_. u ''error''),
     py_json_loads = (\<lambda>_. Inr (JDict payload0)) \<rparr>"

definition wcfg0 :: worker_config where
  "wcfg0 = \<lparr> wc_service_token = u ''token'', wc_runner_mode = u ''dry_run'', wc_runner_url = None,
     wc_runner_auth_token = None, wc_vehicle_inventory_path = None, wc_host = u ''127.0.0.1'', wc_port = 8080,
     wc_audit_log_path = u ''audit.log'', wc_artifact_dir = u ''artifacts'', wc_artifact_ttl_hours = 24,
     wc_max_artifact_bytes = 1000, wc_task_timeout_sec_default = 120, wc_task_result_ttl_sec = 86400,
     wc_global_create_limit_per_minute = 60, wc_user_create_limit_per_minute = 10 \<rparr>"

definition create0 :: create_env where
  "create0 = \<lparr> ce_monotonic = 0, ce_now = 1, ce_now' = 2, ce_uuid = u ''t1'', ce_file = StatFails \<rparr>"

definition fingerprint0 :: ustr where
  "fingerprint0 = concat (map utf8_char (dumps_canonical py0 (JDict payload0)))"

definition task0 :: task where
  "task0 = new_task (u ''t1'') (u ''r1'') 7 (u ''engineer'') \<lparr> v_number = u ''100'', v_ip = u ''10.0.0.1'' \<rparr>
     (u ''vehicle_reachability'') [] 60 fingerprint0 (u ''dry_run'') (u ''read_only'') False 1 2"

definition vpn0 :: vpn_credentials where
  "vpn0 = \<lparr> vpn_mode = u ''container_secret'', vpn_username = [], vpn_password = [] \<rparr>"

lemma py0_simps [simp]:
  "py_sha256_hex py0 = (\<lambda>bs. bs)" "py_float_repr py0 = (\<lambda>_. [])" "py_lower py0 = (\<lambda>s. s)"
  "py_isoformat py0 = (\<lambda>_. u ''2026'')" "py_json_loads py0 = (\<lambda>_. Inr (JDict payload0))"
  by (simp_all add: py0_def)

lemma fingerprint0: "fingerprint_request py0 payload0 = Inr fingerprint0"
  by (simp add: fingerprint_request_total fingerprint0_def payload0_def)

lemma payload0_fields [simp]:
  "jget payload0 (u ''request_id'') = JStr (u ''r1'')"
  "jget payload0 (u ''telegram_user_id'') = JInt 7"
  "jget payload0 (u ''vehicle'') = JDict [(u ''number'', JStr (u ''100'')), (u ''ip'', JStr (u ''10.0.0.1''))]"
  "jget payload0 (u ''vpn'') = JDict [(u ''mode'', JStr (u ''container_secret''))]"
  "jget payload0 (u ''operation'') = JStr (u ''vehicle_reachability'')"
  "get_or payload0 (u ''user_role'') d = d" "get_or payload0 (u ''role'') d = d"
  "get_or payload0 (u ''params'') d = d" "get_or payload0 (u ''timeout_sec'') d = d"
  "get_or payload0 (u ''runner_mode'') d = d"
  by (simp_all add: payload0_def jget_def get_or_def)

definition svc1 :: worker_state where
  "svc1 = register_task task0 vpn0 ((new_worker wcfg0)
     \<lparr> ws_rate_limiter := snd (rl_check (new_rate_limiter 60 10) 7 0) \<rparr>)"

lemma build_vehicle0: "build_vehicle resolve [(u ''number'', JStr (u ''100'')), (u ''ip'', JStr (u ''10.0.0.1''))] i
    = (Inr \<lparr> v_number = u ''100'', v_ip = u ''10.0.0.1'' \<rparr>, i)"
proof -
  have "py_strip (u ''10.0.0.1'') = u ''10.0.0.1''" by code_simp
  then show ?thesis by (simp add: build_vehicle_def nonblank_str_def require_str_def jget_def get_or_def)
qed

lemma created0:
  "create_task py0 wcfg0 create0 payload0 (new_worker wcfg0) = (Inr (201, to_create_response task0), svc1)"
proof -
  have "fst (rl_check (new_rate_limiter 60 10) 7 0)"
    by (simp add: rl_check_def new_rate_limiter_def user_queue_def)
  then obtain rl where rl: "rl_check (new_rate_limiter 60 10) 7 0 = (True, rl)"
    by (metis prod.collapse)
  have "build_task py0 wcfg0 create0 payload0 fingerprint0 None = (Inr (task0, vpn0), None)"
    by (simp add: build_task_def build_vehicle0 build_task_fields_def require_str_def require_dict_def
        require_int_def build_vpn_def get_operation_def MVP_OPERATIONS_def jget_def [of "[_]"] get_or_def [of "[_]"]
        task0_def vpn0_def create0_def wcfg0_def)
  then show ?thesis
    by (simp add: create_task_def create_new_task_def require_str_def require_int_def fingerprint0 rl
        new_worker_def wcfg0_def create0_def active_task_def svc1_def Let_def)
qed

text \<open>A second request, while the first task is active.\<close>

definition payload1 :: jdict where
  "payload1 = dict_set payload0 (u ''request_id'') (JStr (u ''r2''))"

definition fingerprint1 :: ustr where
  "fingerprint1 = concat (map utf8_char (dumps_canonical py0 (JDict payload1)))"

definition limiter1 :: rate_limiter where
  "limiter1 = snd (rl_check (new_rate_limiter 60 10) 7 0)"

lemma request1:
  "require_str payload1 (u ''request_id'') (u ''request_id'') = Inr (u ''r2'')"
  "require_int payload1 (u ''telegram_user_id'') = Inr 7"
  "fingerprint_request py0 payload1 = Inr fingerprint1"
  by (simp_all add: payload1_def payload0_def require_str_def require_int_def jget_def get_or_def
      fingerprint_request_total fingerprint1_def)

lemma svc1_fields:
  "ws_rate_limiter svc1 = limiter1" "request_of (u ''r2'') svc1 = None" "active_task svc1 = Some 0"
  by (simp_all add: svc1_def limiter1_def request_of_def new_worker_def register_task_def task0_def
      active_task_def)

lemma limiter1_check: "fst (rl_check limiter1 7 0)"
  by (simp add: limiter1_def rl_check_def new_rate_limiter_def user_queue_def Let_def)

section \<open>A run of the worker\<close>

definition renv0 :: runner_env where
  "renv0 = \<lparr> re_http = (\<lambda>_. HttpUnavailable), re_tcp = (\<lambda>_ _. False), re_uuid = u ''a1'', re_now = 3,
     re_can_write = (\<lambda>_. True), re_files = [] \<rparr>"

definition out0 :: outcome where
  "out0 = fst (dry_operation_result py0 (worker_artifact_store wcfg0) renv0 task0)"

definition sys0 :: wsys where
  "sys0 = initial_system wcfg0 0"

definition sys1 :: wsys where
  "sys1 = advance 1 2 (u ''t1'') Spawned svc1 sys0"

definition sys2 :: wsys where
  "sys2 = sys1 \<lparr> sy_thr := (sy_thr sys1)(u ''t1'' \<mapsto> Running simulate_lifecycle (Some out0)) \<rparr>"

definition sys3 :: wsys where
  "sys3 = advance 4 5 (u ''t1'') (Finalizing simulate_lifecycle)
     (update_task (u ''t1'') (timeout_task 4 5) (sy_svc sys2)) sys2"

definition sys4 :: wsys where
  "sys4 = advance 6 7 (u ''t1'') (Detached simulate_lifecycle)
     (finalize_task py0 True 6 7 (u ''t1'') (sy_svc sys3)) sys3"

lemma sys_fields [simp]:
  "sy_svc sys0 = new_worker wcfg0" "sy_svc sys1 = svc1" "sy_svc sys2 = svc1"
  "sy_thr sys1 (u ''t1'') = Some Spawned"
  "sy_thr sys2 (u ''t1'') = Some (Running simulate_lifecycle (Some out0))"
  "sy_thr sys3 (u ''t1'') = Some (Finalizing simulate_lifecycle)"
  "sy_thr sys4 (u ''t1'') = Some (Detached simulate_lifecycle)"
  "sy_mono sys0" "sy_mono sys4"
  by (simp_all add: sys0_def sys1_def sys2_def sys3_def sys4_def initial_system_def)

lemma no_task0: "task_of x (new_worker wcfg0) = None"
  by (simp add: task_of_def new_worker_def)

lemma task_of_svc1: "task_of x svc1 = (if x = u ''t1'' then Some task0 else None)"
  by (simp add: svc1_def task_of_def new_worker_def task0_def register_task_def)

lemma task0_fields [simp]:
  "t_state task0 = u ''created''" "t_runner_mode task0 = u ''dry_run''" "t_task_id task0 = u ''t1''"
  "t_request_id task0 = u ''r1''" "t_request_fingerprint task0 = fingerprint0"
  "t_operation task0 = u ''vehicle_reachability''" "t_timeout_sec task0 = 60"
  "t_vehicle task0 = \<lparr> v_number = u ''100'', v_ip = u ''10.0.0.1'' \<rparr>"
  "t_user_role task0 = u ''engineer''" "t_risk task0 = u ''read_only''" "\<not> t_state_changing task0"
  "t_params task0 = []"
  by (simp_all add: task0_def) (simp add: new_task_def)

lemma secret_of_svc1: "secret_of (u ''t1'') svc1 = Some vpn0"
  by (simp add: svc1_def secret_of_def)

lemma step01: "wstep py0 wcfg0 sys0 sys1"
proof -
  have "wstep py0 wcfg0 sys0 (advance (ce_now create0) (ce_now' create0) (ce_uuid create0) Spawned svc1 sys0)"
    by (rule wstep.create [where j = "to_create_response task0" and payload = payload0])
      (simp_all add: created0 no_task0)
  then show ?thesis by (simp add: sys1_def create0_def)
qed

lemma start_runner0: "start_runner wcfg0 task0 (Some vpn0) = Inr (vpn0, DryRunRunner)"
  by (simp add: start_runner_def create_runner_def wcfg0_def)

lemma step12: "wstep py0 wcfg0 sys1 sys2"
  unfolding sys2_def
proof (rule wstep.start)
  show "task_of (u ''t1'') (sy_svc sys1) = Some task0" by (simp add: task_of_svc1)
  show "start_runner wcfg0 task0 (dict_get (ws_secrets_by_task_id (sy_svc sys1)) (u ''t1'')) = Inr (vpn0, DryRunRunner)"
    using secret_of_svc1 by (simp add: start_runner0 secret_of_def)
  show "possible_run DryRunRunner py0 (worker_artifact_store wcfg0) renv0 task0 vpn0 simulate_lifecycle (Some out0)"
    by (simp add: possible_run_def dry_run_def out0_def split: prod.splits)
qed simp

lemma step23: "wstep py0 wcfg0 sys2 sys3"
  unfolding sys3_def by (rule wstep.expire) simp

lemma step34: "wstep py0 wcfg0 sys3 sys4"
  unfolding sys4_def by (rule wstep.finalize) simp

lemma reachable0: "reachable py0 wcfg0 sys0"
  unfolding sys0_def by (rule reachable_initial)

lemma reachable1: "reachable py0 wcfg0 sys1"
  using reachable_steps [OF reachable0] step01 by blast

lemma reachable2: "reachable py0 wcfg0 sys2"
  using reachable_steps [OF reachable1] step12 by blast

lemma reachable3: "reachable py0 wcfg0 sys3"
  using reachable_steps [OF reachable2] step23 by blast

lemma reachable4: "reachable py0 wcfg0 sys4"
  using reachable_steps [OF reachable3] step34 by blast

lemma task_of_sys3: "task_of x (sy_svc sys3) = (if x = u ''t1'' then Some (timeout_task 4 5 task0) else None)"
  using winvD(1) [OF winv_reachable [OF reachable2]]
  by (simp add: sys3_def task_of_update task_of_svc1)

lemma task_of_sys4: "task_of x (sy_svc sys4) = (if x = u ''t1'' then Some (timeout_task 4 5 task0) else None)"
  using finalize_task_laws(2) [OF winvD(1) [OF winv_reachable [OF reachable3]] , of "u ''t1''" "timeout_task 4 5 task0"]
  by (simp add: sys4_def task_of_sys3)

lemma audit_sys4: "\<exists>line. ws_audit (sy_svc sys4) = [line]"
proof -
  have "ws_audit (sy_svc sys3) = []"
    by (simp add: sys3_def sys2_def sys1_def svc1_def new_worker_def register_task_def update_task_def)
  moreover have "task_of (u ''t1'') (sy_svc sys3) = Some (timeout_task 4 5 task0)" by (simp add: task_of_sys3)
  ultimately show ?thesis
    using finalize_task_laws(4) [OF winvD(1) [OF winv_reachable [OF reachable3]], of "u ''t1''" "timeout_task 4 5 task0"
        py0 True 6 7]
    by (auto simp: sys4_def write_task_event_def)
qed

section \<open>A run of the daemon\<close>

definition dcfg0 :: daemon_config where
  "dcfg0 = \<lparr> dc_host = u ''127.0.0.1'', dc_port = 8091, dc_auth_token = Some (u ''token''),
     dc_existing_container_name = u ''univpn-service'', dc_nsenter_bin = u ''/usr/bin/nsenter'',
     dc_docker_bin = u ''/usr/bin/docker'', dc_ssh_bin = u ''/usr/bin/ssh'', dc_ssh_key_path = u ''/run/keys/rsa.key'',
     dc_default_ssh_user = u ''root'', dc_nsenter_timeout_sec = 8, dc_command_output_max_bytes = 65536,
     dc_manage_vpn_session = False, dc_stop_vpn_after_task = True, dc_univpn_control_path = u ''/run/univpn/univpn.in'',
     dc_univpn_login_timeout_sec = 45, dc_univpn_connect_poll_interval_sec = 2,
     dc_univpn_route_cidr = u ''172.26.0.0/15'', dc_univpn_interface = u ''cnem_vnic'',
     dc_univpn_login_mode = u ''container_secret'', dc_univpn_secret_path = u ''/run/secrets/univpn.env'',
     dc_univpn_profile_menu_index = u ''3'', dc_univpn_disconnect_sequence = None,
     dc_univpn_login_after_profile_delay_sec = 2, dc_univpn_login_after_connect_delay_sec = 4,
     dc_univpn_login_after_username_delay_sec = 2, dc_univpn_post_login_wait_sec = 12,
     dc_artifact_dir = u ''runner-artifacts'', dc_artifact_ttl_hours = 24, dc_max_artifact_bytes = 1000 \<rparr>"

definition xenv0 :: exec_env where
  "xenv0 = \<lparr> xe_process = (\<lambda>_ _ _. Completed 1 [] []), xe_fifo_ok = (\<lambda>_. True), xe_clock = of_nat,
     xe_key_is_file = True, xe_secret_lines = Inr [] \<rparr>"

definition jenv0 :: job_env where
  "jenv0 = \<lparr> je_task_uuid = u ''jt1'', je_job_uuid = u ''j1'', je_now = 1, je_now' = 1 \<rparr>"

text \<open>The task, and the same for a runner mode no one knows.\<close>

definition bogus0 :: task where
  "bogus0 = task0 \<lparr> t_runner_mode := u ''bogus'' \<rparr>"

lemma accepted0: "accepted_task task0 vpn0"
  by (simp add: accepted_task_def vpn0_def registry_keys del: list.map)

lemma accepted_bogus0: "accepted_task bogus0 vpn0"
  using accepted0 by (simp add: accepted_task_def bogus0_def)

definition job0 :: runner_job where
  "job0 = job_for jenv0 task0 vpn0"

definition lost0 :: runner_job where
  "lost0 = job_for jenv0 bogus0 vpn0"

lemma job0_fields [simp]:
  "rj_job_id job0 = u ''j1''" "rj_state job0 = u ''created''" "t_runner_mode (rj_task job0) = u ''dry_run''"
  "t_timeout_sec (rj_task job0) = 60" "rj_vpn job0 = vpn0"
  "rj_job_id lost0 = u ''j1''" "rj_state lost0 = u ''created''" "t_runner_mode (rj_task lost0) = u ''bogus''"
  by (simp_all add: job0_def lost0_def job_for_def new_job_def jenv0_def bogus0_def)

definition ds1 :: dsys where
  "ds1 = \<lparr> sd_svc = \<lparr> ds_jobs = [(u ''j1'', job0)] \<rparr>, sd_thr = [u ''j1'' \<mapsto> JSpawned] \<rparr>"

definition lost1 :: dsys where
  "lost1 = \<lparr> sd_svc = \<lparr> ds_jobs = [(u ''j1'', lost0)] \<rparr>, sd_thr = [u ''j1'' \<mapsto> JSpawned] \<rparr>"

definition lost2 :: dsys where
  "lost2 = \<lparr> sd_svc = \<lparr> ds_jobs = [(u ''j1'', lost0)] \<rparr>, sd_thr = [u ''j1'' \<mapsto> JDead] \<rparr>"

lemma create_job0:
  "create_job py0 jenv0 (create_job_payload task0 vpn0) (sd_svc initial_daemon) = (Inr job0, \<lparr> ds_jobs = [(u ''j1'', job0)] \<rparr>)"
  "create_job py0 jenv0 (create_job_payload bogus0 vpn0) (sd_svc initial_daemon) = (Inr lost0, \<lparr> ds_jobs = [(u ''j1'', lost0)] \<rparr>)"
  using build_job_payload [OF accepted0, of py0 jenv0] build_job_payload [OF accepted_bogus0, of py0 jenv0]
  by (simp_all add: create_job_def initial_daemon_def job0_def lost0_def job_for_def new_job_def jenv0_def
      bogus0_def)

lemma daemon_step1: "dstep py0 dcfg0 100 initial_daemon ds1"
proof -
  have "dstep py0 dcfg0 100 initial_daemon
      \<lparr> sd_svc = \<lparr> ds_jobs = [(u ''j1'', job0)] \<rparr>, sd_thr = (sd_thr initial_daemon)(je_job_uuid jenv0 \<mapsto> JSpawned) \<rparr>"
    by (rule dstep.create [OF create_job0(1)]) (simp add: initial_daemon_def)
  then show ?thesis by (simp add: ds1_def initial_daemon_def jenv0_def)
qed

lemma lost_step1: "dstep py0 dcfg0 100 initial_daemon lost1"
proof -
  have "dstep py0 dcfg0 100 initial_daemon
      \<lparr> sd_svc = \<lparr> ds_jobs = [(u ''j1'', lost0)] \<rparr>, sd_thr = (sd_thr initial_daemon)(je_job_uuid jenv0 \<mapsto> JSpawned) \<rparr>"
    by (rule dstep.create [OF create_job0(2)]) (simp add: initial_daemon_def)
  then show ?thesis by (simp add: lost1_def initial_daemon_def jenv0_def)
qed

lemma lost_step2: "dstep py0 dcfg0 100 lost1 lost2"
proof -
  obtain e where "choose_executor (u ''bogus'') = Inl e" using choose_executor_Inl [of "u ''bogus''"] by auto
  then have "dstep py0 dcfg0 100 lost1 (lost1 \<lparr> sd_thr := (sd_thr lost1)(u ''j1'' \<mapsto> JDead) \<rparr>)"
    by (intro dstep.die [where job = lost0 and e = e]) (simp_all add: lost1_def)
  then show ?thesis by (simp add: lost1_def lost2_def)
qed

lemma daemon_reachable1: "daemon_reachable py0 dcfg0 100 ds1"
  unfolding daemon_reachable_def by (rule r_into_rtranclp [of "dstep py0 dcfg0 100", OF daemon_step1])

lemma lost_reachable2: "daemon_reachable py0 dcfg0 100 lost2"
  unfolding daemon_reachable_def
  by (rule rtranclp.rtrancl_into_rtrancl [OF r_into_rtranclp [of "dstep py0 dcfg0 100", OF lost_step1] lost_step2])

section \<open>A vehicle\<close>

definition host0 :: "32 word" where
  "host0 = ip4_of_octets 172 26 0 1"

lemma octets0: "ip4_octets host0 = [172, 26, 0, 1]"
  unfolding host0_def by (rule ip4_octets_of_octets) simp_all

lemma host0: "str_of_ip4 host0 = u ''172.26.0.1''" "in_mnt_network (IPv4 host0)"
  using in_mnt_network_octets [OF octets0] by (simp_all add: str_of_ip4_def octets0 u_def str_of_nat.simps)

lemma host0_address [simp]: "ip_address (u ''172.26.0.1'') = Some (IPv4 host0)"
  using parse_ipv4_str [of host0] by (simp add: ip_address_def host0)

end
