(* ===== verification/Worker_Properties.thy ===== *)
theory Worker_Properties
  imports Concrete
begin

text \<open>
  The properties of the worker, each over every interleaving of its requests, execution threads
  and runner threads, and each exercised on the run of the theory Concrete.
\<close>

section \<open>One task at a time\<close>

text \<open>
  C1. Single flight: in every reachable state the tasks that have not ended are exactly the one
  \<open>_active_task\<close> returns, so there is at most one, and none when it returns nothing.
\<close>

theorem one_task_at_a_time:
  assumes "reachable py cfg s"
  shows "{tid. \<exists>t. task_of tid (sy_svc s) = Some t \<and> \<not> terminal_state (t_state t)} = set_option (active_id (sy_svc s))"
  using active_id_Some [OF winvD(1,3) [OF winv_reachable [OF assms]]] by auto

theorem one_task_at_a_time_witness:
  "{tid. \<exists>t. task_of tid (sy_svc sys1) = Some t \<and> \<not> terminal_state (t_state t)} = set_option (active_id (sy_svc sys1))
   \<and> active_id (sy_svc sys1) = Some (u ''t1'')"
  using one_task_at_a_time [OF reachable1]
    active_id_Some [OF winvD(1,3) [OF winv_reachable [OF reachable1]], of "u ''t1''"]
  by (simp add: task_of_svc1)

text \<open>
  C2. An ended task is frozen: whatever the system does afterwards (late callbacks of a runner that
  was timed out included), the task is equal to what it was, in every field.
\<close>

theorem ended_tasks_never_change:
  assumes "reachable py cfg s" and "(wstep py cfg)\<^sup>*\<^sup>* s s'"
    and "task_of tid (sy_svc s) = Some t" and "terminal_state (t_state t)"
  shows "task_of tid (sy_svc s') = Some t"
  using wsteps_keep_task [OF assms(2) winv_reachable [OF assms(1)] assms(3)] assms(4) by auto

theorem ended_tasks_never_change_witness:
  "task_of (u ''t1'') (sy_svc sys4) = Some (timeout_task 4 5 task0)"
  by (rule ended_tasks_never_change [OF reachable3 r_into_rtranclp [of "wstep py0 wcfg0", OF step34]])
    (simp_all add: task_of_sys3)

text \<open>
  C3. The worker refines the abstract job machine: every step of the system either accepts a job
  while none is running, or ends the running job in a terminal state, or is invisible.
\<close>

theorem worker_implements_job_machine:
  assumes "reachable py cfg s" and "wstep py cfg s s'"
  shows "abs_machine (sy_svc s') = abs_machine (sy_svc s)
    \<or> job_step (abs_machine (sy_svc s)) (abs_machine (sy_svc s'))"
  by (rule wstep_refines [OF winv_reachable [OF assms(1)] assms(2)])

theorem worker_implements_job_machine_witness:
  "abs_machine (sy_svc sys3) = abs_machine (sy_svc sys2)
   \<or> job_step (abs_machine (sy_svc sys2)) (abs_machine (sy_svc sys3))"
  by (rule worker_implements_job_machine [OF reachable2 step23])

section \<open>Requests\<close>

text \<open>
  C4. Idempotence across time: once a request has been accepted, the same request (same id, same
  fingerprint) is answered at any later moment with status 200 and the task it created, and the same id with
  another body with 409, and neither changes the state.
\<close>

theorem accepted_requests_replay:
  assumes "reachable py cfg s"
    and "create_task py cfg env payload (sy_svc s) = (Inr (201, j), svc')"
    and "task_of (ce_uuid env) (sy_svc s) = None"
    and "(wstep py cfg)\<^sup>*\<^sup>* (advance (ce_now env) (ce_now' env) (ce_uuid env) Spawned svc' s) s'"
    and "jget payload' (u ''request_id'') = jget payload (u ''request_id'')"
    and "fingerprint_request py payload' = Inr fp'"
  shows "\<exists>t. task_of (ce_uuid env) (sy_svc s') = Some t \<and>
    create_task py cfg env' payload' (sy_svc s') =
      (if fingerprint_request py payload = Inr fp' then (Inr (200, to_create_response t), sy_svc s')
       else (Inl (WorkerError 409 (u ''request_id_conflict'') msg_request_id_conflict), sy_svc s'))"
proof -
  let ?s1 = "advance (ce_now env) (ce_now' env) (ce_uuid env) Spawned svc' s"
  note inv1 = winv_create [OF winv_reachable [OF assms(1)] assms(2,3)]
  from assms(2) obtain rid fp t where rid: "require_str payload (u ''request_id'') (u ''request_id'') = Inr rid"
    and fp: "fingerprint_request py payload = Inr fp"
    and t: "task_of (ce_uuid env) (sy_svc ?s1) = Some t" "t_request_id t = rid" "t_request_fingerprint t = fp"
  proof (cases rule: create_task_cases)
    case (created rid uid fp t vpn rl i)
    have ok: "ws_inventory (sy_svc s) = Some c \<Longrightarrow> cache_ok c" for c
      using winvD(1) [OF winv_reachable [OF assms(1)]] by (simp add: wf_worker_def)
    note b = build_task_Inr [OF created(9) ok]
    have "wf_worker ((sy_svc s) \<lparr> ws_rate_limiter := rl, ws_inventory := i \<rparr>)"
      using winvD(1) [OF winv_reachable [OF assms(1)]] build_task_inventory [OF created(9) ok]
      by (intro wf_worker_limiter)
    then show thesis
      using created(2-4) b(2,3,5) by (intro that [OF created(3,4)]) (simp_all add: task_of_register)
  qed simp_all
  from wsteps_keep_task [OF assms(4) inv1 t(1)] obtain t' where inv': "winv s'"
    and t': "task_of (ce_uuid env) (sy_svc s') = Some t'" "same_request t t'" by blast
  have "request_of rid (sy_svc s') = Some t'"
    using task_of_request_of [OF winvD(1) [OF inv'] t'(1)] t(2) t'(2) by (simp add: same_request_def)
  moreover have "require_str payload' (u ''request_id'') (u ''request_id'') = Inr rid"
    using rid assms(5) by (simp add: require_str_def)
  ultimately show ?thesis
    using create_task_replays [OF _ assms(6), of rid "sy_svc s'" t' cfg env'] t' t(3) fp
    by (auto simp: same_request_def)
qed

theorem accepted_requests_replay_witness:
  "\<exists>t. task_of (u ''t1'') (sy_svc sys4) = Some t \<and>
    create_task py0 wcfg0 create0 payload0 (sy_svc sys4) =
      (if fingerprint_request py0 payload0 = Inr fingerprint0
       then (Inr (200, to_create_response t), sy_svc sys4)
       else (Inl (WorkerError 409 (u ''request_id_conflict'') msg_request_id_conflict), sy_svc sys4))"
proof -
  have "(wstep py0 wcfg0)\<^sup>*\<^sup>* sys1 sys4" 
    by (rule rtranclp.rtrancl_into_rtrancl [OF rtranclp.rtrancl_into_rtrancl
          [OF r_into_rtranclp [of "wstep py0 wcfg0", OF step12] step23] step34])
  then show ?thesis
    using accepted_requests_replay [of py0 wcfg0 sys0 create0 payload0 "to_create_response task0" svc1 sys4
        payload0 fingerprint0 create0] reachable0 created0 fingerprint0 no_task0
    by (simp add: sys1_def create0_def)
qed

text \<open>
  C5. What an accepted creation means: the task of the response is in both dictionaries, in state
  created and unlike any other, satisfies the contract of an accepted request (registered read-only operation,
  allowed role, positive timeout, a vehicle with number and address, usable credentials), its
  credentials are stored, and no task was active.
\<close>

theorem created_task_contract:
  assumes "wf_worker ws" and "task_of (ce_uuid env) ws = None"
    and "create_task py cfg env payload ws = (Inr (201, j), ws')"
  shows "\<exists>t vpn. j = to_create_response t \<and> accepted_task t vpn \<and> t_state t = u ''created''
    \<and> (\<forall>x. task_of x ws' = (if x = ce_uuid env then Some t else task_of x ws))
    \<and> request_of (t_request_id t) ws' = Some t \<and> request_of (t_request_id t) ws = None
    \<and> secret_of (ce_uuid env) ws' = Some vpn \<and> active_task ws = None"
  using assms(3)
proof (cases rule: create_task_cases)
  case (created rid uid fp t vpn rl i)
  have ok: "ws_inventory ws = Some c \<Longrightarrow> cache_ok c" for c using assms(1) by (simp add: wf_worker_def)
  note b = build_task_Inr [OF created(9) ok]
  have "wf_worker (ws \<lparr> ws_rate_limiter := rl, ws_inventory := i \<rparr>)"
    using assms(1) build_task_inventory [OF created(9) ok] by (intro wf_worker_limiter)
  then have tasks: "task_of x ws' = (if x = ce_uuid env then Some t else task_of x ws)" for x
    using created(2) b(2) by (simp add: task_of_register)
  have "request_of (t_request_id t) ws' = Some t"
    using task_of_request_of [OF wf_create_task [OF assms(3,1,2)], of "ce_uuid env" t] tasks by simp
  moreover have "request_of (t_request_id t) ws = None" using created(3,5) b(3) by simp
  moreover have "secret_of (ce_uuid env) ws' = Some vpn" using created(2) b(2) by (simp add: secret_of_def)
  ultimately show ?thesis using created(1,8) b(1,6) tasks by auto
qed simp_all

theorem created_task_contract_witness:
  "\<exists>t vpn. to_create_response task0 = to_create_response t \<and> accepted_task t vpn \<and> t_state t = u ''created''
    \<and> (\<forall>x. task_of x svc1 = (if x = u ''t1'' then Some t else task_of x (new_worker wcfg0)))
    \<and> request_of (t_request_id t) svc1 = Some t \<and> request_of (t_request_id t) (new_worker wcfg0) = None
    \<and> secret_of (u ''t1'') svc1 = Some vpn \<and> active_task (new_worker wcfg0) = None"
  using created_task_contract [OF wf_new_worker _ created0] no_task0 by (simp add: create0_def)

text \<open>
  A request that is not accepted leaves no trace in the tasks, the credentials and the audit
  log; a replay leaves no trace at all.
\<close>

theorem refused_creation_touches_no_task:
  assumes "create_task py cfg env payload ws = (res, ws')" and "\<nexists>j. res = Inr (201, j)"
  shows "(\<forall>x. task_of x ws' = task_of x ws \<and> request_of x ws' = request_of x ws \<and> secret_of x ws' = secret_of x ws)
    \<and> ws_audit ws' = ws_audit ws \<and> ((\<exists>e. res = Inl e) \<or> ws' = ws)"
proof -
  have "(\<exists>e. res = Inl e) \<or> ws' = ws"
    using assms(1) by (cases rule: create_task_cases) (use assms(2) in simp_all)
  then show ?thesis using same_tasks_of [OF create_task_refused [OF assms]] by simp
qed

theorem refused_creation_touches_no_task_witness:
  "(\<forall>x. task_of x (svc1 \<lparr> ws_rate_limiter := snd (rl_check limiter1 7 0) \<rparr>) = task_of x svc1
      \<and> request_of x (svc1 \<lparr> ws_rate_limiter := snd (rl_check limiter1 7 0) \<rparr>) = request_of x svc1
      \<and> secret_of x (svc1 \<lparr> ws_rate_limiter := snd (rl_check limiter1 7 0) \<rparr>) = secret_of x svc1)
    \<and> ws_audit (svc1 \<lparr> ws_rate_limiter := snd (rl_check limiter1 7 0) \<rparr>) = ws_audit svc1
    \<and> ((\<exists>e. (Inl (WorkerError 409 (u ''worker_busy'') msg_worker_busy) :: (int \<times> json) res) = Inl e)
       \<or> svc1 \<lparr> ws_rate_limiter := snd (rl_check limiter1 7 0) \<rparr> = svc1)"
proof (rule refused_creation_touches_no_task [of py0 wcfg0 create0 payload1])
  show "create_task py0 wcfg0 create0 payload1 svc1 =
    (Inl (WorkerError 409 (u ''worker_busy'') msg_worker_busy),
     svc1 \<lparr> ws_rate_limiter := snd (rl_check limiter1 7 0) \<rparr>)"
    using busy_refusal [OF request1(1,3) svc1_fields(2) request1(2), where env = create0]
      limiter1_check svc1_fields by (simp add: create0_def prod_eq_iff)
qed simp

text \<open>
  A worker that is busy refuses a new, otherwise valid request with 409 \<open>worker_busy\<close>; the
  attempt still counts against the rate limit, and nothing else changes.
\<close>

theorem busy_worker_refuses:
  assumes "require_str payload (u ''request_id'') (u ''request_id'') = Inr rid"
    and "fingerprint_request py payload = Inr fp" and "request_of rid ws = None"
    and "require_int payload (u ''telegram_user_id'') = Inr uid"
    and "rl_check (ws_rate_limiter ws) uid (ce_monotonic env) = (True, rl)"
    and "task_of tid ws = Some t" and "\<not> terminal_state (t_state t)" and "wf_worker ws"
  shows "create_task py cfg env payload ws =
    (Inl (WorkerError 409 (u ''worker_busy'') msg_worker_busy), ws \<lparr> ws_rate_limiter := rl \<rparr>)"
proof (rule busy_refusal [OF assms(1-5)])
  show "active_task ws \<noteq> None" using active_task_None_iff [OF assms(8)] assms(6,7) by auto
qed

theorem busy_worker_refuses_witness:
  "create_task py0 wcfg0 create0 payload1 svc1 =
    (Inl (WorkerError 409 (u ''worker_busy'') msg_worker_busy),
     svc1 \<lparr> ws_rate_limiter := snd (rl_check limiter1 7 0) \<rparr>)"
  using limiter1_check winvD(1) [OF winv_reachable [OF reachable1]]
  by (intro busy_worker_refuses [OF request1(1,3) svc1_fields(2) request1(2), of _ _ "u ''t1''" task0])
    (simp_all add: svc1_fields task_of_svc1 create0_def prod_eq_iff)

text \<open>
  Every task the worker ever holds came from an accepted request: a registered operation that
  is read-only and changes no state, a role that may run it, a complete vehicle.
\<close>

theorem tasks_are_read_only:
  assumes "reachable py cfg s" and "task_of tid (sy_svc s) = Some t"
  shows "t_operation t \<in> set (dict_keys MVP_OPERATIONS) \<and> t_user_role t \<in> {u ''engineer'', u ''admin''}
    \<and> t_risk t = u ''read_only'' \<and> \<not> t_state_changing t \<and> 0 < t_timeout_sec t
    \<and> v_number (t_vehicle t) \<noteq> [] \<and> v_ip (t_vehicle t) \<noteq> []"
  using reachable_accepted [OF assms] by (auto simp: accepted_task_def)

theorem tasks_are_read_only_witness:
  "t_operation task0 \<in> set (dict_keys MVP_OPERATIONS) \<and> t_user_role task0 \<in> {u ''engineer'', u ''admin''}
    \<and> t_risk task0 = u ''read_only'' \<and> \<not> t_state_changing task0 \<and> 0 < t_timeout_sec task0
    \<and> v_number (t_vehicle task0) \<noteq> [] \<and> v_ip (t_vehicle task0) \<noteq> []"
  by (rule tasks_are_read_only [OF reachable1, of "u ''t1''"]) (simp add: task_of_svc1)

section \<open>Threads, credentials and the audit log\<close>

text \<open>
  C6. Credentials live exactly as long as the execution thread of their task: they are in memory
  while it runs (so the branch "VPN credentials are missing" is never taken) and gone as soon as it is over.
\<close>

theorem credentials_live_with_the_thread:
  assumes "reachable py cfg s"
  shows "secret_of tid (sy_svc s) \<noteq> None \<longleftrightarrow> (\<exists>ph. sy_thr s tid = Some ph \<and> (\<nexists>cbs. ph = Detached cbs))"
  using secret_iff_running [OF winv_reachable [OF assms]] by (simp add: rank_0_iff)

theorem credentials_live_with_the_thread_witness:
  "secret_of (u ''t1'') (sy_svc sys4) \<noteq> None \<longleftrightarrow> (\<exists>ph. sy_thr sys4 (u ''t1'') = Some ph \<and> (\<nexists>cbs. ph = Detached cbs))"
  by (rule credentials_live_with_the_thread [OF reachable4])

text \<open>
  No execution thread is ever stuck: one that is not over can take a step of its own that
  brings it strictly nearer to its end (a runner that never returns is timed out), and no step of
  the system, of whatever thread, takes it back.
\<close>

theorem threads_only_move_forward:
  assumes "reachable py cfg s" and "sy_thr s tid = Some ph"
  shows "(0 < rank ph \<longrightarrow> (\<exists>s' ph'. wstep py cfg s s' \<and> sy_thr s' tid = Some ph' \<and> rank ph' < rank ph))
    \<and> (\<forall>s'. wstep py cfg s s' \<longrightarrow> (\<exists>ph'. sy_thr s' tid = Some ph' \<and> rank ph' \<le> rank ph))"
  using thread_progress [OF winv_reachable [OF assms(1)] assms(2)]
    wstep_thread [OF winv_reachable [OF assms(1)] _ assms(2)] by blast

theorem threads_only_move_forward_witness:
  "(\<exists>s' ph'. wstep py0 wcfg0 sys2 s' \<and> sy_thr s' (u ''t1'') = Some ph'
         \<and> rank ph' < rank (Running simulate_lifecycle (Some out0)))
    \<and> (\<exists>ph'. sy_thr sys3 (u ''t1'') = Some ph' \<and> rank ph' \<le> rank (Running simulate_lifecycle (Some out0)))"
  using threads_only_move_forward [OF reachable2, of "u ''t1''"] step23 by (simp del: sys_fields(6))

text \<open>
  From every reachable state the worker can become idle again, whatever its runner does: the
  slot of the single active task is never lost.
\<close>

theorem worker_can_become_idle:
  assumes "reachable py cfg s"
  shows "\<exists>s'. (wstep py cfg)\<^sup>*\<^sup>* s s' \<and> active_task (sy_svc s') = None"
  by (rule becomes_idle [OF winv_reachable [OF assms]])

theorem worker_can_become_idle_witness:
  "\<exists>s'. (wstep py0 wcfg0)\<^sup>*\<^sup>* sys2 s' \<and> active_task (sy_svc s') = None"
  by (rule worker_can_become_idle [OF reachable2])

text \<open>
  What the \<open>finally\<close> block leaves behind: a task that has ended, no credentials, and one more
  audit line, which is the record of the task in its final state; every other task is untouched.
\<close>

theorem finally_block_contract:
  assumes "wf_worker ws" and "task_of tid ws = Some t"
  shows "\<exists>t'. task_of tid (finalize_task py True n1 n2 tid ws) = Some t' \<and> terminal_state (t_state t')
    \<and> (terminal_state (t_state t) \<longrightarrow> t' = t)
    \<and> (\<forall>x. x \<noteq> tid \<longrightarrow> task_of x (finalize_task py True n1 n2 tid ws) = task_of x ws)
    \<and> secret_of tid (finalize_task py True n1 n2 tid ws) = None
    \<and> ws_audit (finalize_task py True n1 n2 tid ws) = ws_audit ws @ [audit_record py n2 n2 t']"
  using finalize_task_laws [OF assms, where py = py and log_ok = True and ?n1.0 = n1 and ?n2.0 = n2]
  by (simp add: write_task_event_def)

theorem finally_block_contract_witness:
  "\<exists>t'. task_of (u ''t1'') (finalize_task py0 True 3 4 (u ''t1'') svc1) = Some t' \<and> terminal_state (t_state t')
    \<and> (terminal_state (t_state task0) \<longrightarrow> t' = task0)
    \<and> (\<forall>x. x \<noteq> u ''t1'' \<longrightarrow> task_of x (finalize_task py0 True 3 4 (u ''t1'') svc1) = task_of x svc1)
    \<and> secret_of (u ''t1'') (finalize_task py0 True 3 4 (u ''t1'') svc1) = None
    \<and> ws_audit (finalize_task py0 True 3 4 (u ''t1'') svc1) = ws_audit svc1 @ [audit_record py0 4 4 t']"
  using winvD(1) [OF winv_reachable [OF reachable1]]
  by (intro finally_block_contract) (simp_all add: task_of_svc1)

text \<open>
  C33. The audit log tells the truth: every line is the record of a task the worker still holds,
  whose thread is over, in the state that task has for ever; and no task has two lines.
\<close>

theorem audit_log_is_truthful:
  assumes "reachable py cfg s"
  shows "(\<forall>line \<in> set (ws_audit (sy_svc s)). \<exists>t n. line = audit_record py n n t
      \<and> terminal_state (t_state t) \<and> task_of (t_task_id t) (sy_svc s) = Some t)
    \<and> distinct (map audit_task_id (ws_audit (sy_svc s)))"
proof -
  note ok = audit_ok_reachable [OF assms] and inv = winv_reachable [OF assms]
  have "terminal_state (t_state t)"
    if "task_of (t_task_id t) (sy_svc s) = Some t" "sy_thr s (t_task_id t) = Some (Detached cbs)" for t cbs
    using winv_thread [OF inv that(2)] that(1) by auto
  with ok show ?thesis by (fastforce simp: audit_ok_def)
qed

theorem audit_log_is_truthful_witness:
  "\<exists>t n. ws_audit (sy_svc sys4) = [audit_record py0 n n t] \<and> terminal_state (t_state t)
    \<and> task_of (t_task_id t) (sy_svc sys4) = Some t"
proof -
  obtain line where line: "ws_audit (sy_svc sys4) = [line]" using audit_sys4 by blast
  with audit_log_is_truthful [OF reachable4] show ?thesis by auto
qed

text \<open>
  As long as the clock is not set back, every task is well formed at every moment: its state is
  known and mirrored by the phase, and created, started, finished and updated are in order and
  present when the state says so.
\<close>

theorem task_stamps_are_ordered:
  assumes "reachable py cfg s" and "sy_mono s" and "task_of tid (sy_svc s) = Some t"
  shows "wf_task t \<and> t_updated_at t \<le> sy_clk s"
  using winvD(4) [OF winv_reachable [OF assms(1)]] assms(2,3) by (simp add: stamps_ok_def)

theorem task_stamps_are_ordered_witness:
  "wf_task (timeout_task 4 5 task0) \<and> t_updated_at (timeout_task 4 5 task0) \<le> sy_clk sys4"
  by (rule task_stamps_are_ordered [OF reachable4, of "u ''t1''"])
    (simp_all add: task_of_sys4)

text \<open>
  Every runner leaves the ending of a task to the worker: whatever the environment answers, the
  callbacks of a run are accepted one after the other and the task is still running after the last.
\<close>

theorem runners_never_end_a_task:
  assumes "run_runner kind py store env t vpn = Some (evs, out, fs)" and "\<not> terminal_state (t_state t')"
  shows "callbacks_ok evs \<and> \<not> terminal_state (t_state (deliver now evs t'))"
  using any_runner.reports [OF assms(1)] any_runner.run_keeps_running [OF assms] by simp

theorem runners_never_end_a_task_witness:
  "callbacks_ok simulate_lifecycle \<and> \<not> terminal_state (t_state (deliver 3 simulate_lifecycle task0))"
  by (rule runners_never_end_a_task [of DryRunRunner py0 "worker_artifact_store wcfg0" renv0 task0 vpn0 _
        out0 "snd (dry_operation_result py0 (worker_artifact_store wcfg0) renv0 task0)"])
    (simp_all add: dry_run_def out0_def split: prod.splits)

end
