(* ===== verification/Data_Properties.thy ===== *)
theory Data_Properties
  imports Concrete
begin

text \<open>
  The properties of the components that hold no task: rate limiter, inventory, tokens, redaction
  and fingerprints, addresses, command output, artifacts, and the polling loop of the client.
\<close>

section \<open>The rate limiter\<close>

text \<open>
  C9. Global limit: in a run of the limiter over non-decreasing clock readings, no closed window of
  60 seconds, wherever it starts, holds more accepted creations than the global limit.
\<close>

theorem global_rate_limit:
  assumes "global_events rl = []" and "sorted (map snd es)" and "run_checks rl_check rl es = (acc, rl')"
  shows "int (in_window a (map snd acc)) \<le> max 0 (global_limit rl)"
  using global_window.window_law [OF assms] by simp

theorem global_rate_limit_witness:
  "int (in_window 0 (map snd [(7 :: int, 0), (8, 61)])) \<le> max 0 (global_limit (new_rate_limiter 1 5))"
  by (rule global_rate_limit [of _ "[(7, 0), (8, 1), (8, 61)]"])
    (simp_all add: new_rate_limiter_def rl_check_def user_queue_def Let_def prod_eq_iff)

text \<open>The same for each user and the limit of one user, whatever the others do.\<close>

theorem user_rate_limit:
  assumes "user_queue rl uid = []" and "sorted (map snd es)" and "run_checks rl_check rl es = (acc, rl')"
  shows "int (in_window a (map snd (filter (\<lambda>x. fst x = uid) acc))) \<le> max 0 (user_limit rl)"
  using user_window.window_law [OF assms] .

theorem user_rate_limit_witness:
  "int (in_window 0 (map snd (filter (\<lambda>x. fst x = 7) [(7 :: int, 0), (8, 1)]))) \<le> max 0 (user_limit (new_rate_limiter 5 1))"
  by (rule user_rate_limit [of _ _ "[(7, 0), (8, 1), (7, 2)]"])
    (simp_all add: new_rate_limiter_def rl_check_def user_queue_def Let_def prod_eq_iff)

section \<open>The inventory\<close>


text \<open>A file of one row, and what it parses to.\<close>

definition row0 :: csv_row where
  "row0 = [(u ''garage_number'', Some (u ''100'')), (u ''ip'', Some (u ''10.0.0.1''))]"

definition record0 :: inventory_record where
  "record0 = \<lparr> ir_garage_number = u ''100'', ir_vehicle_id = [], ir_plate = [], ir_ip = u ''10.0.0.1'', ir_mac = [],
     ir_model = [], ir_branch = [], ir_updated_at = [], ir_comment = [] \<rparr>"

lemma normalize0: "normalize_plate (u ''100'') = u ''100''" "normalize_plate (u ''10.0.0.1'') = u ''10.0.0.1''"
  "normalize_identifier (u '' 100 '') = u ''100''" "normalize_identifier (u ''100'') = u ''100''"
  by (simp_all add: normalize_plate_def normalize_identifier_split py_split_def u_def is_space_def)

lemma records0: "records_from_rows [row0] 2 = Inr [record0]"
  by (simp add: record_from_row_def row0_def cell_def normalize0 record0_def Let_def)




section \<open>Tokens, redaction, fingerprints\<close>

text \<open>
  A bearer header passes exactly when it is "Bearer " followed by the expected token, up to
  white space around it, and the token is ASCII; in every other case the answer is no, or the
  comparison raises because a text is not ASCII.
\<close>

theorem bearer_exact:
  "check_bearer py h token = Inr True \<longleftrightarrow>
     (\<exists>rest. h = Some (u ''Bearer '' @ rest) \<and> py_strip rest = token \<and> is_ascii token)"
  using check_bearer_True [of py h token] check_bearer_complete [of _ token py] by auto


text \<open>
  C40. The fingerprint of a request does not depend on the order of keys, in the request or in any
  object below it.
\<close>

theorem fingerprint_ignores_key_order:
  assumes "json_equiv (JDict a) (JDict b)" and "wf_json (JDict a)"
  shows "fingerprint_request py a = fingerprint_request py b"
  by (rule fingerprint_request_equiv [OF assms])

theorem fingerprint_ignores_key_order_witness:
  "fingerprint_request py0 [(u ''a'', JInt 1), (u ''b'', JDict [(u ''x'', JNull), (u ''y'', JBool True)])] =
   fingerprint_request py0 [(u ''b'', JDict [(u ''y'', JBool True), (u ''x'', JNull)]), (u ''a'', JInt 1)]"
proof (rule fingerprint_ignores_key_order)
  have "json_equiv (JDict [(u ''x'', JNull), (u ''y'', JBool True)]) (JDict [(u ''y'', JBool True), (u ''x'', JNull)])"
    by (rule json_equiv_dict [of _ "[(u ''x'', JNull), (u ''y'', JBool True)]"]) (simp_all add: json_equiv_refl)
  then show "json_equiv (JDict [(u ''a'', JInt 1), (u ''b'', JDict [(u ''x'', JNull), (u ''y'', JBool True)])])
      (JDict [(u ''b'', JDict [(u ''y'', JBool True), (u ''x'', JNull)]), (u ''a'', JInt 1)])"
    by (intro json_equiv_dict [of _ "[(u ''a'', JInt 1), (u ''b'', JDict [(u ''y'', JBool True), (u ''x'', JNull)])]"])
      (simp_all add: json_equiv_refl)
qed simp

section \<open>Addresses\<close>

text \<open>
  An IPv4 text has exactly one spelling: what parses prints back as itself, and every address
  parses from its printed form; and membership in the MNT network is a question of the first two octets.
\<close>

theorem ipv4_spelling_and_network:
  "(parse_ipv4 s = Some a \<longleftrightarrow> s = str_of_ip4 a)
   \<and> (in_mnt_network (IPv4 a) \<longleftrightarrow> ip4_octets a ! 0 = 172 \<and> ip4_octets a ! 1 \<in> {26, 27})"
proof -
  obtain w x y z where o: "ip4_octets a = [w, x, y, z]" by (simp add: ip4_octets_def Let_def)
  with in_mnt_network_octets [OF o] parse_ipv4_str [of a] str_of_parse_ipv4 [of s a] show ?thesis by auto
qed

section \<open>Command output and artifacts\<close>

text \<open>
  The output of a command is cut at the longest prefix whose UTF-8 encoding fits in the bound,
  never inside a character, and it is reported as truncated exactly when something was cut.
\<close>

theorem output_is_longest_prefix:
  assumes "valid_ustr s" and "0 \<le> n" and "limit_text py s n = Inr r"
  shows "(\<exists>k \<le> length s. r = take k s \<and> int (length (concat (map utf8_char r))) \<le> n
      \<and> (k < length s \<longrightarrow> n < int (length (concat (map utf8_char (take (Suc k) s))))))
    \<and> is_truncated py s n = Inr (r \<noteq> s)"
  using limit_text_prefix [OF assms] limit_text_truncated [OF assms] by blast

definition text0 :: ustr where
  "text0 = [97, 1078, 1078]"

theorem output_is_longest_prefix_witness:
  "(\<exists>k \<le> length text0. [97, 1078] = take k text0 \<and> int (length (concat (map utf8_char [97, 1078]))) \<le> 4
      \<and> (k < length text0 \<longrightarrow> 4 < int (length (concat (map utf8_char (take (Suc k) text0))))))
    \<and> is_truncated py0 text0 4 = Inr ([97, 1078] \<noteq> text0)"
  by (rule output_is_longest_prefix)
    (simp_all add: text0_def valid_ustr_def limit_text_def utf8_encode_def is_surrogate_def utf8_char_def
      take_bytes_def is_cont_def)

text \<open>
  An artifact is written only within the size limit, at its own path and nowhere else; when its
  creation fails, no file has changed.
\<close>

theorem artifacts_are_bounded:
  assumes "create_text_artifact py store can_write aid now name content ctype fs = (r, fs')"
  shows "(\<exists>payload. utf8_encode content = Some payload \<and> int (length payload) \<le> as_max_bytes store
      \<and> fs' = dict_set fs (artifact_path store aid name) payload) \<or> ((\<exists>e. r = Inl e) \<and> fs' = fs)"
  using create_text_artifact_Inr [of py store can_write aid now name content ctype fs _ fs']
    create_text_artifact_Inl [of py store can_write aid now name content ctype fs _ fs'] assms
  by (cases r) blast+

theorem artifacts_are_bounded_witness:
  "(\<exists>payload. utf8_encode [97, 98] = Some payload \<and> int (length payload) \<le> as_max_bytes
        \<lparr> as_directory = u ''d'', as_ttl_hours = 1, as_max_bytes = 1 \<rparr>
      \<and> [] = dict_set [] (artifact_path \<lparr> as_directory = u ''d'', as_ttl_hours = 1, as_max_bytes = 1 \<rparr> (u ''a'') (u ''f'')) payload)
   \<or> ((\<exists>e. (Inl (ValueErr (u ''artifact exceeds max size'')) :: json res) = Inl e) \<and> ([] :: files) = [])"
  by (rule artifacts_are_bounded [of py0 _ "\<lambda>_. True" _ 0 _ _ "u ''text/plain''"])
    (simp add: create_text_artifact_def utf8_encode_def is_surrogate_def utf8_char_def)

section \<open>The polling loop\<close>

text \<open>
  C14. The client of the daemon stops at the first ended job, and there: if the daemon's answers are
  the jobs \<open>jobs 0\<close>, \<open>jobs 1\<close>, \<open>\<dots>\<close> and number \<open>k\<close> is the first that has ended, the loop returns its outcome after
  \<open>k\<close> exchanges, having reported the progress of every round in order.
\<close>

theorem polling_stops_at_the_first_ending:
  assumes "\<And>i. i < k \<Longrightarrow> job_outcome py (jobs i) = None \<and> http (n + i) = HttpOk (JDict (jobs (Suc i)))"
    and "job_outcome py (jobs k) = Some out"
  shows "poll_job py http n (JDict (jobs 0)) =
    Some (concat (map (\<lambda>i. job_callback py (jobs i)) [0 ..< Suc k]), out)"
  using poll_fuel_ends [OF assms] poll_job_iff by blast

definition running_job :: jdict where
  "running_job = [(u ''state'', JStr (u ''running_operation''))]"

definition failed_job :: jdict where
  "failed_job = [(u ''state'', JStr (u ''failed'')), (u ''error_code'', JStr (u ''e'')), (u ''message'', JStr (u ''m''))]"

theorem polling_stops_at_the_first_ending_witness:
  "poll_job py0 (\<lambda>_. HttpOk (JDict failed_job)) 1 (JDict running_job) =
    Some (concat (map (\<lambda>i. job_callback py0 (if i = 0 then running_job else failed_job)) [0 ..< Suc 1]),
      Inl (RunnerFailure (u ''e'') (u ''m'')))"
  using polling_stops_at_the_first_ending [of 1 py0 "\<lambda>i. if i = 0 then running_job else failed_job"
      "\<lambda>_. HttpOk (JDict failed_job)" 1 "Inl (RunnerFailure (u ''e'') (u ''m''))"]
  by (simp add: job_outcome_def job_state_def running_job_def failed_job_def job_failure_def get_or_def
      jget_def py_or_def)

end
