(* ===== verification/Http_Messages.thy ===== *)
theory Http_Messages
  imports Executor_Base Py_Utf8
begin

text \<open>
  What travels between the programs: the JSON text of a payload, the responses both servers write
  (\<open>_send_json\<close> of \<open>api.py\<close> and \<open>runner_daemon.py\<close>), the requests of the daemon's client with its
  reading of the answer (\<open>_request\<close> of \<open>runner.py\<close>), and the requests of bot and doctor to the worker.
\<close>

section \<open>JSON text\<close>

text \<open>
  \<open>json.dumps(v)\<close>: keys in their order, the default separators; texts are quoted in the way of
  \<open>ensure_ascii\<close>.
\<close>

function dumps_with :: "(ustr \<Rightarrow> ustr) \<Rightarrow> pylib \<Rightarrow> json \<Rightarrow> ustr" where
  "dumps_with quote py JNull = u ''null''"
| "dumps_with quote py (JBool b) = (if b then u ''true'' else u ''false'')"
| "dumps_with quote py (JInt n) = str_of_int n"
| "dumps_with quote py (JFloat f) = float_text py f"
| "dumps_with quote py (JStr s) = quote s"
| "dumps_with quote py (JList xs) = [91] @ py_join (u '', '') (map (dumps_with quote py) xs) @ [93]"
| "dumps_with quote py (JDict kvs) =
     [123] @ py_join (u '', '') (map (\<lambda>(k, v). quote k @ u '': '' @ dumps_with quote py v) kvs) @ [125]"
  by pat_completeness auto
termination
  by (relation "measure (\<lambda>(quote, py, v). size v)")
     (auto simp: less_Suc_eq_le size_list_estimation' intro: size_json_dict)

definition encoded :: "pylib \<Rightarrow> ustr \<Rightarrow> nat list res" where
  "encoded py t =
     (case utf8_encode t of
        None \<Rightarrow> Inl (builtin py B_UnicodeEncodeError)
      | Some bytes \<Rightarrow> Inr bytes)"

text \<open>\<open>json.dumps(v, ensure_ascii=False).encode("utf-8")\<close>, and \<open>json.dumps(v).encode()\<close>.\<close>

definition json_bytes :: "pylib \<Rightarrow> json \<Rightarrow> nat list res" where
  "json_bytes py j = encoded py (dumps_with json_quote py j)"

definition ascii_bytes :: "pylib \<Rightarrow> json \<Rightarrow> nat list res" where
  "ascii_bytes py j = encoded py (dumps_with json_quote_ascii py j)"

section \<open>Responses\<close>

record http_response =
  rs_status :: int
  rs_headers :: "(ustr, ustr) dict"
  rs_body :: "nat list"

text \<open>Nothing is written when the payload cannot be encoded: the exception leaves the handler.\<close>

definition send_json :: "pylib \<Rightarrow> int \<Rightarrow> json \<Rightarrow> http_response res" where
  "send_json py status payload =
     bindE (json_bytes py payload) (\<lambda>body.
     Inr \<lparr> rs_status = status,
           rs_headers = [(u ''Content-Type'', u ''application/json; charset=utf-8''),
                         (u ''Content-Length'', str_of_int (int (length body)))],
           rs_body = body \<rparr>)"

section \<open>Requests\<close>

record http_message =
  hm_method :: ustr
  hm_url :: ustr
  hm_headers :: "(ustr, ustr) dict"
  hm_data :: "nat list option"

definition client_headers :: "ustr option \<Rightarrow> (ustr, ustr) dict" where
  "client_headers auth_token =
     (u ''Content-Type'', u ''application/json'')
     # (case auth_token of
          None \<Rightarrow> []
        | Some token \<Rightarrow> if token = [] then [] else [(u ''Authorization'', u ''Bearer '' @ token)])"

text \<open>A request with a JSON body, if it has one.\<close>

definition request_message :: "(json \<Rightarrow> nat list res) \<Rightarrow> ustr \<Rightarrow> ustr \<Rightarrow> (ustr, ustr) dict \<Rightarrow> jdict option
    \<Rightarrow> http_message res" where
  "request_message body http_method url headers payload =
     bindE (case payload of None \<Rightarrow> Inr None | Some d \<Rightarrow> bindE (body (JDict d)) (\<lambda>b. Inr (Some b))) (\<lambda>data.
     Inr \<lparr> hm_method = http_method, hm_url = url, hm_headers = headers, hm_data = data \<rparr>)"

definition client_message :: "pylib \<Rightarrow> ustr \<Rightarrow> ustr option \<Rightarrow> ustr \<Rightarrow> ustr \<Rightarrow> jdict option \<Rightarrow> http_message res" where
  "client_message py runner_url auth_token http_method path payload =
     request_message (json_bytes py) http_method (runner_url @ path) (client_headers auth_token) payload"

text \<open>The URL the client keeps, \<open>_create_job\<close> and \<open>_get_job\<close>.\<close>

definition client_url :: "ustr \<Rightarrow> ustr" where
  "client_url runner_url = rstrip_char 47 runner_url"

definition create_message :: "pylib \<Rightarrow> ustr \<Rightarrow> ustr option \<Rightarrow> task \<Rightarrow> vpn_credentials \<Rightarrow> http_message res" where
  "create_message py runner_url auth_token t vpn =
     client_message py (client_url runner_url) auth_token (u ''POST'') (u ''/jobs'') (Some (create_job_payload t vpn))"

definition get_message :: "pylib \<Rightarrow> ustr \<Rightarrow> ustr option \<Rightarrow> ustr \<Rightarrow> http_message res" where
  "get_message py runner_url auth_token job_id =
     client_message py (client_url runner_url) auth_token (u ''GET'') (u ''/jobs/'' @ job_id) None"

text \<open>\<open>_worker_request\<close> of the bot, and \<open>worker_request\<close> of the doctor, whose request id may be missing.\<close>

definition bot_message :: "pylib \<Rightarrow> ustr \<Rightarrow> ustr \<Rightarrow> ustr \<Rightarrow> ustr \<Rightarrow> ustr \<Rightarrow> jdict option \<Rightarrow> http_message res" where
  "bot_message py worker_url worker_token http_method path request_id payload =
     request_message (ascii_bytes py) http_method (worker_url @ path)
       [(u ''Authorization'', u ''Bearer '' @ worker_token), (u ''X-Request-Id'', request_id),
        (u ''Content-Type'', u ''application/json'')] payload"

definition doctor_message :: "pylib \<Rightarrow> ustr \<Rightarrow> ustr \<Rightarrow> ustr \<Rightarrow> ustr \<Rightarrow> ustr option \<Rightarrow> jdict option \<Rightarrow> http_message res" where
  "doctor_message py worker_url worker_token http_method path effective_request_id payload =
     request_message (ascii_bytes py) http_method (worker_url @ path)
       ([(u ''Authorization'', u ''Bearer '' @ worker_token), (u ''Content-Type'', u ''application/json'')]
        @ (case effective_request_id of
             None \<Rightarrow> []
           | Some r \<Rightarrow> if r = [] then [] else [(u ''X-Request-Id'', r)])) payload"

text \<open>
  The answer as the client reads it (redirects, which the daemon never sends, aside): \<open>urlopen\<close> raises an
  \<open>HTTPError\<close> for a status that is no success,
  and the body of such an answer is decoded with \<open>errors="replace"\<close>.
\<close>

definition client_reply :: "pylib \<Rightarrow> http_response \<Rightarrow> http_reply" where
  "client_reply py r =
     (if 200 \<le> rs_status r \<and> rs_status r < 300 then
        (case utf8_decode (rs_body r) of
           None \<Rightarrow> HttpRaises (builtin py B_UnicodeDecodeError)
         | Some t \<Rightarrow> (case py_json_loads py t of Inr j \<Rightarrow> HttpOk j | Inl e \<Rightarrow> HttpRaises e))
      else
        (case py_json_loads py (utf8_decode_replace (rs_body r)) of
           Inr j \<Rightarrow> HttpStatusError (Some j)
         | Inl (Builtin B_JSONDecodeError m) \<Rightarrow> HttpStatusError None
         | Inl e \<Rightarrow> HttpRaises e))"

section \<open>Laws\<close>

text \<open>What \<open>json.loads\<close> documents: a text of \<open>json.dumps\<close> is read as the value it was made of.\<close>

definition reads_back :: "pylib \<Rightarrow> (ustr \<Rightarrow> ustr) \<Rightarrow> json \<Rightarrow> bool" where
  "reads_back py quote j \<longleftrightarrow> valid_ustr (dumps_with quote py j) \<and> py_json_loads py (dumps_with quote py j) = Inr j"

lemma encoded_Inr: "encoded py t = Inr b \<longleftrightarrow> utf8_encode t = Some b"
  by (simp add: encoded_def split: option.split)

lemma encoded_decode:
  "encoded py (dumps_with quote py j) = Inr b \<Longrightarrow> reads_back py quote j \<Longrightarrow> utf8_decode b = Some (dumps_with quote py j)"
  by (simp add: encoded_Inr reads_back_def utf8_decode_encode)

lemma utf8_char_not_Nil: "utf8_char c \<noteq> []"
  by (rule utf8_char_Cons [of c]) simp

lemma encoded_dict: "encoded py (dumps_with quote py (JDict d)) = Inr b \<Longrightarrow> b \<noteq> []"
  by (auto simp: encoded_Inr utf8_encode_def utf8_char_not_Nil split: if_splits)

lemma encoded_length: "encoded py t = Inr b \<Longrightarrow> length b \<le> 4 * length t"
proof -
  have "length (concat (map utf8_char s)) \<le> 4 * length s" for s
    by (induction s) (auto simp: utf8_char_def)
  then show "encoded py t = Inr b \<Longrightarrow> ?thesis" by (auto simp: encoded_Inr utf8_encode_def split: if_splits)
qed

lemma send_json_Inr:
  "send_json py status j = Inr r \<Longrightarrow> rs_status r = status \<and> json_bytes py j = Inr (rs_body r)
     \<and> dict_get (rs_headers r) (u ''Content-Length'') = Some (str_of_int (int (length (rs_body r))))"
  by (auto simp: send_json_def bindE_Inr_iff)

lemma client_reads_ok:
  "send_json py status j = Inr r \<Longrightarrow> reads_back py json_quote j \<Longrightarrow> 200 \<le> status \<Longrightarrow> status < 300 \<Longrightarrow>
   client_reply py r = HttpOk j"
  using encoded_decode by (auto simp: client_reply_def json_bytes_def reads_back_def dest!: send_json_Inr)

lemma error_response_fails:
  "code \<noteq> [] \<Longrightarrow> message \<noteq> [] \<Longrightarrow>
   runner_request py (HttpStatusError (Some (error_response code message))) = Inl (RunnerFailure code message)"
  by (simp add: runner_request_def runner_http_failure_def error_response_def jget_def get_or_def py_or_def)

lemma client_reads_error:
  assumes "send_json py status (error_response code message) = Inr r" and "reads_back py json_quote (error_response code message)"
    and "300 \<le> status" and "code \<noteq> []" and "message \<noteq> []"
  shows "runner_request py (client_reply py r) = Inl (RunnerFailure code message)"
proof -
  note sent = send_json_Inr [OF assms(1)]
  from sent assms(2) have "utf8_decode (rs_body r) = Some (dumps_with json_quote py (error_response code message))"
    unfolding json_bytes_def by (blast intro: encoded_decode)
  then have "utf8_decode_replace (rs_body r) = dumps_with json_quote py (error_response code message)"
    by (rule decode_replace_valid)
  with sent assms(2,3) have "client_reply py r = HttpStatusError (Some (error_response code message))"
    by (simp add: client_reply_def reads_back_def)
  with assms(4,5) show ?thesis by (simp add: error_response_fails)
qed

text \<open>A class of characters with ASCII in it, that the quoted texts belong to, holds the whole JSON text.\<close>

fun json_texts :: "(ustr \<Rightarrow> bool) \<Rightarrow> json \<Rightarrow> bool" where
  "json_texts Q (JStr s) \<longleftrightarrow> Q s"
| "json_texts Q (JList xs) \<longleftrightarrow> list_all (json_texts Q) xs"
| "json_texts Q (JDict kvs) \<longleftrightarrow> list_all (\<lambda>(k, v). Q k \<and> json_texts Q v) kvs"
| "json_texts Q _ \<longleftrightarrow> True"

lemma join_chars: "list_all P sep \<Longrightarrow> list_all (list_all P) xs \<Longrightarrow> list_all P (py_join sep xs)"
  by (induction sep xs rule: py_join.induct) auto

lemma dumps_chars:
  assumes ascii: "\<And>c. c < 128 \<Longrightarrow> P c" and "\<And>f. list_all P (py_float_repr py f)"
    and quote: "\<And>s. Q s \<Longrightarrow> list_all P (quote s)"
  shows "json_texts Q v \<Longrightarrow> list_all P (dumps_with quote py v)"
proof -
  have "list_all P (str_of_nat m)" for m
    using str_of_nat_digits [of m] ascii by (fastforce simp: list_all_iff)
  then have int: "list_all P (str_of_int n)" for n using ascii by (simp add: str_of_int_def)
  have "json_texts Q v \<Longrightarrow> list_all P (dumps_with q p v)" if "q = quote" "p = py" for q p
    using that
  proof (induction q p v rule: dumps_with.induct)
    case (6 q p xs)
    then have "list_all (list_all P) (map (dumps_with q p) xs)" by (auto simp: list_all_iff)
    with ascii show ?case by (simp add: join_chars u_def)
  next
    case (7 q p kvs)
    then have "list_all P (q k @ u '': '' @ dumps_with q p v)" if "(k, v) \<in> set kvs" for k v
      using that ascii quote by (fastforce simp: list_all_iff u_def)
    then have "list_all (list_all P) (map (\<lambda>(k, v). q k @ u '': '' @ dumps_with q p v) kvs)"
      by (auto simp: list_all_iff)
    with ascii show ?case by (simp add: join_chars u_def)
  qed (use ascii int assms(2) quote in \<open>auto simp: float_text_def u_def split: pyfloat.splits\<close>)
  then show "json_texts Q v \<Longrightarrow> list_all P (dumps_with quote py v)" by simp
qed

text \<open>Without lone surrogates everything can be sent; in ASCII, everything.\<close>

lemma encoded_scalar:
  assumes "list_all scalar t"
  shows "valid_ustr t" and "\<exists>b. encoded py t = Inr b"
proof -
  from assms have "\<And>c. c \<in> set t \<Longrightarrow> scalar c" by (simp add: list_all_iff)
  from this utf8_encode_scalar [OF this] show "valid_ustr t" "\<exists>b. encoded py t = Inr b"
    by (auto simp: encoded_Inr valid_ustr_def scalar_def)
qed

lemma json_bytes_scalar:
  assumes "\<And>f. list_all scalar (py_float_repr py f)" and "json_texts (list_all scalar) j"
  shows "valid_ustr (dumps_with json_quote py j)" and "\<exists>b. json_bytes py j = Inr b"
proof -
  have ascii: "c < 128 \<Longrightarrow> scalar c" for c by (simp add: scalar_def is_surrogate_def)
  have "list_all scalar (json_escape c)" if "scalar c" for c
    using that ascii by (auto simp: json_escape_def hex_digit_def)
  then have "list_all scalar s \<Longrightarrow> list_all scalar (concat (map json_escape s))" for s by (induction s) auto
  with ascii have "list_all scalar s \<Longrightarrow> list_all scalar (json_quote s)" for s by (simp add: json_quote_def)
  from encoded_scalar [OF dumps_chars [OF ascii assms(1) this assms(2)]]
  show "valid_ustr (dumps_with json_quote py j)" "\<exists>b. json_bytes py j = Inr b"
    by (simp_all add: json_bytes_def)
qed

lemma ascii_bytes_total:
  assumes "\<And>f. list_all (\<lambda>c. c < 128) (py_float_repr py f)" and "json_texts valid_ustr j"
  shows "valid_ustr (dumps_with json_quote_ascii py j)" and "\<exists>b. ascii_bytes py j = Inr b"
proof -
  have "x < 16 \<Longrightarrow> hex_digit x < 128" for x by (simp add: hex_digit_def)
  then have hex: "hex_digit (d mod 16) < 128" for d by simp
  have "list_all (\<lambda>c. c < 128) (json_unicode_escape c)" if "c < 65536" for c
    using that hex [of "c div 4096"] hex by (simp add: json_unicode_escape_def less_mult_imp_div_less)
  then have "list_all (\<lambda>c. c < 128) (json_escape_ascii c)" if "c < 1114112" for c
    using that by (auto simp: json_escape_ascii_def json_escape_def hex_digit_def)
  then have "valid_ustr s \<Longrightarrow> list_all (\<lambda>c. c < 128) (concat (map json_escape_ascii s))" for s
    by (induction s) (auto simp: valid_ustr_def)
  then have "valid_ustr s \<Longrightarrow> list_all (\<lambda>c. c < 128) (json_quote_ascii s)" for s by (simp add: json_quote_ascii_def)
  from dumps_chars [OF _ assms(1) this assms(2)] have "list_all (\<lambda>c. c < 128) (dumps_with json_quote_ascii py j)" by simp
  then have "list_all scalar (dumps_with json_quote_ascii py j)"
    by (auto simp: list_all_iff scalar_def is_surrogate_def)
  from encoded_scalar [OF this]
  show "valid_ustr (dumps_with json_quote_ascii py j)" "\<exists>b. ascii_bytes py j = Inr b"
    by (simp_all add: ascii_bytes_def)
qed

end
