(* ===== verification/Http_Wire.thy ===== *)
theory Http_Wire
  imports Api Daemon_Wire Http_Messages
begin

text \<open>
  Clients and servers across HTTP: with the same token a client is let in and the server reads the payload
  that was sent; so it is between the worker's client and the daemon, and between bot or doctor and the
  worker. The daemon's client also reads the answer, a refusal included.
\<close>

section \<open>Carrying a message\<close>

text \<open>
  What HTTP does between \<open>urlopen\<close> and the handler: the path, the headers that are read, and the body
  with its length arrive.
\<close>

definition carries :: "ustr \<Rightarrow> http_message \<Rightarrow> http_request \<Rightarrow> bool" where
  "carries path m q \<longleftrightarrow> hr_path q = path
     \<and> hr_authorization q = dict_get (hm_headers m) (u ''Authorization'')
     \<and> hr_x_request_id q = dict_get (hm_headers m) (u ''X-Request-Id'')
     \<and> (\<forall>b. hm_data m = Some b \<longrightarrow> length b < 10 ^ 20
          \<and> hr_content_length q = Some (str_of_int (int (length b))) \<and> hr_body q (length b) = b)"

text \<open>A token that can be sent as it is: what \<open>compare_digest\<close> and \<open>strip\<close> do not stumble over.\<close>

definition plain_token :: "ustr option \<Rightarrow> bool" where
  "plain_token token \<longleftrightarrow> (\<forall>s. token = Some s \<longrightarrow> is_ascii s \<and> py_strip s = s)"

lemma request_message_Inr:
  "request_message body http_method url headers payload = Inr m \<Longrightarrow>
     hm_method m = http_method \<and> hm_url m = url \<and> hm_headers m = headers
     \<and> (case payload of None \<Rightarrow> hm_data m = None | Some d \<Rightarrow> \<exists>b. hm_data m = Some b \<and> body (JDict d) = Inr b)"
  by (auto simp: request_message_def bindE_Inr_iff split: option.splits)

lemma client_let_in:
  assumes "hr_authorization q = dict_get (client_headers token) (u ''Authorization'')" and "plain_token token"
  shows "validate_runner_headers py token q = Inr ()"
  using assms
  by (auto simp: validate_runner_headers_def client_headers_def plain_token_def check_bearer_complete split: option.splits)

lemma client_kept_out:
  assumes "hr_authorization q = dict_get (client_headers token) (u ''Authorization'')" and "plain_token token"
    and "s \<noteq> []" and "is_ascii s" and "token \<noteq> Some s"
  shows "validate_runner_headers py (Some s) q = Inl (WorkerError 401 (u ''unauthorized'') msg_runner_unauthorized)"
  using assms
  by (auto simp: validate_runner_headers_def client_headers_def plain_token_def check_bearer_def compare_digest_def
      split: option.splits)

text \<open>The body is read as the payload that was sent.\<close>

lemma length_arrives:
  assumes "hm_data m = Some b" and "carries path m q"
  shows "content_length py q = Inr (int (length b))"
proof -
  have "length b < 10 ^ 20" using assms by (simp add: carries_def)
  then have "length (str_of_nat (length b)) \<le> 4300" by (rule length_str_of_nat_le) simp_all
  then have "int_of_ustr (str_of_int (int (length b))) = Some (int (length b))" by (intro int_of_str) simp
  with assms show ?thesis by (simp add: content_length_def carries_def)
qed

lemma body_arrives:
  assumes "hm_data m = Some b" and "carries path m q"
    and "encoded py (dumps_with quote py (JDict d)) = Inr b" and "reads_back py quote (JDict d)"
  shows "load_json_body py (hr_body q (length b)) = Inr d"
  using assms encoded_decode [OF assms(3,4)] by (simp add: load_json_body_def reads_back_def carries_def)

lemma payload_arrives:
  assumes "hm_data m = Some b" and "json_bytes py (JDict d) = Inr b" and "reads_back py json_quote (JDict d)"
    and "carries path m q"
  shows "read_job_payload py q = Inr d"
  using length_arrives [OF assms(1,4)] body_arrives [OF assms(1,4) _ assms(3)] encoded_dict [of py json_quote d b] assms(2)
  by (simp add: read_job_payload_def json_bytes_def)

section \<open>Worker and daemon\<close>

lemma job_for_fields:
  "rj_vpn (job_for env t vpn) = vpn" "rj_state (job_for env t vpn) = u ''created''"
  "rj_request_id (job_for env t vpn) = t_request_id t" "t_vehicle (rj_task (job_for env t vpn)) = t_vehicle t"
  "t_operation (rj_task (job_for env t vpn)) = t_operation t" "t_params (rj_task (job_for env t vpn)) = t_params t"
  "t_timeout_sec (rj_task (job_for env t vpn)) = t_timeout_sec t"
  "t_runner_mode (rj_task (job_for env t vpn)) = t_runner_mode t"
  by (simp_all add: job_for_def new_job_def new_task_def)

text \<open>The creation of a job: what arrives is the payload, and the reply is the new job's.\<close>

lemma daemon_creates_job:
  assumes "create_message py url token t vpn = Inr m" and "carries (u ''/jobs'') m q"
    and "dc_auth_token cfg = token" and "plain_token token" and "reads_back py json_quote (JDict (create_job_payload t vpn))"
    and "build_job py env (create_job_payload t vpn) = Inr j"
  shows "runner_do_POST py cfg env q ds =
    (Inr (201, JDict (job_to_response j)), ds \<lparr> ds_jobs := dict_set (ds_jobs ds) (rj_job_id j) j \<rparr>)"
proof -
  obtain b where b: "hm_data m = Some b" "json_bytes py (JDict (create_job_payload t vpn)) = Inr b"
    and headers: "hm_headers m = client_headers token"
    using request_message_Inr [OF assms(1) [unfolded create_message_def client_message_def]] by auto
  have "validate_runner_headers py (dc_auth_token cfg) q = Inr ()"
    using assms(2,3,4) headers by (intro client_let_in [of q token, folded assms(3)]) (simp_all add: carries_def)
  with payload_arrives [OF b assms(5,2)] assms(2,6) show ?thesis
    by (simp add: runner_do_POST_def runner_routes_post_def create_job_def catch_worker_error_def carries_def)
qed

text \<open>A poll: the reply is the job as it is now.\<close>

lemma daemon_shows_job:
  assumes "get_message py url token job_id = Inr m" and "carries (u ''/jobs/'' @ job_id) m q"
    and "dc_auth_token cfg = token" and "plain_token token" and "dict_get (ds_jobs ds) job_id = Some j"
  shows "runner_do_GET py cfg q ds = (Inr (200, JDict (job_to_response j)), ds)"
proof -
  have headers: "hm_headers m = client_headers token"
    using request_message_Inr [OF assms(1) [unfolded get_message_def client_message_def]] by auto
  have "validate_runner_headers py (dc_auth_token cfg) q = Inr ()"
    using assms(2,3,4) headers by (intro client_let_in [of q token, folded assms(3)]) (simp_all add: carries_def)
  moreover have "u ''/jobs/'' @ job_id \<noteq> u ''/health''" by (simp add: u_def)
  ultimately show ?thesis using assms(2,5)
    by (simp add: runner_do_GET_def carries_def get_job_def catch_worker_error_def py_startswith_append py_removeprefix_append)
qed

text \<open>A daemon with another token refuses, and the client fails with what it was told.\<close>

lemma daemon_refuses:
  assumes "create_message py url token t vpn = Inr m" and "carries path m q" and "plain_token token"
    and "dc_auth_token cfg = Some s" and "s \<noteq> []" and "is_ascii s" and "token \<noteq> Some s"
  shows "runner_do_POST py cfg env q ds = (Inr (401, error_response (u ''unauthorized'') msg_runner_unauthorized), ds)"
proof -
  have "hm_headers m = client_headers token"
    using request_message_Inr [OF assms(1) [unfolded create_message_def client_message_def]] by auto
  with assms(2) have "hr_authorization q = dict_get (client_headers token) (u ''Authorization'')" by (simp add: carries_def)
  from client_kept_out [OF this assms(3,5,6,7)] assms(4) show ?thesis
    by (simp add: runner_do_POST_def catch_worker_error_def)
qed

lemma client_told_refusal:
  "send_json py 401 (error_response (u ''unauthorized'') msg_runner_unauthorized) = Inr r
     \<Longrightarrow> reads_back py json_quote (error_response (u ''unauthorized'') msg_runner_unauthorized)
     \<Longrightarrow> runner_request py (client_reply py r) = Inl (RunnerFailure (u ''unauthorized'') msg_runner_unauthorized)"
proof (erule client_reads_error)
  show "(300::int) \<le> 401" by arith
qed (simp_all add: msg_runner_unauthorized_def)

section \<open>Bot, doctor and worker\<close>

text \<open>Both clients send the worker's token and a request id.\<close>

definition worker_headers :: "ustr \<Rightarrow> ustr \<Rightarrow> http_message \<Rightarrow> bool" where
  "worker_headers token request_id m \<longleftrightarrow>
     dict_get (hm_headers m) (u ''Authorization'') = Some (u ''Bearer '' @ token)
     \<and> dict_get (hm_headers m) (u ''X-Request-Id'') = Some request_id"

lemma bot_headers:
  "bot_message py url token http_method path request_id payload = Inr m \<Longrightarrow> worker_headers token request_id m"
  by (auto simp: bot_message_def worker_headers_def dest!: request_message_Inr)

lemma doctor_headers:
  "doctor_message py url token http_method path (Some request_id) payload = Inr m \<Longrightarrow> request_id \<noteq> [] \<Longrightarrow>
   worker_headers token request_id m"
  by (auto simp: doctor_message_def worker_headers_def dest!: request_message_Inr)

lemma worker_body:
  "bot_message py url token http_method path request_id (Some d) = Inr m
     \<or> doctor_message py url token http_method path effective (Some d) = Inr m \<Longrightarrow>
   \<exists>b. hm_data m = Some b \<and> ascii_bytes py (JDict d) = Inr b"
  by (auto simp: bot_message_def doctor_message_def dest!: request_message_Inr)

lemma worker_lets_in:
  assumes "worker_headers token request_id m" and "carries path m q" and "plain_token (Some token)" and "request_id \<noteq> []"
  shows "validate_service_headers py token q = Inr ()"
  using assms check_bearer_complete [of token token py]
  by (simp add: worker_headers_def carries_def plain_token_def validate_service_headers_def)

text \<open>
  A task that is posted is created from the payload that was sent, unless the body is too large; a task
  that is asked for is shown.
\<close>

definition short_body :: "http_message \<Rightarrow> bool" where
  "short_body m \<longleftrightarrow> (\<forall>b. hm_data m = Some b \<longrightarrow> length b \<le> 1048576)"

definition worker_takes :: "pylib \<Rightarrow> worker_config \<Rightarrow> http_message \<Rightarrow> jdict \<Rightarrow> bool" where
  "worker_takes py cfg m d \<longleftrightarrow> (\<forall>q env ws. carries (u ''/tasks'') m q \<longrightarrow>
     worker_do_POST py cfg env q ws =
       (case create_task py cfg (ae_create env) d ws of (r, ws') \<Rightarrow> (catch_worker_error r, ws')))"

definition worker_shows :: "pylib \<Rightarrow> worker_config \<Rightarrow> http_message \<Rightarrow> ustr \<Rightarrow> bool" where
  "worker_shows py cfg m task_id \<longleftrightarrow> (\<forall>q env ws. carries (u ''/tasks/'' @ task_id) m q \<longrightarrow>
     worker_do_GET py cfg env q ws =
       (catch_worker_error (bindE (get_task py (ae_now1 env) (ae_now2 env) task_id ws) (\<lambda>j. Inr (200, j))), ws))"

lemma worker_takes_posted:
  assumes "worker_headers (wc_service_token cfg) request_id m"
    and "plain_token (Some (wc_service_token cfg))" and "request_id \<noteq> []"
    and "hm_data m = Some b" and "ascii_bytes py (JDict d) = Inr b" and "short_body m"
    and "reads_back py json_quote_ascii (JDict d)"
  shows "worker_takes py cfg m d"
  unfolding worker_takes_def
proof (intro allI impI)
  fix q env ws
  assume q: "carries (u ''/tasks'') m q"
  have "length b \<le> 1048576" using assms(4,6) by (simp add: short_body_def)
  then have "read_payload py q = Inr d"
    using length_arrives [OF assms(4) q] body_arrives [OF assms(4) q _ assms(7)] encoded_dict [of py json_quote_ascii d b]
      assms(5) by (simp add: read_payload_def ascii_bytes_def)
  with worker_lets_in [OF assms(1) q assms(2,3)] q
  show "worker_do_POST py cfg env q ws =
      (case create_task py cfg (ae_create env) d ws of (r, ws') \<Rightarrow> (catch_worker_error r, ws'))"
    by (simp add: worker_do_POST_def worker_routes_post_def carries_def)
qed

lemma worker_shows_asked:
  assumes "worker_headers (wc_service_token cfg) request_id m"
    and "plain_token (Some (wc_service_token cfg))" and "request_id \<noteq> []"
  shows "worker_shows py cfg m task_id"
  unfolding worker_shows_def
proof (intro allI impI)
  fix q env ws
  assume q: "carries (u ''/tasks/'' @ task_id) m q"
  have "u ''/tasks/'' @ task_id \<noteq> u ''/health''" "u ''/tasks/'' @ task_id \<noteq> u ''/capabilities''"
    "u ''/tasks/'' @ task_id \<noteq> u ''/vehicles/resolve''"
    by (simp_all add: u_def)
  with worker_lets_in [OF assms(1) q assms(2,3)] q
  show "worker_do_GET py cfg env q ws =
      (catch_worker_error (bindE (get_task py (ae_now1 env) (ae_now2 env) task_id ws) (\<lambda>j. Inr (200, j))), ws)"
    by (simp add: worker_do_GET_def worker_routes_get_def carries_def py_startswith_append py_removeprefix_append)
qed

text \<open>So for the bot and for the doctor.\<close>

lemma worker_takes_bot:
  assumes "bot_message py url (wc_service_token cfg) (u ''POST'') (u ''/tasks'') request_id (Some d) = Inr m"
    and "plain_token (Some (wc_service_token cfg))" and "request_id \<noteq> []" and "short_body m"
    and "reads_back py json_quote_ascii (JDict d)"
  shows "worker_takes py cfg m d"
proof -
  obtain b where "hm_data m = Some b" "ascii_bytes py (JDict d) = Inr b" using worker_body assms(1) by metis
  from worker_takes_posted [OF bot_headers [OF assms(1)] assms(2,3) this assms(4,5)] show ?thesis .
qed

lemma worker_takes_doctor:
  assumes "doctor_message py url (wc_service_token cfg) (u ''POST'') (u ''/tasks'') (Some request_id) (Some d) = Inr m"
    and "plain_token (Some (wc_service_token cfg))" and "request_id \<noteq> []" and "short_body m"
    and "reads_back py json_quote_ascii (JDict d)"
  shows "worker_takes py cfg m d"
proof -
  obtain b where "hm_data m = Some b" "ascii_bytes py (JDict d) = Inr b" using worker_body assms(1) by metis
  from worker_takes_posted [OF doctor_headers [OF assms(1,3)] assms(2,3) this assms(4,5)] show ?thesis .
qed

lemma worker_shows_bot:
  assumes "bot_message py url (wc_service_token cfg) (u ''GET'') path request_id None = Inr m"
    and "plain_token (Some (wc_service_token cfg))" and "request_id \<noteq> []"
  shows "worker_shows py cfg m task_id"
  by (rule worker_shows_asked [OF bot_headers [OF assms(1)] assms(2,3)])

lemma worker_shows_doctor:
  assumes "doctor_message py url (wc_service_token cfg) (u ''GET'') path (Some request_id) None = Inr m"
    and "plain_token (Some (wc_service_token cfg))" and "request_id \<noteq> []"
  shows "worker_shows py cfg m task_id"
  by (rule worker_shows_asked [OF doctor_headers [OF assms(1,3)] assms(2,3)])

section \<open>A job without an answer\<close>

text \<open>
  A lone surrogate passes the creation of a job, but not the encoding of the answer: the job runs, and its
  client gets no response.
\<close>

lemma join_contains: "x \<in> set xs \<Longrightarrow> set x \<subseteq> set (py_join sep xs)"
  by (induction sep xs rule: py_join.induct) auto

lemma dumps_contains:
  assumes "(k, v) \<in> set kvs"
  shows "set (dumps_with quote py v) \<subseteq> set (dumps_with quote py (JDict kvs))"
proof -
  have "quote k @ u '': '' @ dumps_with quote py v \<in> set (map (\<lambda>(k, v). quote k @ u '': '' @ dumps_with quote py v) kvs)"
    using assms by force
  from join_contains [OF this, of "u '', ''"] show ?thesis by auto
qed

lemma quote_contains: "is_surrogate c \<Longrightarrow> c \<in> set s \<Longrightarrow> c \<in> set (json_quote s)"
  by (force simp: json_quote_def json_escape_def is_surrogate_def)

lemma surrogate_unanswered:
  assumes "build_job py env payload = Inr j" and "c \<in> set (rj_request_id j)" and "is_surrogate c"
  shows "create_job py env payload ds = (Inr j, ds \<lparr> ds_jobs := dict_set (ds_jobs ds) (rj_job_id j) j \<rparr>)"
    and "send_json py 201 (JDict (job_to_response j)) = Inl (builtin py B_UnicodeEncodeError)"
proof -
  have "(u ''request_id'', JStr (rj_request_id j)) \<in> set (job_to_response j)" by (simp add: job_to_response_def)
  from dumps_contains [OF this, of json_quote py] quote_contains [OF assms(3,2)]
  have "c \<in> set (dumps_with json_quote py (JDict (job_to_response j)))" by auto
  with assms(3) show "send_json py 201 (JDict (job_to_response j)) = Inl (builtin py B_UnicodeEncodeError)"
    by (auto simp: send_json_def json_bytes_def encoded_def utf8_encode_def simp del: dumps_with.simps)
qed (simp add: create_job_def assms(1))

end
