(* ===== verification/Daemon_Properties.thy ===== *)
theory Daemon_Properties
  imports Http_Wire Concrete
begin

text \<open>
  The properties of the runner daemon, of its executors and of the HTTP handlers, and those of the
  wire between worker and daemon.
\<close>

section \<open>A finished run of the daemon\<close>

definition ds2 :: dsys where
  "ds2 = ds1 \<lparr> sd_thr := (sd_thr ds1)(u ''j1'' \<mapsto> JRunning simulate_lifecycle
     (Some (fst (dry_operation_result py0 (daemon_artifact_store dcfg0) renv0 (rj_task job0))))) \<rparr>"

definition ds3 :: dsys where
  "ds3 = job_moves (u ''j1'') (JClearing True simulate_lifecycle) timeout_job ds2"

definition ds4 :: dsys where
  "ds4 = job_moves (u ''j1'') (JDone True simulate_lifecycle) clear_credentials ds3"

lemma daemon_step2: "dstep py0 dcfg0 100 ds1 ds2"
  unfolding ds2_def
  by (rule dstep.start [where job = job0 and ex = "LocalRunner DryRunRunner" and renv = renv0])
    (simp_all add: ds1_def choose_executor_def create_runner_def possible_run_def dry_run_def split: prod.splits)

lemma daemon_step3: "dstep py0 dcfg0 100 ds2 ds3"
  unfolding ds3_def by (rule dstep.expire) (simp add: ds2_def)

lemma daemon_step4: "dstep py0 dcfg0 100 ds3 ds4"
  unfolding ds4_def by (rule dstep.clear) (simp add: ds3_def)

lemma daemon_reachable4: "daemon_reachable py0 dcfg0 100 ds4"
  using daemon_reachable1 daemon_step2 daemon_step3 daemon_step4
  unfolding daemon_reachable_def by (blast intro: rtranclp.rtrancl_into_rtrancl)

lemma job_of_ds [simp]: "job_of (u ''j1'') ds1 = Some job0" "job_of (u ''j1'') ds3 = Some (timeout_job job0)"
  "job_of (u ''j1'') ds4 = Some (clear_credentials (timeout_job job0))"
  by (simp_all add: ds4_def ds3_def ds2_def) (simp_all add: job_of_def ds1_def)

section \<open>Jobs\<close>



text \<open>
  A cancellation is final: a job cancelled while it was running stays failed with
  \<open>operation_cancelled\<close>, whatever its runner reports afterwards.
\<close>

theorem cancellation_is_final:
  assumes "job_of jid s = Some j" and "\<not> terminal_state (rj_state j)"
    and "cancel_job jid (sd_svc s) = (res, ds')" and "(dstep py cfg m)\<^sup>*\<^sup>* (s \<lparr> sd_svc := ds' \<rparr>) s'"
  shows "\<exists>j'. job_of jid s' = Some j' \<and> rj_state j' = u ''failed'' \<and> rj_error_code j' = Some (u ''operation_cancelled'')"
proof -
  have "job_of jid (s \<lparr> sd_svc := ds' \<rparr>) = Some (cancelled j)"
    using job_of_cancel [OF assms(3), of jid] assms(1) by simp
  from dsteps_job [OF assms(4) this] obtain j' where j': "job_of jid s' = Some j'" "same_outcome (cancelled j) j'"
    by auto
  then have "clear_credentials j' = clear_credentials (cancelled j)" by (simp add: same_outcome_def)
  then have "rj_state j' = rj_state (cancelled j) \<and> rj_error_code j' = rj_error_code (cancelled j)"
    by (metis clear_credentials_fields)
  with j'(1) assms(2) show ?thesis by (simp add: cancelled_def job_with_state_def)
qed

theorem cancellation_is_final_witness:
  "\<exists>j'. job_of (u ''j1'') (ds1 \<lparr> sd_svc := snd (cancel_job (u ''j1'') (sd_svc ds1)) \<rparr>) = Some j'
    \<and> rj_state j' = u ''failed'' \<and> rj_error_code j' = Some (u ''operation_cancelled'')"
  by (rule cancellation_is_final [of "u ''j1''" ds1 job0 "fst (cancel_job (u ''j1'') (sd_svc ds1))"
        "snd (cancel_job (u ''j1'') (sd_svc ds1))" py0 dcfg0 100])
    simp_all

text \<open>
  When the thread of a job is over, its credentials have been cleared and, unless its timeout
  exceeds what the platform can wait for, the job has ended.
\<close>

theorem finished_threads_leave_no_credentials:
  assumes "daemon_reachable py cfg max_join s" and "sd_thr s jid = Some (JDone ended cbs)"
    and "job_of jid s = Some j"
  shows "rj_vpn j = no_credentials \<and> (t_timeout_sec (rj_task j) \<le> max_join \<longrightarrow> terminal_state (rj_state j))"
proof -
  obtain j0 where "job_of jid s = Some j0" "job_phase_ok max_join (JDone ended cbs) j0"
    by (rule dinv_thread [OF dinv_reachable [OF assms(1)] assms(2)])
  with assms(3) show ?thesis by (auto split: if_splits)
qed

theorem finished_threads_leave_no_credentials_witness:
  "rj_vpn (clear_credentials (timeout_job job0)) = no_credentials
   \<and> terminal_state (rj_state (clear_credentials (timeout_job job0)))"
  using finished_threads_leave_no_credentials [OF daemon_reachable4, of "u ''j1''" True simulate_lifecycle
      "clear_credentials (timeout_job job0)"]
  by (simp add: ds4_def job0_def job_for_def new_job_def new_task_def clear_credentials_def timeout_job_def
      job_with_state_def)



section \<open>The wire\<close>


definition pywire0 :: pylib where
  "pywire0 = py0 \<lparr> py_json_loads := (\<lambda>_. Inr (JDict (create_job_payload task0 vpn0))) \<rparr>"

lemma job_payload0:
  "create_job_payload task0 vpn0 =
     [(u ''request_id'', JStr (u ''r1'')), (u ''runner_mode'', JStr (u ''dry_run'')),
      (u ''vehicle'', JDict [(u ''number'', JStr (u ''100'')), (u ''ip'', JStr (u ''10.0.0.1''))]),
      (u ''vpn'', JDict [(u ''mode'', JStr (u ''container_secret'')), (u ''username'', JStr []), (u ''password'', JStr [])]),
      (u ''operation'', JStr (u ''vehicle_reachability'')), (u ''params'', JDict []), (u ''timeout_sec'', JInt 60)]"
  by (simp add: create_job_payload_def vehicle_response_def vpn0_def)

lemma job_text0: "length (dumps_with json_quote pywire0 (JDict (create_job_payload task0 vpn0))) < 500"
  unfolding job_payload0 by code_simp

lemma wire0:
  obtains b where "json_bytes pywire0 (JDict (create_job_payload task0 vpn0)) = Inr b" "length b < 10 ^ 20"
    "reads_back pywire0 json_quote (JDict (create_job_payload task0 vpn0))"
proof -
  have "\<And>f. list_all scalar (py_float_repr pywire0 f)" "json_texts (list_all scalar) (JDict (create_job_payload task0 vpn0))"
    by (simp_all add: pywire0_def job_payload0 u_def scalar_def is_surrogate_def)
  note holds = json_bytes_scalar [OF this]
  then obtain b where b: "json_bytes pywire0 (JDict (create_job_payload task0 vpn0)) = Inr b" by blast
  have "length b \<le> 4 * length (dumps_with json_quote pywire0 (JDict (create_job_payload task0 vpn0)))"
    using b unfolding json_bytes_def by (rule encoded_length)
  with job_text0 have "length b < 2000" by linarith
  then have "length b < 10 ^ 20" by (rule less_le_trans) simp
  with holds(1) b show thesis by (intro that) (simp_all add: reads_back_def pywire0_def)
qed



definition done0 :: jdict where
  "done0 = job_to_response (conclude_job (Inr (plain_result (u ''ok'') [])) job0)"

definition pydone0 :: pylib where
  "pydone0 = py0 \<lparr> py_json_loads := (\<lambda>_. Inr (JDict done0)) \<rparr>"

lemma sent0: "reads_back pydone0 json_quote (JDict done0)" "\<exists>resp. send_json pydone0 200 (JDict done0) = Inr resp"
proof -
  have "\<not> terminal_state (rj_state job0)" by simp
  then have "conclude_job (Inr (plain_result (u ''ok'') [])) job0 = finish_job (plain_result (u ''ok'') []) job0"
    by (simp only: conclude_job_def if_False sum.case)
  then have "json_texts (list_all scalar) (JDict done0)"
    by (simp add: done0_def job_to_response_def finish_job_def job_with_state_def plain_result_def field_if_def opt_json_def
        job0_def job_for_def new_job_def new_task_def task0_def jenv0_def u_def scalar_def is_surrogate_def msg_job_done_def)
  moreover have "\<And>f. list_all scalar (py_float_repr pydone0 f)" by (simp add: pydone0_def)
  ultimately have "valid_ustr (dumps_with json_quote pydone0 (JDict done0))" "\<exists>b. json_bytes pydone0 (JDict done0) = Inr b"
    by (simp_all only: json_bytes_scalar)
  then show "reads_back pydone0 json_quote (JDict done0)" "\<exists>resp. send_json pydone0 200 (JDict done0) = Inr resp"
    by (auto simp: reads_back_def pydone0_def send_json_def)
qed


text \<open>
  An unknown runner mode strands the worker: the daemon accepts the job of such a task, its
  thread can only die, and the client that keeps being shown the job as it was created polls without end (the
  task is left to the worker's timeout).
\<close>

theorem unknown_mode_strands_the_client:
  assumes "accepted_task t vpn" and "t_runner_mode t \<noteq> []"
    and "t_runner_mode t \<notin> {u ''existing_container'', u ''container_namespace'', u ''dry_run'', u ''job_container''}"
    and "\<And>i. http i = HttpOk (JDict (job_to_response (job_for env t vpn)))"
  shows "build_job py env (create_job_payload t vpn) = Inr (job_for env t vpn)
    \<and> (\<exists>e. choose_executor (t_runner_mode (rj_task (job_for env t vpn))) = Inl e)
    \<and> poll_job py http n (JDict (job_to_response (job_for env t vpn))) = None"
proof -
  have mode: "t_runner_mode (rj_task (job_for env t vpn)) = t_runner_mode t"
    by (simp add: job_for_def new_job_def)
  have "poll_look py (JDict (job_to_response (job_for env t vpn))) = ([], None)"
    by (rule client_waits) (simp add: job_for_def new_job_def)
  from poll_job_stuck [where http = http, OF this assms(4)] build_job_payload [OF assms(1,2)] assms(3) show ?thesis
    by (simp add: mode choose_executor_Inl)
qed

theorem unknown_mode_strands_the_client_witness:
  "build_job py0 jenv0 (create_job_payload bogus0 vpn0) = Inr (job_for jenv0 bogus0 vpn0)
    \<and> (\<exists>e. choose_executor (t_runner_mode (rj_task (job_for jenv0 bogus0 vpn0))) = Inl e)
    \<and> poll_job py0 (\<lambda>_. HttpOk (JDict (job_to_response (job_for jenv0 bogus0 vpn0)))) 1
        (JDict (job_to_response (job_for jenv0 bogus0 vpn0))) = None"
  by (rule unknown_mode_strands_the_client [OF accepted_bogus0]) (simp_all add: bogus0_def)

section \<open>The executors\<close>

text \<open>
  C36. The executor of an existing container runs only read-only commands: \<open>docker inspect\<close>, and
  inside the namespace of the process it gave the two VPN checks, the TCP probe and the SSH report; each
  is bounded by the configured timeout, and nothing is written.
\<close>

theorem existing_executor_runs_only_reads:
  assumes "existing_executor_run py cfg env t exec_start = (r, s)"
  shows "list_all (existing_command py cfg t) (xs_commands s) \<and> xs_written s = []"
  using existing_executor_effects [OF assms] by (auto simp: extends_def exec_start_def list_all_iff)

theorem existing_executor_runs_only_reads_witness:
  "list_all (existing_command py0 dcfg0 task0) (xs_commands (snd (existing_executor_run py0 dcfg0 xenv0 task0 exec_start)))
   \<and> xs_written (snd (existing_executor_run py0 dcfg0 xenv0 task0 exec_start)) = []"
  by (rule existing_executor_runs_only_reads [of _ _ _ _ "fst (existing_executor_run py0 dcfg0 xenv0 task0 exec_start)"])
    simp

text \<open>
  C11. The executor of the container namespace keeps the credentials to the control FIFO: the
  commands it runs are four fixed ones that do not depend on them; what it writes is the dialogue of the login and
  the disconnect sequence; what it reports never ends the job.
\<close>

theorem namespace_executor_effects:
  assumes "ns_run py cfg env t vpn exec_start = Some (out, s)"
  shows "list_all (ns_command py cfg t) (xs_commands s) \<and> list_all (ns_text cfg env vpn) (xs_written s)
    \<and> callbacks_ok (xs_events s)"
  using ns_run_extends [OF assms] by (auto simp: extends_def exec_start_def)

text \<open>A run that finds no session and may not create one.\<close>

lemma ns_run0: "ns_run py0 dcfg0 xenv0 task0 vpn0 exec_start \<noteq> None"
proof -
  have "ensure_vpn_connected py0 dcfg0 xenv0 vpn0 s \<noteq> None" for s
    by (auto simp: ensure_vpn_connected_def dcfg0_def split: prod.splits sum.splits bool.splits)
  then show ?thesis by (simp add: ns_run_def)
qed

theorem namespace_executor_effects_witness:
  "list_all (ns_command py0 dcfg0 task0) (xs_commands (snd (the (ns_run py0 dcfg0 xenv0 task0 vpn0 exec_start))))
    \<and> list_all (ns_text dcfg0 xenv0 vpn0) (xs_written (snd (the (ns_run py0 dcfg0 xenv0 task0 vpn0 exec_start))))
    \<and> callbacks_ok (xs_events (snd (the (ns_run py0 dcfg0 xenv0 task0 vpn0 exec_start))))"
  by (rule namespace_executor_effects [of _ _ _ _ _ "fst (the (ns_run py0 dcfg0 xenv0 task0 vpn0 exec_start))"])
    (use ns_run0 in auto)

text \<open>
  C13. The wait for the VPN session ends: if the monotonic clock exceeds every bound, the run of the
  namespace executor returns or raises, whatever the commands answer.
\<close>

theorem namespace_executor_terminates:
  assumes "\<And>x. \<exists>N. \<forall>n \<ge> N. x \<le> xe_clock env n"
  shows "ns_run py cfg env t vpn s \<noteq> None"
  using ensure_connected_ends [OF assms] by (simp add: ns_run_def)

theorem namespace_executor_terminates_witness:
  "ns_run py0 (dcfg0 \<lparr> dc_manage_vpn_session := True \<rparr>) xenv0 task0 vpn0 exec_start \<noteq> None"
proof (rule namespace_executor_terminates)
  fix x :: rat
  obtain N where "x \<le> of_nat N" using real_arch_simple by blast
  then have "\<forall>n \<ge> N. x \<le> xe_clock xenv0 n" by (auto simp: xenv0_def intro: order_trans)
  then show "\<exists>N. \<forall>n \<ge> N. x \<le> xe_clock xenv0 n" ..
qed

text \<open>
  C12. The cleanup is never skipped: when the session is to be stopped after a task, every run that
  ends, in whatever way, reports the cleanup last, and if the FIFO takes it the disconnect sequence is the last text.
\<close>

theorem cleanup_is_never_skipped:
  assumes "ns_run py cfg env t vpn s = Some (out, s')" and "dc_stop_vpn_after_task cfg"
  shows "last (xs_events s') = (u ''cleanup'', u ''Cleanup UniVPN session'')
    \<and> (\<forall>q. dc_univpn_disconnect_sequence cfg = Some q \<and> q \<noteq> [] \<and> (\<forall>n. xe_fifo_ok env n)
        \<and> utf8_encode (control_sequence (py_splitlines q)) \<noteq> None
        \<longrightarrow> last (xs_written s') = control_sequence (py_splitlines q))"
  using ns_run_cleanup [OF assms] by (auto simp: text_or_empty_def)

text \<open>The same run with a disconnect sequence.\<close>

definition dcfg1 :: daemon_config where
  "dcfg1 = dcfg0 \<lparr> dc_univpn_disconnect_sequence := Some (u ''9'') \<rparr>"

lemma ns_run1: "ns_run py0 dcfg1 xenv0 task0 vpn0 exec_start \<noteq> None"
proof -
  have "ensure_vpn_connected py0 dcfg1 xenv0 vpn0 s \<noteq> None" for s
    by (auto simp: ensure_vpn_connected_def dcfg1_def dcfg0_def split: prod.splits sum.splits bool.splits)
  then show ?thesis by (simp add: ns_run_def)
qed

lemma config1: "dc_stop_vpn_after_task dcfg1" "dc_univpn_disconnect_sequence dcfg1 = Some (u ''9'')" "xe_fifo_ok xenv0 n"
  by (simp_all add: dcfg1_def dcfg0_def xenv0_def)

lemma sequence1: "control_sequence (py_splitlines (u ''9'')) = u ''9'' @ [10]" "utf8_encode (u ''9'' @ [10]) \<noteq> None"
  by (simp_all add: control_sequence_def py_splitlines_def rstrip_char_def is_line_break_def utf8_encode_def
      is_surrogate_def u_def)

theorem cleanup_is_never_skipped_witness:
  "last (xs_events (snd (the (ns_run py0 dcfg1 xenv0 task0 vpn0 exec_start)))) = (u ''cleanup'', u ''Cleanup UniVPN session'')
    \<and> last (xs_written (snd (the (ns_run py0 dcfg1 xenv0 task0 vpn0 exec_start)))) = u ''9'' @ [10]"
proof -
  have "ns_run py0 dcfg1 xenv0 task0 vpn0 exec_start =
      Some (fst (the (ns_run py0 dcfg1 xenv0 task0 vpn0 exec_start)), snd (the (ns_run py0 dcfg1 xenv0 task0 vpn0 exec_start)))"
    using ns_run1 by auto
  from cleanup_is_never_skipped [OF this config1(1)] show ?thesis
    using sequence1(2) by (simp add: config1 sequence1(1))
qed

section \<open>The HTTP handlers\<close>

text \<open>
  Without the service token nothing happens and nothing leaks: any sequence of GET requests
  other than \<open>/health\<close> and of POST requests that fail the header check leaves the worker's state as it was, and
  each is answered without looking at the state.
\<close>

theorem unauthenticated_requests_are_inert:
  assumes "\<And>q. q \<in> set qs \<Longrightarrow> hr_path q \<noteq> u ''/health'' \<and> (\<exists>e. validate_service_headers py (wc_service_token cfg) q = Inl e)"
  shows "fold (\<lambda>q ws. snd (worker_do_GET py cfg env q ws)) qs ws = ws
    \<and> fold (\<lambda>q ws. snd (worker_do_POST py cfg env q ws)) qs ws = ws
    \<and> (\<forall>q \<in> set qs. fst (worker_do_GET py cfg env q ws) = fst (worker_do_GET py cfg env q ws')
        \<and> fst (worker_do_POST py cfg env q ws) = fst (worker_do_POST py cfg env q ws'))"
proof (intro conjI ballI)
  show "fold (\<lambda>q ws. snd (worker_do_GET py cfg env q ws)) qs ws = ws"
    by (rule worker_get.unauthenticated_inert) (use assms in blast)
  show "fold (\<lambda>q ws. snd (worker_do_POST py cfg env q ws)) qs ws = ws"
    by (rule worker_post.unauthenticated_inert) (use assms in blast)
  fix q assume "q \<in> set qs"
  then obtain e where "hr_path q \<noteq> u ''/health''" "validate_service_headers py (wc_service_token cfg) q = Inl e"
    using assms by blast
  then show "fst (worker_do_GET py cfg env q ws) = fst (worker_do_GET py cfg env q ws')"
    and "fst (worker_do_POST py cfg env q ws) = fst (worker_do_POST py cfg env q ws')"
    by (auto intro: worker_get.refused_blind(1) worker_post.refused_blind(1))
qed

definition request0 :: "ustr option \<Rightarrow> http_request" where
  "request0 auth = \<lparr> hr_path = u ''/tasks'', hr_query = None, hr_authorization = auth, hr_x_request_id = Some (u ''x''),
     hr_content_length = Some (u ''2''), hr_body = (\<lambda>_. [123, 125]) \<rparr>"

definition api0 :: api_env where
  "api0 = \<lparr> ae_file = StatFails, ae_now1 = 1, ae_now2 = 1, ae_create = create0 \<rparr>"

theorem unauthenticated_requests_are_inert_witness:
  "fold (\<lambda>q ws. snd (worker_do_GET py0 wcfg0 api0 q ws)) [request0 None] svc1 = svc1
    \<and> fold (\<lambda>q ws. snd (worker_do_POST py0 wcfg0 api0 q ws)) [request0 None] svc1 = svc1
    \<and> fst (worker_do_GET py0 wcfg0 api0 (request0 None) svc1) = fst (worker_do_GET py0 wcfg0 api0 (request0 None) (new_worker wcfg0))
    \<and> fst (worker_do_POST py0 wcfg0 api0 (request0 None) svc1) = fst (worker_do_POST py0 wcfg0 api0 (request0 None) (new_worker wcfg0))"
proof -
  have "hr_path (request0 None) \<noteq> u ''/health'' \<and> (\<exists>e. validate_service_headers py0 (wc_service_token wcfg0) (request0 None) = Inl e)"
    by (simp add: request0_def validate_service_headers_def check_bearer_def)
  with unauthenticated_requests_are_inert [of "[request0 None]" py0 wcfg0 api0 svc1 "new_worker wcfg0"]
  show ?thesis by simp
qed

text \<open>
  C10. The state of the worker changes over HTTP only through an authenticated creation: a POST that
  changed it carried the exact service token and a request id, went to \<open>/tasks\<close>, announced a body of 1 to
  1048576 bytes, and that body decoded to the object \<open>create_task\<close> was given.
\<close>

theorem http_changes_are_authenticated:
  assumes "worker_do_POST py cfg env q ws = (r, ws')" and "ws' \<noteq> ws"
  shows "(\<exists>rest. hr_authorization q = Some (u ''Bearer '' @ rest) \<and> py_strip rest = wc_service_token cfg)
    \<and> (\<exists>rid. hr_x_request_id q = Some rid \<and> rid \<noteq> []) \<and> hr_path q = u ''/tasks''
    \<and> (\<exists>n payload res. content_length py q = Inr n \<and> 0 < n \<and> n \<le> 1048576
        \<and> load_json_body py (hr_body q (nat n)) = Inr payload
        \<and> create_task py cfg (ae_create env) payload ws = (res, ws') \<and> r = catch_worker_error res)"
proof -
  note c = worker_do_POST_changes [OF assms]
  from c(3) obtain payload res where p: "read_payload py q = Inr payload"
    and res: "create_task py cfg (ae_create env) payload ws = (res, ws')" "r = catch_worker_error res" by blast
  from read_payload_Inr [OF p] validate_service_headers_Inr [OF c(1)] c(2) res show ?thesis by blast
qed

theorem http_changes_are_authenticated_witness:
  "(\<exists>rest. hr_authorization (request0 (Some (u ''Bearer token''))) = Some (u ''Bearer '' @ rest) \<and> py_strip rest = wc_service_token wcfg0)
    \<and> (\<exists>rid. hr_x_request_id (request0 (Some (u ''Bearer token''))) = Some rid \<and> rid \<noteq> [])
    \<and> hr_path (request0 (Some (u ''Bearer token''))) = u ''/tasks''
    \<and> (\<exists>n payload res. content_length py0 (request0 (Some (u ''Bearer token''))) = Inr n \<and> 0 < n \<and> n \<le> 1048576
        \<and> load_json_body py0 (hr_body (request0 (Some (u ''Bearer token''))) (nat n)) = Inr payload
        \<and> create_task py0 wcfg0 (ae_create api0) payload (new_worker wcfg0) = (res, svc1)
        \<and> Inr (201, to_create_response task0) = catch_worker_error res)"
proof (rule http_changes_are_authenticated)
  have strip: "py_strip (u ''token'') = u ''token''" "u ''Bearer token'' = u ''Bearer '' @ u ''token''" "is_ascii (u ''token'')"
    by (simp_all add: py_strip_def py_lstrip_def py_rstrip_def u_def is_space_def is_ascii_def)
  have auth: "validate_service_headers py0 (wc_service_token wcfg0) (request0 (Some (u ''Bearer token''))) = Inr ()"
    using check_bearer_complete [of "u ''token''" "u ''token''" py0] strip
    by (simp add: validate_service_headers_def request0_def wcfg0_def)
  have "content_length py0 (request0 (Some (u ''Bearer token''))) = Inr 2"
    by (simp add: content_length_def request0_def u_def int_of_ustr_def is_int_space_def is_space_def
        digit_val_def nd_zeros_def)
  then have "read_payload py0 (request0 (Some (u ''Bearer token''))) = Inr payload0"
    by (simp add: read_payload_def load_json_body_def request0_def)
  with auth show "worker_do_POST py0 wcfg0 api0 (request0 (Some (u ''Bearer token''))) (new_worker wcfg0) =
      (Inr (201, to_create_response task0), svc1)"
    by (simp add: worker_do_POST_def worker_routes_post_def created0 api0_def catch_worker_error_def)
      (simp add: request0_def)
  show "svc1 \<noteq> new_worker wcfg0" using task_of_svc1 no_task0 by (metis option.distinct(1))
qed

text \<open>
  A bearer token that is not ASCII breaks the request instead of being refused: the handler
  raises a TypeError, which is no \<open>WorkerError\<close>, and sends no response.
\<close>

theorem non_ascii_token_raises:
  assumes "hr_path q \<noteq> u ''/health''" and "hr_authorization q = Some (u ''Bearer '' @ rest)"
    and "\<not> is_ascii (py_strip rest)"
  shows "worker_do_GET py cfg env q ws = (Inl (builtin py B_TypeError), ws)
    \<and> worker_do_POST py cfg env q ws = (Inl (builtin py B_TypeError), ws)"
proof -
  have "check_bearer py (hr_authorization q) (wc_service_token cfg) = Inl (builtin py B_TypeError)"
    using assms(2,3) by (simp add: check_bearer_def compare_digest_def)
  then show ?thesis
    using assms(1)
    by (simp add: worker_do_GET_def worker_do_POST_def validate_service_headers_def catch_worker_error_def builtin_def)
qed

theorem non_ascii_token_raises_witness:
  "worker_do_GET py0 wcfg0 api0 (request0 (Some (u ''Bearer '' @ [233]))) svc1 = (Inl (builtin py0 B_TypeError), svc1)
    \<and> worker_do_POST py0 wcfg0 api0 (request0 (Some (u ''Bearer '' @ [233]))) svc1 = (Inl (builtin py0 B_TypeError), svc1)"
  by (rule non_ascii_token_raises [of _ "[233]"])
    (simp_all add: request0_def py_strip_def py_lstrip_def py_rstrip_def is_space_def is_ascii_def)

end
