(* ===== verification/Bot_Texts.thy ===== *)
theory Bot_Texts
  imports Py_Prelude
begin

text \<open>
  The texts of the Telegram bot, as code points (ASCII runs as literals): whole messages, and the
  constant parts of those that are put together. Each is named after what it says.
\<close>

definition msg_bot_salon :: ustr where  \<comment> \<open>salon\<close>
  "msg_bot_salon = [1057, 1072, 1083, 1086, 1085]"

definition msg_bot_street :: ustr where  \<comment> \<open>street\<close>
  "msg_bot_street = [1059, 1083, 1080, 1094, 1072]"

definition msg_bot_tangenta :: ustr where  \<comment> \<open>tangenta\<close>
  "msg_bot_tangenta = [1058, 1072, 1085, 1075, 1077, 1085, 1090, 1072]"

definition msg_bot_pat :: ustr where  \<comment> \<open>PAT\<close>
  "msg_bot_pat = [1055, 1040, 1058]"

definition msg_bot_piteravto :: ustr where  \<comment> \<open>Piteravto\<close>
  "msg_bot_piteravto = [1055, 1080, 1090, 1077, 1088, 1072, 1074, 1090, 1086]"

definition msg_bot_button_target :: ustr where  \<comment> \<open>the target button\<close>
  "msg_bot_button_target = [127919, 32, 1042, 1099, 1073, 1088, 1072, 1090, 1100, 32, 1058,
    1057]"

definition msg_bot_button_branch :: ustr where  \<comment> \<open>the branch button\<close>
  "msg_bot_button_branch = [127970, 32, 1060, 1080, 1083, 1080, 1072, 1083]"

definition msg_bot_button_status :: ustr where  \<comment> \<open>the status button\<close>
  "msg_bot_button_status = [128203, 32, 1057, 1090, 1072, 1090, 1091, 1089]"

definition msg_bot_button_stop :: ustr where  \<comment> \<open>the stop button\<close>
  "msg_bot_button_stop = [9209, 32, 1057, 1090, 1086, 1087]"

definition msg_bot_alias_piteravto :: ustr where  \<comment> \<open>alias of piteravto\<close>
  "msg_bot_alias_piteravto = [1087, 1080, 1090, 1077, 1088, 1072, 1074, 1090, 1086]"

definition msg_bot_alias_piter :: ustr where  \<comment> \<open>alias of piteravto\<close>
  "msg_bot_alias_piter = [1087, 1080, 1090, 1077, 1088]"

definition msg_bot_alias_pa :: ustr where  \<comment> \<open>alias of piteravto\<close>
  "msg_bot_alias_pa = [1087, 1072]"

definition msg_bot_alias_pat :: ustr where  \<comment> \<open>alias of pat\<close>
  "msg_bot_alias_pat = [1087, 1072, 1090]"

definition msg_bot_alias_ap6 :: ustr where  \<comment> \<open>alias of pat\<close>
  "msg_bot_alias_ap6 = [1072, 1087] @ u ''6''"

definition msg_bot_alias_ap_6 :: ustr where  \<comment> \<open>alias of pat\<close>
  "msg_bot_alias_ap_6 = [1072, 1087] @ u ''-6''"

definition msg_bot_transfer_failed :: ustr where  \<comment> \<open>transfer failed\<close>
  "msg_bot_transfer_failed = [1053, 1077, 32, 1091, 1076, 1072, 1083, 1086, 1089, 1100, 32,
    1087, 1077, 1088, 1077, 1076, 1072, 1090, 1100, 32, 1090, 1088, 1077, 1082] @ u '': SSH ''
    @ [1058, 1057, 32, 1087, 1077, 1088, 1077, 1089, 1090, 1072, 1083, 32, 1086, 1090, 1074,
    1077, 1095, 1072, 1090, 1100] @ u ''. '' @ [1055, 1086, 1087, 1088, 1086, 1073, 1091,
    1081, 32, 1077, 1097, 1105, 32, 1088, 1072, 1079, 32, 1087, 1086, 1079, 1078, 1077] @
    u ''.''"

definition msg_bot_playback_failed :: ustr where  \<comment> \<open>the channel did not start\<close>
  "msg_bot_playback_failed = [1058, 1088, 1077, 1082, 32, 1087, 1077, 1088, 1077, 1076, 1072,
    1085] @ u '', '' @ [1085, 1086, 32, 1072, 1091, 1076, 1080, 1086, 1082, 1072, 1085, 1072,
    1083, 32, 1085, 1072, 32, 1058, 1057, 32, 1085, 1077, 32, 1079, 1072, 1087, 1091, 1089,
    1090, 1080, 1083, 1089, 1103] @ u ''.''"

definition msg_bot_playback_error :: ustr where  \<comment> \<open>playback error, code\<close>
  "msg_bot_playback_error = [1054, 1096, 1080, 1073, 1082, 1072, 32, 1074, 1086, 1089, 1087,
    1088, 1086, 1080, 1079, 1074, 1077, 1076, 1077, 1085, 1080, 1103] @ u '' ('' @ [1082,
    1086, 1076, 32]"

definition msg_bot_too_big :: ustr where  \<comment> \<open>file too big\<close>
  "msg_bot_too_big = [1060, 1072, 1081, 1083, 32, 1089, 1083, 1080, 1096, 1082, 1086, 1084,
    32, 1073, 1086, 1083, 1100, 1096, 1086, 1081] @ u ''. '' @ [1054, 1090, 1087, 1088, 1072,
    1074, 1100, 32, 1072, 1091, 1076, 1080, 1086, 32, 1088, 1072, 1079, 1084, 1077, 1088,
    1086, 1084, 32, 1076, 1086] @ u '' 20 '' @ [1052, 1041] @ u ''.''"

definition msg_bot_send_media :: ustr where  \<comment> \<open>send a track\<close>
  "msg_bot_send_media = [1055, 1088, 1080, 1096, 1083, 1080, 32, 1090, 1088, 1077, 1082] @
    u '' Telegram, '' @ [1075, 1086, 1083, 1086, 1089, 1086, 1074, 1086, 1077, 32, 1080, 1083,
    1080, 32, 1072, 1091, 1076, 1080, 1086, 1092, 1072, 1081, 1083] @
    u '': MP3, M4A, AAC, OGG, WAV, FLAC ('' @ [1076, 1086] @ u '' 20 '' @ [1052, 1041] @
    u '').''"

definition msg_bot_job_running :: ustr where  \<comment> \<open>a job is running\<close>
  "msg_bot_job_running = [1059, 32, 1090, 1077, 1073, 1103, 32, 1091, 1078, 1077, 32, 1080,
    1076, 1105, 1090, 32, 1079, 1072, 1076, 1072, 1095, 1072] @ u ''. '' @ [1048, 1089, 1087,
    1086, 1083, 1100, 1079, 1091, 1081] @ u '' /stop.''"

definition msg_bot_help_1 :: ustr where  \<comment> \<open>help, first part\<close>
  "msg_bot_help_1 = [1050, 1086, 1084, 1072, 1085, 1076, 1099] @ u '':'' @ [10] @
    u ''/branch '' @ [1060, 1048, 1051, 1048, 1040, 1051, 32, 8212, 32, 1074, 1099, 1073,
    1088, 1072, 1090, 1100, 32, 1092, 1080, 1083, 1080, 1072, 1083, 10] @ u ''/target '' @
    [1053, 1054, 1052, 1045, 1056] @ u ''_'' @ [1058, 1057] @ u '' ['' @ [1075, 1088, 1086,
    1084, 1082, 1086, 1089, 1090, 1100] @ u ''] ['' @ [1082, 1072, 1085, 1072, 1083] @ u '']''
    @ [10] @ u ''/target '' @ [1060, 1048, 1051, 1048, 1040, 1051, 32, 1053, 1054, 1052, 1045,
    1056] @ u ''_'' @ [1058, 1057] @ u '' ['' @ [1075, 1088, 1086, 1084, 1082, 1086, 1089,
    1090, 1100] @ u ''] ['' @ [1082, 1072, 1085, 1072, 1083] @ u '']'' @ [10] @ u ''/status ''
    @ [8212, 32, 1090, 1077, 1082, 1091, 1097, 1072, 1103, 32, 1094, 1077, 1083, 1100, 10] @
    u ''/stop '' @ [8212, 32, 1086, 1089, 1090, 1072, 1085, 1086, 1074, 1080, 1090, 1100, 32,
    1079, 1074, 1091, 1082, 10, 10]"

definition msg_bot_help_2 :: ustr where  \<comment> \<open>help, second part\<close>
  "msg_bot_help_2 = u ''/volume 15 '' @ [8212, 32, 1075, 1088, 1086, 1084, 1082, 1086, 1089,
    1090, 1100, 32, 1076, 1083, 1103, 32, 1089, 1083, 1077, 1076, 1091, 1102, 1097, 1077,
    1075, 1086, 32, 1072, 1091, 1076, 1080, 1086, 10] @ u ''/channel '' @ [8212, 32, 1074,
    1099, 1073, 1088, 1072, 1090, 1100, 32, 1082, 1072, 1085, 1072, 1083, 10, 10, 1055, 1088,
    1080, 1096, 1083, 1080, 32, 1080, 1083, 1080, 32, 1087, 1077, 1088, 1077, 1096, 1083,
    1080, 32, 1090, 1088, 1077, 1082] @ u '' Telegram, '' @ [1075, 1086, 1083, 1086, 1089,
    1086, 1074, 1086, 1077] @ u '', MP3, M4A, AAC, OGG, WAV '' @ [1080, 1083, 1080] @
    u '' FLAC ('' @ [1076, 1086] @ u '' 20 '' @ [1052, 1041] @ u '').'' @ [10, 1060, 1080,
    1083, 1080, 1072, 1083, 1099] @ u '': piteravto, pat.'' @ [10, 1050, 1072, 1085, 1072,
    1083, 1099] @ u '': salon, street, tangenta.''"

definition msg_bot_enter_volume :: ustr where  \<comment> \<open>enter the volume\<close>
  "msg_bot_enter_volume = [1042, 1074, 1077, 1076, 1080, 32, 1075, 1088, 1086, 1084, 1082,
    1086, 1089, 1090, 1100, 32, 1086, 1090] @ u '' 1 '' @ [1076, 1086] @ u '' 100 '' @ [1076,
    1083, 1103, 32, 1089, 1083, 1077, 1076, 1091, 1102, 1097, 1077, 1075, 1086, 32, 1072,
    1091, 1076, 1080, 1086] @ u ''.''"

definition msg_bot_need_volume :: ustr where  \<comment> \<open>an integer from 1 to 100\<close>
  "msg_bot_need_volume = [1053, 1091, 1078, 1085, 1086, 32, 1094, 1077, 1083, 1086, 1077, 32,
    1095, 1080, 1089, 1083, 1086, 32, 1086, 1090] @ u '' 1 '' @ [1076, 1086] @ u '' 100.''"

definition msg_bot_branch_is :: ustr where  \<comment> \<open>branch\<close>
  "msg_bot_branch_is = [1060, 1080, 1083, 1080, 1072, 1083] @ u '': ''"

definition msg_bot_enter_number :: ustr where  \<comment> \<open>enter the vehicle number\<close>
  "msg_bot_enter_number = u ''. '' @ [1042, 1074, 1077, 1076, 1080, 32, 1085, 1086, 1084,
    1077, 1088, 32, 1058, 1057] @ u ''.''"

definition msg_bot_error_is :: ustr where  \<comment> \<open>error\<close>
  "msg_bot_error_is = [1054, 1096, 1080, 1073, 1082, 1072] @ u '': ''"

definition msg_bot_example_target :: ustr where  \<comment> \<open>example\<close>
  "msg_bot_example_target = [10, 1055, 1088, 1080, 1084, 1077, 1088] @
    u '': /target pat 6317 25 salon''"

definition msg_bot_unknown_command :: ustr where  \<comment> \<open>unknown command\<close>
  "msg_bot_unknown_command = [1053, 1077, 1080, 1079, 1074, 1077, 1089, 1090, 1085, 1072,
    1103, 32, 1082, 1086, 1084, 1072, 1085, 1076, 1072] @ u ''. '' @ [1048, 1089, 1087, 1086,
    1083, 1100, 1079, 1091, 1081] @ u '' /help.''"

definition msg_bot_unknown_branch :: ustr where  \<comment> \<open>unknown branch\<close>
  "msg_bot_unknown_branch = [1085, 1077, 1080, 1079, 1074, 1077, 1089, 1090, 1085, 1099, 1081,
    32, 1092, 1080, 1083, 1080, 1072, 1083, 32]"

definition msg_bot_available :: ustr where  \<comment> \<open>available\<close>
  "msg_bot_available = u ''. '' @ [1044, 1086, 1089, 1090, 1091, 1087, 1085, 1099] @ u '': ''"

definition msg_bot_branch_saved :: ustr where  \<comment> \<open>branch saved\<close>
  "msg_bot_branch_saved = [1060, 1080, 1083, 1080, 1072, 1083, 32, 1089, 1086, 1093, 1088,
    1072, 1085, 1105, 1085] @ u '': ''"

definition msg_bot_enter_number_line :: ustr where  \<comment> \<open>enter the vehicle number\<close>
  "msg_bot_enter_number_line = [10, 1042, 1074, 1077, 1076, 1080, 32, 1085, 1086, 1084, 1077,
    1088, 32, 1058, 1057] @ u ''.''"

definition msg_bot_no_number :: ustr where  \<comment> \<open>no vehicle number\<close>
  "msg_bot_no_number = [1085, 1077, 32, 1091, 1082, 1072, 1079, 1072, 1085, 32, 1085, 1086,
    1084, 1077, 1088, 32, 1058, 1057]"

definition msg_bot_number_of :: ustr where  \<comment> \<open>vehicle number\<close>
  "msg_bot_number_of = [1085, 1086, 1084, 1077, 1088, 32, 1058, 1057, 32]"

definition msg_bot_in_several :: ustr where  \<comment> \<open>is in several branches\<close>
  "msg_bot_in_several = [32, 1077, 1089, 1090, 1100, 32, 1074, 32, 1085, 1077, 1089, 1082,
    1086, 1083, 1100, 1082, 1080, 1093, 32, 1092, 1080, 1083, 1080, 1072, 1083, 1072, 1093] @
    u '': ''"

definition msg_bot_give_branch :: ustr where  \<comment> \<open>give the branch\<close>
  "msg_bot_give_branch = u ''. '' @ [1059, 1082, 1072, 1078, 1080, 32, 1092, 1080, 1083, 1080,
    1072, 1083] @ u '': /target '' @ [1060, 1048, 1051, 1048, 1040, 1051, 32]"

definition msg_bot_vehicle :: ustr where  \<comment> \<open>vehicle\<close>
  "msg_bot_vehicle = [1058, 1057, 32]"

definition msg_bot_found_in :: ustr where  \<comment> \<open>found in branch\<close>
  "msg_bot_found_in = [32, 1085, 1072, 1081, 1076, 1077, 1085, 1072, 32, 1074, 32, 1092, 1080,
    1083, 1080, 1072, 1083, 1077, 32]"

definition msg_bot_but_chosen :: ustr where  \<comment> \<open>but the chosen branch is\<close>
  "msg_bot_but_chosen = u '', '' @ [1085, 1086, 32, 1074, 1099, 1073, 1088, 1072, 1085, 32,
    1092, 1080, 1083, 1080, 1072, 1083, 32]"

definition msg_bot_choose :: ustr where  \<comment> \<open>choose\<close>
  "msg_bot_choose = u ''. '' @ [1042, 1099, 1073, 1077, 1088, 1080] @ u '': /branch ''"

definition msg_bot_not_in_directory :: ustr where  \<comment> \<open>not in the directory of the branch\<close>
  "msg_bot_not_in_directory = [32, 1085, 1077, 1090, 32, 1074, 32, 1089, 1087, 1088, 1072,
    1074, 1086, 1095, 1085, 1080, 1082, 1077, 32, 1092, 1080, 1083, 1080, 1072, 1083, 1072,
    32]"

definition msg_bot_need_mnt :: ustr where  \<comment> \<open>an MNT address is needed\<close>
  "msg_bot_need_mnt = [1085, 1091, 1078, 1077, 1085, 32, 1072, 1076, 1088, 1077, 1089, 32,
    1052, 1053, 1058, 32, 1080, 1079, 32, 1089, 1077, 1090, 1080] @ u '' 172.26.0.0/15''"

definition msg_bot_volume_range :: ustr where  \<comment> \<open>the volume must be from 1 to 100\<close>
  "msg_bot_volume_range = [1075, 1088, 1086, 1084, 1082, 1086, 1089, 1090, 1100, 32, 1076,
    1086, 1083, 1078, 1085, 1072, 32, 1073, 1099, 1090, 1100, 32, 1086, 1090] @ u '' 1 '' @
    [1076, 1086] @ u '' 100''"

definition msg_bot_channel_choice :: ustr where  \<comment> \<open>channel: salon, street or tangenta\<close>
  "msg_bot_channel_choice = [1082, 1072, 1085, 1072, 1083] @ u '': salon, street '' @ [1080,
    1083, 1080] @ u '' tangenta''"

definition msg_bot_panel_vehicle :: ustr where  \<comment> \<open>vehicle\<close>
  "msg_bot_panel_vehicle = [1058, 1057] @ u '': ''"

definition msg_bot_panel_no_vehicle :: ustr where  \<comment> \<open>no vehicle chosen\<close>
  "msg_bot_panel_no_vehicle = [1058, 1057, 32, 1085, 1077, 32, 1074, 1099, 1073, 1088, 1072,
    1085, 1072, 10]"

definition msg_bot_panel_volume :: ustr where  \<comment> \<open>volume\<close>
  "msg_bot_panel_volume = [1043, 1088, 1086, 1084, 1082, 1086, 1089, 1090, 1100] @ u '': ''"

definition msg_bot_panel_channel :: ustr where  \<comment> \<open>channel\<close>
  "msg_bot_panel_channel = u ''%'' @ [10, 1050, 1072, 1085, 1072, 1083] @ u '': ''"

definition msg_bot_panel_busy :: ustr where  \<comment> \<open>a job is running\<close>
  "msg_bot_panel_busy = [1047, 1072, 1076, 1072, 1095, 1072, 32, 1074, 1099, 1087, 1086, 1083,
    1085, 1103, 1077, 1090, 1089, 1103] @ u ''. '' @ [1053, 1072, 1089, 1090, 1088, 1086,
    1081, 1082, 1080, 32, 1085, 1080, 1078, 1077, 32, 8212, 32, 1076, 1083, 1103, 32, 1089,
    1083, 1077, 1076, 1091, 1102, 1097, 1077, 1075, 1086, 32, 1072, 1091, 1076, 1080, 1086] @
    u ''.''"

definition msg_bot_panel_ready :: ustr where  \<comment> \<open>ready\<close>
  "msg_bot_panel_ready = [1043, 1086, 1090, 1086, 1074, 32, 1082, 32, 1072, 1091, 1076, 1080,
    1086]"

definition msg_bot_panel_choose :: ustr where  \<comment> \<open>choose a branch and a vehicle\<close>
  "msg_bot_panel_choose = [1042, 1099, 1073, 1077, 1088, 1080, 32, 1092, 1080, 1083, 1080,
    1072, 1083, 32, 1080, 32, 1058, 1057]"

definition msg_bot_check_mark :: ustr where  \<comment> \<open>check mark\<close>
  "msg_bot_check_mark = [10003, 32]"

definition msg_bot_label_branch :: ustr where  \<comment> \<open>branch\<close>
  "msg_bot_label_branch = [1060, 1080, 1083, 1080, 1072, 1083]"

definition msg_bot_label_target :: ustr where  \<comment> \<open>choose the vehicle\<close>
  "msg_bot_label_target = [1042, 1099, 1073, 1088, 1072, 1090, 1100, 32, 1058, 1057]"

definition msg_bot_label_channel :: ustr where  \<comment> \<open>channel\<close>
  "msg_bot_label_channel = [1050, 1072, 1085, 1072, 1083] @ u '': ''"

definition msg_bot_label_quieter :: ustr where  \<comment> \<open>quieter\<close>
  "msg_bot_label_quieter = [8722] @ u ''5%''"

definition msg_bot_label_stop :: ustr where  \<comment> \<open>stop\<close>
  "msg_bot_label_stop = [1057, 1090, 1086, 1087]"

definition msg_bot_label_refresh :: ustr where  \<comment> \<open>refresh\<close>
  "msg_bot_label_refresh = [1054, 1073, 1085, 1086, 1074, 1080, 1090, 1100]"

definition msg_bot_not_your_panel :: ustr where  \<comment> \<open>not your panel\<close>
  "msg_bot_not_your_panel = [1069, 1090, 1086, 32, 1085, 1077, 32, 1090, 1074, 1086, 1103, 32,
    1087, 1072, 1085, 1077, 1083, 1100] @ u ''. '' @ [1054, 1090, 1082, 1088, 1086, 1081] @
    u '' /start.''"

definition msg_bot_maps_empty :: ustr where  \<comment> \<open>no vehicle directories\<close>
  "msg_bot_maps_empty = [1089, 1087, 1088, 1072, 1074, 1086, 1095, 1085, 1080, 1082, 1080, 32,
    1058, 1057, 32, 1087, 1091, 1089, 1090, 1099]"

definition msg_bot_map_empty :: ustr where  \<comment> \<open>the vehicle directory is empty\<close>
  "msg_bot_map_empty = [1089, 1087, 1088, 1072, 1074, 1086, 1095, 1085, 1080, 1082, 32, 1058,
    1057, 32, 1087, 1091, 1089, 1090] @ u '': ''"

definition msg_bot_prepare_slow :: ustr where  \<comment> \<open>preparing took too long\<close>
  "msg_bot_prepare_slow = [1055, 1086, 1076, 1075, 1086, 1090, 1086, 1074, 1082, 1072, 32,
    1072, 1091, 1076, 1080, 1086, 32, 1079, 1072, 1085, 1103, 1083, 1072, 32, 1089, 1083,
    1080, 1096, 1082, 1086, 1084, 32, 1084, 1085, 1086, 1075, 1086, 32, 1074, 1088, 1077,
    1084, 1077, 1085, 1080] @ u ''.''"

definition msg_bot_prepare_failed :: ustr where  \<comment> \<open>the audio cannot be read\<close>
  "msg_bot_prepare_failed = [1053, 1077, 32, 1091, 1076, 1072, 1083, 1086, 1089, 1100, 32,
    1087, 1088, 1086, 1095, 1080, 1090, 1072, 1090, 1100, 32, 1072, 1091, 1076, 1080, 1086] @
    u ''. '' @ [1060, 1072, 1081, 1083, 32, 1087, 1086, 1074, 1088, 1077, 1078, 1076, 1105,
    1085, 32, 1080, 1083, 1080, 32, 1092, 1086, 1088, 1084, 1072, 1090, 32, 1085, 1077, 32,
    1087, 1086, 1076, 1076, 1077, 1088, 1078, 1080, 1074, 1072, 1077, 1090, 1089, 1103] @
    u ''.''"

definition msg_bot_downloading :: ustr where  \<comment> \<open>downloading\<close>
  "msg_bot_downloading = [1057, 1082, 1072, 1095, 1080, 1074, 1072, 1102, 32, 1092, 1072,
    1081, 1083, 32, 1080, 1079] @ u '' Telegram'' @ [8230]"

definition msg_bot_cancelled :: ustr where  \<comment> \<open>cancelled\<close>
  "msg_bot_cancelled = [1047, 1072, 1076, 1072, 1095, 1072, 32, 1086, 1090, 1084, 1077, 1085,
    1077, 1085, 1072] @ u ''.''"

definition msg_bot_preparing :: ustr where  \<comment> \<open>preparing\<close>
  "msg_bot_preparing = [1055, 1086, 1076, 1075, 1086, 1090, 1072, 1074, 1083, 1080, 1074,
    1072, 1102, 32, 1072, 1091, 1076, 1080, 1086, 8230]"

definition msg_bot_checking :: ustr where  \<comment> \<open>checking the vehicle\<close>
  "msg_bot_checking = [1055, 1088, 1086, 1074, 1077, 1088, 1103, 1102] @ u '' VPN '' @ [1080,
    32, 1076, 1086, 1089, 1090, 1091, 1087, 1085, 1086, 1089, 1090, 1100, 32, 1058, 1057,
    8230]"

definition msg_bot_sending :: ustr where  \<comment> \<open>sending the track\<close>
  "msg_bot_sending = [1055, 1077, 1088, 1077, 1076, 1072, 1102, 32, 1090, 1088, 1077, 1082,
    32, 1085, 1072, 32, 1058, 1057, 32]"

definition msg_bot_after_upload :: ustr where  \<comment> \<open>playback starts after the upload\<close>
  "msg_bot_after_upload = u ''). '' @ [1055, 1086, 1089, 1083, 1077, 32, 1079, 1072, 1075,
    1088, 1091, 1079, 1082, 1080, 32, 1074, 1086, 1089, 1087, 1088, 1086, 1080, 1079, 1074,
    1077, 1076, 1077, 1085, 1080, 1077, 32, 1085, 1072, 1095, 1085, 1105, 1090, 1089, 1103,
    32, 1072, 1074, 1090, 1086, 1084, 1072, 1090, 1080, 1095, 1077, 1089, 1082, 1080] @
    u ''.'' @ [10, 1044, 1083, 1103, 32, 1086, 1090, 1084, 1077, 1085, 1099] @ u '': /stop''"

definition msg_bot_still_sending :: ustr where  \<comment> \<open>still sending\<close>
  "msg_bot_still_sending = [1058, 1088, 1077, 1082, 32, 1074, 1089, 1105, 32, 1077, 1097,
    1105, 32, 1087, 1077, 1088, 1077, 1076, 1072, 1105, 1090, 1089, 1103, 32, 1085, 1072, 32,
    1058, 1057] @ u '': ''"

definition msg_bot_still_sending_sec :: ustr where  \<comment> \<open>seconds\<close>
  "msg_bot_still_sending_sec = [32, 1089, 1077, 1082] @ u ''. '' @ [1054, 1078, 1080, 1076,
    1072, 1102, 32, 1084, 1077, 1076, 1083, 1077, 1085, 1085, 1099, 1081] @ u '' SSH'' @
    [8230]"

definition msg_bot_retrying :: ustr where  \<comment> \<open>retrying\<close>
  "msg_bot_retrying = [1057, 1074, 1103, 1079, 1100, 32, 1089, 32, 1058, 1057, 32, 1087, 1088,
    1077, 1088, 1074, 1072, 1083, 1072, 1089, 1100, 32, 1074, 1086, 32, 1074, 1088, 1077,
    1084, 1103, 32, 1087, 1077, 1088, 1077, 1076, 1072, 1095, 1080] @ u ''. '' @ [1055, 1086,
    1074, 1090, 1086, 1088, 1103, 1102, 32, 1079, 1072, 1075, 1088, 1091, 1079, 1082, 1091,
    8230]"

definition msg_bot_sent :: ustr where  \<comment> \<open>sent\<close>
  "msg_bot_sent = [1058, 1088, 1077, 1082, 32, 1087, 1077, 1088, 1077, 1076, 1072, 1085] @
    u ''. '' @ [1047, 1072, 1087, 1091, 1089, 1082, 1072, 1102, 32, 1072, 1091, 1076, 1080,
    1086, 1082, 1072, 1085, 1072, 1083, 8230]"

definition msg_bot_started :: ustr where  \<comment> \<open>playback started on\<close>
  "msg_bot_started = [1042, 1086, 1089, 1087, 1088, 1086, 1080, 1079, 1074, 1077, 1076, 1077,
    1085, 1080, 1077, 32, 1085, 1072, 1095, 1072, 1083, 1086, 1089, 1100, 32, 1085, 1072, 32,
    1058, 1057, 32]"

definition msg_bot_to_stop :: ustr where  \<comment> \<open>to stop\<close>
  "msg_bot_to_stop = u ''%.'' @ [10, 1044, 1083, 1103, 32, 1086, 1089, 1090, 1072, 1085, 1086,
    1074, 1082, 1080] @ u '': /stop''"

definition msg_bot_done :: ustr where  \<comment> \<open>done\<close>
  "msg_bot_done = [1043, 1086, 1090, 1086, 1074, 1086] @ u '': '' @ [1074, 1086, 1089, 1087,
    1088, 1086, 1080, 1079, 1074, 1077, 1076, 1077, 1085, 1080, 1077, 32, 1079, 1072, 1074,
    1077, 1088, 1096, 1077, 1085, 1086] @ u '', '' @ [1074, 1088, 1077, 1084, 1077, 1085,
    1085, 1099, 1077, 32, 1092, 1072, 1081, 1083, 1099, 32, 1091, 1076, 1072, 1083, 1077,
    1085, 1099] @ u ''.''"

definition msg_bot_stopped :: ustr where  \<comment> \<open>stopped\<close>
  "msg_bot_stopped = [1054, 1089, 1090, 1072, 1085, 1086, 1074, 1083, 1077, 1085, 1086] @
    u ''. '' @ [1042, 1088, 1077, 1084, 1077, 1085, 1085, 1099, 1077, 32, 1092, 1072, 1081,
    1083, 1099, 32, 1091, 1076, 1072, 1083, 1077, 1085, 1099] @ u ''.''"

definition msg_bot_check_timeout :: ustr where  \<comment> \<open>the check timed out\<close>
  "msg_bot_check_timeout = [1087, 1088, 1086, 1074, 1077, 1088, 1082, 1072] @ u '' VPN/'' @
    [1058, 1057, 32, 1087, 1088, 1077, 1074, 1099, 1089, 1080, 1083, 1072] @ u '' timeout''"

definition msg_bot_nothing_playing :: ustr where  \<comment> \<open>nothing is playing\<close>
  "msg_bot_nothing_playing = [1040, 1082, 1090, 1080, 1074, 1085, 1086, 1075, 1086, 32, 1074,
    1086, 1089, 1087, 1088, 1086, 1080, 1079, 1074, 1077, 1076, 1077, 1085, 1080, 1103, 32,
    1085, 1077, 1090] @ u ''.''"

definition msg_bot_stopping :: ustr where  \<comment> \<open>stopping\<close>
  "msg_bot_stopping = [1054, 1089, 1090, 1072, 1085, 1072, 1074, 1083, 1080, 1074, 1072, 1102,
    32, 1074, 1086, 1089, 1087, 1088, 1086, 1080, 1079, 1074, 1077, 1076, 1077, 1085, 1080,
    1077, 8230]"

definition msg_bot_cancelling :: ustr where  \<comment> \<open>cancelling\<close>
  "msg_bot_cancelling = [1054, 1090, 1084, 1077, 1085, 1103, 1102, 32, 1079, 1072, 1076, 1072,
    1095, 1091, 32, 1076, 1086, 32, 1085, 1072, 1095, 1072, 1083, 1072, 32, 1074, 1086, 1089,
    1087, 1088, 1086, 1080, 1079, 1074, 1077, 1076, 1077, 1085, 1080, 1103, 8230]"

end
