(* ===== verification/Bot_Targets.thy ===== *)
theory Bot_Targets
  imports Bot_Texts Ip_Address Vehicle_Inventory Config
begin

text \<open>
  The Telegram bot (\<open>telegram_audio_bot.py\<close>): its constants, branches and vehicle directories,
  the target of a playback, and the media of a message.
\<close>

section \<open>Constants\<close>

definition CHANNELS :: "(ustr, ustr) dict" where
  "CHANNELS = [(u ''salon'', msg_bot_salon), (u ''street'', msg_bot_street), (u ''tangenta'', msg_bot_tangenta)]"

definition BRANCH_NAMES :: "(ustr, ustr) dict" where
  "BRANCH_NAMES = [(u ''pat'', msg_bot_pat), (u ''piteravto'', msg_bot_piteravto)]"

definition AUDIO_SUFFIXES :: "ustr list" where
  "AUDIO_SUFFIXES = [u ''.mp3'', u ''.m4a'', u ''.aac'', u ''.ogg'', u ''.oga'', u ''.opus'', u ''.wav'', u ''.flac'']"

definition MAX_AUDIO_BYTES :: int where
  "MAX_AUDIO_BYTES = 20 * 1024 * 1024"

definition BUTTON_COMMANDS :: "(ustr, ustr) dict" where
  "BUTTON_COMMANDS = [(msg_bot_button_target, u ''/target''), (msg_bot_button_branch, u ''/branch''),
     (msg_bot_button_status, u ''/status''), (msg_bot_button_stop, u ''/stop'')]"

definition DEFAULT_BRANCH_ALIASES :: "(ustr, ustr) dict" where
  "DEFAULT_BRANCH_ALIASES =
     [(u ''piteravto'', u ''piteravto''), (msg_bot_alias_piteravto, u ''piteravto''),
      (msg_bot_alias_piter, u ''piteravto''), (u ''pa'', u ''piteravto''), (msg_bot_alias_pa, u ''piteravto''),
      (u ''pat'', u ''pat''), (msg_bot_alias_pat, u ''pat''), (u ''ap6'', u ''pat''), (msg_bot_alias_ap6, u ''pat''),
      (msg_bot_alias_ap_6, u ''pat''), (u ''passazhiravtotrans'', u ''pat'')]"

section \<open>Branches and vehicle directories\<close>

text \<open>\<open>BRANCH_NAMES.get(branch, branch)\<close>.\<close>

definition branch_name :: "ustr \<Rightarrow> ustr" where
  "branch_name b = (case dict_get BRANCH_NAMES b of Some n \<Rightarrow> n | None \<Rightarrow> b)"

text \<open>\<open>value.strip().lower().replace("_", "-")\<close>.\<close>

definition alias_key :: "pylib \<Rightarrow> ustr \<Rightarrow> ustr" where
  "alias_key py v = map (\<lambda>c. if c = 95 then 45 else c) (py_lower py (py_strip v))"

text \<open>The directories by branch, each from vehicle numbers to addresses.\<close>

type_synonym vehicle_maps = "(ustr, (ustr, ustr) dict) dict"

definition normalize_branch :: "pylib \<Rightarrow> (ustr, ustr) dict \<Rightarrow> vehicle_maps \<Rightarrow> ustr option \<Rightarrow> ustr option" where
  "normalize_branch py aliases maps v =
     (if v = None \<or> v = Some [] then None
      else let normalized = alias_key py (the v)
           in case dict_get aliases normalized of
                Some b \<Rightarrow>
                  if b \<in> set (dict_keys maps) then Some b
                  else if normalized \<in> set (dict_keys maps) then Some normalized else None
              | None \<Rightarrow> if normalized \<in> set (dict_keys maps) then Some normalized else None)"

text \<open>One entry \<open>alias=branch\<close> of \<open>VEHICLE_BRANCH_ALIASES\<close>; others are skipped.\<close>

definition add_alias :: "pylib \<Rightarrow> ustr \<Rightarrow> (ustr, ustr) dict \<Rightarrow> (ustr, ustr) dict" where
  "add_alias py item aliases =
     (case py_partition 61 item of
        (alias, found, branch) \<Rightarrow>
          if py_strip item = [] \<or> \<not> found then aliases
          else dict_set aliases (alias_key py alias) (py_lower py (py_strip branch)))"

definition load_branch_aliases :: "pylib \<Rightarrow> environ \<Rightarrow> (ustr, ustr) dict" where
  "load_branch_aliases py env =
     fold (add_alias py) (split_on 44 (env_or env (u ''VEHICLE_BRANCH_ALIASES'') [])) DEFAULT_BRANCH_ALIASES"

definition raw_cell :: "csv_row \<Rightarrow> ustr \<Rightarrow> ustr" where
  "raw_cell row key = py_strip (case dict_get row key of Some (Some s) \<Rightarrow> s | _ \<Rightarrow> [])"

text \<open>The rows of a directory: incomplete ones and addresses outside the network are skipped.\<close>

fun vehicle_map_rows :: "pylib \<Rightarrow> csv_row list \<Rightarrow> (ustr, ustr) dict \<Rightarrow> (ustr, ustr) dict res" where
  "vehicle_map_rows py [] mapping = Inr mapping"
| "vehicle_map_rows py (row # rows) mapping =
     (let number = raw_cell row (u ''vehicle_number''); ip = raw_cell row (u ''ip'')
      in if number = [] \<or> ip = [] then vehicle_map_rows py rows mapping
         else case ip_address ip of
             None \<Rightarrow> Inl (builtin py B_ValueError)
           | Some address \<Rightarrow>
               vehicle_map_rows py rows
                 (if in_mnt_network address then dict_set mapping number (str_of_ip address) else mapping))"

definition load_vehicle_map :: "pylib \<Rightarrow> (ustr \<Rightarrow> csv_row list res) \<Rightarrow> ustr \<Rightarrow> (ustr, ustr) dict res" where
  "load_vehicle_map py files path =
     bindE (files path) (\<lambda>rows.
     bindE (vehicle_map_rows py rows []) (\<lambda>mapping.
     bindE (raise_if (mapping = []) (Builtin B_RuntimeError (msg_bot_map_empty @ path))) (\<lambda>_. Inr mapping)))"

fun vehicle_map_items :: "pylib \<Rightarrow> (ustr \<Rightarrow> csv_row list res) \<Rightarrow> ustr list \<Rightarrow> vehicle_maps \<Rightarrow> vehicle_maps res" where
  "vehicle_map_items py files [] maps = Inr maps"
| "vehicle_map_items py files (item # items) maps =
     (case py_partition 61 item of
        (branch, found, path) \<Rightarrow>
          if py_strip item = [] then vehicle_map_items py files items maps
          else if \<not> found then
            Inl (Builtin B_RuntimeError (u ''VEHICLE_MAP_PATHS must use branch=/path entries''))
          else
            bindE (load_vehicle_map py files (py_path (py_strip path))) (\<lambda>m.
            vehicle_map_items py files items (dict_set maps (py_lower py (py_strip branch)) m)))"

definition load_vehicle_maps :: "pylib \<Rightarrow> environ \<Rightarrow> (ustr \<Rightarrow> csv_row list res) \<Rightarrow> vehicle_maps res" where
  "load_vehicle_maps py env files =
     (let raw = py_strip (env_or env (u ''VEHICLE_MAP_PATHS'') [])
      in if raw = [] then
           bindE (load_vehicle_map py files (py_path (env_or env (u ''VEHICLE_MAP_PATH'') (u ''/app/config/vehicle_ip_map.csv''))))
             (\<lambda>m. Inr [(u ''piteravto'', m)])
         else
           bindE (vehicle_map_items py files (split_on 44 raw) []) (\<lambda>maps.
           bindE (raise_if (maps = []) (Builtin B_RuntimeError msg_bot_maps_empty)) (\<lambda>_. Inr maps)))"

section \<open>The configuration of the bot\<close>

record bot_config =
  bc_allowed_users :: "int list"
  bc_worker_url :: ustr
  bc_worker_token :: ustr
  bc_audio_script :: ustr
  bc_vehicle_maps :: vehicle_maps
  bc_branch_aliases :: "(ustr, ustr) dict"
  bc_default_branch :: ustr
  bc_temp_dir :: ustr

fun parse_user_ids :: "pylib \<Rightarrow> ustr list \<Rightarrow> int list res" where
  "parse_user_ids py [] = Inr []"
| "parse_user_ids py (v # vs) =
     (if py_strip v = [] then parse_user_ids py vs
      else bindE (py_int py (JStr (py_strip v))) (\<lambda>n.
           bindE (parse_user_ids py vs) (\<lambda>ns. Inr (n # ns))))"

text \<open>\<open>AudioBot.__init__\<close> up to the state that changes: \<open>None\<close> of a required variable is a KeyError.\<close>

definition bot_config_from_env :: "pylib \<Rightarrow> environ \<Rightarrow> (ustr \<Rightarrow> csv_row list res) \<Rightarrow> bot_config res" where
  "bot_config_from_env py env files =
     (case (dict_get env (u ''TELEGRAM_BOT_TOKEN''), dict_get env (u ''TELEGRAM_ALLOWED_USER_IDS'')) of
        (Some _, Some allowed_raw) \<Rightarrow>
          bindE (parse_user_ids py (split_on 44 allowed_raw)) (\<lambda>allowed.
          bindE (load_vehicle_maps py env files) (\<lambda>maps.
            let aliases = load_branch_aliases py env;
                dflt = normalize_branch py aliases maps
                  (Some (env_or env (u ''VEHICLE_DEFAULT_BRANCH'') (u ''piteravto'')))
            in Inr \<lparr> bc_allowed_users = allowed,
                     bc_worker_url = rstrip_char 47 (env_or env (u ''BO_VPN_WORKER_URL'') (u ''http://bo-vpn-worker:8000'')),
                     bc_worker_token = env_or env (u ''BO_VPN_WORKER_AUTH_TOKEN'') (u ''dev-token''),
                     bc_audio_script = py_path (env_or env (u ''AUDIO_SCRIPT'') (u ''/app/scripts/play_vehicle_audio.sh'')),
                     bc_vehicle_maps = maps,
                     bc_branch_aliases = aliases,
                     bc_default_branch = (case dflt of Some b \<Rightarrow> b | None \<Rightarrow> hd (sort (dict_keys maps))),
                     bc_temp_dir = py_path (env_or env (u ''AUDIO_TMP_DIR'') (u ''/tmp/audio-bot'')) \<rparr>))
      | _ \<Rightarrow> Inl (builtin py B_KeyError))"

text \<open>\<open>self._normalize_branch\<close>.\<close>

definition cfg_branch :: "pylib \<Rightarrow> bot_config \<Rightarrow> ustr \<Rightarrow> ustr option" where
  "cfg_branch py cfg v = normalize_branch py (bc_branch_aliases cfg) (bc_vehicle_maps cfg) (Some v)"

section \<open>Targets\<close>

record target =
  tg_branch :: ustr
  tg_number :: ustr
  tg_ip :: ustr
  tg_volume :: int
  tg_output :: ustr

text \<open>The settings of a user: \<open>{"volume": ..., "output": ...}\<close>.\<close>

record audio =
  au_volume :: int
  au_output :: ustr

definition default_audio :: audio where
  "default_audio = \<lparr> au_volume = 25, au_output = u ''salon'' \<rparr>"

text \<open>\<open>[name for name, mapping in self.vehicle_maps.items() if number in mapping]\<close>.\<close>

definition branches_with :: "vehicle_maps \<Rightarrow> ustr \<Rightarrow> ustr list" where
  "branches_with maps number = map fst (filter (\<lambda>(name, m). number \<in> set (dict_keys m)) maps)"

definition several_branches :: "ustr \<Rightarrow> ustr list \<Rightarrow> exn" where
  "several_branches number found =
     ValueErr (msg_bot_number_of @ number @ msg_bot_in_several @ py_join (u '', '') (sort found)
       @ msg_bot_give_branch @ number)"

text \<open>The branch the vehicle is looked up in.\<close>

definition choose_branch :: "ustr \<Rightarrow> ustr option \<Rightarrow> ustr \<Rightarrow> ustr list \<Rightarrow> ustr res" where
  "choose_branch dflt branch number found =
     (case branch of
        Some b \<Rightarrow> Inr b
      | None \<Rightarrow>
          if length found > 1 then Inl (several_branches number found)
          else Inr (case found of [] \<Rightarrow> dflt | b # _ \<Rightarrow> b))"

definition unknown_vehicle :: "ustr \<Rightarrow> ustr \<Rightarrow> ustr list \<Rightarrow> exn" where
  "unknown_vehicle number branch found =
     (case found of
        b # _ \<Rightarrow> ValueErr (msg_bot_vehicle @ number @ msg_bot_found_in @ b @ msg_bot_but_chosen @ branch @ msg_bot_choose @ b)
      | [] \<Rightarrow> ValueErr (msg_bot_vehicle @ number @ msg_bot_not_in_directory @ branch))"

text \<open>
  \<open>_parse_target\<close>: the target, and the branch to remember for the user when it was named
  explicitly. \<open>branch0\<close> is the branch of the user, \<open>audio\<close> the settings.
\<close>

definition parse_target :: "pylib \<Rightarrow> bot_config \<Rightarrow> ustr option \<Rightarrow> audio \<Rightarrow> ustr list \<Rightarrow> (target \<times> ustr option) res" where
  "parse_target py cfg branch0 audio args0 =
     (if args0 = [] then Inl (ValueErr msg_bot_no_number)
      else
        let named = cfg_branch py cfg (hd args0);
            args = (if named \<noteq> None then tl args0 else args0);
            branch1 = (if named \<noteq> None then named else branch0);
            number = py_strip (hd args);
            found = branches_with (bc_vehicle_maps cfg) number
        in if args = [] then Inl (ValueErr msg_bot_no_number)
           else
             bindE (choose_branch (bc_default_branch cfg) branch1 number found) (\<lambda>branch.
             case Option.bind (dict_get (bc_vehicle_maps cfg) branch) (\<lambda>m. dict_get m number) of
               None \<Rightarrow> Inl (unknown_vehicle number branch found)
             | Some ip \<Rightarrow>
                 (case ip_address ip of
                    None \<Rightarrow> Inl (builtin py B_ValueError)
                  | Some address \<Rightarrow>
                      bindE (raise_if (\<not> in_mnt_network address) (ValueErr msg_bot_need_mnt)) (\<lambda>_.
                      bindE (if length args > 1 then py_int py (JStr (args ! 1)) else Inr (au_volume audio)) (\<lambda>volume.
                      let output = (if length args > 2 then args ! 2 else au_output audio)
                      in bindE (raise_if (\<not> (1 \<le> volume \<and> volume \<le> 100)) (ValueErr msg_bot_volume_range)) (\<lambda>_.
                         bindE (raise_if (output \<notin> {u ''salon'', u ''street'', u ''tangenta''}) (ValueErr msg_bot_channel_choice)) (\<lambda>_.
                         Inr (\<lparr> tg_branch = branch, tg_number = number, tg_ip = str_of_ip address,
                                tg_volume = volume, tg_output = output \<rparr>, named))))))))"

section \<open>Media\<close>

text \<open>\<open>Path(name).suffix\<close>.\<close>

definition py_suffix :: "ustr \<Rightarrow> ustr" where
  "py_suffix s =
     (let parts = filter (\<lambda>p. p \<noteq> [] \<and> p \<noteq> [46]) (split_on 47 s);
          name = (if parts = [] then [] else last parts);
          ext = takeWhile (\<lambda>c. c \<noteq> 46) (rev name)
      in if ext \<noteq> [] \<and> Suc (length ext) < length name then 46 # rev ext else [])"

definition media_suffix :: "ustr \<Rightarrow> ustr" where
  "media_suffix suffix = (if suffix \<in> set AUDIO_SUFFIXES then suffix else u ''.media'')"

text \<open>\<open>message.get(kind)\<close> when it is an object with a \<open>file_id\<close>.\<close>

definition attached :: "jdict \<Rightarrow> ustr \<Rightarrow> jdict option" where
  "attached message kind =
     (case jget message kind of
        JDict d \<Rightarrow> if truthy (jget d (u ''file_id'')) then Some d else None
      | _ \<Rightarrow> None)"

definition text_field :: "pylib \<Rightarrow> jdict \<Rightarrow> ustr \<Rightarrow> ustr" where
  "text_field py d key = py_str py (py_or (jget d key) (JStr []))"

definition media :: "pylib \<Rightarrow> jdict \<Rightarrow> (ustr \<times> ustr) option" where
  "media py message =
     (case attached message (u ''voice'') of
        Some d \<Rightarrow> Some (py_str py (jget d (u ''file_id'')), u ''.ogg'')
      | None \<Rightarrow>
          (case attached message (u ''audio'') of
             Some d \<Rightarrow> Some (py_str py (jget d (u ''file_id'')),
                        media_suffix (py_lower py (py_suffix (text_field py d (u ''file_name'')))))
           | None \<Rightarrow>
               (case attached message (u ''document'') of
                  Some d \<Rightarrow>
                    let suffix = py_lower py (py_suffix (text_field py d (u ''file_name'')))
                    in if suffix \<in> set AUDIO_SUFFIXES \<or> py_startswith (text_field py d (u ''mime_type'')) (u ''audio/'')
                       then Some (py_str py (jget d (u ''file_id'')), media_suffix suffix) else None
                | None \<Rightarrow> None)))"

section \<open>Output of the playback script\<close>

text \<open>\<open>_marker_int\<close>: the first word \<open>key=...\<close> of a line, as a number.\<close>

definition marker_int :: "ustr \<Rightarrow> ustr \<Rightarrow> int option" where
  "marker_int line key =
     (case filter (\<lambda>w. py_startswith w (key @ [61])) (py_split line) of
        w # _ \<Rightarrow> int_of_ustr (py_removeprefix w (key @ [61]))
      | [] \<Rightarrow> None)"

definition playback_error_message :: "int \<Rightarrow> ustr \<Rightarrow> ustr" where
  "playback_error_message returncode output =
     (if py_contains output (u ''TRANSFER_FAILED'') \<or> py_contains output (u ''not responding'')
         \<or> py_contains output (u ''timed out'') then msg_bot_transfer_failed
      else if py_contains output (u ''PLAYBACK_FAILED'') then msg_bot_playback_failed
      else msg_bot_playback_error @ str_of_int returncode @ u '').'')"

end
