(* ===== verification/Bot_State.thy ===== *)
theory Bot_State
  imports Bot_Targets Py_State
begin

text \<open>
  The state of \<open>AudioBot\<close>, its calls of the Telegram API, the panel, and the settings it keeps
  in a file.
\<close>

section \<open>The state\<close>

datatype api_call =
    SendMessage int ustr json
  | EditMessageText int int ustr json
  | AnswerCallback json "ustr option"

record playback_job =
  pj_chat_id :: int
  pj_cancelled :: bool
  pj_process :: "nat option"

text \<open>
  The settings file: absent, unreadable (or no JSON), or the JSON value it holds. Writing replaces
  it as a whole, through a temporary file.
\<close>

datatype settings_file = NoSettings | BrokenSettings | Settings json

text \<open>
  The attributes of the bot. Jobs are shared between the bot and their threads: \<open>bt_jobs\<close> holds
  references into \<open>bt_job_store\<close>. The log of API calls, the threads started (user, file, suffix,
  target, job) and the processes signalled are the visible effects.
\<close>

record bot =
  bt_targets :: "(int, target) dict"
  bt_awaiting_target :: "int set"
  bt_awaiting_branch :: "int set"
  bt_awaiting_volume :: "int set"
  bt_user_branches :: "(int, ustr) dict"
  bt_user_audio :: "(int, audio) dict"
  bt_jobs :: "(int, nat) dict"
  bt_job_store :: "playback_job list"
  bt_settings :: settings_file
  bt_save_attempts :: nat
  bt_calls :: "api_call list"
  bt_started :: "(int \<times> ustr \<times> ustr \<times> target \<times> nat) list"
  bt_signalled :: "nat list"

definition new_bot :: "settings_file \<Rightarrow> bot" where
  "new_bot file0 =
     \<lparr> bt_targets = [], bt_awaiting_target = {}, bt_awaiting_branch = {}, bt_awaiting_volume = {},
       bt_user_branches = [], bt_user_audio = [], bt_jobs = [], bt_job_store = [], bt_settings = file0,
       bt_save_attempts = 0, bt_calls = [], bt_started = [], bt_signalled = [] \<rparr>"

text \<open>
  What the surroundings answer: to the \<open>k\<close>-th API call (an exception, or an HTTP error with its body),
  to the \<open>k\<close>-th attempt to write the settings, in which order a set of users is iterated, and
  whether a process still runs.
\<close>

datatype api_failure = ApiRaises exn | ApiHttp int ustr

record bot_env =
  be_api :: "nat \<Rightarrow> api_failure option"
  be_save :: "nat \<Rightarrow> exn option"
  be_order :: "int list \<Rightarrow> int list"
  be_alive :: "nat \<Rightarrow> bool"

type_synonym 'a bot_st = "(bot, 'a) st"

section \<open>Calls of the API\<close>

fun api_exn :: "pylib \<Rightarrow> api_failure \<Rightarrow> exn" where
  "api_exn py (ApiRaises e) = e"
| "api_exn py (ApiHttp code body) = builtin py B_OSError"

definition x_api :: "bot_env \<Rightarrow> api_call \<Rightarrow> api_failure option bot_st" where
  "x_api env c s = (Inr (be_api env (length (bt_calls s))), s \<lparr> bt_calls := bt_calls s @ [c] \<rparr>)"

definition x_call :: "pylib \<Rightarrow> bot_env \<Rightarrow> api_call \<Rightarrow> unit bot_st" where
  "x_call py env c =
     x_bind (x_api env c) (\<lambda>f. case f of None \<Rightarrow> x_return () | Some e \<Rightarrow> x_raise (api_exn py e))"

definition KEYBOARD :: json where
  "KEYBOARD =
     JDict [(u ''keyboard'', JList
              [JList [JDict [(u ''text'', JStr msg_bot_button_target)], JDict [(u ''text'', JStr msg_bot_button_branch)]],
               JList [JDict [(u ''text'', JStr msg_bot_button_status)]],
               JList [JDict [(u ''text'', JStr msg_bot_button_stop)]]]),
            (u ''resize_keyboard'', JBool True), (u ''is_persistent'', JBool True)]"

definition send_message :: "pylib \<Rightarrow> bot_env \<Rightarrow> int \<Rightarrow> ustr \<Rightarrow> unit bot_st" where
  "send_message py env chat txt = x_call py env (SendMessage chat txt KEYBOARD)"

section \<open>Input, settings, the panel\<close>

definition clear_input :: "int \<Rightarrow> unit bot_st" where
  "clear_input uid = x_modify (\<lambda>s.
     s \<lparr> bt_awaiting_target := bt_awaiting_target s - {uid},
         bt_awaiting_branch := bt_awaiting_branch s - {uid},
         bt_awaiting_volume := bt_awaiting_volume s - {uid} \<rparr>)"

definition branch_for_user :: "bot_config \<Rightarrow> bot \<Rightarrow> int \<Rightarrow> ustr" where
  "branch_for_user cfg s uid = (case dict_get (bt_user_branches s) uid of Some b \<Rightarrow> b | None \<Rightarrow> bc_default_branch cfg)"

text \<open>The settings of a user, with the defaults for one who has none.\<close>

definition audio_of :: "bot \<Rightarrow> int \<Rightarrow> audio" where
  "audio_of s uid = (case dict_get (bt_user_audio s) uid of Some a \<Rightarrow> a | None \<Rightarrow> default_audio)"

text \<open>\<open>_save_settings\<close>: one object per user, by the text of the user's id.\<close>

definition settings_entry :: "bot \<Rightarrow> int \<Rightarrow> jdict" where
  "settings_entry s uid =
     (case dict_get (bt_user_audio s) uid of
        Some a \<Rightarrow> [(u ''volume'', JInt (au_volume a)), (u ''output'', JStr (au_output a))]
      | None \<Rightarrow> [])
     @ [(u ''branch'', opt_json (dict_get (bt_user_branches s) uid)),
        (u ''number'', opt_json (map_option tg_number (dict_get (bt_targets s) uid)))]"

definition settings_json :: "bot_env \<Rightarrow> bot \<Rightarrow> json" where
  "settings_json env s =
     JDict (map (\<lambda>uid. (str_of_int uid, JDict (settings_entry s uid)))
       (be_order env (remdups (dict_keys (bt_user_branches s) @ dict_keys (bt_user_audio s)))))"

definition save_settings :: "bot_env \<Rightarrow> unit bot_st" where
  "save_settings env s =
     (let s' = s \<lparr> bt_save_attempts := Suc (bt_save_attempts s) \<rparr>
      in case be_save env (bt_save_attempts s) of
           Some e \<Rightarrow> (Inl e, s')
         | None \<Rightarrow> (Inr (), s' \<lparr> bt_settings := Settings (settings_json env s) \<rparr>))"

text \<open>\<open>_set_audio\<close>: the change to the settings also reaches the target.\<close>

definition retarget :: "audio \<Rightarrow> target \<Rightarrow> target" where
  "retarget a t = t \<lparr> tg_volume := au_volume a, tg_output := au_output a \<rparr>"

definition put_audio :: "int \<Rightarrow> (audio \<Rightarrow> audio) \<Rightarrow> bot \<Rightarrow> bot" where
  "put_audio uid change s =
     (let a = change (audio_of s uid)
      in s \<lparr> bt_user_audio := dict_set (bt_user_audio s) uid a,
             bt_targets := (case dict_get (bt_targets s) uid of
                              Some t \<Rightarrow> dict_set (bt_targets s) uid (retarget a t)
                            | None \<Rightarrow> bt_targets s) \<rparr>)"

definition set_audio :: "bot_env \<Rightarrow> int \<Rightarrow> (audio \<Rightarrow> audio) \<Rightarrow> unit bot_st" where
  "set_audio env uid change = x_seq [x_modify (put_audio uid change), save_settings env]"

subsection \<open>The panel\<close>

definition button :: "int \<Rightarrow> ustr \<Rightarrow> ustr \<Rightarrow> json" where
  "button uid label action =
     JDict [(u ''text'', JStr label),
            (u ''callback_data'', JStr (u ''audio:'' @ str_of_int uid @ u '':'' @ action))]"

definition panel_text :: "bot_config \<Rightarrow> bot \<Rightarrow> int \<Rightarrow> ustr \<Rightarrow> ustr" where
  "panel_text cfg s uid channel =
     msg_bot_branch_is @ branch_name (branch_for_user cfg s uid) @ [10]
     @ (case dict_get (bt_targets s) uid of
          Some t \<Rightarrow> msg_bot_panel_vehicle @ tg_number t @ [10] @ u ''IP: '' @ tg_ip t @ [10]
        | None \<Rightarrow> msg_bot_panel_no_vehicle)
     @ msg_bot_panel_volume @ str_of_int (au_volume (audio_of s uid)) @ msg_bot_panel_channel @ channel @ [10]
     @ (if dict_get (bt_jobs s) uid \<noteq> None then msg_bot_panel_busy
        else if dict_get (bt_targets s) uid \<noteq> None then msg_bot_panel_ready else msg_bot_panel_choose)"

definition panel_markup :: "bot_config \<Rightarrow> bot \<Rightarrow> int \<Rightarrow> ustr \<Rightarrow> ustr \<Rightarrow> json" where
  "panel_markup cfg s uid mode channel =
     JDict [(u ''inline_keyboard'', JList
       ((if mode = u ''branch'' then
           [JList (map (\<lambda>n. button uid (branch_name n) (u ''branch='' @ n)) (sort (dict_keys (bc_vehicle_maps cfg))))]
         else if mode = u ''channel'' then
           [JList (map (\<lambda>(n, label). button uid
                ((if n = au_output (audio_of s uid) then msg_bot_check_mark else []) @ label) (u ''channel='' @ n)) CHANNELS)]
         else [])
        @ [JList [button uid msg_bot_label_branch (u ''branch''), button uid msg_bot_label_target (u ''target'')],
           JList [button uid (msg_bot_label_channel @ channel) (u ''channel'')],
           JList [button uid msg_bot_label_quieter (u ''quieter''),
                  button uid (str_of_int (au_volume (audio_of s uid)) @ u ''%'') (u ''volume''),
                  button uid (u ''+5%'') (u ''louder'')],
           JList [button uid msg_bot_label_stop (u ''stop''), button uid msg_bot_label_refresh (u ''status'')]]))]"

text \<open>
  \<open>_panel\<close>: a new message, or an edit of the one given. An edit that the API refuses with status
  400 is dropped when nothing changed, and replaced by a new message otherwise.
\<close>

definition panel :: "pylib \<Rightarrow> bot_config \<Rightarrow> bot_env \<Rightarrow> int \<Rightarrow> int \<Rightarrow> ustr \<Rightarrow> int option \<Rightarrow> unit bot_st" where
  "panel py cfg env uid chat mode message_id =
     x_bind (x_get (\<lambda>s. s)) (\<lambda>s.
     case dict_get CHANNELS (au_output (audio_of s uid)) of
       None \<Rightarrow> x_raise (builtin py B_KeyError)
     | Some channel \<Rightarrow>
         let txt = panel_text cfg s uid channel; markup = panel_markup cfg s uid mode channel
         in (case message_id of
               None \<Rightarrow> x_call py env (SendMessage chat txt markup)
             | Some mid \<Rightarrow>
                 x_bind (x_api env (EditMessageText chat mid txt markup)) (\<lambda>f.
                 case f of
                   None \<Rightarrow> x_return ()
                 | Some (ApiRaises e) \<Rightarrow> x_raise e
                 | Some (ApiHttp code body) \<Rightarrow>
                     if code \<noteq> 400 then x_raise (builtin py B_OSError)
                     else if py_contains body (u ''message is not modified'') then x_return ()
                     else x_call py env (SendMessage chat txt markup))))"

section \<open>Reading the settings back\<close>

text \<open>
  One user of \<open>_load_settings\<close>: whatever raises a ValueError, TypeError or AttributeError skips what is
  left of that user, and what was done before stays. \<open>int(volume)\<close> of a float beyond all bounds
  raises an OverflowError, which is not caught.
\<close>

definition load_target :: "pylib \<Rightarrow> bot_config \<Rightarrow> int \<Rightarrow> ustr \<Rightarrow> ustr \<Rightarrow> unit bot_st" where
  "load_target py cfg uid branch number =
     x_bind (x_get (\<lambda>s. parse_target py cfg (dict_get (bt_user_branches s) uid) (audio_of s uid) [branch, number])) (\<lambda>r.
     x_bind (x_lift r) (\<lambda>(t, named).
     x_modify (\<lambda>s. s \<lparr> bt_user_branches := (case named of Some b \<Rightarrow> dict_set (bt_user_branches s) uid b
                                             | None \<Rightarrow> bt_user_branches s),
                       bt_targets := dict_set (bt_targets s) uid t \<rparr>)))"

definition load_branch :: "pylib \<Rightarrow> bot_config \<Rightarrow> int \<Rightarrow> jdict \<Rightarrow> unit bot_st" where
  "load_branch py cfg uid d =
     (case jget d (u ''branch'') of
        JStr b \<Rightarrow>
          (case normalize_branch py (bc_branch_aliases cfg) (bc_vehicle_maps cfg) (Some b) of
             None \<Rightarrow> x_return ()
           | Some branch \<Rightarrow>
               x_seq [x_modify (\<lambda>s. s \<lparr> bt_user_branches := dict_set (bt_user_branches s) uid branch \<rparr>),
                      if truthy (jget d (u ''number''))
                      then load_target py cfg uid branch (py_str py (jget d (u ''number''))) else x_return ()])
      | v \<Rightarrow> if truthy v then x_raise (builtin py B_AttributeError) else x_return ())"

definition load_user :: "pylib \<Rightarrow> bot_config \<Rightarrow> ustr \<Rightarrow> json \<Rightarrow> unit bot_st" where
  "load_user py cfg key v =
     x_bind (x_lift (py_int py (JStr key))) (\<lambda>uid.
     case v of
       JDict d \<Rightarrow>
         if uid \<notin> set (bc_allowed_users cfg) then x_return ()
         else
           x_bind (x_lift (py_int py (get_or d (u ''volume'') (JInt 25)))) (\<lambda>volume.
           if \<not> (1 \<le> volume \<and> volume \<le> 100) then x_return ()
           else (case get_or d (u ''output'') (JStr (u ''salon'')) of
               JStr output \<Rightarrow>
                 if output \<notin> set (dict_keys CHANNELS) then x_return ()
                 else x_seq
                   [x_modify (\<lambda>s. s \<lparr> bt_user_audio := dict_set (bt_user_audio s) uid \<lparr> au_volume = volume, au_output = output \<rparr> \<rparr>),
                    load_branch py cfg uid d]
             | JList _ \<Rightarrow> x_raise (builtin py B_TypeError)
             | JDict _ \<Rightarrow> x_raise (builtin py B_TypeError)
             | _ \<Rightarrow> x_return ()))
     | _ \<Rightarrow> x_return ())"

definition skipped_error :: "exn \<Rightarrow> bool" where
  "skipped_error e =
     (case e of ValueErr _ \<Rightarrow> True
      | Builtin b _ \<Rightarrow> b \<in> {B_ValueError, B_TypeError, B_AttributeError, B_JSONDecodeError, B_UnicodeEncodeError}
      | _ \<Rightarrow> False)"

definition load_settings :: "pylib \<Rightarrow> bot_config \<Rightarrow> unit bot_st" where
  "load_settings py cfg =
     x_bind (x_get bt_settings) (\<lambda>file0.
     case file0 of
       Settings (JDict users) \<Rightarrow>
         x_seq (map (\<lambda>(key, v). x_try (load_user py cfg key v) skipped_error (\<lambda>_. x_return ())) users)
     | _ \<Rightarrow> x_return ())"

text \<open>\<open>AudioBot.__init__\<close>, the part that sets the state up.\<close>

definition start_bot :: "pylib \<Rightarrow> bot_config \<Rightarrow> settings_file \<Rightarrow> unit res \<times> bot" where
  "start_bot py cfg file0 = load_settings py cfg (new_bot file0)"

end
