(* ===== verification/Bot_Commands.thy ===== *)
theory Bot_Commands
  imports Bot_State
begin

text \<open>
  What the bot does with an update: commands, messages, presses of the panel's buttons, and the
  polling loop that feeds them.
\<close>

section \<open>Stopping a playback\<close>

definition cancel_job_ref :: "nat \<Rightarrow> bot \<Rightarrow> bot" where
  "cancel_job_ref r s = s \<lparr> bt_job_store := (bt_job_store s)[r := (bt_job_store s ! r) \<lparr> pj_cancelled := True \<rparr>] \<rparr>"

definition signal_process :: "nat \<Rightarrow> bot \<Rightarrow> bot" where
  "signal_process p s = s \<lparr> bt_signalled := bt_signalled s @ [p] \<rparr>"

text \<open>The process of a job, if it still runs.\<close>

definition live_process :: "bot_env \<Rightarrow> bot \<Rightarrow> nat \<Rightarrow> nat option" where
  "live_process env s r =
     (case pj_process (bt_job_store s ! r) of Some p \<Rightarrow> if be_alive env p then Some p else None | None \<Rightarrow> None)"

text \<open>\<open>_stop\<close>.\<close>

definition stop_playback :: "pylib \<Rightarrow> bot_env \<Rightarrow> int \<Rightarrow> int \<Rightarrow> unit bot_st" where
  "stop_playback py env uid chat =
     x_bind (x_get (\<lambda>s. dict_get (bt_jobs s) uid)) (\<lambda>job.
     case job of
       None \<Rightarrow> send_message py env chat msg_bot_nothing_playing
     | Some r \<Rightarrow>
         x_bind (x_modify (cancel_job_ref r)) (\<lambda>_.
         x_bind (x_get (\<lambda>s. live_process env s r)) (\<lambda>p.
         case p of
           Some pid \<Rightarrow> x_seq [x_modify (signal_process pid), send_message py env chat msg_bot_stopping]
         | None \<Rightarrow> send_message py env chat msg_bot_cancelling)))"

text \<open>\<open>stop_all\<close>, at the end of the process.\<close>

definition stop_all :: "bot_env \<Rightarrow> bot \<Rightarrow> bot" where
  "stop_all env s =
     fold (\<lambda>r s. case live_process env s r of
             Some p \<Rightarrow> signal_process p (cancel_job_ref r s) | None \<Rightarrow> cancel_job_ref r s)
       (map snd (bt_jobs s)) s"

section \<open>Commands\<close>

definition save_branch :: "int \<Rightarrow> ustr \<Rightarrow> bot \<Rightarrow> bot" where
  "save_branch uid branch s =
     s \<lparr> bt_user_branches := dict_set (bt_user_branches s) uid branch,
         bt_targets := dict_pop (bt_targets s) uid \<rparr>"

text \<open>\<open>_handle_branch\<close>.\<close>

definition handle_branch :: "pylib \<Rightarrow> bot_config \<Rightarrow> bot_env \<Rightarrow> int \<Rightarrow> int \<Rightarrow> ustr list \<Rightarrow> unit bot_st" where
  "handle_branch py cfg env uid chat args =
     (case args of
        [] \<Rightarrow> x_seq
          [clear_input uid,
           x_modify (\<lambda>s. s \<lparr> bt_awaiting_branch := insert uid (bt_awaiting_branch s) \<rparr>),
           panel py cfg env uid chat (u ''branch'') None]
      | arg # _ \<Rightarrow>
          (case cfg_branch py cfg arg of
             None \<Rightarrow> send_message py env chat
               (msg_bot_error_is @ msg_bot_unknown_branch @ arg @ msg_bot_available
                @ py_join (u '', '') (sort (dict_keys (bc_vehicle_maps cfg))))
           | Some branch \<Rightarrow> x_seq
               [clear_input uid, x_modify (save_branch uid branch), save_settings env,
                x_modify (\<lambda>s. s \<lparr> bt_awaiting_target := insert uid (bt_awaiting_target s) \<rparr>),
                send_message py env chat (msg_bot_branch_saved @ branch @ msg_bot_enter_number_line)]))"

definition save_target :: "int \<Rightarrow> target \<Rightarrow> bot \<Rightarrow> bot" where
  "save_target uid t s =
     s \<lparr> bt_targets := dict_set (bt_targets s) uid t,
         bt_user_branches := dict_set (bt_user_branches s) uid (tg_branch t),
         bt_user_audio := dict_set (bt_user_audio s) uid \<lparr> au_volume = tg_volume t, au_output = tg_output t \<rparr> \<rparr>"

text \<open>\<open>except (ValueError, IndexError)\<close> of \<open>/target\<close>.\<close>

definition target_error :: "exn \<Rightarrow> bool" where
  "target_error e =
     (case e of ValueErr _ \<Rightarrow> True
      | Builtin b _ \<Rightarrow> b \<in> {B_ValueError, B_JSONDecodeError, B_UnicodeEncodeError, B_IndexError} | _ \<Rightarrow> False)"

text \<open>\<open>/target\<close> with arguments.\<close>

definition target_command :: "pylib \<Rightarrow> bot_config \<Rightarrow> bot_env \<Rightarrow> int \<Rightarrow> int \<Rightarrow> ustr list \<Rightarrow> unit bot_st" where
  "target_command py cfg env uid chat args =
     x_bind (x_get (\<lambda>s. parse_target py cfg (dict_get (bt_user_branches s) uid) (audio_of s uid) args)) (\<lambda>r.
     case r of
       Inl e \<Rightarrow>
         if target_error e
         then send_message py env chat (msg_bot_error_is @ exn_str e @ msg_bot_example_target) else x_raise e
     | Inr (t, named) \<Rightarrow>
         x_seq [clear_input uid, x_modify (save_target uid t), save_settings env,
                panel py cfg env uid chat (u ''main'') None])"

text \<open>\<open>/volume\<close>.\<close>

definition volume_command :: "pylib \<Rightarrow> bot_config \<Rightarrow> bot_env \<Rightarrow> int \<Rightarrow> int \<Rightarrow> ustr list \<Rightarrow> unit bot_st" where
  "volume_command py cfg env uid chat args =
     (let await = x_modify (\<lambda>s. s \<lparr> bt_awaiting_volume := insert uid (bt_awaiting_volume s) \<rparr>)
      in case args of
           [] \<Rightarrow> x_seq [clear_input uid, await, send_message py env chat msg_bot_enter_volume]
         | arg # _ \<Rightarrow>
             (case int_of_ustr arg of
                Some volume \<Rightarrow>
                  if 1 \<le> volume \<and> volume \<le> 100
                  then x_seq [clear_input uid, set_audio env uid (\<lambda>a. a \<lparr> au_volume := volume \<rparr>),
                              panel py cfg env uid chat (u ''main'') None]
                  else x_seq [clear_input uid, await, send_message py env chat msg_bot_need_volume]
              | None \<Rightarrow> x_seq [clear_input uid, await, send_message py env chat msg_bot_need_volume]))"

text \<open>\<open>/target\<close> without arguments.\<close>

definition ask_target :: "pylib \<Rightarrow> bot_config \<Rightarrow> bot_env \<Rightarrow> int \<Rightarrow> int \<Rightarrow> unit bot_st" where
  "ask_target py cfg env uid chat =
     x_bind (clear_input uid) (\<lambda>_.
     x_bind (x_get (\<lambda>s. dict_get (bt_user_branches s) uid)) (\<lambda>b.
     case b of
       None \<Rightarrow> handle_branch py cfg env uid chat []
     | Some branch \<Rightarrow>
         x_seq [x_modify (\<lambda>s. s \<lparr> bt_awaiting_target := insert uid (bt_awaiting_target s) \<rparr>),
                send_message py env chat (msg_bot_branch_is @ branch_name branch @ msg_bot_enter_number)]))"

text \<open>\<open>handle_command\<close>; a text without words raises an IndexError.\<close>

definition handle_command :: "pylib \<Rightarrow> bot_config \<Rightarrow> bot_env \<Rightarrow> int \<Rightarrow> int \<Rightarrow> ustr \<Rightarrow> unit bot_st" where
  "handle_command py cfg env uid chat txt =
     (case py_split txt of
        [] \<Rightarrow> x_raise (builtin py B_IndexError)
      | word # args \<Rightarrow>
          let command = py_lower py (fst (py_partition 64 word))
          in if command \<in> {u ''/start'', u ''/help''} then
               x_seq [clear_input uid, send_message py env chat (msg_bot_help_1 @ msg_bot_help_2),
                      panel py cfg env uid chat (u ''main'') None]
             else if command = u ''/channel'' then
               x_seq [clear_input uid, panel py cfg env uid chat (u ''channel'') None]
             else if command = u ''/volume'' then volume_command py cfg env uid chat args
             else if command = u ''/branch'' then handle_branch py cfg env uid chat args
             else if command = u ''/target'' then
               (if args = [] then ask_target py cfg env uid chat else target_command py cfg env uid chat args)
             else if command = u ''/status'' then
               x_seq [clear_input uid, panel py cfg env uid chat (u ''main'') None]
             else if command = u ''/stop'' then
               x_seq [clear_input uid, stop_playback py env uid chat]
             else send_message py env chat msg_bot_unknown_command)"

section \<open>Messages\<close>

text \<open>\<open>(d.get(key) or {})\<close>, on which \<open>get\<close> is called next.\<close>

definition object_field :: "pylib \<Rightarrow> jdict \<Rightarrow> ustr \<Rightarrow> jdict res" where
  "object_field py d key =
     (case py_or (jget d key) (JDict []) of JDict o' \<Rightarrow> Inr o' | _ \<Rightarrow> Inl (builtin py B_AttributeError))"

definition id_field :: "pylib \<Rightarrow> jdict \<Rightarrow> ustr \<Rightarrow> int res" where
  "id_field py d key = bindE (object_field py d key) (\<lambda>o'. py_int py (get_or o' (u ''id'') (JInt 0)))"

text \<open>\<open>any(int((message.get(kind) or {}).get("file_size") or 0) > MAX_AUDIO_BYTES for kind in ...)\<close>.\<close>

fun any_too_big :: "pylib \<Rightarrow> jdict \<Rightarrow> ustr list \<Rightarrow> bool res" where
  "any_too_big py message [] = Inr False"
| "any_too_big py message (kind # kinds) =
     bindE (object_field py message kind) (\<lambda>d.
     bindE (py_int py (py_or (jget d (u ''file_size'')) (JInt 0))) (\<lambda>n.
     if n > MAX_AUDIO_BYTES then Inr True else any_too_big py message kinds))"

definition start_job :: "int \<Rightarrow> int \<Rightarrow> ustr \<Rightarrow> ustr \<Rightarrow> target \<Rightarrow> bot \<Rightarrow> bot" where
  "start_job uid chat file_id suffix t s =
     (let r = length (bt_job_store s)
      in s \<lparr> bt_job_store := bt_job_store s @ [\<lparr> pj_chat_id = chat, pj_cancelled = False, pj_process = None \<rparr>],
             bt_jobs := dict_set (bt_jobs s) uid r,
             bt_started := bt_started s @ [(uid, file_id, suffix, t, r)] \<rparr>)"

text \<open>A track for the target of the user, unless there is none or a job is running.\<close>

definition queue_media :: "pylib \<Rightarrow> bot_config \<Rightarrow> bot_env \<Rightarrow> int \<Rightarrow> int \<Rightarrow> ustr \<Rightarrow> ustr \<Rightarrow> unit bot_st" where
  "queue_media py cfg env uid chat file_id suffix =
     x_bind (x_get (\<lambda>s. (dict_get (bt_targets s) uid, dict_get (bt_jobs s) uid))) (\<lambda>(t, active).
     case t of
       None \<Rightarrow> handle_command py cfg env uid chat (u ''/target'')
     | Some t' \<Rightarrow>
         if active \<noteq> None then send_message py env chat msg_bot_job_running
         else x_modify (start_job uid chat file_id suffix t'))"

text \<open>A message that is no command and answers no question: a track to play.\<close>

definition handle_media :: "pylib \<Rightarrow> bot_config \<Rightarrow> bot_env \<Rightarrow> int \<Rightarrow> int \<Rightarrow> jdict \<Rightarrow> unit bot_st" where
  "handle_media py cfg env uid chat message =
     (case media py message of
        None \<Rightarrow> send_message py env chat msg_bot_send_media
      | Some (file_id, suffix) \<Rightarrow>
          x_bind (x_lift (any_too_big py message [u ''voice'', u ''audio'', u ''document''])) (\<lambda>big.
          if big then send_message py env chat msg_bot_too_big
          else queue_media py cfg env uid chat file_id suffix))"

definition button_command :: "ustr \<Rightarrow> ustr" where
  "button_command txt = (case dict_get BUTTON_COMMANDS txt of Some c \<Rightarrow> c | None \<Rightarrow> txt)"

definition handle_message :: "pylib \<Rightarrow> bot_config \<Rightarrow> bot_env \<Rightarrow> jdict \<Rightarrow> unit bot_st" where
  "handle_message py cfg env message =
     x_bind (x_lift (id_field py message (u ''from''))) (\<lambda>uid.
     x_bind (x_lift (id_field py message (u ''chat''))) (\<lambda>chat.
     if uid \<notin> set (bc_allowed_users cfg) then x_return ()
     else
       let txt = button_command (py_strip (text_field py message (u ''text'')))
       in if py_startswith txt (u ''/'') then handle_command py cfg env uid chat txt
          else x_bind (x_get (\<lambda>s. s)) (\<lambda>s.
            if txt \<noteq> [] \<and> uid \<in> bt_awaiting_volume s then
              handle_command py cfg env uid chat (u ''/volume '' @ txt)
            else if txt \<noteq> [] \<and> uid \<in> bt_awaiting_target s then
              handle_command py cfg env uid chat (u ''/target '' @ txt)
            else if txt \<noteq> [] \<and> uid \<in> bt_awaiting_branch s then
              x_seq [x_modify (\<lambda>s. s \<lparr> bt_awaiting_branch := bt_awaiting_branch s - {uid} \<rparr>),
                     handle_command py cfg env uid chat (u ''/branch '' @ txt)]
            else handle_media py cfg env uid chat message)))"

section \<open>Buttons of the panel\<close>

text \<open>\<open>data.split(":", 2)\<close> when it has three parts.\<close>

definition split_callback :: "ustr \<Rightarrow> (ustr \<times> ustr \<times> ustr) option" where
  "split_callback data =
     (case py_partition 58 data of
        (a, found, rest) \<Rightarrow>
          if \<not> found then None
          else (case py_partition 58 rest of (b, found', c) \<Rightarrow> if found' then Some (a, b, c) else None))"

text \<open>The effect of an action of the panel.\<close>

definition panel_action :: "pylib \<Rightarrow> bot_config \<Rightarrow> bot_env \<Rightarrow> int \<Rightarrow> int \<Rightarrow> int \<Rightarrow> ustr \<Rightarrow> unit bot_st" where
  "panel_action py cfg env uid chat message_id action =
     (let arg = snd (snd (py_partition 61 action)); refresh = (\<lambda>mode. panel py cfg env uid chat mode (Some message_id))
      in if py_startswith action (u ''branch='') then handle_branch py cfg env uid chat [arg]
         else if py_startswith action (u ''channel='') then
           (if arg \<in> set (dict_keys CHANNELS)
            then x_seq [set_audio env uid (\<lambda>a. a \<lparr> au_output := arg \<rparr>), refresh (u ''main'')]
            else x_return ())
         else if action \<in> {u ''quieter'', u ''louder''} then
           x_bind (x_get (\<lambda>s. au_volume (audio_of s uid))) (\<lambda>current.
           x_seq [set_audio env uid (\<lambda>a. a \<lparr> au_volume :=
                    max 1 (min 100 (current + (if action = u ''louder'' then 5 else - 5))) \<rparr>),
                  refresh (u ''main'')])
         else if action \<in> {u ''branch'', u ''channel'', u ''status''} then
           x_seq [if action = u ''branch''
                  then x_modify (\<lambda>s. s \<lparr> bt_awaiting_branch := insert uid (bt_awaiting_branch s) \<rparr>)
                  else x_return (),
                  refresh action]
         else if action \<in> {u ''target'', u ''volume'', u ''stop''} then
           handle_command py cfg env uid chat (u ''/'' @ action)
         else x_return ())"

text \<open>\<open>d[key]\<close> on an object, \<open>int(message["chat"]["id"])\<close>.\<close>

definition item :: "pylib \<Rightarrow> jdict \<Rightarrow> ustr \<Rightarrow> json res" where
  "item py d key = (case dict_get d key of Some v \<Rightarrow> Inr v | None \<Rightarrow> Inl (builtin py B_KeyError))"

definition chat_id_of :: "pylib \<Rightarrow> jdict \<Rightarrow> int res" where
  "chat_id_of py message =
     (case jget message (u ''chat'') of
        JDict c \<Rightarrow> bindE (item py c (u ''id'')) (py_int py)
      | _ \<Rightarrow> Inl (builtin py B_TypeError))"

definition handle_callback :: "pylib \<Rightarrow> bot_config \<Rightarrow> bot_env \<Rightarrow> jdict \<Rightarrow> unit bot_st" where
  "handle_callback py cfg env callback =
     x_bind (x_lift (id_field py callback (u ''from''))) (\<lambda>uid.
     let action = (case split_callback (text_field py callback (u ''data'')) of
                     Some (a, b, c) \<Rightarrow> if a = u ''audio'' \<and> b = str_of_int uid then Some c else None
                   | None \<Rightarrow> None)
     in if uid \<notin> set (bc_allowed_users cfg) \<or> action = None then
          x_bind (x_lift (item py callback (u ''id''))) (\<lambda>cid.
          x_call py env (AnswerCallback cid (Some msg_bot_not_your_panel)))
        else
          x_bind (x_lift (item py callback (u ''id''))) (\<lambda>cid.
          x_bind (x_call py env (AnswerCallback cid None)) (\<lambda>_.
          x_bind (x_lift (object_field py callback (u ''message''))) (\<lambda>message.
          if \<not> truthy (jget message (u ''chat'')) \<or> \<not> truthy (jget message (u ''message_id'')) then x_return ()
          else
            x_bind (x_lift (chat_id_of py message)) (\<lambda>chat.
            x_bind (x_lift (py_int py (jget message (u ''message_id'')))) (\<lambda>mid.
            x_bind (clear_input uid) (\<lambda>_.
            panel_action py cfg env uid chat mid (the action))))))))"

section \<open>The polling loop\<close>

text \<open>\<open>except (OSError, RuntimeError, json.JSONDecodeError)\<close> of \<open>run\<close>; anything else ends the bot.\<close>

definition polling_error :: "exn \<Rightarrow> bool" where
  "polling_error e =
     (case e of Builtin b _ \<Rightarrow> b \<in> {B_OSError, B_RuntimeError, B_JSONDecodeError} | _ \<Rightarrow> False)"

definition dispatch :: "pylib \<Rightarrow> bot_config \<Rightarrow> bot_env \<Rightarrow> jdict \<Rightarrow> unit bot_st" where
  "dispatch py cfg env update =
     x_seq [(case jget update (u ''callback_query'') of JDict c \<Rightarrow> handle_callback py cfg env c | _ \<Rightarrow> x_return ()),
            (case jget update (u ''message'') of JDict m \<Rightarrow> handle_message py cfg env m | _ \<Rightarrow> x_return ())]"

text \<open>The updates of one answer: the offset moves before an update is handled.\<close>

fun handle_updates :: "pylib \<Rightarrow> bot_config \<Rightarrow> bot_env \<Rightarrow> jdict list \<Rightarrow> int option \<Rightarrow> bot
    \<Rightarrow> unit res \<times> int option \<times> bot" where
  "handle_updates py cfg env [] offset s = (Inr (), offset, s)"
| "handle_updates py cfg env (update # updates) offset s =
     (case bindE (item py update (u ''update_id'')) (py_int py) of
        Inl e \<Rightarrow> (Inl e, offset, s)
      | Inr n \<Rightarrow>
          (case dispatch py cfg env update s of
             (Inl e, s') \<Rightarrow> (Inl e, Some (n + 1), s')
           | (Inr _, s') \<Rightarrow> handle_updates py cfg env updates (Some (n + 1)) s'))"

text \<open>One round of \<open>run\<close>: what \<open>getUpdates\<close> gives, and whether the loop goes on.\<close>

definition bot_round :: "pylib \<Rightarrow> bot_config \<Rightarrow> bot_env \<Rightarrow> jdict list res \<Rightarrow> int option \<Rightarrow> bot
    \<Rightarrow> unit res \<times> int option \<times> bot" where
  "bot_round py cfg env answer offset s =
     (case (case answer of Inl e \<Rightarrow> (Inl e, offset, s) | Inr us \<Rightarrow> handle_updates py cfg env us offset s) of
        (Inl e, offset', s') \<Rightarrow> (if polling_error e then Inr () else Inl e, offset', s')
      | (Inr _, offset', s') \<Rightarrow> (Inr (), offset', s'))"

text \<open>\<open>run\<close>, as long as the answers last; an exception that is not caught ends it.\<close>

fun bot_run :: "pylib \<Rightarrow> bot_config \<Rightarrow> bot_env \<Rightarrow> jdict list res list \<Rightarrow> int option \<Rightarrow> bot
    \<Rightarrow> unit res \<times> int option \<times> bot" where
  "bot_run py cfg env [] offset s = (Inr (), offset, s)"
| "bot_run py cfg env (answer # answers) offset s =
     (case bot_round py cfg env answer offset s of
        (Inl e, offset', s') \<Rightarrow> (Inl e, offset', s')
      | (Inr _, offset', s') \<Rightarrow> bot_run py cfg env answers offset' s')"

end
