(* ===== verification/Bot_Laws.thy ===== *)
theory Bot_Laws
  imports Bot_Commands
begin

text \<open>
  Laws of the bot: what holds of its state at every moment, that an update of one user leaves the
  others alone, and what a refused user can cause.
\<close>

section \<open>Targets\<close>

definition audio_ok :: "audio \<Rightarrow> bool" where
  "audio_ok a \<longleftrightarrow> 1 \<le> au_volume a \<and> au_volume a \<le> 100 \<and> au_output a \<in> set (dict_keys CHANNELS)"

definition target_audio :: "target \<Rightarrow> audio" where
  "target_audio t = \<lparr> au_volume = tg_volume t, au_output = tg_output t \<rparr>"

text \<open>A target is a vehicle of the directory of its branch, in the network, with valid settings.\<close>

definition target_ok :: "bot_config \<Rightarrow> target \<Rightarrow> bool" where
  "target_ok cfg t \<longleftrightarrow> audio_ok (target_audio t) \<and> py_strip (tg_number t) = tg_number t
     \<and> (\<exists>m ip a. dict_get (bc_vehicle_maps cfg) (tg_branch t) = Some m \<and> dict_get m (tg_number t) = Some ip
          \<and> ip_address ip = Some a \<and> in_mnt_network a \<and> tg_ip t = str_of_ip a)"

lemma channels_keys: "fst ` set CHANNELS = {u ''salon'', u ''street'', u ''tangenta''}"
  by (simp add: CHANNELS_def)

lemma audio_ok_default [simp]: "audio_ok default_audio"
  by (simp add: audio_ok_def default_audio_def channels_keys)

lemma target_audio_simps [simp]:
  "au_volume (target_audio t) = tg_volume t" "au_output (target_audio t) = tg_output t"
  by (simp_all add: target_audio_def)

lemma target_audio_retarget [simp]: "target_audio (retarget a t) = a"
  by (simp add: target_audio_def retarget_def)

lemma target_ok_retarget: "target_ok cfg t \<Longrightarrow> audio_ok a \<Longrightarrow> target_ok cfg (retarget a t)"
  by (simp add: target_ok_def) (simp add: retarget_def)

lemma py_strip_idem [simp]: "py_strip (py_strip s) = py_strip s"
proof -
  have drop: "dropWhile P (dropWhile P xs) = dropWhile P xs" for P :: "nat \<Rightarrow> bool" and xs
    by (induction xs) auto
  have "dropWhile is_space (rev (dropWhile is_space (rev t))) = rev (dropWhile is_space (rev t))"
    if "t = [] \<or> \<not> is_space (hd t)" for t
  proof (cases "rev (dropWhile is_space (rev t))")
    case (Cons c cs)
    have "t = rev (dropWhile is_space (rev t)) @ rev (takeWhile is_space (rev t))"
      by (metis rev_append rev_rev_ident takeWhile_dropWhile_id)
    with Cons have "hd t = c" "t \<noteq> []" by (metis append_Cons list.sel(1), auto)
    with that Cons show ?thesis by simp
  next
    case Nil
    then show ?thesis by (simp only: dropWhile.simps)
  qed
  moreover have "py_lstrip s = [] \<or> \<not> is_space (hd (py_lstrip s))"
    using hd_dropWhile [of is_space s] by (auto simp: py_lstrip_def dropWhile_eq_Nil_conv)
  ultimately show ?thesis by (simp add: py_strip_def py_lstrip_def py_rstrip_def drop)
qed

lemma choose_branch_named [simp]: "choose_branch dflt (Some b) number found = Inr b"
  by (simp add: choose_branch_def)

lemma cfg_branch_in: "cfg_branch py cfg v = Some b \<Longrightarrow> b \<in> set (dict_keys (bc_vehicle_maps cfg))"
  by (auto simp: cfg_branch_def normalize_branch_def Let_def split: if_splits option.splits)

text \<open>What \<open>_parse_target\<close> accepts.\<close>

lemma parse_target_ok:
  assumes "parse_target py cfg branch0 audio args = Inr (t, named)"
  shows "target_ok cfg t" and "named = None \<or> named = Some (tg_branch t)"
proof -
  define n where "n = cfg_branch py cfg (hd args)"
  define rest where "rest = (if n \<noteq> None then tl args else args)"
  from assms obtain branch ip a where b: "choose_branch (bc_default_branch cfg) (if n \<noteq> None then n else branch0)
        (py_strip (hd rest)) (branches_with (bc_vehicle_maps cfg) (py_strip (hd rest))) = Inr branch"
    and ip: "Option.bind (dict_get (bc_vehicle_maps cfg) branch) (\<lambda>m. dict_get m (py_strip (hd rest))) = Some ip"
    and a: "ip_address ip = Some a" "in_mnt_network a"
    and t: "1 \<le> tg_volume t" "tg_volume t \<le> 100" "tg_output t \<in> {u ''salon'', u ''street'', u ''tangenta''}"
      "tg_branch t = branch" "tg_number t = py_strip (hd rest)" "tg_ip t = str_of_ip a" "named = n"
    unfolding parse_target_def n_def rest_def Let_def by (auto simp: res_iff split: if_splits option.splits)
  show "target_ok cfg t"
    using ip a t by (auto simp: target_ok_def audio_ok_def channels_keys Option.bind_eq_Some_conv)
  show "named = None \<or> named = Some (tg_branch t)"
    using b t(4,7) by (cases n) auto
qed

section \<open>The invariant\<close>

text \<open>
  Only admitted users have entries; every target is in the network and in the directory, every
  setting in its range, every branch known; jobs are live references, one user each.
\<close>

definition bot_ok :: "bot_config \<Rightarrow> bot \<Rightarrow> bool" where
  "bot_ok cfg s \<longleftrightarrow>
     (\<forall>uid t. dict_get (bt_targets s) uid = Some t \<longrightarrow> uid \<in> set (bc_allowed_users cfg) \<and> target_ok cfg t)
     \<and> (\<forall>uid a. dict_get (bt_user_audio s) uid = Some a \<longrightarrow> uid \<in> set (bc_allowed_users cfg) \<and> audio_ok a)
     \<and> (\<forall>uid b. dict_get (bt_user_branches s) uid = Some b \<longrightarrow>
          uid \<in> set (bc_allowed_users cfg) \<and> b \<in> set (dict_keys (bc_vehicle_maps cfg)))
     \<and> (\<forall>uid r. dict_get (bt_jobs s) uid = Some r \<longrightarrow> uid \<in> set (bc_allowed_users cfg) \<and> r < length (bt_job_store s))
     \<and> (\<forall>uid uid' r. dict_get (bt_jobs s) uid = Some r \<longrightarrow> dict_get (bt_jobs s) uid' = Some r \<longrightarrow> uid = uid')"

text \<open>The target of a user agrees with the branch and the settings of the user.\<close>

definition in_step :: "bot \<Rightarrow> bool" where
  "in_step s \<longleftrightarrow> (\<forall>uid t. dict_get (bt_targets s) uid = Some t \<longrightarrow>
     dict_get (bt_user_branches s) uid = Some (tg_branch t) \<and> dict_get (bt_user_audio s) uid = Some (target_audio t))"

text \<open>Nothing of any other user has changed.\<close>

definition same_others :: "int \<Rightarrow> bot \<Rightarrow> bot \<Rightarrow> bool" where
  "same_others uid s s' \<longleftrightarrow> (\<forall>v. v \<noteq> uid \<longrightarrow>
     dict_get (bt_targets s') v = dict_get (bt_targets s) v
     \<and> dict_get (bt_user_audio s') v = dict_get (bt_user_audio s) v
     \<and> dict_get (bt_user_branches s') v = dict_get (bt_user_branches s) v
     \<and> dict_get (bt_jobs s') v = dict_get (bt_jobs s) v
     \<and> (v \<in> bt_awaiting_target s' \<longleftrightarrow> v \<in> bt_awaiting_target s)
     \<and> (v \<in> bt_awaiting_branch s' \<longleftrightarrow> v \<in> bt_awaiting_branch s)
     \<and> (v \<in> bt_awaiting_volume s' \<longleftrightarrow> v \<in> bt_awaiting_volume s)
     \<and> (\<forall>r. dict_get (bt_jobs s) v = Some r \<longrightarrow> bt_job_store s' ! r = bt_job_store s ! r))"

definition bot_step :: "bot_config \<Rightarrow> int \<Rightarrow> bot \<Rightarrow> bot \<Rightarrow> bool" where
  "bot_step cfg uid s s' \<longleftrightarrow>
     (bot_ok cfg s \<longrightarrow> bot_ok cfg s' \<and> (in_step s \<longrightarrow> in_step s') \<and> same_others uid s s')"

lemma same_others_trans: "same_others uid s s' \<Longrightarrow> same_others uid s' s'' \<Longrightarrow> same_others uid s s''"
  by (simp add: same_others_def)

lemma bot_ok_new [simp]: "bot_ok cfg (new_bot file0)" "in_step (new_bot file0)"
  by (simp_all add: bot_ok_def in_step_def new_bot_def)

lemma bot_okD:
  assumes "bot_ok cfg s"
  shows "dict_get (bt_targets s) uid = Some t \<Longrightarrow> target_ok cfg t"
    and "dict_get (bt_targets s) uid = Some t \<Longrightarrow> uid \<in> set (bc_allowed_users cfg)"
    and "audio_ok (audio_of s uid)"
  using assms by (auto simp: bot_ok_def audio_of_def split: option.split)

lemmas bot_step_defs = bot_step_def bot_ok_def in_step_def same_others_def

end
