(* ===== verification/Bot_Handlers.thy ===== *)
theory Bot_Handlers
  imports Bot_Laws
begin

text \<open>
  What the handlers of the bot do to its state, proved once: the locale \<open>bot_relation\<close> takes a
  relation between states that the few elementary changes of one user respect, and gives it for
  everything that user can cause. It is interpreted for isolation and the invariant here, and
  for the settings file in Bot_Restart.
\<close>

section \<open>Elementary changes\<close>

lemma moves_option:
  "(x = None \<Longrightarrow> moves R m) \<Longrightarrow> (\<And>a. x = Some a \<Longrightarrow> moves R (f a)) \<Longrightarrow>
   moves R (case x of None \<Rightarrow> m | Some a \<Rightarrow> f a)"
  by (cases x) simp_all

lemma moves_list:
  "(xs = [] \<Longrightarrow> moves R m) \<Longrightarrow> (\<And>y ys. xs = y # ys \<Longrightarrow> moves R (f y ys)) \<Longrightarrow>
   moves R (case xs of [] \<Rightarrow> m | y # ys \<Rightarrow> f y ys)"
  by (cases xs) simp_all

lemma moves_failure:
  "(\<And>e. moves R (f e)) \<Longrightarrow> (\<And>c b. moves R (g c b)) \<Longrightarrow>
   moves R (case x of ApiRaises e \<Rightarrow> f e | ApiHttp c b \<Rightarrow> g c b)"
  by (cases x) simp_all

locale bot_relation = effect_relation R for R :: "bot \<Rightarrow> bot \<Rightarrow> bool" +
  fixes cfg :: bot_config and env :: bot_env and uid :: int
  assumes calls: "R s (s \<lparr> bt_calls := cs \<rparr>)"
    and awaiting: "\<lbrakk> a - {uid} = bt_awaiting_target s - {uid}; b - {uid} = bt_awaiting_branch s - {uid};
          c - {uid} = bt_awaiting_volume s - {uid} \<rbrakk>
        \<Longrightarrow> R s (s \<lparr> bt_awaiting_target := a, bt_awaiting_branch := b, bt_awaiting_volume := c \<rparr>)"
    and settings: "\<lbrakk> uid \<in> set (bc_allowed_users cfg); \<And>a. audio_ok a \<Longrightarrow> audio_ok (change a) \<rbrakk>
        \<Longrightarrow> moves R (x_seq [x_modify (put_audio uid change), save_settings env])"
    and branch: "\<lbrakk> uid \<in> set (bc_allowed_users cfg); br \<in> set (dict_keys (bc_vehicle_maps cfg)) \<rbrakk>
        \<Longrightarrow> moves R (x_seq [x_modify (save_branch uid br), save_settings env])"
    and target: "\<lbrakk> uid \<in> set (bc_allowed_users cfg); target_ok cfg t \<rbrakk>
        \<Longrightarrow> moves R (x_seq [x_modify (save_target uid t), save_settings env])"
    and cancel: "dict_get (bt_jobs s) uid = Some r \<Longrightarrow> R s (cancel_job_ref r s)"
    and signal: "R s (signal_process p s)"
    and start: "\<lbrakk> dict_get (bt_targets s) uid = Some t; dict_get (bt_jobs s) uid = None \<rbrakk>
        \<Longrightarrow> R s (start_job uid chat file_id suffix t s)"
begin

lemma api: "moves R (x_api env c)"
  by (rule movesI) (simp add: x_api_def calls)

lemma call: "moves R (x_call py env c)"
  unfolding x_call_def by (intro bind api moves_option return raise)

lemma send: "moves R (send_message py env chat txt)"
  unfolding send_message_def by (rule call)

lemma clear: "moves R (clear_input uid)"
  unfolding clear_input_def moves_modify by (auto intro: awaiting)

lemma await_target: "moves R (x_modify (\<lambda>s. s \<lparr> bt_awaiting_target := insert uid (bt_awaiting_target s) \<rparr>))"
  and await_branch: "moves R (x_modify (\<lambda>s. s \<lparr> bt_awaiting_branch := insert uid (bt_awaiting_branch s) \<rparr>))"
  and await_volume: "moves R (x_modify (\<lambda>s. s \<lparr> bt_awaiting_volume := insert uid (bt_awaiting_volume s) \<rparr>))"
  and leave_branch: "moves R (x_modify (\<lambda>s. s \<lparr> bt_awaiting_branch := bt_awaiting_branch s - {uid} \<rparr>))"
proof -
  have "R s (s \<lparr> bt_awaiting_target := insert uid (bt_awaiting_target s) \<rparr>)"
    "R s (s \<lparr> bt_awaiting_branch := insert uid (bt_awaiting_branch s) \<rparr>)"
    "R s (s \<lparr> bt_awaiting_volume := insert uid (bt_awaiting_volume s) \<rparr>)"
    "R s (s \<lparr> bt_awaiting_branch := bt_awaiting_branch s - {uid} \<rparr>)" for s
    using awaiting [of "insert uid (bt_awaiting_target s)" s "bt_awaiting_branch s" "bt_awaiting_volume s"]
      awaiting [of "bt_awaiting_target s" s "insert uid (bt_awaiting_branch s)" "bt_awaiting_volume s"]
      awaiting [of "bt_awaiting_target s" s "bt_awaiting_branch s" "insert uid (bt_awaiting_volume s)"]
      awaiting [of "bt_awaiting_target s" s "bt_awaiting_branch s - {uid}" "bt_awaiting_volume s"] by simp_all
  then show "moves R (x_modify (\<lambda>s. s \<lparr> bt_awaiting_target := insert uid (bt_awaiting_target s) \<rparr>))"
    "moves R (x_modify (\<lambda>s. s \<lparr> bt_awaiting_branch := insert uid (bt_awaiting_branch s) \<rparr>))"
    "moves R (x_modify (\<lambda>s. s \<lparr> bt_awaiting_volume := insert uid (bt_awaiting_volume s) \<rparr>))"
    "moves R (x_modify (\<lambda>s. s \<lparr> bt_awaiting_branch := bt_awaiting_branch s - {uid} \<rparr>))"
    by (simp_all add: moves_modify)
qed

lemma panel: "moves R (panel py cfg env uid chat mode message_id)"
  unfolding panel_def Let_def
  by (intro bind get moves_option raise call api return moves_failure if_cases)

section \<open>Handlers\<close>

lemmas basic = return raise lift get bind if_cases moves_option moves_list send clear panel

text \<open>Statements one after the other, and a change that is followed by saving it.\<close>

lemma then_more: "moves R m \<Longrightarrow> moves R (x_seq ms) \<Longrightarrow> moves R (x_seq (m # ms))"
  by (simp add: bind)

lemma then_none: "moves R (x_seq [])"
  by (simp add: return)

lemma saved_then: "moves R (x_seq [m, m']) \<Longrightarrow> moves R (x_seq ms) \<Longrightarrow> moves R (x_seq (m # m' # ms))"
proof -
  have "x_seq (m # m' # ms) = x_seq (x_seq [m, m'] # ms)"
    by (auto simp: fun_eq_iff x_bind_def split: prod.split sum.split)
  then show "moves R (x_seq [m, m']) \<Longrightarrow> moves R (x_seq ms) \<Longrightarrow> moves R (x_seq (m # m' # ms))"
    by (metis then_more)
qed

lemma set_audio:
  "uid \<in> set (bc_allowed_users cfg) \<Longrightarrow> (\<And>a. audio_ok a \<Longrightarrow> audio_ok (change a))
   \<Longrightarrow> moves R (set_audio env uid change)"
  unfolding set_audio_def by (rule settings)

lemma stop_playback: "moves R (stop_playback py env uid chat)"
proof (rule movesI)
  fix s
  show "R s (snd (stop_playback py env uid chat s))"
  proof (cases "dict_get (bt_jobs s) uid")
    case None
    then show ?thesis using send [of py chat msg_bot_nothing_playing] by (simp add: stop_playback_def moves_def)
  next
    case (Some r)
    define rest where "rest = x_bind (x_get (\<lambda>s. live_process env s r)) (\<lambda>p.
         case p of
           Some pid \<Rightarrow> x_seq [x_modify (signal_process pid), send_message py env chat msg_bot_stopping]
         | None \<Rightarrow> send_message py env chat msg_bot_cancelling)"
    have "moves R rest" unfolding rest_def
      by (intro basic then_more then_none) (simp add: moves_modify signal)
    then have "R (cancel_job_ref r s) (snd (rest (cancel_job_ref r s)))" by (simp add: moves_def)
    moreover have "stop_playback py env uid chat s = rest (cancel_job_ref r s)"
      using Some by (simp add: stop_playback_def rest_def del: x_seq.simps)
    ultimately show ?thesis using trans [OF cancel [OF Some]] by simp
  qed
qed


lemma handle_branch:
  assumes "uid \<in> set (bc_allowed_users cfg)"
  shows "moves R (handle_branch py cfg env uid chat args)"
  unfolding handle_branch_def
  by (intro basic then_more [OF clear] saved_then [OF branch [OF assms]] then_more [OF await_branch]
      then_more [OF await_target] then_more [OF panel] then_more [OF send] then_none) (rule cfg_branch_in)

lemma volume_command:
  assumes "uid \<in> set (bc_allowed_users cfg)"
  shows "moves R (volume_command py cfg env uid chat args)"
  unfolding volume_command_def Let_def
  by (intro basic then_more [OF clear] then_more [OF set_audio [OF assms]] then_more [OF await_volume]
      then_more [OF panel] then_more [OF send] then_none) (simp add: audio_ok_def)

lemma ask_target:
  "uid \<in> set (bc_allowed_users cfg) \<Longrightarrow> moves R (ask_target py cfg env uid chat)"
  unfolding ask_target_def
  by (intro basic handle_branch then_more [OF await_target] then_more [OF send] then_none)

lemma target_command:
  assumes "uid \<in> set (bc_allowed_users cfg)"
  shows "moves R (target_command py cfg env uid chat args)"
proof -
  have "moves R
      (case r of
         Inl e \<Rightarrow> if target_error e
           then send_message py env chat (msg_bot_error_is @ exn_str e @ msg_bot_example_target) else x_raise e
       | Inr (t, named) \<Rightarrow> x_seq [clear_input uid, x_modify (save_target uid t), save_settings env,
           panel py cfg env uid chat (u ''main'') None])"
    if "r = parse_target py cfg b a args" for r b a
  proof (cases r)
    case (Inl e)
    then show ?thesis by (simp only: sum.case) (intro basic)
  next
    case (Inr p)
    then have "target_ok cfg (fst p)" using parse_target_ok(1) [of py cfg b a args "fst p" "snd p"] that by simp
    then show ?thesis
      unfolding Inr by (simp only: sum.case prod.case_eq_if)
        (intro then_more [OF clear] saved_then [OF target [OF assms]] then_more [OF panel] then_none)
  qed
  then show ?thesis unfolding target_command_def by (intro moves_get_bind) blast
qed

lemma handle_command:
  "uid \<in> set (bc_allowed_users cfg) \<Longrightarrow> moves R (handle_command py cfg env uid chat txt)"
  unfolding handle_command_def Let_def
  by (intro basic volume_command handle_branch ask_target target_command then_more [OF clear]
      then_more [OF send] then_more [OF panel] then_more [OF stop_playback] then_none)

lemma queue_media:
  assumes "uid \<in> set (bc_allowed_users cfg)"
  shows "moves R (queue_media py cfg env uid chat file_id suffix)"
proof (rule movesI)
  fix s
  show "R s (snd (queue_media py cfg env uid chat file_id suffix s))"
  proof (cases "dict_get (bt_targets s) uid")
    case None
    then show ?thesis
      using handle_command [OF assms, of py chat "u ''/target''"] by (simp add: queue_media_def moves_def)
  next
    case (Some t)
    then show ?thesis
      using send [of py chat msg_bot_job_running] start [of s t chat file_id suffix]
      by (cases "dict_get (bt_jobs s) uid") (auto simp: queue_media_def moves_def)
  qed
qed

lemma handle_media:
  "uid \<in> set (bc_allowed_users cfg) \<Longrightarrow> moves R (handle_media py cfg env uid chat message)"
proof (cases "media py message")
  case (Some p)
  moreover assume "uid \<in> set (bc_allowed_users cfg)"
  ultimately show ?thesis
    unfolding handle_media_def by (simp only: option.case prod.case_eq_if) (intro basic queue_media)
qed (simp add: handle_media_def send)

lemma panel_action:
  assumes "uid \<in> set (bc_allowed_users cfg)"
  shows "moves R (panel_action py cfg env uid chat mid action)"
  unfolding panel_action_def Let_def
  by (intro basic handle_branch then_more [OF set_audio] then_more [OF panel] then_more [OF if_cases]
      await_branch handle_command then_none assms) (simp_all add: audio_ok_def)

text \<open>A message and a press of a button of this user.\<close>

lemma message:
  assumes "id_field py message (u ''from'') = Inr uid"
  shows "moves R (handle_message py cfg env message)"
  unfolding handle_message_def Let_def assms x_bind_lift
  by (intro basic handle_command handle_media then_more [OF leave_branch] then_more [OF handle_command] then_none) simp_all

lemma callback:
  assumes "id_field py callback (u ''from'') = Inr uid"
  shows "moves R (handle_callback py cfg env callback)"
  unfolding handle_callback_def Let_def assms x_bind_lift
  by (intro basic call panel_action) simp_all

end

section \<open>Isolation of the users, and the invariant\<close>

lemma put_audio_step:
  assumes "uid \<in> set (bc_allowed_users cfg)" and "\<And>a. audio_ok a \<Longrightarrow> audio_ok (change a)"
  shows "bot_step cfg uid s (put_audio uid change s)"
  unfolding bot_step_def
proof (intro impI)
  assume ok: "bot_ok cfg s"
  then have "audio_ok (change (audio_of s uid))" by (intro assms(2) bot_okD(3))
  with ok assms(1) show "bot_ok cfg (put_audio uid change s)
      \<and> (in_step s \<longrightarrow> in_step (put_audio uid change s)) \<and> same_others uid s (put_audio uid change s)"
    by (auto simp: bot_ok_def in_step_def same_others_def put_audio_def Let_def target_ok_retarget
        split: option.split) (simp_all add: retarget_def)
qed

lemma save_branch_step:
  "uid \<in> set (bc_allowed_users cfg) \<Longrightarrow> b \<in> set (dict_keys (bc_vehicle_maps cfg))
   \<Longrightarrow> bot_step cfg uid s (save_branch uid b s)"
  by (auto simp: save_branch_def bot_step_defs)

lemma target_ok_branch: "target_ok cfg t \<Longrightarrow> tg_branch t \<in> set (dict_keys (bc_vehicle_maps cfg))"
  by (auto simp: target_ok_def dest: map_of_SomeD intro: rev_image_eqI)

lemma save_target_step:
  assumes "uid \<in> set (bc_allowed_users cfg)" and "target_ok cfg t"
  shows "bot_step cfg uid s (save_target uid t s)"
  using assms target_ok_branch [OF assms(2)]
  by (auto simp: save_target_def bot_step_defs target_audio_def) (auto simp: target_ok_def target_audio_def)

lemma bot_step_trans: "bot_step cfg uid s s' \<Longrightarrow> bot_step cfg uid s' s'' \<Longrightarrow> bot_step cfg uid s s''"
  by (auto simp: bot_step_def intro: same_others_trans)

lemma file_step: "bot_step cfg uid s (s \<lparr> bt_save_attempts := n \<rparr>)"
  "bot_step cfg uid s (s \<lparr> bt_save_attempts := n, bt_settings := f \<rparr>)"
  by (simp_all add: bot_step_defs)

lemma saved_step:
  "(\<And>s. bot_step cfg uid s (g s)) \<Longrightarrow> moves (bot_step cfg uid) (x_seq [x_modify g, save_settings env])"
  by (rule movesI)
    (auto simp: save_settings_def Let_def x_bind_def split: option.split intro: bot_step_trans file_step)

interpretation isolation: bot_relation "bot_step cfg uid" cfg env uid for cfg env uid
proof unfold_locales
  show "bot_step cfg uid s s" for s by (simp add: bot_step_def same_others_def)
  show "bot_step cfg uid s (s \<lparr> bt_calls := cs \<rparr>)" for s cs by (simp add: bot_step_defs)
  show "bot_step cfg uid s (s \<lparr> bt_awaiting_target := a, bt_awaiting_branch := b, bt_awaiting_volume := c \<rparr>)"
    if "a - {uid} = bt_awaiting_target s - {uid}" "b - {uid} = bt_awaiting_branch s - {uid}"
      "c - {uid} = bt_awaiting_volume s - {uid}" for a b c s
    using that by (auto simp: bot_step_defs)
  show "bot_step cfg uid s (cancel_job_ref r s)" if "dict_get (bt_jobs s) uid = Some r" for r s
    using that by (auto simp: bot_step_defs cancel_job_ref_def nth_list_update)
  show "bot_step cfg uid s (signal_process p s)" for p s
    by (simp add: signal_process_def bot_step_defs)
  show "bot_step cfg uid s (start_job uid chat file_id suffix t s)"
    if "dict_get (bt_targets s) uid = Some t" "dict_get (bt_jobs s) uid = None" for s t chat file_id suffix
    using that by (auto simp: bot_step_defs start_job_def Let_def nth_append less_Suc_eq)
qed (blast intro: bot_step_trans saved_step put_audio_step save_branch_step save_target_step)+

section \<open>Updates\<close>

text \<open>What messages and presses of buttons respect, whoever they are from, rounds of polling do.\<close>

locale update_relation = effect_relation R for R :: "bot \<Rightarrow> bot \<Rightarrow> bool" +
  fixes py :: pylib and cfg :: bot_config and env :: bot_env
  assumes message: "id_field py message (u ''from'') = Inr uid \<Longrightarrow> moves R (handle_message py cfg env message)"
    and callback: "id_field py callback (u ''from'') = Inr uid \<Longrightarrow> moves R (handle_callback py cfg env callback)"
begin

lemma any_message: "moves R (handle_message py cfg env m)"
  using message raise by (cases "id_field py m (u ''from'')") (simp_all add: handle_message_def)

lemma any_callback: "moves R (handle_callback py cfg env c)"
  using callback raise by (cases "id_field py c (u ''from'')") (simp_all add: handle_callback_def)

lemma dispatch: "moves R (dispatch py cfg env update)"
  unfolding dispatch_def
  by (rule seq) (auto split: json.split intro: any_message any_callback return)

lemma updates: "handle_updates py cfg env us offset s = (r, offset', s') \<Longrightarrow> R s s'"
proof (induction us arbitrary: offset s)
  case Nil
  then show ?case by (simp add: refl)
next
  case (Cons update us)
  show ?case
  proof (cases "bindE (item py update (u ''update_id'')) (py_int py)")
    case (Inl e)
    with Cons.prems show ?thesis by (simp add: refl)
  next
    case (Inr n)
    obtain x s1 where d: "dispatch py cfg env update s = (x, s1)" by fastforce
    have "R s s1" using movesD [OF dispatch d] .
    with Cons Inr d show ?thesis by (cases x) (auto intro: trans)
  qed
qed

lemma round: "bot_round py cfg env answer offset s = (r, offset', s') \<Longrightarrow> R s s'"
  by (auto simp: bot_round_def split: sum.splits prod.splits dest: updates intro: refl)

lemma run: "bot_run py cfg env answers offset s = (r, offset', s') \<Longrightarrow> R s s'"
  by (induction answers arbitrary: offset s)
    (auto split: prod.splits sum.splits intro: refl trans dest: round)

end

text \<open>The invariant, as a relation between the states before and after.\<close>

definition bot_keeps :: "bot_config \<Rightarrow> bot \<Rightarrow> bot \<Rightarrow> bool" where
  "bot_keeps cfg s s' \<longleftrightarrow> (bot_ok cfg s \<longrightarrow> bot_ok cfg s' \<and> (in_step s \<longrightarrow> in_step s'))"

lemma bot_step_keeps: "moves (bot_step cfg uid) m \<Longrightarrow> moves (bot_keeps cfg) m"
  by (simp add: moves_def bot_step_def bot_keeps_def)

interpretation invariant: update_relation "bot_keeps cfg" py cfg env for py cfg env
proof unfold_locales
  show "bot_keeps cfg s s" for s by (simp add: bot_keeps_def)
  show "bot_keeps cfg s s' \<Longrightarrow> bot_keeps cfg s' s'' \<Longrightarrow> bot_keeps cfg s s''" for s s' s''
    by (auto simp: bot_keeps_def)
qed (blast intro: bot_step_keeps isolation.message isolation.callback)+

text \<open>Someone who is not admitted, and someone who presses a button of another's panel.\<close>

lemma stranger_message:
  assumes "id_field py message (u ''from'') = Inr uid" and "uid \<notin> set (bc_allowed_users cfg)"
  shows "snd (handle_message py cfg env message s) = s"
  unfolding handle_message_def Let_def using assms by (cases "id_field py message (u ''chat'')") simp_all

lemma refused_callback:
  assumes "id_field py callback (u ''from'') = Inr uid"
    and "uid \<notin> set (bc_allowed_users cfg) \<or>
      (\<forall>action. split_callback (text_field py callback (u ''data'')) \<noteq> Some (u ''audio'', str_of_int uid, action))"
  shows "\<exists>cs. snd (handle_callback py cfg env callback s) = s \<lparr> bt_calls := bt_calls s @ cs \<rparr>
    \<and> (\<forall>c \<in> set cs. \<exists>cid. c = AnswerCallback cid (Some msg_bot_not_your_panel))"
proof -
  have "uid \<notin> set (bc_allowed_users cfg) \<or> (case split_callback (text_field py callback (u ''data'')) of
      Some (a, b, c) \<Rightarrow> if a = u ''audio'' \<and> b = str_of_int uid then Some c else None | None \<Rightarrow> None) = None"
    using assms(2) by (auto split: option.split)
  then show ?thesis
    unfolding handle_callback_def Let_def using assms(1)
    by (cases "item py callback (u ''id'')")
      (auto simp: x_call_def x_api_def x_bind_def split: option.split
        intro: exI [of _ "[]"] exI [of _ "[AnswerCallback cid (Some msg_bot_not_your_panel)]" for cid])
qed

end
