(* ===== verification/Bot_Calm.thy ===== *)
theory Bot_Calm
  imports Bot_Handlers
begin

text \<open>
  What can end the bot: an exception that its polling loop does not catch. As long as Telegram and the
  disk fail only with errors the loop catches, and updates have the shape Telegram documents, none
  gets that far.
\<close>

section \<open>Computations that raise only what the loop catches\<close>

definition calm :: "bot_config \<Rightarrow> (bot, 'a) st \<Rightarrow> bool" where
  "calm cfg m \<longleftrightarrow> moves (bot_keeps cfg) m \<and> (\<forall>s e s'. bot_ok cfg s \<longrightarrow> m s = (Inl e, s') \<longrightarrow> polling_error e)"

text \<open>Telegram and the disk raise only such errors.\<close>

definition benign :: "pylib \<Rightarrow> bot_env \<Rightarrow> bool" where
  "benign py env \<longleftrightarrow> (\<forall>k f. be_api env k = Some f \<longrightarrow> polling_error (api_exn py f))
     \<and> (\<forall>k e. be_save env k = Some e \<longrightarrow> polling_error e)"

named_theorems calm_rules \<open>computations that raise only what the polling loop catches\<close>

lemma os_error_polling [simp]: "polling_error (builtin py B_OSError)"
  by (simp add: polling_error_def builtin_def)

lemma calm_return [calm_rules]: "calm cfg (x_return a)"
  by (simp add: calm_def invariant.return)

lemma calm_raise [calm_rules]: "polling_error e \<Longrightarrow> calm cfg (x_raise e)"
  by (simp add: calm_def invariant.raise)

lemma calm_lift [calm_rules]: "(\<And>e. r = Inl e \<Longrightarrow> polling_error e) \<Longrightarrow> calm cfg (x_lift r)"
  by (simp add: calm_def invariant.lift)

lemma calm_modify: "(\<And>s. bot_ok cfg s \<Longrightarrow> bot_keeps cfg s (g s)) \<Longrightarrow> calm cfg (x_modify g)"
  by (auto simp: calm_def moves_modify bot_keeps_def)

lemma calm_get [calm_rules]:
  assumes "\<And>s. bot_ok cfg s \<Longrightarrow> calm cfg (g (f s))"
  shows "calm cfg (x_bind (x_get f) g)"
proof -
  have "bot_keeps cfg s (snd (g (f s) s))" for s
    using assms by (cases "bot_ok cfg s") (auto simp: calm_def moves_def bot_keeps_def)
  then show ?thesis using assms by (auto simp: calm_def moves_def)
qed

lemma calm_bind [calm_rules]:
  assumes "calm cfg m" and "\<And>a. calm cfg (f a)"
  shows "calm cfg (x_bind m f)"
  unfolding calm_def
proof (intro conjI allI impI)
  show "moves (bot_keeps cfg) (x_bind m f)" using assms by (simp add: calm_def invariant.bind)
next
  fix s e s' assume ok: "bot_ok cfg s" and r: "x_bind m f s = (Inl e, s')"
  then consider "m s = (Inl e, s')" | a s1 where "m s = (Inr a, s1)" "f a s1 = (Inl e, s')"
    by (auto simp: x_bind_eq)
  then show "polling_error e"
  proof cases
    case 1
    with ok assms(1) show ?thesis by (auto simp: calm_def)
  next
    case 2
    with ok assms(1) have "bot_ok cfg s1" by (auto simp: calm_def bot_keeps_def dest: movesD)
    with 2 assms(2) show ?thesis by (auto simp: calm_def)
  qed
qed

lemma calm_seq_Nil [calm_rules]: "calm cfg (x_seq [])"
  by (simp add: calm_return)

lemma calm_seq_Cons [calm_rules]: "calm cfg m \<Longrightarrow> calm cfg (x_seq ms) \<Longrightarrow> calm cfg (x_seq (m # ms))"
  by (simp add: calm_bind)

lemma calm_if [calm_rules]: "(c \<Longrightarrow> calm cfg m) \<Longrightarrow> (\<not> c \<Longrightarrow> calm cfg m') \<Longrightarrow> calm cfg (if c then m else m')"
  by simp

lemma calm_option [calm_rules]:
  "(x = None \<Longrightarrow> calm cfg m) \<Longrightarrow> (\<And>a. x = Some a \<Longrightarrow> calm cfg (f a)) \<Longrightarrow> calm cfg (case x of None \<Rightarrow> m | Some a \<Rightarrow> f a)"
  by (cases x) simp_all

section \<open>The handlers\<close>

lemma calm_api: "calm cfg (x_api env c)"
  using bot_step_keeps [OF isolation.api] by (auto simp: calm_def x_api_def)

lemma calm_call [calm_rules]: "benign py env \<Longrightarrow> calm cfg (x_call py env c)"
  using bot_step_keeps [OF isolation.call]
  by (auto simp: calm_def x_call_def x_bind_def x_api_def benign_def split: option.splits)

lemma calm_send [calm_rules]: "benign py env \<Longrightarrow> calm cfg (send_message py env chat txt)"
  unfolding send_message_def by (rule calm_call)

lemma calm_quiet:
  assumes "moves (bot_step cfg uid) (x_modify g)"
  shows "calm cfg (x_modify g)"
  using bot_step_keeps [OF assms] by (intro calm_modify) (simp add: moves_modify)

lemma calm_clear [calm_rules]: "calm cfg (clear_input uid)"
  using bot_step_keeps [OF isolation.clear] by (auto simp: calm_def clear_input_def)

lemmas calm_awaiting [calm_rules] =
  calm_quiet [OF isolation.await_target] calm_quiet [OF isolation.await_branch]
  calm_quiet [OF isolation.await_volume] calm_quiet [OF isolation.leave_branch]

lemma calm_saved:
  assumes "benign py env" and "\<And>s. bot_step cfg uid s (g s)"
  shows "calm cfg (x_seq [x_modify g, save_settings env])"
  using bot_step_keeps [OF saved_step [of cfg uid g env]] assms
  by (auto simp: calm_def save_settings_def x_bind_def Let_def benign_def split: option.splits)

lemma calm_saved_then:
  assumes "calm cfg (x_seq [m, m'])" and "calm cfg (x_seq ms)"
  shows "calm cfg (x_seq (m # m' # ms))"
proof -
  have "x_seq (m # m' # ms) = x_seq (x_seq [m, m'] # ms)"
    by (auto simp: fun_eq_iff x_bind_def split: prod.split sum.split)
  with assms show ?thesis by (metis calm_seq_Cons)
qed

lemma calm_panel [calm_rules]:
  assumes "benign py env"
  shows "calm cfg (panel py cfg env uid chat mode message_id)"
proof -
  have edit: "calm cfg (x_bind (x_api env c) (\<lambda>f. case f of None \<Rightarrow> x_return ()
      | Some (ApiRaises e) \<Rightarrow> x_raise e
      | Some (ApiHttp code body) \<Rightarrow> if code \<noteq> 400 then x_raise (builtin py B_OSError)
          else if py_contains body (u ''message is not modified'') then x_return () else x_call py env c'))" for c c'
    unfolding calm_def
  proof (intro conjI allI impI)
    show "moves (bot_keeps cfg) (x_bind (x_api env c) (\<lambda>f. case f of None \<Rightarrow> x_return ()
      | Some (ApiRaises e) \<Rightarrow> x_raise e
      | Some (ApiHttp code body) \<Rightarrow> if code \<noteq> 400 then x_raise (builtin py B_OSError)
          else if py_contains body (u ''message is not modified'') then x_return () else x_call py env c'))"
      by (intro invariant.bind moves_option moves_failure invariant.return invariant.raise invariant.if_cases
          bot_step_keeps [OF isolation.api] bot_step_keeps [OF isolation.call])
  qed (use assms in \<open>auto simp: x_api_def x_call_def x_bind_def benign_def split: option.splits api_failure.splits if_splits;
      fastforce\<close>)
  have known: "\<exists>channel. dict_get CHANNELS (au_output (audio_of s uid)) = Some channel" if "bot_ok cfg s" for s
    using bot_okD(3) [OF that, of uid] by (auto simp: audio_ok_def CHANNELS_def)
  show ?thesis
    unfolding panel_def Let_def
    by (rule calm_get, drule known) (auto intro!: calm_option edit calm_call assms)
qed

section \<open>Commands\<close>

lemma calm_get_bind: "(\<And>s. calm cfg (g (f s))) \<Longrightarrow> calm cfg (x_bind (x_get f) g)"
  by (rule calm_get)

lemma calm_list [calm_rules]:
  "(xs = [] \<Longrightarrow> calm cfg m) \<Longrightarrow> (\<And>y ys. xs = y # ys \<Longrightarrow> calm cfg (f y ys)) \<Longrightarrow>
   calm cfg (case xs of [] \<Rightarrow> m | y # ys \<Rightarrow> f y ys)"
  by (cases xs) simp_all

lemma calm_quietly: "moves (bot_keeps cfg) m \<Longrightarrow> (\<And>s. \<exists>a. fst (m s) = Inr a) \<Longrightarrow> calm cfg m"
  unfolding calm_def by (metis Inl_Inr_False fst_conv)

lemma calm_stop [calm_rules]:
  assumes "benign py env"
  shows "calm cfg (stop_playback py env uid chat)"
  unfolding calm_def
proof (intro conjI allI impI)
  show "moves (bot_keeps cfg) (stop_playback py env uid chat)"
    by (rule bot_step_keeps [OF isolation.stop_playback])
  fix s e s' assume "stop_playback py env uid chat s = (Inl e, s')"
  with assms show "polling_error e"
    by (auto simp: stop_playback_def send_message_def x_call_def x_api_def x_bind_def benign_def split: option.splits)
qed

text \<open>Every refusal of a target is one that \<open>/target\<close> answers.\<close>

lemma target_error_simps [simp]:
  "target_error (ValueErr m)" "target_error (unknown_vehicle number b found)" "target_error (builtin py B_ValueError)"
  by (simp_all add: target_error_def unknown_vehicle_def builtin_def split: list.split)

lemma choose_branch_errors: "choose_branch d b n found = Inl e \<Longrightarrow> target_error e"
  by (auto simp: choose_branch_def several_branches_def split: option.splits list.splits if_splits)

lemma py_int_text_errors: "py_int py (JStr s) = Inl e \<Longrightarrow> e = builtin py B_ValueError"
  by (auto split: option.splits)

text \<open>The errors that a computation can have.\<close>

definition errors_in :: "(exn \<Rightarrow> bool) \<Rightarrow> 'a res \<Rightarrow> bool" where
  "errors_in P r \<longleftrightarrow> (\<forall>e. r = Inl e \<longrightarrow> P e)"

lemma errors_rules:
  "errors_in P (Inr a)" "P e \<Longrightarrow> errors_in P (Inl e)"
  "errors_in P m \<Longrightarrow> (\<And>x. errors_in P (f x)) \<Longrightarrow> errors_in P (bindE m f)"
  "(c \<Longrightarrow> errors_in P m) \<Longrightarrow> (\<not> c \<Longrightarrow> errors_in P m') \<Longrightarrow> errors_in P (if c then m else m')"
  "(x = None \<Longrightarrow> errors_in P m) \<Longrightarrow> (\<And>a. x = Some a \<Longrightarrow> errors_in P (g a)) \<Longrightarrow> errors_in P (case x of None \<Rightarrow> m | Some a \<Rightarrow> g a)"
  "P e \<Longrightarrow> errors_in P (raise_if b e)"
  by (auto simp: errors_in_def bindE_Inl_iff raise_if_def split: option.splits)

lemma parse_target_errors: "errors_in target_error (parse_target py cfg b a args)"
proof -
  have "errors_in target_error (choose_branch d b n found)" for d b n found
    by (auto simp: errors_in_def intro: choose_branch_errors)
  moreover have "errors_in target_error (py_int py (JStr s))" for s
    using py_int_text_errors [of py s] by (auto simp: errors_in_def simp del: py_int.simps)
  ultimately show ?thesis unfolding parse_target_def Let_def by (intro errors_rules target_error_simps)
qed

lemma calm_set_audio:
  assumes "benign py env" and "uid \<in> set (bc_allowed_users cfg)" and "\<And>a. audio_ok a \<Longrightarrow> audio_ok (change a)"
  shows "calm cfg (set_audio env uid change)"
  unfolding set_audio_def by (rule calm_saved [OF assms(1) put_audio_step [OF assms(2,3)]])

lemma calm_branch:
  assumes "benign py env" and "uid \<in> set (bc_allowed_users cfg)"
  shows "calm cfg (handle_branch py cfg env uid chat args)"
proof -
  have saved: "calm cfg (x_seq [x_modify (save_branch uid b), save_settings env])" if "cfg_branch py cfg v = Some b" for b v
    by (rule calm_saved [OF assms(1) save_branch_step [OF assms(2) cfg_branch_in [OF that]]])
  show ?thesis unfolding handle_branch_def
    by (rule calm_list; (rule calm_option)?)
      (intro calm_send calm_panel calm_seq_Cons [OF calm_clear] calm_seq_Cons [OF calm_awaiting(2)]
        calm_seq_Cons [OF calm_awaiting(1)] calm_saved_then [OF saved] calm_seq_Cons [OF calm_send] calm_seq_Cons [OF calm_panel]
        calm_seq_Nil assms; assumption)+
qed

lemma calm_volume:
  assumes "benign py env" and "uid \<in> set (bc_allowed_users cfg)"
  shows "calm cfg (volume_command py cfg env uid chat args)"
proof -
  have asked: "calm cfg (x_seq [clear_input uid, x_modify (\<lambda>s. s \<lparr> bt_awaiting_volume := insert uid (bt_awaiting_volume s) \<rparr>),
      send_message py env chat m])" for m
    by (intro calm_rules assms)
  have stored: "calm cfg (x_seq [clear_input uid, set_audio env uid (\<lambda>a. a \<lparr> au_volume := v \<rparr>), panel py cfg env uid chat m None])"
    if "1 \<le> v \<and> v \<le> 100" for v m
  proof -
    have "calm cfg (set_audio env uid (\<lambda>a. a \<lparr> au_volume := v \<rparr>))"
      using that by (intro calm_set_audio [OF assms]) (simp add: audio_ok_def)
    then show ?thesis by (intro calm_seq_Cons [OF calm_clear] calm_seq_Cons calm_seq_Nil calm_panel assms(1))
  qed
  show ?thesis unfolding volume_command_def Let_def
    by (intro calm_list calm_option calm_if asked stored) assumption
qed

lemma calm_ask_target:
  assumes "benign py env" and "uid \<in> set (bc_allowed_users cfg)"
  shows "calm cfg (ask_target py cfg env uid chat)"
  unfolding ask_target_def by (intro calm_rules calm_branch assms)

lemma calm_target:
  assumes "benign py env" and "uid \<in> set (bc_allowed_users cfg)"
  shows "calm cfg (target_command py cfg env uid chat args)"
  unfolding target_command_def
proof (rule calm_get)
  fix s
  show "calm cfg (case parse_target py cfg (dict_get (bt_user_branches s) uid) (audio_of s uid) args of
       Inl e \<Rightarrow>
         if target_error e
         then send_message py env chat (msg_bot_error_is @ exn_str e @ msg_bot_example_target) else x_raise e
     | Inr (t, named) \<Rightarrow>
         x_seq [clear_input uid, x_modify (save_target uid t), save_settings env,
                panel py cfg env uid chat (u ''main'') None])" (is "calm cfg (case ?r of Inl e \<Rightarrow> ?f e | Inr p \<Rightarrow> ?g p)")
  proof (cases ?r)
    case (Inl e)
    with parse_target_errors have "target_error e" by (auto simp: errors_in_def)
    then show ?thesis unfolding Inl sum.case by (simp add: calm_send [OF assms(1)])
  next
    case (Inr p)
    obtain t n where p: "p = (t, n)" by (cases p)
    have "target_ok cfg t" using parse_target_ok(1) Inr p by blast
    then show ?thesis unfolding Inr p sum.case prod.case
      by (intro calm_seq_Cons [OF calm_clear] calm_saved_then [OF calm_saved [OF assms(1) save_target_step [OF assms(2)]]]
          calm_rules assms(1))
  qed
qed

text \<open>Commands have a word: \<open>handle_command\<close> is only called with such texts.\<close>

lemma calm_command:
  assumes "benign py env" and "uid \<in> set (bc_allowed_users cfg)" and "py_split txt \<noteq> []"
  shows "calm cfg (handle_command py cfg env uid chat txt)"
  unfolding handle_command_def Let_def
  by (intro calm_list) (use assms(3) in simp,
      intro calm_rules calm_volume calm_branch calm_ask_target calm_target assms)

section \<open>Messages and buttons\<close>

lemma py_split_slash [simp]: "py_split (47 # cs) \<noteq> []"
proof -
  have "words_from (c # cur) s \<noteq> []" for c cur s
    by (induction s arbitrary: c cur) auto
  then show ?thesis by (simp add: py_split_def is_space_def)
qed

lemma commands_split [simp]: "py_split (u ''/target'') \<noteq> []" "py_split (u ''/target '' @ t) \<noteq> []"
  "py_split (u ''/volume '' @ t) \<noteq> []" "py_split (u ''/branch '' @ t) \<noteq> []" "py_split (u ''/'' @ t) \<noteq> []"
  by (simp_all add: u_def)

lemma startswith_slash: "py_startswith t (u ''/'') \<Longrightarrow> py_split t \<noteq> []"
  by (auto simp: py_startswith_iff)

text \<open>The shape of an update as the Bot API documents it, as far as the bot reads numbers from it.\<close>

definition opt_object :: "(jdict \<Rightarrow> bool) \<Rightarrow> jdict \<Rightarrow> ustr \<Rightarrow> bool" where
  "opt_object P d key = (case dict_get d key of None \<Rightarrow> True | Some (JDict o') \<Rightarrow> P o' | _ \<Rightarrow> False)"

definition opt_int :: "ustr \<Rightarrow> jdict \<Rightarrow> bool" where
  "opt_int key d = (case dict_get d key of None \<Rightarrow> True | Some (JInt _) \<Rightarrow> True | _ \<Rightarrow> False)"

definition has_int :: "ustr \<Rightarrow> jdict \<Rightarrow> bool" where
  "has_int key d = (case dict_get d key of Some (JInt _) \<Rightarrow> True | _ \<Rightarrow> False)"

definition wf_message :: "jdict \<Rightarrow> bool" where
  "wf_message m \<longleftrightarrow> list_all (opt_object (has_int (u ''id'')) m) [u ''from'', u ''chat'']
     \<and> list_all (opt_object (opt_int (u ''file_size'')) m) [u ''voice'', u ''audio'', u ''document'']"

definition wf_callback :: "jdict \<Rightarrow> bool" where
  "wf_callback c \<longleftrightarrow> opt_object (has_int (u ''id'')) c (u ''from'') \<and> dict_get c (u ''id'') \<noteq> None
     \<and> opt_object (\<lambda>m. opt_object (has_int (u ''id'')) m (u ''chat'') \<and> opt_int (u ''message_id'') m) c (u ''message'')"

definition wf_update :: "jdict \<Rightarrow> bool" where
  "wf_update d \<longleftrightarrow> has_int (u ''update_id'') d \<and> opt_object wf_callback d (u ''callback_query'')
     \<and> opt_object wf_message d (u ''message'')"

lemma id_field_defined: "opt_object (has_int (u ''id'')) d key \<Longrightarrow> \<exists>n. id_field py d key = Inr n"
  by (auto simp: opt_object_def has_int_def id_field_def object_field_def py_or_def jget_def get_or_def
      split: option.splits json.splits if_splits)

lemma object_field_defined:
  "opt_object P d key \<Longrightarrow> \<exists>o'. object_field py d key = Inr o' \<and> (o' = [] \<or> P o')"
  by (auto simp: opt_object_def object_field_def py_or_def jget_def get_or_def split: option.splits json.splits if_splits)

lemma any_too_big_defined:
  "list_all (opt_object (opt_int (u ''file_size'')) d) kinds \<Longrightarrow> \<exists>b. any_too_big py d kinds = Inr b"
proof (induction kinds)
  case (Cons kind kinds)
  then obtain o' where "object_field py d kind = Inr o'" "o' = [] \<or> opt_int (u ''file_size'') o'"
    using object_field_defined [of "opt_int (u ''file_size'')" d kind py] by auto
  moreover from this(2) have "\<exists>n. py_int py (py_or (jget o' (u ''file_size'')) (JInt 0)) = Inr n"
    by (cases "dict_get o' (u ''file_size'')") (auto simp: opt_int_def jget_def get_or_def py_or_def split: json.splits)
  ultimately obtain o' n where "object_field py d kind = Inr o'"
    "py_int py (py_or (jget o' (u ''file_size'')) (JInt 0)) = Inr n" by blast
  moreover obtain b where "any_too_big py d kinds = Inr b" using Cons by auto
  ultimately show ?case by (cases "n > MAX_AUDIO_BYTES") auto
qed auto

lemma calm_queue:
  assumes "benign py env" and "uid \<in> set (bc_allowed_users cfg)"
  shows "calm cfg (queue_media py cfg env uid chat file_id suffix)"
  unfolding calm_def
proof (intro conjI allI impI)
  show "moves (bot_keeps cfg) (queue_media py cfg env uid chat file_id suffix)"
    by (rule bot_step_keeps [OF isolation.queue_media [OF assms(2)]])
  have command: "calm cfg (handle_command py cfg env uid chat (u ''/target''))"
    by (rule calm_command [OF assms]) simp
  have send: "calm cfg (send_message py env chat m)" for m using assms(1) by (rule calm_send)
  fix s e s' assume ok: "bot_ok cfg s" and r: "queue_media py cfg env uid chat file_id suffix s = (Inl e, s')"
  then show "polling_error e"
    using command send by (auto simp: queue_media_def calm_def split: option.splits if_splits)
qed

lemma calm_media:
  assumes "benign py env" and "uid \<in> set (bc_allowed_users cfg)" and "wf_message m"
  shows "calm cfg (handle_media py cfg env uid chat m)"
proof -
  obtain b where "any_too_big py m [u ''voice'', u ''audio'', u ''document''] = Inr b"
    using assms(3) any_too_big_defined unfolding wf_message_def by blast
  then show ?thesis
    using calm_send [OF assms(1)] calm_queue [OF assms(1,2)]
    by (auto simp: handle_media_def simp del: any_too_big.simps split: option.split)
qed

lemma calm_message:
  assumes "benign py env" and "wf_message m"
  shows "calm cfg (handle_message py cfg env m)"
proof -
  obtain uid chat where ids: "id_field py m (u ''from'') = Inr uid" "id_field py m (u ''chat'') = Inr chat"
    using assms(2) id_field_defined [of m] by (fastforce simp: wf_message_def)
  show ?thesis
  proof (cases "uid \<in> set (bc_allowed_users cfg)")
    case True
    have seq: "calm cfg (x_seq [x_modify (\<lambda>s. s \<lparr> bt_awaiting_branch := bt_awaiting_branch s - {uid} \<rparr>),
        handle_command py cfg env uid chat (u ''/branch '' @ t)])" for t
      by (intro calm_seq_Cons [OF calm_awaiting(4)] calm_seq_Cons [OF calm_command] calm_seq_Nil)
        (simp_all add: assms True)
    show ?thesis unfolding handle_message_def ids x_bind_lift Let_def
      using True by (simp only: not_True_eq_False simp_thms if_False)
        (intro calm_if calm_get seq calm_command calm_media; simp add: assms startswith_slash)
  qed (simp only: handle_message_def ids x_bind_lift calm_return Let_def not_False_eq_True if_True)
qed

lemma calm_action:
  assumes "benign py env" and "uid \<in> set (bc_allowed_users cfg)"
  shows "calm cfg (panel_action py cfg env uid chat mid action)"
proof -
  have audio: "calm cfg (x_seq [set_audio env uid change, panel py cfg env uid chat m (Some mid)])"
    if "\<And>a. audio_ok a \<Longrightarrow> audio_ok (change a)" for change m
    by (intro calm_seq_Cons [OF calm_set_audio [OF assms that]] calm_seq_Cons calm_panel calm_seq_Nil assms(1))
  have shown: "calm cfg (x_seq [if c then x_modify (\<lambda>s. s \<lparr> bt_awaiting_branch := insert uid (bt_awaiting_branch s) \<rparr>)
      else x_return (), panel py cfg env uid chat m (Some mid)])" for c m
    by (intro calm_seq_Cons calm_if calm_awaiting(2) calm_return calm_panel calm_seq_Nil assms(1))
  show ?thesis unfolding panel_action_def Let_def
    by (intro calm_if calm_branch calm_get audio shown calm_command calm_return; simp add: assms audio_ok_def)
qed

lemma calm_callback:
  assumes "benign py env" and "wf_callback c"
  shows "calm cfg (handle_callback py cfg env c)"
proof -
  obtain uid cid where uid: "id_field py c (u ''from'') = Inr uid" and cid: "item py c (u ''id'') = Inr cid"
    using assms(2) id_field_defined [of c] by (fastforce simp: wf_callback_def item_def)
  obtain m where m: "object_field py c (u ''message'') = Inr m"
    "m = [] \<or> opt_object (has_int (u ''id'')) m (u ''chat'') \<and> opt_int (u ''message_id'') m"
    using assms(2) object_field_defined unfolding wf_callback_def by blast
  have chat: "\<exists>n. chat_id_of py m = Inr n" if "truthy (jget m (u ''chat''))"
    using m(2) that by (auto simp: opt_object_def has_int_def chat_id_of_def item_def jget_def get_or_def
        split: option.splits json.splits)
  have mid: "\<exists>n. py_int py (jget m (u ''message_id'')) = Inr n" if "truthy (jget m (u ''message_id''))"
    using m(2) that by (auto simp: opt_int_def jget_def get_or_def split: option.splits json.splits)
  show ?thesis unfolding handle_callback_def uid cid m(1) x_bind_lift Let_def
  proof (intro calm_if calm_bind calm_call calm_return assms(1))
    assume "\<not> (\<not> truthy (jget m (u ''chat'')) \<or> \<not> truthy (jget m (u ''message_id'')))"
      and *: "\<not> (uid \<notin> set (bc_allowed_users cfg) \<or> (case split_callback (text_field py c (u ''data'')) of
          None \<Rightarrow> None | Some (a, b, c) \<Rightarrow> if a = u ''audio'' \<and> b = str_of_int uid then Some c else None) = None)"
    then obtain n k where "chat_id_of py m = Inr n" "py_int py (jget m (u ''message_id'')) = Inr k"
      using chat mid by blast
    then show "calm cfg (x_lift (chat_id_of py m))" "calm cfg (x_lift (py_int py (jget m (u ''message_id''))))"
      by (auto intro!: calm_lift)
  qed (simp_all add: calm_clear calm_action assms(1))
qed

section \<open>Rounds of polling\<close>

lemma calm_dispatch:
  assumes "benign py env" and "wf_update d"
  shows "calm cfg (dispatch py cfg env d)"
proof -
  have "calm cfg (case jget d (u ''callback_query'') of JDict c \<Rightarrow> handle_callback py cfg env c | _ \<Rightarrow> x_return ())"
    using assms by (auto simp: wf_update_def opt_object_def jget_def get_or_def calm_return intro: calm_callback
        split: option.splits json.splits)
  moreover have "calm cfg (case jget d (u ''message'') of JDict m \<Rightarrow> handle_message py cfg env m | _ \<Rightarrow> x_return ())"
    using assms by (auto simp: wf_update_def opt_object_def jget_def get_or_def calm_return intro: calm_message
        split: option.splits json.splits)
  ultimately show ?thesis
    unfolding dispatch_def by (intro calm_seq_Cons calm_seq_Nil)
qed

lemma calm_updates:
  "benign py env \<Longrightarrow> list_all wf_update us \<Longrightarrow> bot_ok cfg s
   \<Longrightarrow> handle_updates py cfg env us offset s = (Inl e, r) \<Longrightarrow> polling_error e"
proof (induction us arbitrary: offset s)
  case (Cons d us)
  then obtain n where n: "bindE (item py d (u ''update_id'')) (py_int py) = Inr n"
    by (auto simp: wf_update_def has_int_def item_def split: option.splits json.splits)
  have c: "calm cfg (dispatch py cfg env d)" using Cons.prems by (simp add: calm_dispatch)
  show ?case
  proof (cases "dispatch py cfg env d s")
    case (Pair x s1)
    have "bot_ok cfg s1" using movesD [OF invariant.dispatch Pair] Cons.prems(3) by (simp add: bot_keeps_def)
    with Cons n c Pair show ?thesis
      by (cases x) (auto simp: calm_def)
  qed
qed simp

text \<open>A round that Telegram answers, or whose request fails, is followed by another.\<close>

lemma calm_round:
  assumes "benign py env" and "bot_ok cfg s" and "pred_sum polling_error (list_all wf_update) answer"
  shows "fst (bot_round py cfg env answer offset s) = Inr ()"
  using assms calm_updates [OF assms(1) _ assms(2)]
  by (cases answer) (auto simp: bot_round_def split: prod.splits sum.splits)

lemma calm_run:
  "benign py env \<Longrightarrow> bot_ok cfg s \<Longrightarrow> list_all (pred_sum polling_error (list_all wf_update)) answers
   \<Longrightarrow> fst (bot_run py cfg env answers offset s) = Inr ()"
proof (induction answers arbitrary: offset s)
  case (Cons answer answers)
  obtain r offset' s' where round: "bot_round py cfg env answer offset s = (r, offset', s')" by (metis prod_cases3)
  have "r = Inr ()" using calm_round [OF Cons.prems(1,2), of answer offset] Cons.prems(3) round by simp
  moreover have "bot_ok cfg s'" using invariant.round [OF round] Cons.prems(2) by (simp add: bot_keeps_def)
  ultimately show ?case using Cons round by simp
qed simp

end
