(* ===== verification/Bot_Polling.thy ===== *)
theory Bot_Polling
  imports Bot_Calm Http_Messages
begin

text \<open>
  The polling of Telegram: what the bot asks for, and that it takes every update once, whatever its
  handlers raise.
\<close>

section \<open>Asking for updates\<close>

text \<open>The data of \<open>getUpdates\<close>.\<close>

definition updates_request :: "pylib \<Rightarrow> int option \<Rightarrow> jdict" where
  "updates_request py offset =
     [(u ''timeout'', JInt 25),
      (u ''allowed_updates'', JStr (dumps_with json_quote_ascii py (JList [JStr (u ''message''), JStr (u ''callback_query'')])))]
     @ (case offset of None \<Rightarrow> [] | Some n \<Rightarrow> [(u ''offset'', JInt n)])"

text \<open>The numbers of the updates of an answer, and of those whose handling begins.\<close>

definition update_number :: "pylib \<Rightarrow> jdict \<Rightarrow> int res" where
  "update_number py update = bindE (item py update (u ''update_id'')) (py_int py)"

definition update_numbers :: "pylib \<Rightarrow> jdict list \<Rightarrow> int list" where
  "update_numbers py = List.map_filter (\<lambda>update. case update_number py update of Inl e \<Rightarrow> None | Inr n \<Rightarrow> Some n)"

fun handled :: "pylib \<Rightarrow> bot_config \<Rightarrow> bot_env \<Rightarrow> jdict list \<Rightarrow> bot \<Rightarrow> int list" where
  "handled py cfg env [] s = []"
| "handled py cfg env (update # updates) s =
     (case update_number py update of
        Inl e \<Rightarrow> []
      | Inr n \<Rightarrow> n # (case dispatch py cfg env update s of (Inl e, s') \<Rightarrow> [] | (Inr _, s') \<Rightarrow> handled py cfg env updates s'))"

text \<open>
  A run against a Telegram that answers requests, one answer a round: the updates whose handling begins.
  An answer honours the request when it holds, in ascending order, only updates from the offset on.
\<close>

type_synonym telegram = "jdict \<Rightarrow> jdict list res"

fun polled :: "pylib \<Rightarrow> bot_config \<Rightarrow> bot_env \<Rightarrow> telegram list \<Rightarrow> int option \<Rightarrow> bot \<Rightarrow> int list" where
  "polled py cfg env [] offset s = []"
| "polled py cfg env (telegram # later) offset s =
     (let answer = telegram (updates_request py offset)
      in (case answer of Inl e \<Rightarrow> [] | Inr updates \<Rightarrow> handled py cfg env updates s)
         @ (case bot_round py cfg env answer offset s of
              (Inl e, offset', s') \<Rightarrow> []
            | (Inr _, offset', s') \<Rightarrow> polled py cfg env later offset' s'))"

definition honours :: "pylib \<Rightarrow> telegram \<Rightarrow> bool" where
  "honours py telegram \<longleftrightarrow> (\<forall>offset updates. telegram (updates_request py offset) = Inr updates \<longrightarrow>
     sorted_wrt (<) (update_numbers py updates)
     \<and> (\<forall>n low. offset = Some low \<and> n \<in> set (update_numbers py updates) \<longrightarrow> low \<le> n))"

section \<open>Laws\<close>

lemma update_numbers_simps:
  "update_numbers py [] = []"
  "update_numbers py (update # updates) =
     (case update_number py update of Inl e \<Rightarrow> update_numbers py updates | Inr n \<Rightarrow> n # update_numbers py updates)"
  by (auto simp: update_numbers_def List.map_filter_def split: sum.split)

lemma handled_prefix: "\<exists>rest. update_numbers py updates = handled py cfg env updates s @ rest"
  by (induction updates arbitrary: s) (auto simp: update_numbers_simps split: sum.split prod.split)

text \<open>The offset is behind the last update whose handling began.\<close>

lemma handled_offset:
  "handle_updates py cfg env updates offset s = (r, offset', s') \<Longrightarrow>
   offset' = (if handled py cfg env updates s = [] then offset else Some (last (handled py cfg env updates s) + 1))"
proof (induction updates arbitrary: offset s)
  case (Cons update updates)
  show ?case
  proof (cases "update_number py update")
    case (Inr n)
    obtain x s1 where "dispatch py cfg env update s = (x, s1)" by fastforce
    with Inr Cons.prems Cons.IH [of "Some (n + 1)" s1] show ?thesis
      by (cases x) (auto simp: update_number_def)
  qed (use Cons.prems in \<open>simp add: update_number_def\<close>)
qed simp

lemma round_offset:
  assumes "bot_round py cfg env answer offset s = (r, offset', s')"
  shows "offset' = (case answer of Inl e \<Rightarrow> offset | Inr updates \<Rightarrow>
    if handled py cfg env updates s = [] then offset else Some (last (handled py cfg env updates s) + 1))"
proof (cases answer)
  case (Inr updates)
  obtain x off s1 where h: "handle_updates py cfg env updates offset s = (x, off, s1)" by (metis prod_cases3)
  from handled_offset [OF this] assms Inr h show ?thesis by (cases x) (auto simp: bot_round_def)
qed (use assms in \<open>auto simp: bot_round_def split: if_splits\<close>)

lemma sorted_last: "sorted_wrt (<) (xs :: int list) \<Longrightarrow> n \<in> set xs \<Longrightarrow> n \<le> last xs"
  by (induction xs) (auto intro: less_imp_le)

text \<open>What an answer holds below the next offset is what was handled.\<close>

lemma round_complete:
  assumes "bot_round py cfg env (Inr updates) offset s = (r, Some next_offset, s')"
    and "honours py telegram" and "telegram (updates_request py offset) = Inr updates"
  shows "set (handled py cfg env updates s) = {n \<in> set (update_numbers py updates). n < next_offset}"
proof -
  from assms(2,3) have ascending: "sorted_wrt (<) (update_numbers py updates)"
    and low: "\<And>n low. offset = Some low \<Longrightarrow> n \<in> set (update_numbers py updates) \<Longrightarrow> low \<le> n"
    unfolding honours_def by blast+
  obtain rest where split: "update_numbers py updates = handled py cfg env updates s @ rest" using handled_prefix by blast
  show ?thesis
  proof (cases "handled py cfg env updates s = []")
    case True
    with round_offset [OF assms(1)] have "offset = Some next_offset" by simp
    with low True show ?thesis by fastforce
  next
    case False
    with round_offset [OF assms(1)] have next_offset: "next_offset = last (handled py cfg env updates s) + 1" by simp
    have "n \<le> last (handled py cfg env updates s)" if "n \<in> set (handled py cfg env updates s)" for n
      using that ascending sorted_last by (simp add: split sorted_wrt_append)
    moreover have "last (handled py cfg env updates s) < n" if "n \<in> set rest" for n
      using that ascending False by (simp add: split sorted_wrt_append)
    ultimately show ?thesis by (fastforce simp: split next_offset)
  qed
qed

lemma polled_ascending:
  "list_all (honours py) tgs \<Longrightarrow> sorted_wrt (<) (polled py cfg env tgs offset s)
     \<and> (\<forall>n low. offset = Some low \<and> n \<in> set (polled py cfg env tgs offset s) \<longrightarrow> low \<le> n)"
proof (induction tgs arbitrary: offset s)
  case (Cons telegram later)
  let ?answer = "telegram (updates_request py offset)"
  obtain r offset' s' where round: "bot_round py cfg env ?answer offset s = (r, offset', s')" by (metis prod_cases3)
  define rest where "rest = (case r of Inl e \<Rightarrow> [] | Inr _ \<Rightarrow> polled py cfg env later offset' s')"
  have polled: "polled py cfg env (telegram # later) offset s =
      (case ?answer of Inl e \<Rightarrow> [] | Inr updates \<Rightarrow> handled py cfg env updates s) @ rest"
    by (cases r) (simp_all add: rest_def round Let_def)
  have rest: "sorted_wrt (<) rest" "\<And>n low. offset' = Some low \<Longrightarrow> n \<in> set rest \<Longrightarrow> low \<le> n"
    using Cons by (auto simp: rest_def split: sum.splits)
  show ?case
  proof (cases ?answer)
    case (Inl e)
    with rest round_offset [OF round] show ?thesis by (simp add: polled del: polled.simps)
  next
    case (Inr updates)
    let ?h = "handled py cfg env updates s"
    obtain tail where numbers: "update_numbers py updates = ?h @ tail" using handled_prefix by blast
    have "honours py telegram" using Cons.prems by simp
    with Inr have "sorted_wrt (<) (update_numbers py updates)
        \<and> (\<forall>n low. offset = Some low \<and> n \<in> set (update_numbers py updates) \<longrightarrow> low \<le> n)"
      unfolding honours_def by blast
    then have "sorted_wrt (<) ?h" "\<And>n low. offset = Some low \<Longrightarrow> n \<in> set ?h \<Longrightarrow> low \<le> n"
      by (auto simp: numbers sorted_wrt_append)
    moreover have "n < k" if "n \<in> set ?h" "k \<in> set rest" for n k
    proof -
      from that(1) round_offset [OF round] Inr have "offset' = Some (last ?h + 1)" by auto
      with rest(2) that(2) have "last ?h + 1 \<le> k" by blast
      with sorted_last [OF calculation(1) that(1)] show ?thesis by simp
    qed
    moreover have "low \<le> k" if "offset = Some low" "k \<in> set rest" for low k
    proof (cases "?h = []")
      case True
      with round_offset [OF round] Inr that rest(2) show ?thesis by simp
    next
      case False
      with calculation(2) [OF that(1), of "last ?h"] calculation(3) [of "last ?h" k] that(2) show ?thesis by simp
    qed
    ultimately show ?thesis using rest(1) Inr by (auto simp: polled sorted_wrt_append simp del: polled.simps)
  qed
qed simp

end
