(* ===== verification/Bot_System.thy ===== *)
theory Bot_System
  imports Bot_Handlers
begin

text \<open>
  The bot together with the threads of its playbacks: rounds of polling that start threads, and
  threads that end. A thread lives exactly as long as its user has a job.
\<close>

section \<open>Steps\<close>

text \<open>The \<open>finally\<close> of \<open>_play\<close>: the job is removed if it is still the one of this thread.\<close>

definition end_job :: "int \<Rightarrow> nat \<Rightarrow> bot \<Rightarrow> bot" where
  "end_job uid r s =
     (if dict_get (bt_jobs s) uid = Some r then s \<lparr> bt_jobs := dict_pop (bt_jobs s) uid \<rparr> else s)"

record bot_sys =
  by_bot :: bot
  by_offset :: "int option"
  by_live :: "nat set"

definition started_user :: "bot \<Rightarrow> nat \<Rightarrow> int" where
  "started_user s r = fst (bt_started s ! r)"

definition started_target :: "bot \<Rightarrow> nat \<Rightarrow> target" where
  "started_target s r = fst (snd (snd (snd (bt_started s ! r))))"

definition started_ref :: "bot \<Rightarrow> nat \<Rightarrow> nat" where
  "started_ref s r = snd (snd (snd (snd (bt_started s ! r))))"

inductive bot_sys_step :: "pylib \<Rightarrow> bot_config \<Rightarrow> bot_env \<Rightarrow> bot_sys \<Rightarrow> bot_sys \<Rightarrow> bool" for py cfg env where
  poll: "bot_round py cfg env answer (by_offset y) (by_bot y) = (r, offset', s') \<Longrightarrow>
     bot_sys_step py cfg env y
       \<lparr> by_bot = s', by_offset = offset',
         by_live = by_live y \<union> {length (bt_started (by_bot y)) ..< length (bt_started s')} \<rparr>"
| thread_ends: "r \<in> by_live y \<Longrightarrow>
     bot_sys_step py cfg env y
       (y \<lparr> by_bot := end_job (started_user (by_bot y) r) r (by_bot y), by_live := by_live y - {r} \<rparr>)"

inductive bot_reachable :: "pylib \<Rightarrow> bot_config \<Rightarrow> bot_env \<Rightarrow> bot_sys \<Rightarrow> bool" for py cfg env where
  bot_init: "bot_ok cfg s \<Longrightarrow> bt_started s = [] \<Longrightarrow> bt_job_store s = [] \<Longrightarrow> bt_jobs s = [] \<Longrightarrow>
     bot_reachable py cfg env \<lparr> by_bot = s, by_offset = None, by_live = {} \<rparr>"
| bot_next: "bot_reachable py cfg env y \<Longrightarrow> bot_sys_step py cfg env y y' \<Longrightarrow> bot_reachable py cfg env y'"

section \<open>Jobs and threads\<close>

text \<open>The \<open>k\<close>-th job belongs to the \<open>k\<close>-th thread; a job is found under its user.\<close>

definition launch_inv :: "bot_config \<Rightarrow> bot \<Rightarrow> bool" where
  "launch_inv cfg s \<longleftrightarrow> bot_ok cfg s \<and> length (bt_started s) = length (bt_job_store s)
     \<and> (\<forall>r < length (bt_started s). started_ref s r = r \<and> target_ok cfg (started_target s r))
     \<and> (\<forall>uid r. dict_get (bt_jobs s) uid = Some r \<longrightarrow> started_user s r = uid)"

definition has_job :: "bot \<Rightarrow> nat \<Rightarrow> bool" where
  "has_job s r \<longleftrightarrow> (\<exists>uid. dict_get (bt_jobs s) uid = Some r)"

definition launch_step :: "bot_config \<Rightarrow> bot \<Rightarrow> bot \<Rightarrow> bool" where
  "launch_step cfg s s' \<longleftrightarrow> (launch_inv cfg s \<longrightarrow> launch_inv cfg s'
     \<and> length (bt_started s) \<le> length (bt_started s')
     \<and> (\<forall>r < length (bt_started s). bt_started s' ! r = bt_started s ! r)
     \<and> (\<forall>r. has_job s' r \<longleftrightarrow> has_job s r \<or> (length (bt_started s) \<le> r \<and> r < length (bt_started s'))))"

lemma launch_step_refl: "launch_step cfg s s"
  by (auto simp: launch_step_def)

lemma launch_step_trans:
  assumes "launch_step cfg s s'" and "launch_step cfg s' s''"
  shows "launch_step cfg s s''"
  using assms unfolding launch_step_def by (auto; fastforce)

lemma launch_same:
  assumes "bot_step cfg uid s s'" and "bt_started s' = bt_started s" and "bt_jobs s' = bt_jobs s"
    and "length (bt_job_store s') = length (bt_job_store s)"
  shows "launch_step cfg s s'"
  using assms
  by (auto simp: launch_step_def launch_inv_def bot_step_def has_job_def started_user_def started_target_def started_ref_def)

lemma launch_saved:
  assumes "\<And>s. bot_step cfg uid s (g s)" and "\<And>s. bt_started (g s) = bt_started s" and "\<And>s. bt_jobs (g s) = bt_jobs s"
    and "\<And>s. bt_job_store (g s) = bt_job_store s"
  shows "moves (launch_step cfg) (x_seq [x_modify g, save_settings env])"
proof (rule movesI)
  fix s
  have "bot_step cfg uid s (snd (x_seq [x_modify g, save_settings env] s))"
    using saved_step [of cfg uid g env] assms(1) by (simp only: moves_def)
  then show "launch_step cfg s (snd (x_seq [x_modify g, save_settings env] s))"
    by (rule launch_same)
      (auto simp: assms save_settings_def Let_def x_bind_def split: option.split)
qed

lemma launch_start:
  assumes "dict_get (bt_targets s) uid = Some t" and "dict_get (bt_jobs s) uid = None"
  shows "launch_step cfg s (start_job uid chat file_id suffix t s)"
proof -
  let ?s = "start_job uid chat file_id suffix t s"
  have "launch_inv cfg ?s \<and> (\<forall>r. has_job ?s r \<longleftrightarrow> has_job s r \<or> r = length (bt_started s))"
    if inv: "launch_inv cfg s"
  proof -
    have "bot_ok cfg ?s"
      using isolation.start [OF assms, of cfg chat file_id suffix] inv by (simp add: bot_step_def launch_inv_def)
    moreover have "target_ok cfg t" using inv assms(1) by (simp add: launch_inv_def bot_ok_def)
    moreover have "\<forall>v r. dict_get (bt_jobs s) v = Some r \<longrightarrow> r < length (bt_started s)"
      using inv by (auto simp: launch_inv_def bot_ok_def)
    ultimately have "launch_inv cfg ?s"
      using inv assms
      by (auto simp: launch_inv_def start_job_def Let_def started_user_def started_target_def
          started_ref_def nth_append less_Suc_eq)
    moreover have "has_job ?s r \<longleftrightarrow> has_job s r \<or> r = length (bt_started s)" for r
    proof -
      have "dict_get (bt_jobs ?s) v = (if v = uid then Some (length (bt_started s)) else dict_get (bt_jobs s) v)" for v
        using inv by (simp add: start_job_def Let_def launch_inv_def)
      then show ?thesis unfolding has_job_def using assms(2) by (metis option.distinct(1) option.inject)
    qed
    ultimately show ?thesis by blast
  qed
  moreover have "length (bt_started ?s) = Suc (length (bt_started s))"
    and "\<forall>r < length (bt_started s). bt_started ?s ! r = bt_started s ! r"
    by (simp_all add: start_job_def Let_def nth_append)
  ultimately show ?thesis unfolding launch_step_def by (intro impI conjI allI) (auto simp: less_Suc_eq)
qed

interpretation launches: bot_relation "launch_step cfg" cfg env uid for cfg env uid
proof unfold_locales
  show "launch_step cfg s s" for s by (rule launch_step_refl)
  show "launch_step cfg s s' \<Longrightarrow> launch_step cfg s' s'' \<Longrightarrow> launch_step cfg s s''" for s s' s''
    by (rule launch_step_trans)
  show "launch_step cfg s (s \<lparr> bt_calls := cs \<rparr>)" for s cs
    by (rule launch_same [OF isolation.calls]) simp_all
  show "launch_step cfg s (s \<lparr> bt_awaiting_target := a, bt_awaiting_branch := b, bt_awaiting_volume := c \<rparr>)"
    if "a - {uid} = bt_awaiting_target s - {uid}" "b - {uid} = bt_awaiting_branch s - {uid}"
      "c - {uid} = bt_awaiting_volume s - {uid}" for a b c s
    by (rule launch_same [OF isolation.awaiting [OF that]]) simp_all
  show "launch_step cfg s (cancel_job_ref r s)" if "dict_get (bt_jobs s) uid = Some r" for r s
    by (rule launch_same [OF isolation.cancel [OF that]]) (simp_all add: cancel_job_ref_def)
  show "launch_step cfg s (signal_process p s)" for p s
    by (rule launch_same [OF isolation.signal]) (simp_all add: signal_process_def)
  show "moves (launch_step cfg) (x_seq [x_modify (put_audio uid change), save_settings env])"
    if "uid \<in> set (bc_allowed_users cfg)" "\<And>a. audio_ok a \<Longrightarrow> audio_ok (change a)" for change
    by (rule launch_saved [OF put_audio_step [OF that]]) (simp_all add: put_audio_def Let_def)
  show "moves (launch_step cfg) (x_seq [x_modify (save_branch uid br), save_settings env])"
    if "uid \<in> set (bc_allowed_users cfg)" "br \<in> set (dict_keys (bc_vehicle_maps cfg))" for br
    by (rule launch_saved [OF save_branch_step [OF that]]) (simp_all add: save_branch_def)
  show "moves (launch_step cfg) (x_seq [x_modify (save_target uid t), save_settings env])"
    if "uid \<in> set (bc_allowed_users cfg)" "target_ok cfg t" for t
    by (rule launch_saved [OF save_target_step [OF that]]) (simp_all add: save_target_def)
qed (rule launch_start)

interpretation launching: update_relation "launch_step cfg" py cfg env for py cfg env
  by unfold_locales (blast intro: launches.message launches.callback)+

text \<open>A thread that ends frees its user and nobody else.\<close>

lemma fewer_jobs_ok:
  assumes "bot_ok cfg s" and "\<And>v r. dict_get js v = Some r \<Longrightarrow> dict_get (bt_jobs s) v = Some r"
  shows "bot_ok cfg (s \<lparr> bt_jobs := js \<rparr>)"
  using assms(1) unfolding bot_ok_def by (auto dest: assms(2)) (metis assms(2))

lemma end_job_inv:
  assumes "launch_inv cfg s" and "has_job s r"
  shows "launch_inv cfg (end_job (started_user s r) r s)"
    and "has_job (end_job (started_user s r) r s) r' \<longleftrightarrow> has_job s r' \<and> r' \<noteq> r"
    and "bt_started (end_job (started_user s r) r s) = bt_started s"
proof -
  from assms obtain uid where uid: "dict_get (bt_jobs s) uid = Some r" by (auto simp: has_job_def)
  with assms(1) have user: "started_user s r = uid" by (simp add: launch_inv_def)
  then have e: "end_job (started_user s r) r s = s \<lparr> bt_jobs := dict_pop (bt_jobs s) uid \<rparr>"
    using uid by (simp add: end_job_def)
  have one: "dict_get (bt_jobs s) v = Some r \<Longrightarrow> v = uid" for v
    using assms(1) uid unfolding launch_inv_def bot_ok_def by blast
  show "launch_inv cfg (end_job (started_user s r) r s)"
  proof -
    have "bot_ok cfg (s \<lparr> bt_jobs := dict_pop (bt_jobs s) uid \<rparr>)"
      using assms(1) by (intro fewer_jobs_ok) (auto simp: launch_inv_def split: if_splits)
    with assms(1) show ?thesis
      unfolding e by (simp add: launch_inv_def started_user_def started_target_def started_ref_def)
  qed
  show "has_job (end_job (started_user s r) r s) r' \<longleftrightarrow> has_job s r' \<and> r' \<noteq> r"
  proof -
    have "dict_get (dict_pop (bt_jobs s) uid) v = (if v = uid then None else dict_get (bt_jobs s) v)" for v by simp
    then have "has_job (s \<lparr> bt_jobs := dict_pop (bt_jobs s) uid \<rparr>) r'
        \<longleftrightarrow> (\<exists>v. v \<noteq> uid \<and> dict_get (bt_jobs s) v = Some r')"
      unfolding has_job_def by (simp cong: conj_cong)
    also have "\<dots> \<longleftrightarrow> has_job s r' \<and> r' \<noteq> r"
    proof
      assume "\<exists>v. v \<noteq> uid \<and> dict_get (bt_jobs s) v = Some r'"
      then show "has_job s r' \<and> r' \<noteq> r" unfolding has_job_def using one by blast
    next
      assume "has_job s r' \<and> r' \<noteq> r"
      then obtain v where v: "dict_get (bt_jobs s) v = Some r'" "r' \<noteq> r" by (auto simp: has_job_def)
      with uid have "v \<noteq> uid" by auto
      with v(1) show "\<exists>v. v \<noteq> uid \<and> dict_get (bt_jobs s) v = Some r'" by blast
    qed
    finally show ?thesis unfolding e .
  qed
  show "bt_started (end_job (started_user s r) r s) = bt_started s" by (simp add: e)
qed

lemma bot_system_invariant:
  "bot_reachable py cfg env y \<Longrightarrow> launch_inv cfg (by_bot y) \<and> by_live y = {r. has_job (by_bot y) r}"
proof (induction rule: bot_reachable.induct)
  case (bot_init s)
  then show ?case by (simp add: launch_inv_def has_job_def)
next
  case (bot_next y y')
  then have inv: "launch_inv cfg (by_bot y)" and live: "by_live y = {r. has_job (by_bot y) r}" by simp_all
  from bot_next(2) show ?case
  proof cases
    case (poll answer r offset' s')
    with launching.round [OF poll(2)] inv live show ?thesis by (auto simp: launch_step_def)
  next
    case (thread_ends r)
    with end_job_inv [OF inv, of r] live show ?thesis by auto
  qed
qed

end
