(* ===== verification/Bot_Cancel.thy ===== *)
theory Bot_Cancel
  imports Bot_Commands
begin

text \<open>
  The race between the thread of a playback and someone who stops it, at the granularity of single
  reads and writes of \<open>job.cancelled\<close> and \<open>job.process\<close>: \<open>_stop\<close> of a user, which holds the lock of
  the bot for its first two steps, and \<open>stop_all\<close> at the end of the program, which does not.
\<close>

section \<open>The step relation\<close>

datatype holder = ThreadHolds | StopperHolds

datatype thread_pc =
    TStart
  | TSpawned nat
  | TPublished nat
  | TTerminate nat
  | TWaiting nat
  | TPrepared
  | TReady
  | TLocked
  | TGo
  | TScriptSpawned nat
  | TScript nat
  | TOver

datatype stop_pc = SIdle | SLocked | SMarked | SSeen | SAlive | SGot "nat option" | SOver | SCrashed

record race =
  rc_flag :: bool
  rc_process :: "nat option"
  rc_lock :: "holder option"
  rc_thread :: thread_pc
  rc_stop :: stop_pc
  rc_running :: "nat set"
  rc_signalled :: "nat set"

definition race_start :: race where
  "race_start = \<lparr> rc_flag = False, rc_process = None, rc_lock = None, rc_thread = TStart, rc_stop = SIdle,
     rc_running = {}, rc_signalled = {} \<rparr>"

text \<open>
  Steps of the thread: \<open>_prepare_audio\<close>, the checks of \<open>cancelled\<close>, the section under the lock. At any
  point where the code may raise, the thread may be over.
\<close>

inductive thread_step :: "race \<Rightarrow> race \<Rightarrow> bool" where
  spawn_ffmpeg: "\<lbrakk> rc_thread s = TStart; p \<notin> rc_running s \<union> rc_signalled s \<rbrakk> \<Longrightarrow>
     thread_step s (s \<lparr> rc_thread := TSpawned p, rc_running := insert p (rc_running s) \<rparr>)"
| publish_ffmpeg: "rc_thread s = TSpawned p \<Longrightarrow>
     thread_step s (s \<lparr> rc_thread := TPublished p, rc_process := Some p \<rparr>)"
| look_ffmpeg: "rc_thread s = TPublished p \<Longrightarrow>
     thread_step s (s \<lparr> rc_thread := (if rc_flag s then TTerminate p else TWaiting p) \<rparr>)"
| terminate_ffmpeg: "rc_thread s = TTerminate p \<Longrightarrow>
     thread_step s (s \<lparr> rc_thread := TWaiting p, rc_signalled := insert p (rc_signalled s) \<rparr>)"
| ffmpeg_ended: "\<lbrakk> rc_thread s = TWaiting p; p \<notin> rc_running s \<rbrakk> \<Longrightarrow>
     thread_step s (s \<lparr> rc_thread := TPrepared, rc_process := None \<rparr>)"
| ffmpeg_killed: "rc_thread s = TWaiting p \<Longrightarrow>
     thread_step s (s \<lparr> rc_thread := TOver, rc_process := None, rc_running := rc_running s - {p} \<rparr>)"
| look_prepared: "rc_thread s = TPrepared \<Longrightarrow>
     thread_step s (s \<lparr> rc_thread := (if rc_flag s then TOver else TReady) \<rparr>)"
| acquire: "\<lbrakk> rc_thread s = TReady; rc_lock s = None \<rbrakk> \<Longrightarrow>
     thread_step s (s \<lparr> rc_thread := TLocked, rc_lock := Some ThreadHolds \<rparr>)"
| look_locked: "rc_thread s = TLocked \<Longrightarrow>
     thread_step s (if rc_flag s then s \<lparr> rc_thread := TOver, rc_lock := None \<rparr> else s \<lparr> rc_thread := TGo \<rparr>)"
| spawn_script: "\<lbrakk> rc_thread s = TGo; p \<notin> rc_running s \<union> rc_signalled s \<rbrakk> \<Longrightarrow>
     thread_step s (s \<lparr> rc_thread := TScriptSpawned p, rc_running := insert p (rc_running s) \<rparr>)"
| spawn_failed: "rc_thread s = TGo \<Longrightarrow> thread_step s (s \<lparr> rc_thread := TOver, rc_lock := None \<rparr>)"
| publish_script: "rc_thread s = TScriptSpawned p \<Longrightarrow>
     thread_step s (s \<lparr> rc_thread := TScript p, rc_process := Some p, rc_lock := None \<rparr>)"
| thread_over: "rc_thread s \<in> {TStart, TPrepared, TReady} \<or> (\<exists>p. rc_thread s = TScript p) \<Longrightarrow>
     thread_step s (s \<lparr> rc_thread := TOver \<rparr>)"

text \<open>\<open>_stop\<close> of a user.\<close>

inductive stop_step :: "race \<Rightarrow> race \<Rightarrow> bool" where
  stop_lock: "\<lbrakk> rc_stop s \<in> {SIdle, SOver}; rc_lock s = None \<rbrakk> \<Longrightarrow>
     stop_step s (s \<lparr> rc_stop := SLocked, rc_lock := Some StopperHolds \<rparr>)"
| stop_mark: "rc_stop s = SLocked \<Longrightarrow> stop_step s (s \<lparr> rc_stop := SMarked, rc_flag := True \<rparr>)"
| stop_read: "rc_stop s = SMarked \<Longrightarrow> stop_step s (s \<lparr> rc_stop := SGot (rc_process s), rc_lock := None \<rparr>)"
| stop_signal: "rc_stop s = SGot x \<Longrightarrow>
     stop_step s (s \<lparr> rc_stop := SOver, rc_signalled := rc_signalled s \<union> (rc_running s \<inter> set_option x) \<rparr>)"

text \<open>\<open>stop_all\<close> for one job: every mention of \<open>job.process\<close> reads it again.\<close>

inductive stop_all_step :: "race \<Rightarrow> race \<Rightarrow> bool" where
  all_mark: "rc_stop s = SIdle \<Longrightarrow> stop_all_step s (s \<lparr> rc_stop := SMarked, rc_flag := True \<rparr>)"
| all_is_none: "rc_stop s = SMarked \<Longrightarrow>
     stop_all_step s (s \<lparr> rc_stop := (if rc_process s = None then SOver else SSeen) \<rparr>)"
| all_poll: "rc_stop s = SSeen \<Longrightarrow>
     stop_all_step s (s \<lparr> rc_stop := (case rc_process s of None \<Rightarrow> SCrashed
                                     | Some p \<Rightarrow> if p \<in> rc_running s then SAlive else SOver) \<rparr>)"
| all_no_pid: "\<lbrakk> rc_stop s = SAlive; rc_process s = None \<rbrakk> \<Longrightarrow> stop_all_step s (s \<lparr> rc_stop := SCrashed \<rparr>)"
| all_kill: "\<lbrakk> rc_stop s = SAlive; rc_process s = Some p \<rbrakk> \<Longrightarrow>
     stop_all_step s (s \<lparr> rc_stop := SOver, rc_signalled := rc_signalled s \<union> (rc_running s \<inter> {p}) \<rparr>)"

text \<open>A process may end at any time. The flag says whether the stopper is \<open>stop_all\<close>.\<close>

inductive race_step :: "bool \<Rightarrow> race \<Rightarrow> race \<Rightarrow> bool" where
  by_thread: "thread_step s s' \<Longrightarrow> race_step all s s'"
| by_stop: "stop_step s s' \<Longrightarrow> race_step False s s'"
| by_stop_all: "stop_all_step s s' \<Longrightarrow> race_step True s s'"
| process_ends: "race_step all s (s \<lparr> rc_running := rc_running s - {p} \<rparr>)"

inductive race_reachable :: "bool \<Rightarrow> race \<Rightarrow> bool" where
  race_init: "race_reachable all race_start"
| race_next: "race_reachable all s \<Longrightarrow> race_step all s s' \<Longrightarrow> race_reachable all s'"

inductive_cases thread_stepE: "thread_step s s'"
inductive_cases stop_stepE: "stop_step s s'"
inductive_cases race_stepE: "race_step all s s'"

section \<open>A stop of the user is never lost\<close>

fun in_section :: "thread_pc \<Rightarrow> bool" where
  "in_section TLocked \<longleftrightarrow> True"
| "in_section TGo \<longleftrightarrow> True"
| "in_section (TScriptSpawned p) \<longleftrightarrow> True"
| "in_section _ \<longleftrightarrow> False"

text \<open>The process the thread has published, and the one it has started and not yet published.\<close>

fun published :: "thread_pc \<Rightarrow> nat option" where
  "published (TPublished p) = Some p"
| "published (TTerminate p) = Some p"
| "published (TWaiting p) = Some p"
| "published (TScript p) = Some p"
| "published _ = None"

fun unpublished :: "thread_pc \<Rightarrow> nat option" where
  "unpublished (TSpawned p) = Some p"
| "unpublished (TScriptSpawned p) = Some p"
| "unpublished _ = None"

text \<open>The process of a thread that will still look at the flag, or is about to terminate it.\<close>

fun about_to_look :: "thread_pc \<Rightarrow> nat option" where
  "about_to_look (TSpawned p) = Some p"
| "about_to_look (TPublished p) = Some p"
| "about_to_look (TTerminate p) = Some p"
| "about_to_look _ = None"

text \<open>Mutual exclusion; the stopper sets the flag inside its section.\<close>

definition lock_inv :: "race \<Rightarrow> bool" where
  "lock_inv s \<longleftrightarrow>
     (in_section (rc_thread s) \<longleftrightarrow> rc_lock s = Some ThreadHolds)
     \<and> (rc_stop s \<in> {SLocked, SMarked} \<longleftrightarrow> rc_lock s = Some StopperHolds)
     \<and> rc_stop s \<notin> {SSeen, SAlive, SCrashed}
     \<and> (rc_flag s \<longrightarrow> in_section (rc_thread s) \<longrightarrow> rc_thread s = TLocked)
     \<and> (rc_stop s \<notin> {SIdle, SLocked} \<longrightarrow> rc_flag s)"

text \<open>Every process that runs unsignalled is published, or about to be.\<close>

definition process_inv :: "race \<Rightarrow> bool" where
  "process_inv s \<longleftrightarrow>
     (rc_thread s \<noteq> TOver \<longrightarrow> rc_process s = published (rc_thread s))
     \<and> (\<forall>p \<in> rc_running s - rc_signalled s. unpublished (rc_thread s) = Some p \<or> rc_process s = Some p)"

text \<open>Once the flag is set, every process that runs unsignalled is on somebody's list.\<close>

definition stop_inv :: "race \<Rightarrow> bool" where
  "stop_inv s \<longleftrightarrow> (rc_flag s \<longrightarrow> (\<forall>p \<in> rc_running s - rc_signalled s.
     about_to_look (rc_thread s) = Some p \<or> (rc_process s = Some p \<and> rc_stop s = SMarked) \<or> rc_stop s = SGot (Some p)))"

lemma lock_inv_thread: "thread_step s s' \<Longrightarrow> lock_inv s \<Longrightarrow> lock_inv s'"
  by (erule thread_stepE) (auto simp: lock_inv_def)

lemma lock_inv_stop: "stop_step s s' \<Longrightarrow> lock_inv s \<Longrightarrow> lock_inv s'"
  by (erule stop_stepE) (auto simp: lock_inv_def)

lemma process_inv_thread:
  assumes step: "thread_step s s'" and inv: "process_inv s"
  shows "process_inv s'"
proof -
  have own: "rc_thread s \<noteq> TOver \<Longrightarrow> rc_process s = published (rc_thread s)"
    and old: "p \<in> rc_running s \<Longrightarrow> p \<notin> rc_signalled s \<Longrightarrow> unpublished (rc_thread s) = Some p \<or> rc_process s = Some p" for p
    using inv by (simp_all add: process_inv_def)
  have "unpublished (rc_thread s') = Some p \<or> rc_process s' = Some p" if "p \<in> rc_running s' - rc_signalled s'" for p
    using step by (cases rule: thread_stepE) (use that own old [of p] in \<open>auto split: if_splits\<close>)
  moreover have "rc_thread s' \<noteq> TOver \<longrightarrow> rc_process s' = published (rc_thread s')"
    using step by (cases rule: thread_stepE) (use own in \<open>auto split: if_splits\<close>)
  ultimately show ?thesis by (simp add: process_inv_def)
qed

lemma process_inv_stop: "stop_step s s' \<Longrightarrow> process_inv s \<Longrightarrow> process_inv s'"
  by (erule stop_stepE) (auto simp: process_inv_def)

lemma unpublished_cases: "unpublished pc = Some p \<Longrightarrow> in_section pc \<or> about_to_look pc = Some p"
  by (cases pc) auto

lemma stop_inv_thread:
  assumes step: "thread_step s s'" and lock: "lock_inv s" and process: "process_inv s" and stop: "stop_inv s"
  shows "stop_inv s'"
  unfolding stop_inv_def
proof (intro impI ballI)
  fix p assume flag': "rc_flag s'" and p: "p \<in> rc_running s' - rc_signalled s'"
  have flag: "rc_flag s" using step flag' by (cases rule: thread_stepE) (auto split: if_splits)
  then have pc: "in_section (rc_thread s) \<Longrightarrow> rc_thread s = TLocked" using lock by (simp add: lock_inv_def)
  have old: "p \<in> rc_running s \<Longrightarrow> p \<notin> rc_signalled s \<Longrightarrow>
      about_to_look (rc_thread s) = Some p \<or> (rc_process s = Some p \<and> rc_stop s = SMarked) \<or> rc_stop s = SGot (Some p)"
    using stop flag by (simp add: stop_inv_def)
  have own: "rc_thread s \<noteq> TOver \<Longrightarrow> rc_process s = published (rc_thread s)"
    using process by (simp add: process_inv_def)
  from step show "about_to_look (rc_thread s') = Some p \<or> (rc_process s' = Some p \<and> rc_stop s' = SMarked)
      \<or> rc_stop s' = SGot (Some p)"
    by (cases rule: thread_stepE) (use p flag pc old own in \<open>auto split: if_splits\<close>)
qed

lemma stop_inv_stop:
  assumes step: "stop_step s s'" and lock: "lock_inv s" and process: "process_inv s" and stop: "stop_inv s"
  shows "stop_inv s'"
  unfolding stop_inv_def
proof (intro impI ballI)
  fix p assume flag': "rc_flag s'" and p: "p \<in> rc_running s' - rc_signalled s'"
  have old: "rc_flag s \<Longrightarrow> p \<in> rc_running s \<Longrightarrow> p \<notin> rc_signalled s \<Longrightarrow>
      about_to_look (rc_thread s) = Some p \<or> (rc_process s = Some p \<and> rc_stop s = SMarked) \<or> rc_stop s = SGot (Some p)"
    using stop by (simp add: stop_inv_def)
  have own: "p \<in> rc_running s \<Longrightarrow> p \<notin> rc_signalled s \<Longrightarrow> unpublished (rc_thread s) = Some p \<or> rc_process s = Some p"
    using process by (simp add: process_inv_def)
  have excl: "rc_stop s = SLocked \<Longrightarrow> \<not> in_section (rc_thread s)" "rc_stop s \<notin> {SIdle, SLocked} \<Longrightarrow> rc_flag s"
    using lock by (auto simp: lock_inv_def)
  from step show "about_to_look (rc_thread s') = Some p \<or> (rc_process s' = Some p \<and> rc_stop s' = SMarked)
      \<or> rc_stop s' = SGot (Some p)"
    by (cases rule: stop_stepE) (use p flag' old own excl unpublished_cases [of "rc_thread s" p] in auto)
qed

lemma invs_end:
  "lock_inv s \<Longrightarrow> lock_inv (s \<lparr> rc_running := R \<rparr>)"
  "process_inv s \<Longrightarrow> process_inv (s \<lparr> rc_running := rc_running s - {p} \<rparr>)"
  "stop_inv s \<Longrightarrow> stop_inv (s \<lparr> rc_running := rc_running s - {p} \<rparr>)"
  by (auto simp: lock_inv_def process_inv_def stop_inv_def)

lemma race_invariant: "race_reachable all s \<Longrightarrow> \<not> all \<Longrightarrow> lock_inv s \<and> process_inv s \<and> stop_inv s"
proof (induction rule: race_reachable.induct)
  case (race_init all)
  show ?case by (simp add: lock_inv_def process_inv_def stop_inv_def race_start_def)
next
  case (race_next all s s')
  then have inv: "lock_inv s" "process_inv s" "stop_inv s" by simp_all
  from race_next(2) show ?case
  proof cases
    case by_thread
    with inv show ?thesis by (blast intro: lock_inv_thread process_inv_thread stop_inv_thread)
  next
    case by_stop
    with inv show ?thesis by (blast intro: lock_inv_stop process_inv_stop stop_inv_stop)
  next
    case by_stop_all
    with race_next show ?thesis by simp
  next
    case (process_ends p)
    with inv show ?thesis by (simp add: invs_end)
  qed
qed

text \<open>
  After \<open>_stop\<close>, every process of the job that runs has been signalled or will be terminated by the
  thread itself, the script is not going to be started, and the flag stays.
\<close>

lemma stop_reaches_every_process:
  assumes "race_reachable False s" and "rc_stop s = SOver" and "p \<in> rc_running s" "p \<notin> rc_signalled s"
  shows "rc_thread s \<in> {TSpawned p, TPublished p, TTerminate p}"
  using race_invariant [OF assms(1)] assms(2-)
  by (cases "rc_thread s") (auto simp: lock_inv_def stop_inv_def)

lemma no_script_after_stop:
  assumes "race_reachable False s" and "rc_flag s" and "race_step False s s'"
  shows "rc_thread s' = TScriptSpawned p \<Longrightarrow> False" and "rc_flag s'"
  using assms(3) race_invariant [OF assms(1)] assms(2)
  by (auto simp: lock_inv_def elim!: race_stepE thread_stepE stop_stepE split: if_splits)

section \<open>The end of the program can miss the script\<close>

text \<open>
  \<open>stop_all\<close> does not hold the lock: between the last look of the thread at the flag and the
  publication of the script's process it finds nothing to signal; and since it reads \<open>job.process\<close> up to
  three times, the thread can take it away in between.
\<close>

abbreviation race_at :: "bool \<Rightarrow> nat option \<Rightarrow> holder option \<Rightarrow> thread_pc \<Rightarrow> stop_pc \<Rightarrow> nat set \<Rightarrow> race" where
  "race_at flag process lock pc stop running \<equiv> \<lparr> rc_flag = flag, rc_process = process, rc_lock = lock,
     rc_thread = pc, rc_stop = stop, rc_running = running, rc_signalled = {} \<rparr>"

lemmas race_thread = race_next [OF _ by_thread]
lemmas race_stop_all = race_next [OF _ by_stop_all]

lemma race_waiting: "race_reachable True (race_at False (Some 0) None (TWaiting 0) SIdle {0})"
proof -
  have "race_reachable True (race_at False None None (TSpawned 0) SIdle {0})"
    using race_thread [OF race_init spawn_ffmpeg [of _ 0]] by (simp add: race_start_def)
  from race_thread [OF this publish_ffmpeg]
  have "race_reachable True (race_at False (Some 0) None (TPublished 0) SIdle {0})" by simp
  from race_thread [OF this look_ffmpeg] show ?thesis by simp
qed

lemma race_go: "race_reachable True (race_at False None (Some ThreadHolds) TGo SIdle {})"
proof -
  from race_next [OF race_waiting process_ends [of _ _ 0]]
  have "race_reachable True (race_at False (Some 0) None (TWaiting 0) SIdle {})" by simp
  from race_thread [OF this ffmpeg_ended] have "race_reachable True (race_at False None None TPrepared SIdle {})" by simp
  from race_thread [OF this look_prepared] have "race_reachable True (race_at False None None TReady SIdle {})" by simp
  from race_thread [OF this acquire]
  have "race_reachable True (race_at False None (Some ThreadHolds) TLocked SIdle {})" by simp
  from race_thread [OF this look_locked] show ?thesis by simp
qed

lemma stop_all_misses: "race_reachable True (race_at True (Some 1) None (TScript 1) SOver {1})"
proof -
  from race_stop_all [OF race_go all_mark]
  have "race_reachable True (race_at True None (Some ThreadHolds) TGo SMarked {})" by simp
  from race_stop_all [OF this all_is_none]
  have "race_reachable True (race_at True None (Some ThreadHolds) TGo SOver {})" by simp
  from race_thread [OF this spawn_script [of _ 1]]
  have "race_reachable True (race_at True None (Some ThreadHolds) (TScriptSpawned 1) SOver {1})" by simp
  from race_thread [OF this publish_script] show ?thesis by simp
qed

lemma stop_all_crashes: "race_reachable True (race_at True None None TPrepared SCrashed {})"
proof -
  from race_stop_all [OF race_waiting all_mark]
  have "race_reachable True (race_at True (Some 0) None (TWaiting 0) SMarked {0})" by simp
  from race_stop_all [OF this all_is_none]
  have "race_reachable True (race_at True (Some 0) None (TWaiting 0) SSeen {0})" by simp
  from race_next [OF this process_ends [of _ _ 0]]
  have "race_reachable True (race_at True (Some 0) None (TWaiting 0) SSeen {})" by simp
  from race_thread [OF this ffmpeg_ended]
  have "race_reachable True (race_at True None None TPrepared SSeen {})" by simp
  from race_stop_all [OF this all_poll] show ?thesis by simp
qed

end
