(* ===== verification/Bot_Playback.thy ===== *)
theory Bot_Playback
  imports Bot_Commands Domain_Models
begin

text \<open>
  The thread of a playback (\<open>_play\<close>): download, preparation with ffmpeg, check of the vehicle
  through the worker, and the playback script. The thread shares \<open>job.cancelled\<close> with the bot: what
  it reads there, and what everything outside answers, is given by the environment at the time of
  the question, so that one environment stands for every interleaving with the bot.
\<close>

section \<open>The thread\<close>

datatype play_event =
    PCall api_call
  | PGetFile ustr
  | PSpawn nat "ustr list"
  | PPublish "nat option"
  | PTerminate nat
  | PKill nat
  | PWait nat
  | PWorker ustr ustr ustr "json option"
  | PSleep
  | PUnlink ustr
  | PEndJob

record play_state =
  pl_events :: "play_event list"
  pl_files :: "(ustr, nat list) dict"
  pl_time :: nat

definition play_start :: play_state where
  "play_start = \<lparr> pl_events = [], pl_files = [], pl_time = 0 \<rparr>"

datatype worker_reply = WorkerBody ustr | WorkerStatus int ustr | WorkerFails exn

record play_env =
  pe_cancelled :: "nat \<Rightarrow> bool"
  pe_uuid :: "nat \<Rightarrow> ustr"
  pe_api :: "nat \<Rightarrow> api_failure option"
  pe_get_file :: "nat \<Rightarrow> api_failure + json"
  pe_content :: "nat \<Rightarrow> (nat list list \<times> exn option) res"
  pe_spawn :: "nat \<Rightarrow> nat res"
  pe_prepared :: "nat \<Rightarrow> nat list option"
  pe_wait :: "nat \<Rightarrow> int option"
  pe_lines :: "nat \<Rightarrow> ustr list \<times> exn option"
  pe_exit :: "nat \<Rightarrow> int"
  pe_worker :: "nat \<Rightarrow> worker_reply"
  pe_clock :: "nat \<Rightarrow> rat"
  pe_unlink :: "nat \<Rightarrow> exn option"

type_synonym 'a play = "(play_state, 'a) st"

text \<open>A question to the environment takes time; an event is recorded.\<close>

definition x_ask :: "(nat \<Rightarrow> 'a) \<Rightarrow> 'a play" where
  "x_ask f s = (Inr (f (pl_time s)), s \<lparr> pl_time := Suc (pl_time s) \<rparr>)"

definition x_log :: "play_event \<Rightarrow> unit play" where
  "x_log e = x_modify (\<lambda>s. s \<lparr> pl_events := pl_events s @ [e] \<rparr>)"

definition x_raise_opt :: "exn option \<Rightarrow> unit play" where
  "x_raise_opt x = (case x of None \<Rightarrow> x_return () | Some e \<Rightarrow> x_raise e)"

definition x_put_file :: "ustr \<Rightarrow> nat list \<Rightarrow> unit play" where
  "x_put_file path content = x_modify (\<lambda>s. s \<lparr> pl_files := dict_set (pl_files s) path content \<rparr>)"

text \<open>\<open>self.api.send_message(job.chat_id, text)\<close>.\<close>

definition say :: "pylib \<Rightarrow> play_env \<Rightarrow> int \<Rightarrow> ustr \<Rightarrow> unit play" where
  "say py env chat txt =
     x_bind (x_log (PCall (SendMessage chat txt KEYBOARD))) (\<lambda>_.
     x_bind (x_ask (pe_api env)) (\<lambda>f. x_raise_opt (map_option (api_exn py) f)))"

definition cancelled :: "play_env \<Rightarrow> bool play" where
  "cancelled env = x_ask (pe_cancelled env)"

text \<open>\<open>subprocess.Popen(command, ...)\<close>: the process, or an OSError.\<close>

definition spawn :: "play_env \<Rightarrow> ustr list \<Rightarrow> nat play" where
  "spawn env command =
     x_bind (x_ask (\<lambda>k. (k, pe_spawn env k))) (\<lambda>(k, r).
     x_bind (x_lift r) (\<lambda>pid. x_bind (x_log (PSpawn k command)) (\<lambda>_. x_return pid)))"

section \<open>Download\<close>

text \<open>\<open>TelegramApi.call\<close>, what it makes of the answer.\<close>

definition api_result :: "pylib \<Rightarrow> ustr \<Rightarrow> json \<Rightarrow> json res" where
  "api_result py method payload =
     (case payload of
        JDict d \<Rightarrow>
          if truthy (jget d (u ''ok'')) then item py d (u ''result'')
          else Inl (Builtin B_RuntimeError (u ''Telegram API '' @ method @ u '' failed: '' @ py_str py payload))
      | _ \<Rightarrow> Inl (builtin py B_AttributeError))"

text \<open>The copying loop: the chunks written, and whether the limit was passed.\<close>

fun copy_chunks :: "int \<Rightarrow> nat list list \<Rightarrow> nat list \<times> bool" where
  "copy_chunks n [] = ([], False)"
| "copy_chunks n (chunk # chunks) =
     (let n' = n + int (length chunk)
      in if n' > MAX_AUDIO_BYTES then ([], True)
         else case copy_chunks n' chunks of (out, big) \<Rightarrow> (chunk @ out, big))"

definition too_big :: exn where
  "too_big = Builtin B_RuntimeError msg_bot_too_big"

definition download :: "pylib \<Rightarrow> play_env \<Rightarrow> ustr \<Rightarrow> ustr \<Rightarrow> unit play" where
  "download py env file_id dest =
     x_bind (x_log (PGetFile file_id)) (\<lambda>_.
     x_bind (x_ask (pe_get_file env)) (\<lambda>r.
     x_bind (x_lift (case r of Inl f \<Rightarrow> Inl (api_exn py f) | Inr j \<Rightarrow> api_result py (u ''getFile'') j)) (\<lambda>info.
     case info of
       JDict d \<Rightarrow>
         x_bind (x_lift (py_int py (py_or (jget d (u ''file_size'')) (JInt 0)))) (\<lambda>size.
         x_bind (x_raise_if (size > MAX_AUDIO_BYTES) too_big) (\<lambda>_.
         x_bind (x_lift (item py d (u ''file_path''))) (\<lambda>_.
         x_bind (x_ask (pe_content env)) (\<lambda>c.
         x_bind (x_lift c) (\<lambda>(chunks, broken).
         x_bind (x_put_file dest (fst (copy_chunks 0 chunks))) (\<lambda>_.
         x_bind (x_raise_if (snd (copy_chunks 0 chunks)) too_big) (\<lambda>_.
         x_raise_opt broken)))))))
     | _ \<Rightarrow> x_raise (builtin py B_AttributeError))))"

section \<open>Preparation\<close>

definition ffmpeg_command :: "ustr \<Rightarrow> ustr \<Rightarrow> ustr list" where
  "ffmpeg_command source dest =
     [u ''ffmpeg'', u ''-nostdin'', u ''-hide_banner'', u ''-loglevel'', u ''error'', u ''-xerror'',
      u ''-protocol_whitelist'', u ''file,pipe'', u ''-i'', source, u ''-map'', u ''0:a:0'',
      u ''-vn'', u ''-map_metadata'', u ''-1'', u ''-ac'', u ''2'', u ''-ar'', u ''48000'',
      u ''-c:a'', u ''libmp3lame'', u ''-b:a'', u ''192k'', u ''-y'', dest]"

definition await_ffmpeg :: "play_env \<Rightarrow> nat \<Rightarrow> unit play" where
  "await_ffmpeg env pid =
     x_bind (cancelled env) (\<lambda>c.
     x_bind (if c then x_log (PTerminate pid) else x_return ()) (\<lambda>_.
     x_bind (x_log (PWait pid)) (\<lambda>_.
     x_bind (x_ask (pe_wait env)) (\<lambda>r.
     case r of
       None \<Rightarrow> x_seq [x_log (PKill pid), x_log (PWait pid), x_raise (Builtin B_RuntimeError msg_bot_prepare_slow)]
     | Some code \<Rightarrow>
         if code \<noteq> 0
         then x_bind (cancelled env) (\<lambda>c'. x_raise_if (\<not> c') (Builtin B_RuntimeError msg_bot_prepare_failed))
         else x_return ()))))"

text \<open>\<open>_prepare_audio\<close>; ffmpeg may have written its output, or not.\<close>

definition prepare_audio :: "play_env \<Rightarrow> ustr \<Rightarrow> ustr \<Rightarrow> unit play" where
  "prepare_audio env source dest =
     x_bind (spawn env (ffmpeg_command source dest)) (\<lambda>pid.
     x_bind (x_log (PPublish (Some pid))) (\<lambda>_.
     x_bind (x_ask (pe_prepared env)) (\<lambda>c.
     x_bind (case c of None \<Rightarrow> x_return () | Some content \<Rightarrow> x_put_file dest content) (\<lambda>_.
     x_finally (await_ffmpeg env pid) (x_log (PPublish None))))))"

section \<open>The check of the vehicle\<close>

definition TERMINAL_TASK_STATES :: "ustr list" where
  "TERMINAL_TASK_STATES = [u ''finished'', u ''failed'', u ''timeout'']"

text \<open>\<open>_worker_request\<close>: an HTTP error becomes a RuntimeError with the body of the answer.\<close>

definition worker_request :: "pylib \<Rightarrow> play_env \<Rightarrow> ustr \<Rightarrow> ustr \<Rightarrow> ustr \<Rightarrow> json option \<Rightarrow> json play" where
  "worker_request py env http_method path request_id payload =
     x_bind (x_log (PWorker http_method path request_id payload)) (\<lambda>_.
     x_bind (x_ask (pe_worker env)) (\<lambda>r.
     case r of
       WorkerBody body \<Rightarrow> x_lift (py_json_loads py body)
     | WorkerStatus code details \<Rightarrow>
         x_raise (Builtin B_RuntimeError (u ''worker HTTP '' @ str_of_int code @ u '': '' @ details))
     | WorkerFails e \<Rightarrow> x_raise e))"

definition check_payload :: "ustr \<Rightarrow> int \<Rightarrow> ustr \<Rightarrow> ustr \<Rightarrow> jdict" where
  "check_payload request_id uid number ip =
     [(u ''request_id'', JStr request_id),
      (u ''telegram_user_id'', JInt uid),
      (u ''user_role'', JStr (u ''engineer'')),
      (u ''vehicle'', JDict [(u ''number'', JStr number), (u ''ip'', JStr ip)]),
      (u ''vpn'', JDict [(u ''mode'', JStr (u ''container_secret''))]),
      (u ''operation'', JStr (u ''vehicle_reachability'')),
      (u ''params'', JDict []),
      (u ''runner_mode'', JStr (u ''container_namespace'')),
      (u ''timeout_sec'', JInt 90)]"

text \<open>What one status answer says: nothing yet, success (\<open>None\<close>), or the error and its message.\<close>

definition status_verdict :: "pylib \<Rightarrow> jdict \<Rightarrow> (ustr \<times> ustr) option option" where
  "status_verdict py status =
     (let state = py_str py (jget status (u ''state''))
      in if state = u ''finished'' then Some None
         else if state \<in> set TERMINAL_TASK_STATES then
           Some (Some (py_str py (py_or (jget status (u ''error_code'')) (JStr state)),
                       py_str py (py_or (py_or (jget status (u ''message'')) (jget status (u ''phase_message''))) (JStr state))))
         else None)"

text \<open>One pass of the polling loop: \<open>None\<close> to go on.\<close>

definition poll_round :: "pylib \<Rightarrow> play_env \<Rightarrow> ustr \<Rightarrow> ustr \<Rightarrow> rat \<Rightarrow> (ustr \<times> ustr) option option play" where
  "poll_round py env task_id request_id deadline =
     x_bind (x_ask (pe_clock env)) (\<lambda>now.
     if now < deadline then
       x_bind (worker_request py env (u ''GET'') (u ''/tasks/'' @ task_id) request_id None) (\<lambda>status.
       case status of
         JDict d \<Rightarrow>
           (case status_verdict py d of
              Some v \<Rightarrow> x_return (Some v)
            | None \<Rightarrow> x_bind (x_log PSleep) (\<lambda>_. x_return None))
       | _ \<Rightarrow> x_raise (builtin py B_AttributeError))
     else x_raise (Builtin B_RuntimeError msg_bot_check_timeout))"

partial_function (option) poll_task :: "pylib \<Rightarrow> play_env \<Rightarrow> ustr \<Rightarrow> ustr \<Rightarrow> rat \<Rightarrow> play_state
    \<Rightarrow> ((ustr \<times> ustr) option res \<times> play_state) option" where
  "poll_task py env task_id request_id deadline s =
     (case fst (poll_round py env task_id request_id deadline s) of
        Inl e \<Rightarrow> Some (Inl e, snd (poll_round py env task_id request_id deadline s))
      | Inr (Some v) \<Rightarrow> Some (Inr v, snd (poll_round py env task_id request_id deadline s))
      | Inr None \<Rightarrow> poll_task py env task_id request_id deadline (snd (poll_round py env task_id request_id deadline s)))"

text \<open>\<open>_check_vehicle_once\<close>: creation of the task, then the loop until the deadline.\<close>

definition create_check :: "pylib \<Rightarrow> play_env \<Rightarrow> int \<Rightarrow> ustr \<Rightarrow> ustr \<Rightarrow> (ustr \<times> ustr \<times> rat) play" where
  "create_check py env uid number ip =
     x_bind (x_ask (pe_uuid env)) (\<lambda>uuid.
     let request_id = u ''audio-'' @ uuid
     in x_bind (worker_request py env (u ''POST'') (u ''/tasks'') request_id
          (Some (JDict (check_payload request_id uid number ip)))) (\<lambda>task.
        case task of
          JDict d \<Rightarrow>
            x_bind (x_lift (item py d (u ''task_id''))) (\<lambda>v.
            x_bind (x_ask (pe_clock env)) (\<lambda>now. x_return (request_id, py_str py v, now + 95)))
        | _ \<Rightarrow> x_raise (builtin py B_TypeError)))"

definition check_vehicle_once :: "pylib \<Rightarrow> play_env \<Rightarrow> int \<Rightarrow> ustr \<Rightarrow> ustr \<Rightarrow> play_state
    \<Rightarrow> ((ustr \<times> ustr) option res \<times> play_state) option" where
  "check_vehicle_once py env uid number ip s =
     (case create_check py env uid number ip s of
        (Inl e, s') \<Rightarrow> Some (Inl e, s')
      | (Inr (request_id, task_id, deadline), s') \<Rightarrow> poll_task py env task_id request_id deadline s')"

text \<open>\<open>_ensure_vehicle_ready\<close>: attempts \<open>attempt\<close> to \<open>attempts\<close>.\<close>

fun vehicle_attempts :: "pylib \<Rightarrow> play_env \<Rightarrow> int \<Rightarrow> ustr \<Rightarrow> ustr \<Rightarrow> nat \<Rightarrow> play_state
    \<Rightarrow> (unit res \<times> play_state) option" where
  "vehicle_attempts py env uid number ip 0 s = Some (Inr (), s)"
| "vehicle_attempts py env uid number ip (Suc k) s =
     (case check_vehicle_once py env uid number ip s of
        None \<Rightarrow> None
      | Some (Inl e, s') \<Rightarrow> Some (Inl e, s')
      | Some (Inr None, s') \<Rightarrow> Some (Inr (), s')
      | Some (Inr (Some (error_code, message)), s') \<Rightarrow>
          if error_code \<noteq> u ''vehicle_unreachable'' \<or> k = 0
          then Some (Inl (Builtin B_RuntimeError message), s')
          else vehicle_attempts py env uid number ip k (s' \<lparr> pl_events := pl_events s' @ [PSleep] \<rparr>))"

definition ensure_vehicle_ready :: "pylib \<Rightarrow> play_env \<Rightarrow> int \<Rightarrow> ustr \<Rightarrow> ustr \<Rightarrow> play_state
    \<Rightarrow> (unit res \<times> play_state) option" where
  "ensure_vehicle_ready py env uid number ip s = vehicle_attempts py env uid number ip 3 s"

section \<open>The playback script\<close>

definition script_command :: "bot_config \<Rightarrow> target \<Rightarrow> ustr \<Rightarrow> ustr list" where
  "script_command cfg t prepared =
     [bc_audio_script cfg, tg_ip t, prepared, str_of_int (tg_volume t), tg_output t]"

text \<open>What the bot says about one line of the script's output, and whether that announces the start.\<close>

definition line_message :: "target \<Rightarrow> bool \<Rightarrow> ustr \<Rightarrow> ustr option \<times> bool" where
  "line_message t announced line =
     (if py_startswith line (u ''TRANSFER_WAIT '') then
        (case marker_int line (u ''seconds'') of
           Some n \<Rightarrow> (if n \<noteq> 0 then Some (msg_bot_still_sending @ str_of_int n @ msg_bot_still_sending_sec) else None, announced)
         | None \<Rightarrow> (None, announced))
      else if py_startswith line (u ''TRANSFER_RETRY '') then (Some msg_bot_retrying, announced)
      else if py_startswith line (u ''TRANSFER_COMPLETE '') then (Some msg_bot_sent, announced)
      else if \<not> announced \<and> py_startswith line (u ''Playback started:'') then
        (Some (msg_bot_started @ tg_number t @ u '' ('' @ tg_ip t @ u ''): '' @ tg_output t @ u '', ''
               @ str_of_int (tg_volume t) @ msg_bot_to_stop), True)
      else (None, announced))"

text \<open>\<open>(output + line)[-4000:]\<close>, line by line.\<close>

definition keep_tail :: "ustr \<Rightarrow> ustr \<Rightarrow> ustr" where
  "keep_tail out line = drop (length (out @ line) - 4000) (out @ line)"

fun watch_lines :: "pylib \<Rightarrow> play_env \<Rightarrow> int \<Rightarrow> target \<Rightarrow> ustr list \<Rightarrow> ustr \<Rightarrow> bool \<Rightarrow> ustr play" where
  "watch_lines py env chat t [] out announced = x_return out"
| "watch_lines py env chat t (line # rest) out announced =
     (case line_message t announced line of
        (msg, announced') \<Rightarrow>
          x_bind (case msg of Some m \<Rightarrow> say py env chat m | None \<Rightarrow> x_return ()) (\<lambda>_.
          watch_lines py env chat t rest (keep_tail out line) announced'))"

definition final_message :: "int \<Rightarrow> bool \<Rightarrow> ustr \<Rightarrow> ustr" where
  "final_message code was_cancelled out =
     (if code = 0 then msg_bot_done
      else if was_cancelled \<or> code \<in> {130, - 2} then msg_bot_stopped
      else playback_error_message code out)"

text \<open>From the start of the script to its end.\<close>

definition follow_script :: "pylib \<Rightarrow> play_env \<Rightarrow> int \<Rightarrow> target \<Rightarrow> nat \<Rightarrow> unit play" where
  "follow_script py env chat t pid =
     x_bind (x_ask (pe_lines env)) (\<lambda>(lines, broken).
     x_bind (watch_lines py env chat t lines [] False) (\<lambda>out.
     x_bind (x_raise_opt broken) (\<lambda>_.
     x_bind (x_log (PWait pid)) (\<lambda>_.
     x_bind (x_ask (pe_exit env)) (\<lambda>code.
     x_bind (if code = 0 then x_return False else cancelled env) (\<lambda>c.
     say py env chat (final_message code c out)))))))"

text \<open>The section under the lock: the last look at \<open>cancelled\<close>, the start of the script.\<close>

definition start_script :: "pylib \<Rightarrow> bot_config \<Rightarrow> play_env \<Rightarrow> int \<Rightarrow> target \<Rightarrow> ustr \<Rightarrow> nat option play" where
  "start_script py cfg env chat t prepared =
     x_bind (cancelled env) (\<lambda>c.
     if c then x_bind (say py env chat msg_bot_cancelled) (\<lambda>_. x_return None)
     else
       x_bind (spawn env (script_command cfg t prepared)) (\<lambda>pid.
       x_bind (x_log (PPublish (Some pid))) (\<lambda>_. x_return (Some pid))))"

section \<open>The whole thread\<close>

text \<open>The return after a cancelled job is \<open>Inr False\<close>, going on is \<open>Inr True\<close>.\<close>

definition go_on :: "pylib \<Rightarrow> play_env \<Rightarrow> int \<Rightarrow> bool play" where
  "go_on py env chat =
     x_bind (cancelled env) (\<lambda>c.
     if c then x_bind (say py env chat msg_bot_cancelled) (\<lambda>_. x_return False) else x_return True)"

definition play_before :: "pylib \<Rightarrow> play_env \<Rightarrow> int \<Rightarrow> ustr \<Rightarrow> ustr \<Rightarrow> ustr \<Rightarrow> bool play" where
  "play_before py env chat file_id local_file prepared_file =
     x_bind (say py env chat msg_bot_downloading) (\<lambda>_.
     x_bind (download py env file_id local_file) (\<lambda>_.
     x_bind (go_on py env chat) (\<lambda>b1.
     if \<not> b1 then x_return False
     else
       x_bind (say py env chat msg_bot_preparing) (\<lambda>_.
       x_bind (prepare_audio env local_file prepared_file) (\<lambda>_.
       x_bind (go_on py env chat) (\<lambda>b2.
       if \<not> b2 then x_return False
       else x_bind (say py env chat msg_bot_checking) (\<lambda>_. x_return True)))))))"

definition play_after :: "pylib \<Rightarrow> bot_config \<Rightarrow> play_env \<Rightarrow> int \<Rightarrow> target \<Rightarrow> ustr \<Rightarrow> unit play" where
  "play_after py cfg env chat t prepared_file =
     x_bind (go_on py env chat) (\<lambda>b.
     if \<not> b then x_return ()
     else
       x_bind (say py env chat (msg_bot_sending @ tg_number t @ u '' ('' @ tg_ip t @ msg_bot_after_upload)) (\<lambda>_.
       x_bind (start_script py cfg env chat t prepared_file) (\<lambda>p.
       case p of None \<Rightarrow> x_return () | Some pid \<Rightarrow> follow_script py env chat t pid)))"

text \<open>The body of the \<open>try\<close>; the check in the middle may not return.\<close>

definition play_body :: "pylib \<Rightarrow> bot_config \<Rightarrow> play_env \<Rightarrow> int \<Rightarrow> int \<Rightarrow> ustr \<Rightarrow> target \<Rightarrow> ustr \<Rightarrow> ustr
    \<Rightarrow> play_state \<Rightarrow> (unit res \<times> play_state) option" where
  "play_body py cfg env uid chat file_id t local_file prepared_file s =
     (case play_before py env chat file_id local_file prepared_file s of
        (Inl e, s1) \<Rightarrow> Some (Inl e, s1)
      | (Inr False, s1) \<Rightarrow> Some (Inr (), s1)
      | (Inr True, s1) \<Rightarrow>
          (case ensure_vehicle_ready py env uid (tg_number t) (tg_ip t) s1 of
             None \<Rightarrow> None
           | Some (Inl e, s2) \<Rightarrow> Some (Inl e, s2)
           | Some (Inr _, s2) \<Rightarrow> Some (play_after py cfg env chat t prepared_file s2)))"

definition unlink :: "play_env \<Rightarrow> ustr \<Rightarrow> unit play" where
  "unlink env path =
     x_bind (x_log (PUnlink path)) (\<lambda>_.
     x_bind (x_ask (pe_unlink env)) (\<lambda>x.
     x_bind (x_raise_opt x) (\<lambda>_.
     x_modify (\<lambda>s. s \<lparr> pl_files := dict_pop (pl_files s) path \<rparr>))))"

text \<open>The \<open>except\<close> and the \<open>finally\<close> of the thread; \<open>PEndJob\<close> is the removal of the job.\<close>

definition play_end :: "pylib \<Rightarrow> play_env \<Rightarrow> int \<Rightarrow> ustr \<Rightarrow> ustr \<Rightarrow> unit res \<Rightarrow> unit play" where
  "play_end py env chat local_file prepared_file r =
     x_finally
       (case r of Inl e \<Rightarrow> say py env chat (msg_bot_error_is @ exn_str e) | Inr _ \<Rightarrow> x_return ())
       (x_seq [unlink env local_file, unlink env prepared_file, x_log PEndJob])"

text \<open>\<open>dir / name\<close> for a normalised path and a name without a slash.\<close>

definition path_join :: "ustr \<Rightarrow> ustr \<Rightarrow> ustr" where
  "path_join dir name =
     (if dir = [46] then name else if py_endswith dir [47] then dir @ name else dir @ [47] @ name)"

definition play :: "pylib \<Rightarrow> bot_config \<Rightarrow> play_env \<Rightarrow> int \<Rightarrow> int \<Rightarrow> ustr \<Rightarrow> ustr \<Rightarrow> target \<Rightarrow> play_state
    \<Rightarrow> (unit res \<times> play_state) option" where
  "play py cfg env uid chat file_id suffix t s =
     (let local_file = path_join (bc_temp_dir cfg) (pe_uuid env (pl_time s) @ suffix);
          prepared_file = path_join (bc_temp_dir cfg) (pe_uuid env (Suc (pl_time s)) @ u ''.mp3'')
      in case play_body py cfg env uid chat file_id t local_file prepared_file
             (s \<lparr> pl_time := Suc (Suc (pl_time s)) \<rparr>) of
           None \<Rightarrow> None
         | Some (r, s1) \<Rightarrow> Some (play_end py env chat local_file prepared_file r s1))"

end
