(* ===== verification/Bot_Playback_Laws.thy ===== *)
theory Bot_Playback_Laws
  imports Bot_Playback
begin

text \<open>
  Laws of the playback thread: what it does outside, that it tidies up, that a cancelled job never
  starts the script, and that the check of the vehicle ends.
\<close>

section \<open>What the thread may do\<close>

text \<open>A job that was cancelled stays cancelled.\<close>

definition sticky :: "play_env \<Rightarrow> bool" where
  "sticky env \<longleftrightarrow> (\<forall>j k. j \<le> k \<longrightarrow> pe_cancelled env j \<longrightarrow> pe_cancelled env k)"

text \<open>
  The events of one thread: it talks to its chat, runs ffmpeg on its two files, starts the script
  for its target only while the job is not cancelled, asks the worker about its vehicle, and
  removes its own files. \<open>script\<close> says whether the script may be started.
\<close>

fun own_event :: "bot_config \<Rightarrow> play_env \<Rightarrow> int \<Rightarrow> int \<Rightarrow> target \<Rightarrow> ustr \<Rightarrow> ustr \<Rightarrow> bool \<Rightarrow> play_event \<Rightarrow> bool" where
  "own_event cfg env uid chat t a b script (PCall c) \<longleftrightarrow> (\<exists>txt. c = SendMessage chat txt KEYBOARD)"
| "own_event cfg env uid chat t a b script (PSpawn k command) \<longleftrightarrow>
     command = ffmpeg_command a b
     \<or> script \<and> command = script_command cfg t b \<and> (sticky env \<longrightarrow> (\<forall>j < k. \<not> pe_cancelled env j))"
| "own_event cfg env uid chat t a b script (PWorker http_method path request_id payload) \<longleftrightarrow>
     http_method = u ''POST'' \<and> path = u ''/tasks''
       \<and> payload = Some (JDict (check_payload request_id uid (tg_number t) (tg_ip t)))
     \<or> http_method = u ''GET'' \<and> py_startswith path (u ''/tasks/'') \<and> payload = None"
| "own_event cfg env uid chat t a b script (PUnlink path) \<longleftrightarrow> path \<in> {a, b}"
| "own_event cfg env uid chat t a b script _ \<longleftrightarrow> True"

definition play_step :: "(play_event \<Rightarrow> bool) \<Rightarrow> ustr set \<Rightarrow> play_state \<Rightarrow> play_state \<Rightarrow> bool" where
  "play_step Q F s s' \<longleftrightarrow> pl_time s \<le> pl_time s'
     \<and> (\<exists>es. pl_events s' = pl_events s @ es \<and> (\<forall>e \<in> set es. Q e)
          \<and> (\<forall>k c. PSpawn k c \<in> set es \<longrightarrow> pl_time s \<le> k \<and> k < pl_time s'))
     \<and> (\<forall>p. p \<notin> F \<longrightarrow> dict_get (pl_files s') p = dict_get (pl_files s) p)"

lemma play_step_trans:
  assumes "play_step Q F s s'" and "play_step Q F s' s''"
  shows "play_step Q F s s''"
proof -
  from assms obtain es es' where "pl_events s' = pl_events s @ es" "\<forall>e \<in> set es. Q e"
    "\<forall>k c. PSpawn k c \<in> set es \<longrightarrow> pl_time s \<le> k \<and> k < pl_time s'"
    "pl_events s'' = pl_events s' @ es'" "\<forall>e \<in> set es'. Q e"
    "\<forall>k c. PSpawn k c \<in> set es' \<longrightarrow> pl_time s' \<le> k \<and> k < pl_time s''" by (auto simp: play_step_def)
  with assms have "pl_events s'' = pl_events s @ (es @ es') \<and> (\<forall>e \<in> set (es @ es'). Q e)
      \<and> (\<forall>k c. PSpawn k c \<in> set (es @ es') \<longrightarrow> pl_time s \<le> k \<and> k < pl_time s'')"
    by (auto simp: play_step_def)
  with assms show ?thesis unfolding play_step_def by (intro conjI exI [of _ "es @ es'"]) auto
qed

interpretation playing: effect_relation "play_step Q F" for Q F
proof unfold_locales
  show "play_step Q F s s" for s by (simp add: play_step_def)
  show "play_step Q F s s' \<Longrightarrow> play_step Q F s' s'' \<Longrightarrow> play_step Q F s s''" for s s' s'' by (rule play_step_trans)
qed

named_theorems play_rules \<open>what the parts of the playback thread do\<close>

lemmas [play_rules] = playing.return playing.raise playing.lift playing.bind playing.if_cases playing.raise_if
  playing.finally_with

lemma plays_seq_Nil [play_rules]: "moves (play_step Q F) (x_seq [])"
  by (simp add: playing.return)

lemma plays_seq_Cons [play_rules]:
  "moves (play_step Q F) m \<Longrightarrow> moves (play_step Q F) (x_seq ms) \<Longrightarrow> moves (play_step Q F) (x_seq (m # ms))"
  by (simp add: playing.bind)

lemma plays_ask [play_rules]: "moves (play_step Q F) (x_ask f)"
  by (rule movesI) (simp add: x_ask_def play_step_def)

lemma plays_log [play_rules]:
  "Q e \<Longrightarrow> (\<And>k c. e \<noteq> PSpawn k c) \<Longrightarrow> moves (play_step Q F) (x_log e)"
  by (auto simp: x_log_def moves_modify play_step_def)

lemma plays_raise_opt [play_rules]: "moves (play_step Q F) (x_raise_opt x)"
  by (cases x) (simp_all add: x_raise_opt_def playing.return playing.raise)

lemma plays_put_file [play_rules]: "path \<in> F \<Longrightarrow> moves (play_step Q F) (x_put_file path content)"
  by (auto simp: x_put_file_def moves_modify play_step_def)

lemma plays_remove_file [play_rules]:
  "path \<in> F \<Longrightarrow> moves (play_step Q F) (x_modify (\<lambda>s. s \<lparr> pl_files := dict_pop (pl_files s) path \<rparr>))"
  by (auto simp: moves_modify play_step_def)

lemma plays_option [play_rules]:
  "(x = None \<Longrightarrow> moves (play_step Q F) m) \<Longrightarrow> (\<And>a. x = Some a \<Longrightarrow> moves (play_step Q F) (f a)) \<Longrightarrow>
   moves (play_step Q F) (case x of None \<Rightarrow> m | Some a \<Rightarrow> f a)"
  by (cases x) simp_all

lemma plays_pair [play_rules]:
  "(\<And>a b. x = (a, b) \<Longrightarrow> moves (play_step Q F) (f a b)) \<Longrightarrow> moves (play_step Q F) (case x of (a, b) \<Rightarrow> f a b)"
  by (cases x) simp

lemma plays_sum [play_rules]:
  "(\<And>a. x = Inl a \<Longrightarrow> moves (play_step Q F) (f a)) \<Longrightarrow> (\<And>b. x = Inr b \<Longrightarrow> moves (play_step Q F) (g b)) \<Longrightarrow>
   moves (play_step Q F) (case x of Inl a \<Rightarrow> f a | Inr b \<Rightarrow> g b)"
  by (cases x) simp_all

lemma plays_object [play_rules]:
  "(\<And>d. x = JDict d \<Longrightarrow> moves (play_step Q F) (f d)) \<Longrightarrow>
   moves (play_step Q F) (case x of JDict d \<Rightarrow> f d | _ \<Rightarrow> x_raise e)"
  by (cases x) (simp_all add: playing.raise)

lemma plays_reply [play_rules]:
  "(\<And>b. moves (play_step Q F) (f b)) \<Longrightarrow> (\<And>c d. moves (play_step Q F) (g c d)) \<Longrightarrow> (\<And>e. moves (play_step Q F) (h e))
   \<Longrightarrow> moves (play_step Q F) (case x of WorkerBody b \<Rightarrow> f b | WorkerStatus c d \<Rightarrow> g c d | WorkerFails e \<Rightarrow> h e)"
  by (cases x) simp_all

section \<open>The parts\<close>

lemma plays_cancelled [play_rules]: "moves (play_step Q F) (cancelled env)"
  unfolding cancelled_def by (intro play_rules)

lemma plays_say [play_rules]:
  "moves (play_step (own_event cfg env uid chat t a b script) F) (say py env chat txt)"
  unfolding say_def by (intro play_rules) simp_all

lemma plays_spawn_ffmpeg [play_rules]:
  "moves (play_step (own_event cfg env uid chat t a b script) F) (spawn env (ffmpeg_command a b))"
  by (rule movesI) (auto simp: spawn_def x_ask_def x_log_def x_bind_def play_step_def split: sum.split)

lemma plays_download [play_rules]:
  "moves (play_step (own_event cfg env uid chat t a b script) {a, b}) (download py env file_id a)"
  unfolding download_def by (intro play_rules) simp_all

lemma plays_await [play_rules]:
  "moves (play_step (own_event cfg env uid chat t a b script) F) (await_ffmpeg env pid)"
  unfolding await_ffmpeg_def by (intro play_rules) simp_all

lemma plays_prepare [play_rules]:
  "moves (play_step (own_event cfg env uid chat t a b script) {a, b}) (prepare_audio env a b)"
  unfolding prepare_audio_def by (intro play_rules) simp_all

lemma plays_go_on [play_rules]:
  "moves (play_step (own_event cfg env uid chat t a b script) F) (go_on py env chat)"
  unfolding go_on_def by (intro play_rules)

lemma plays_before:
  "moves (play_step (own_event cfg env uid chat t a b script) {a, b}) (play_before py env chat file_id a b)"
  unfolding play_before_def by (intro play_rules)

lemma plays_post [play_rules]:
  "moves (play_step (own_event cfg env uid chat t a b script) F)
     (worker_request py env (u ''POST'') (u ''/tasks'') rid (Some (JDict (check_payload rid uid (tg_number t) (tg_ip t)))))"
  unfolding worker_request_def by (intro play_rules) simp_all

lemma plays_get [play_rules]:
  "moves (play_step (own_event cfg env uid chat t a b script) F)
     (worker_request py env (u ''GET'') (u ''/tasks/'' @ task_id) rid None)"
  unfolding worker_request_def by (intro play_rules) simp_all

lemma plays_create_check:
  "moves (play_step (own_event cfg env uid chat t a b script) F) (create_check py env uid (tg_number t) (tg_ip t))"
  unfolding create_check_def Let_def by (intro play_rules)

lemma plays_poll_round:
  "moves (play_step (own_event cfg env uid chat t a b script) F) (poll_round py env task_id rid deadline)"
  unfolding poll_round_def by (intro play_rules) simp_all

lemma plays_watch [play_rules]:
  "moves (play_step (own_event cfg env uid chat t a b script) F) (watch_lines py env chat t ls out announced)"
proof (induction ls arbitrary: out announced)
  case (Cons line ls)
  show ?case by (simp only: watch_lines.simps) (intro play_rules Cons.IH)
qed (simp add: playing.return)

lemma plays_follow [play_rules]:
  "moves (play_step (own_event cfg env uid chat t a b script) F) (follow_script py env chat t pid)"
  unfolding follow_script_def by (intro play_rules) simp_all

text \<open>The last look at \<open>cancelled\<close> and the start of the script have nothing between them.\<close>

lemma plays_start [play_rules]:
  "moves (play_step (own_event cfg env uid chat t a b True) F) (start_script py cfg env chat t b)"
proof (rule movesI)
  fix s
  show "play_step (own_event cfg env uid chat t a b True) F s (snd (start_script py cfg env chat t b s))"
  proof (cases "pe_cancelled env (pl_time s)")
    case True
    have "moves (play_step (own_event cfg env uid chat t a b True) F)
        (x_bind (say py env chat msg_bot_cancelled) (\<lambda>_. x_return None :: nat option play))"
      by (intro play_rules)
    moreover have "start_script py cfg env chat t b s =
        x_bind (say py env chat msg_bot_cancelled) (\<lambda>_. x_return None) (s \<lparr> pl_time := Suc (pl_time s) \<rparr>)"
      using True by (simp add: start_script_def cancelled_def x_ask_def x_bind_def)
    moreover have "play_step (own_event cfg env uid chat t a b True) F s (s \<lparr> pl_time := Suc (pl_time s) \<rparr>)"
      by (simp add: play_step_def)
    ultimately show ?thesis by (auto simp: moves_def intro: play_step_trans)
  next
    case False
    have "\<forall>j < Suc (pl_time s). \<not> pe_cancelled env j" if "sticky env"
      using that False by (auto simp: sticky_def less_Suc_eq_le)
    with False show ?thesis
      by (cases "pe_spawn env (Suc (pl_time s))")
        (auto simp: start_script_def cancelled_def spawn_def x_ask_def x_log_def x_bind_def play_step_def)
  qed
qed

lemma plays_after:
  "moves (play_step (own_event cfg env uid chat t a b True) F) (play_after py cfg env chat t b)"
  unfolding play_after_def by (intro play_rules)

lemma plays_unlink [play_rules]:
  "path \<in> {a, b} \<Longrightarrow> moves (play_step (own_event cfg env uid chat t a b script) {a, b}) (unlink env path)"
  unfolding unlink_def by (intro play_rules) simp_all

lemma plays_end:
  "moves (play_step (own_event cfg env uid chat t a b script) {a, b}) (play_end py env chat a b r)"
  unfolding play_end_def by (intro play_rules) simp_all

section \<open>The check of the vehicle\<close>

text \<open>At time \<open>k\<close> the worker reported the task with this verdict.\<close>

definition worker_said :: "pylib \<Rightarrow> play_env \<Rightarrow> nat \<Rightarrow> (ustr \<times> ustr) option \<Rightarrow> bool" where
  "worker_said py env k v \<longleftrightarrow> (\<exists>body d. pe_worker env k = WorkerBody body
     \<and> py_json_loads py body = Inr (JDict d) \<and> status_verdict py d = Some v)"

lemma poll_round_cases:
  assumes "poll_round py env task_id rid deadline s = (r, s')"
  shows "pl_time s < pl_time s'" and "r = Inr (Some v) \<Longrightarrow> \<exists>k. pl_time s < k \<and> k < pl_time s' \<and> worker_said py env k v"
    and "r = Inr None \<Longrightarrow> pe_clock env (pl_time s) < deadline"
  using assms
  by (auto simp: poll_round_def worker_request_def worker_said_def x_ask_def x_log_def x_bind_def
      split: if_splits worker_reply.splits json.splits option.splits sum.splits)

definition checked :: "pylib \<Rightarrow> play_env \<Rightarrow> (play_event \<Rightarrow> bool)
    \<Rightarrow> play_state \<Rightarrow> (ustr \<times> ustr) option res \<times> play_state \<Rightarrow> bool" where
  "checked py env Q s x \<longleftrightarrow> play_step Q {} s (snd x)
     \<and> (\<forall>v. fst x = Inr v \<longrightarrow> (\<exists>k. pl_time s < k \<and> k < pl_time (snd x) \<and> worker_said py env k v))"

lemma checked_after:
  assumes "play_step Q {} s s1" and "checked py env Q s1 x"
  shows "checked py env Q s x"
proof -
  have "pl_time s \<le> pl_time s1" using assms(1) by (simp add: play_step_def)
  then show ?thesis
    using assms play_step_trans unfolding checked_def by (meson order.strict_trans1)
qed

lemma poll_task_result:
  assumes "poll_task py env task_id rid deadline s = Some x"
    and "\<forall>task_id rid deadline. moves (play_step Q {}) (poll_round py env task_id rid deadline)"
  shows "checked py env Q s x"
proof -
  have "(\<forall>task_id rid deadline. moves (play_step Q {}) (poll_round py env task_id rid deadline))
      \<longrightarrow> checked py env Q s x"
  proof (rule poll_task.raw_induct [where P = "\<lambda>py env task_id rid deadline s x.
        (\<forall>task_id rid deadline. moves (play_step Q {}) (poll_round py env task_id rid deadline))
        \<longrightarrow> checked py env Q s x", OF _ assms(1)], rule impI)
    fix f py env task_id rid deadline s x
    assume IH: "\<And>py env task_id rid deadline s x. f py env task_id rid deadline s = Some x \<Longrightarrow>
        (\<forall>task_id rid deadline. moves (play_step Q {}) (poll_round py env task_id rid deadline))
        \<longrightarrow> checked py env Q s x"
      and eq: "(case fst (poll_round py env task_id rid deadline s) of
        Inl e \<Rightarrow> Some (Inl e, snd (poll_round py env task_id rid deadline s))
      | Inr (Some v) \<Rightarrow> Some (Inr v, snd (poll_round py env task_id rid deadline s))
      | Inr None \<Rightarrow> f py env task_id rid deadline (snd (poll_round py env task_id rid deadline s))) = Some x"
      and moves: "\<forall>task_id rid deadline. moves (play_step Q {}) (poll_round py env task_id rid deadline)"
    obtain q s1 where round: "poll_round py env task_id rid deadline s = (q, s1)" by fastforce
    from moves have "moves (play_step Q {}) (poll_round py env task_id rid deadline)" by blast
    from movesD [OF this round] have step: "play_step Q {} s s1" .
    show "checked py env Q s x"
    proof (cases "q = Inr None")
      case True
      with eq round have "f py env task_id rid deadline s1 = Some x" by simp
      with IH moves step show ?thesis by (blast intro: checked_after)
    next
      case False
      with eq round step poll_round_cases(2) [OF round] show ?thesis
        by (auto simp: checked_def split: sum.splits option.splits)
    qed
  qed
  with assms(2) show ?thesis by blast
qed

abbreviation checks :: "bot_config \<Rightarrow> play_env \<Rightarrow> int \<Rightarrow> int \<Rightarrow> target \<Rightarrow> ustr \<Rightarrow> ustr \<Rightarrow> play_state \<Rightarrow> play_state \<Rightarrow> bool" where
  "checks cfg env uid chat t a b \<equiv> play_step (own_event cfg env uid chat t a b False) {}"

text \<open>A clock that passes every bound ends the loop.\<close>

lemma poll_task_ends:
  assumes "\<forall>k \<ge> n. deadline \<le> pe_clock env k"
  shows "poll_task py env task_id rid deadline s \<noteq> None"
proof (induction "n - pl_time s" arbitrary: s rule: less_induct)
  case less
  obtain q s1 where round: "poll_round py env task_id rid deadline s = (q, s1)" by fastforce
  show ?case
  proof (cases "q = Inr None")
    case True
    note facts = poll_round_cases [OF round]
    from facts(3) [OF True] assms have "pl_time s < n" by (meson not_le)
    with facts(1) have "poll_task py env task_id rid deadline s1 \<noteq> None" by (intro less) simp
    with round True show ?thesis by (subst poll_task.simps) simp
  next
    case False
    with round show ?thesis by (subst poll_task.simps) (auto split: sum.split option.split)
  qed
qed

definition unbounded_clock :: "play_env \<Rightarrow> bool" where
  "unbounded_clock env \<longleftrightarrow> (\<forall>bound. \<exists>n. \<forall>k \<ge> n. bound \<le> pe_clock env k)"

lemma check_once_ends:
  assumes "unbounded_clock env"
  shows "check_vehicle_once py env uid number ip s \<noteq> None"
proof -
  have "poll_task py env task_id rid deadline s' \<noteq> None" for task_id rid deadline s'
    using assms poll_task_ends unfolding unbounded_clock_def by blast
  then show ?thesis unfolding check_vehicle_once_def by (simp split: prod.split sum.split)
qed

lemma check_once_result:
  assumes "check_vehicle_once py env uid (tg_number t) (tg_ip t) s = Some x"
  shows "checked py env (own_event cfg env uid chat t a b False) s x"
proof -
  obtain q s1 where c: "create_check py env uid (tg_number t) (tg_ip t) s = (q, s1)" by fastforce
  have step: "checks cfg env uid chat t a b s s1" by (rule movesD [OF plays_create_check c])
  show ?thesis
  proof (cases q)
    case (Inl e)
    with assms c step show ?thesis by (auto simp: check_vehicle_once_def checked_def)
  next
    case (Inr p)
    obtain rid tid dl where p: "p = (rid, tid, dl)" by (cases p)
    with assms c Inr have "poll_task py env tid rid dl s1 = Some x" by (simp add: check_vehicle_once_def)
    from checked_after [OF step poll_task_result [OF this]] show ?thesis by (blast intro: plays_poll_round)
  qed
qed

text \<open>A check creates at most one task.\<close>

fun is_post :: "play_event \<Rightarrow> bool" where
  "is_post (PWorker http_method _ _ _) \<longleftrightarrow> http_method = u ''POST''"
| "is_post _ \<longleftrightarrow> False"

definition posts :: "play_state \<Rightarrow> nat" where
  "posts s = length (filter is_post (pl_events s))"

lemma no_posts: "play_step (\<lambda>e. \<not> is_post e) F s s' \<Longrightarrow> posts s' = posts s"
  by (auto simp: play_step_def posts_def filter_empty_conv)

lemma poll_round_no_post: "moves (play_step (\<lambda>e. \<not> is_post e) {}) (poll_round py env task_id rid deadline)"
  unfolding poll_round_def worker_request_def by (intro play_rules) simp_all

lemma check_once_posts:
  assumes "check_vehicle_once py env uid number ip s = Some (r, s')"
  shows "posts s' \<le> Suc (posts s)"
proof -
  obtain q s1 where c: "create_check py env uid number ip s = (q, s1)" by fastforce
  then have one: "posts s1 \<le> Suc (posts s)"
    by (auto simp: create_check_def worker_request_def posts_def x_ask_def x_log_def x_bind_def Let_def
        split: worker_reply.splits sum.splits json.splits)
  show ?thesis
  proof (cases q)
    case (Inr p)
    obtain rid tid dl where p: "p = (rid, tid, dl)" by (cases p)
    with assms c Inr have "poll_task py env tid rid dl s1 = Some (r, s')" by (simp add: check_vehicle_once_def)
    from poll_task_result [OF this] poll_round_no_post have "posts s' = posts s1"
      using no_posts [of "{}" s1 s'] by (auto simp: checked_def)
    with one show ?thesis by simp
  qed (use assms c one in \<open>simp add: check_vehicle_once_def\<close>)
qed

text \<open>
  All attempts: at most \<open>n\<close> tasks are created, and success means that the worker reported a
  finished task.
\<close>

lemma attempts_result:
  "vehicle_attempts py env uid (tg_number t) (tg_ip t) n s = Some (r, s') \<Longrightarrow>
   checks cfg env uid chat t a b s s' \<and> posts s' \<le> posts s + n
   \<and> (0 < n \<longrightarrow> r = Inr () \<longrightarrow> (\<exists>k. pl_time s < k \<and> k < pl_time s' \<and> worker_said py env k None))"
proof (induction n arbitrary: s)
  case 0
  then show ?case by (simp add: playing.refl)
next
  case (Suc n)
  from Suc.prems obtain q s1 where c: "check_vehicle_once py env uid (tg_number t) (tg_ip t) s = Some (q, s1)"
    by (auto split: option.splits)
  note res = check_once_result [OF c, of cfg chat a b, unfolded checked_def, simplified] check_once_posts [OF c]
  then have step: "checks cfg env uid chat t a b s s1" and later: "pl_time s \<le> pl_time s1"
    by (simp_all add: play_step_def)
  show ?case
  proof (cases "\<exists>m. q = Inr (Some (u ''vehicle_unreachable'', m)) \<and> n \<noteq> 0")
    case True
    define s2 where "s2 = s1 \<lparr> pl_events := pl_events s1 @ [PSleep] \<rparr>"
    have "checks cfg env uid chat t a b s1 s2" by (simp add: s2_def play_step_def)
    moreover have "vehicle_attempts py env uid (tg_number t) (tg_ip t) n s2 = Some (r, s')"
      using True Suc.prems c by (auto simp: s2_def)
    moreover have "pl_time s2 = pl_time s1" "posts s2 = posts s1" by (simp_all add: s2_def posts_def)
    ultimately show ?thesis
      using Suc.IH [of s2] step later res(2) True by (auto intro: play_step_trans order.strict_trans1)
  next
    case False
    with Suc.prems c res step show ?thesis
      by (auto split: sum.splits option.splits if_splits)
  qed
qed

lemma attempts_end: "unbounded_clock env \<Longrightarrow> vehicle_attempts py env uid number ip n s \<noteq> None"
proof (induction n arbitrary: s)
  case (Suc n)
  have "check_vehicle_once py env uid number ip s \<noteq> None" using check_once_ends [OF Suc.prems] .
  then show ?case using Suc.IH [OF Suc.prems] by (auto split: option.split sum.split simp del: not_None_eq)
qed simp

section \<open>The whole thread\<close>

lemma own_event_script: "own_event cfg env uid chat t a b False e \<Longrightarrow> own_event cfg env uid chat t a b True e"
  by (cases e) auto

lemma play_step_mono:
  assumes "play_step Q F s s'" and "\<And>e. Q e \<Longrightarrow> Q' e" and "F \<subseteq> F'"
  shows "play_step Q' F' s s'"
  using assms unfolding play_step_def by (metis subsetD)

text \<open>
  A start of the script comes after the worker said that the vehicle can be reached, and before
  the job is cancelled.
\<close>

definition starts_checked :: "pylib \<Rightarrow> bot_config \<Rightarrow> play_env \<Rightarrow> target \<Rightarrow> ustr \<Rightarrow> ustr \<Rightarrow> play_event list \<Rightarrow> bool" where
  "starts_checked py cfg env t a b es \<longleftrightarrow> (\<forall>k command. PSpawn k command \<in> set es \<longrightarrow>
     command = ffmpeg_command a b
     \<or> command = script_command cfg t b \<and> (\<exists>j < k. worker_said py env j None)
       \<and> (sticky env \<longrightarrow> (\<forall>j < k. \<not> pe_cancelled env j)))"

lemma starts_checked_append [simp]:
  "starts_checked py cfg env t a b (es @ es') \<longleftrightarrow>
     starts_checked py cfg env t a b es \<and> starts_checked py cfg env t a b es'"
  unfolding starts_checked_def by (simp only: set_append Un_iff) blast

lemma starts_checked_before:
  assumes "play_step (own_event cfg env uid chat t a b False) F s s'" and "starts_checked py cfg env t a b (pl_events s)"
  shows "starts_checked py cfg env t a b (pl_events s')"
proof -
  from assms(1) obtain es where es: "pl_events s' = pl_events s @ es" "\<forall>e \<in> set es. own_event cfg env uid chat t a b False e"
    by (auto simp: play_step_def)
  then have "starts_checked py cfg env t a b es" by (fastforce simp: starts_checked_def)
  with es assms(2) show ?thesis by simp
qed

lemma starts_checked_after:
  assumes "play_step (own_event cfg env uid chat t a b True) F s s'" and "starts_checked py cfg env t a b (pl_events s)"
    and "j < pl_time s" "worker_said py env j None"
  shows "starts_checked py cfg env t a b (pl_events s')"
proof -
  from assms(1) obtain es where es: "pl_events s' = pl_events s @ es" "\<forall>e \<in> set es. own_event cfg env uid chat t a b True e"
    "\<forall>k c. PSpawn k c \<in> set es \<longrightarrow> pl_time s \<le> k \<and> k < pl_time s'" by (auto simp: play_step_def)
  have "starts_checked py cfg env t a b es"
    unfolding starts_checked_def
  proof (intro allI impI)
    fix k command assume spawn: "PSpawn k command \<in> set es"
    with es(2) have "own_event cfg env uid chat t a b True (PSpawn k command)" by blast
    moreover have "j < k" using es(3) spawn assms(3) by fastforce
    ultimately show "command = ffmpeg_command a b \<or> command = script_command cfg t b
        \<and> (\<exists>j < k. worker_said py env j None) \<and> (sticky env \<longrightarrow> (\<forall>j < k. \<not> pe_cancelled env j))"
      using assms(4) by auto
  qed
  with es(1) assms(2) show ?thesis by simp
qed

lemma posts_silent:
  assumes "moves (play_step (\<lambda>e. \<not> is_post e) F) m" and "m s = (r, s')"
  shows "posts s' = posts s"
  using no_posts [OF movesD [OF assms]] .

lemma say_no_post [play_rules]: "moves (play_step (\<lambda>e. \<not> is_post e) F) (say py env chat txt)"
  unfolding say_def by (intro play_rules) simp_all

lemma spawn_no_post [play_rules]: "moves (play_step (\<lambda>e. \<not> is_post e) F) (spawn env command)"
  by (rule movesI) (auto simp: spawn_def x_ask_def x_log_def x_bind_def play_step_def split: sum.split)

lemma go_on_no_post [play_rules]: "moves (play_step (\<lambda>e. \<not> is_post e) F) (go_on py env chat)"
  unfolding go_on_def by (intro play_rules)

lemma before_no_post: "moves (play_step (\<lambda>e. \<not> is_post e) UNIV) (play_before py env chat file_id a b)"
  unfolding play_before_def download_def prepare_audio_def await_ffmpeg_def by (intro play_rules) simp_all

lemma watch_no_post [play_rules]:
  "moves (play_step (\<lambda>e. \<not> is_post e) F) (watch_lines py env chat t ls out announced)"
proof (induction ls arbitrary: out announced)
  case (Cons line ls)
  show ?case by (simp only: watch_lines.simps) (intro play_rules Cons.IH)
qed (simp add: playing.return)

lemma after_no_post: "moves (play_step (\<lambda>e. \<not> is_post e) UNIV) (play_after py cfg env chat t b)"
  unfolding play_after_def start_script_def follow_script_def by (intro play_rules) simp_all

lemma end_no_post: "moves (play_step (\<lambda>e. \<not> is_post e) UNIV) (play_end py env chat a b r)"
  unfolding play_end_def unlink_def by (intro play_rules) simp_all

lemma play_body_result:
  assumes "play_body py cfg env uid chat file_id t a b s = Some (r, s')"
    and "starts_checked py cfg env t a b (pl_events s)"
  shows "play_step (own_event cfg env uid chat t a b True) {a, b} s s'
    \<and> starts_checked py cfg env t a b (pl_events s') \<and> posts s' \<le> posts s + 3"
proof -
  obtain q s1 where before: "play_before py env chat file_id a b s = (q, s1)" by fastforce
  note step1 = movesD [OF plays_before before, of cfg uid t False]
  have sc1: "starts_checked py cfg env t a b (pl_events s1)" by (rule starts_checked_before [OF step1 assms(2)])
  have own1: "play_step (own_event cfg env uid chat t a b True) {a, b} s s1"
    by (rule play_step_mono [OF step1]) (auto intro: own_event_script)
  have p1: "posts s1 = posts s" by (rule posts_silent [OF before_no_post before])
  show ?thesis
  proof (cases "q = Inr True")
    case False
    then have "s' = s1" using assms(1) before by (auto simp: play_body_def split: sum.splits bool.splits)
    with own1 sc1 p1 show ?thesis by simp
  next
    case True
    with assms(1) before obtain q2 s2 where check: "ensure_vehicle_ready py env uid (tg_number t) (tg_ip t) s1 = Some (q2, s2)"
      by (auto simp: play_body_def split: option.splits)
    note res = attempts_result [OF check [unfolded ensure_vehicle_ready_def], of cfg chat a b]
    have sc2: "starts_checked py cfg env t a b (pl_events s2)"
      using starts_checked_before [OF _ sc1] res by blast
    have "play_step (own_event cfg env uid chat t a b True) {a, b} s1 s2"
      by (rule play_step_mono [OF conjunct1 [OF res]]) (auto intro: own_event_script)
    from play_step_trans [OF own1 this] have own2: "play_step (own_event cfg env uid chat t a b True) {a, b} s s2" .
    show ?thesis
    proof (cases q2)
      case (Inl e)
      with assms(1) before True check have "s' = s2" by (simp add: play_body_def)
      with own2 sc2 p1 res show ?thesis by simp
    next
      case (Inr x)
      with assms(1) before True check have after: "play_after py cfg env chat t b s2 = (r, s')" by (simp add: play_body_def)
      note step3 = movesD [OF plays_after after, of uid a "{a, b}"]
      from res Inr obtain j where "j < pl_time s2" "worker_said py env j None" by auto
      with starts_checked_after [OF step3 sc2] have "starts_checked py cfg env t a b (pl_events s')" by blast
      moreover have "posts s' = posts s2" by (rule posts_silent [OF after_no_post after])
      ultimately show ?thesis using play_step_trans [OF own2 step3] p1 res by simp
    qed
  qed
qed

definition play_paths :: "bot_config \<Rightarrow> play_env \<Rightarrow> ustr \<Rightarrow> ustr \<times> ustr" where
  "play_paths cfg env suffix =
     (path_join (bc_temp_dir cfg) (pe_uuid env 0 @ suffix), path_join (bc_temp_dir cfg) (pe_uuid env 1 @ u ''.mp3''))"

lemma play_result:
  assumes "play py cfg env uid chat file_id suffix t play_start = Some (r, s')" and "play_paths cfg env suffix = (a, b)"
  shows "(\<forall>e \<in> set (pl_events s'). own_event cfg env uid chat t a b True e)
    \<and> starts_checked py cfg env t a b (pl_events s') \<and> posts s' \<le> 3"
proof -
  define s0 where "s0 = play_start \<lparr> pl_time := Suc (Suc 0) \<rparr>"
  have s0: "pl_events s0 = []" "posts s0 = 0" by (simp_all add: s0_def play_start_def posts_def)
  from assms obtain q s1 where body: "play_body py cfg env uid chat file_id t a b s0 = Some (q, s1)"
    and fin: "play_end py env chat a b q s1 = (r, s')"
    by (auto simp: play_def play_paths_def play_start_def s0_def split: option.splits)
  have "starts_checked py cfg env t a b (pl_events s0)" by (simp add: s0 starts_checked_def)
  note b' = play_body_result [OF body this]
  note e' = movesD [OF plays_end fin, of cfg uid t False]
  have "play_step (own_event cfg env uid chat t a b True) {a, b} s1 s'"
    by (rule play_step_mono [OF e']) (auto intro: own_event_script)
  with b' have "play_step (own_event cfg env uid chat t a b True) {a, b} s0 s'" by (blast intro: play_step_trans)
  then have "\<forall>e \<in> set (pl_events s'). own_event cfg env uid chat t a b True e"
    using s0 by (auto simp: play_step_def)
  moreover have "starts_checked py cfg env t a b (pl_events s')" using starts_checked_before [OF e'] b' by blast
  moreover have "posts s' = posts s1" by (rule posts_silent [OF end_no_post fin])
  ultimately show ?thesis using b' s0 by simp
qed

end
