(* ===== verification/Bot_Playback_Ends.thy ===== *)
theory Bot_Playback_Ends
  imports Bot_Playback_Laws
begin

text \<open>
  How a playback thread ends: that it ends at all, that it removes its files and its job, what can
  still escape from it, how much it downloads, and a script that is left behind.
\<close>

section \<open>The download\<close>

lemma copy_chunks_spec:
  assumes "copy_chunks n chunks = (out, big)" and "0 \<le> n" "n \<le> MAX_AUDIO_BYTES"
  shows "n + int (length out) \<le> MAX_AUDIO_BYTES" and "\<exists>rest. concat chunks = out @ rest"
    and "big \<longleftrightarrow> n + int (length (concat chunks)) > MAX_AUDIO_BYTES" and "\<not> big \<Longrightarrow> out = concat chunks"
  using assms
  by (induction n chunks arbitrary: out rule: copy_chunks.induct)
    (force simp: Let_def split: if_splits prod.splits)+

section \<open>The end of the thread\<close>

lemma unlink_ok: "pe_unlink env (pl_time s) = None \<Longrightarrow>
   unlink env path s = (Inr (), s \<lparr> pl_events := pl_events s @ [PUnlink path], pl_time := Suc (pl_time s),
     pl_files := dict_pop (pl_files s) path \<rparr>)"
  by (simp add: unlink_def x_log_def x_ask_def x_raise_opt_def x_bind_def)

lemma say_files: "say py env chat txt s = (r, s') \<Longrightarrow> pl_files s' = pl_files s"
  by (auto simp: say_def x_log_def x_ask_def x_raise_opt_def x_bind_def split: option.splits sum.splits)

lemma say_raises: "say py env chat txt s = (Inl e, s') \<Longrightarrow> \<exists>k f. pe_api env k = Some f \<and> e = api_exn py f"
  by (auto simp: say_def x_log_def x_ask_def x_raise_opt_def x_bind_def split: option.splits)

lemma play_end_result:
  assumes unlinks: "\<forall>k. pe_unlink env k = None" and fin: "play_end py env chat a b q s = (r, s')"
  shows "dict_get (pl_files s') p = (if p \<in> {a, b} then None else dict_get (pl_files s) p)"
    and "\<exists>es. pl_events s' = es @ [PEndJob]"
    and "r = Inl e \<Longrightarrow> \<exists>k f. pe_api env k = Some f \<and> e = api_exn py f"
proof -
  define m where "m = (case q of Inl e \<Rightarrow> say py env chat (msg_bot_error_is @ exn_str e) | Inr _ \<Rightarrow> x_return ())"
  obtain r1 s1 where m: "m s = (r1, s1)" by fastforce
  have files: "pl_files s1 = pl_files s"
    using m by (cases q) (auto simp: m_def dest: say_files)
  have raises: "\<exists>k f. pe_api env k = Some f \<and> e = api_exn py f" if "r1 = Inl e"
    using m that by (cases q) (auto simp: m_def dest: say_raises)
  have "r = r1 \<and> pl_files s' = dict_pop (dict_pop (pl_files s1) a) b \<and> (\<exists>es. pl_events s' = es @ [PEndJob])"
    using fin m unlinks by (auto simp: play_end_def m_def [symmetric] x_finally_def x_bind_def unlink_ok x_log_def)
  then show "dict_get (pl_files s') p = (if p \<in> {a, b} then None else dict_get (pl_files s) p)"
    and "\<exists>es. pl_events s' = es @ [PEndJob]"
    and "r = Inl e \<Longrightarrow> \<exists>k f. pe_api env k = Some f \<and> e = api_exn py f"
    using files raises by auto
qed

lemma no_entries: "(\<And>p. dict_get d p = None) \<Longrightarrow> d = []"
  by (metis list.exhaust map_of_Cons_code(2) option.distinct(1) prod.exhaust)

lemma play_tidies:
  assumes "play py cfg env uid chat file_id suffix t play_start = Some (r, s')" and "\<forall>k. pe_unlink env k = None"
  shows "pl_files s' = []" and "\<exists>es. pl_events s' = es @ [PEndJob]"
    and "r = Inl e \<Longrightarrow> \<exists>k f. pe_api env k = Some f \<and> e = api_exn py f"
proof -
  define a where "a = path_join (bc_temp_dir cfg) (pe_uuid env 0 @ suffix)"
  define b where "b = path_join (bc_temp_dir cfg) (pe_uuid env 1 @ u ''.mp3'')"
  define s0 where "s0 = play_start \<lparr> pl_time := Suc (Suc 0) \<rparr>"
  from assms obtain q s1 where body: "play_body py cfg env uid chat file_id t a b s0 = Some (q, s1)"
    and fin: "play_end py env chat a b q s1 = (r, s')"
    by (auto simp: play_def play_start_def s0_def a_def b_def Let_def split: option.splits)
  have "starts_checked py cfg env t a b (pl_events s0)" by (simp add: s0_def play_start_def starts_checked_def)
  from play_body_result [OF body this] have "dict_get (pl_files s1) p = None" if "p \<notin> {a, b}" for p
    using that by (auto simp: play_step_def s0_def play_start_def)
  with play_end_result(1) [OF assms(2) fin] have "dict_get (pl_files s') p = None" for p by auto
  then show "pl_files s' = []" by (rule no_entries)
  show "\<exists>es. pl_events s' = es @ [PEndJob]" by (rule play_end_result(2) [OF assms(2) fin])
  show "r = Inl e \<Longrightarrow> \<exists>k f. pe_api env k = Some f \<and> e = api_exn py f"
    by (rule play_end_result(3) [OF assms(2) fin])
qed

lemma play_returns:
  assumes "unbounded_clock env"
  shows "play py cfg env uid chat file_id suffix t s \<noteq> None"
proof -
  have check: "ensure_vehicle_ready py env uid (tg_number t) (tg_ip t) s' \<noteq> None" for s'
    unfolding ensure_vehicle_ready_def by (rule attempts_end [OF assms])
  then have "play_body py cfg env uid chat file_id t a b s' \<noteq> None" for a b s'
    unfolding play_body_def by (auto split: prod.split sum.split bool.split option.split simp del: not_None_eq)
  then show ?thesis unfolding play_def Let_def by (simp split: option.split)
qed

section \<open>The script left behind\<close>

text \<open>
  An environment in which everything works, but one progress message is not delivered while the
  script runs.
\<close>

definition ready_reply :: json where
  "ready_reply = JDict [(u ''task_id'', JStr (u ''t1'')), (u ''state'', JStr (u ''finished''))]"

definition hiccup_env :: play_env where
  "hiccup_env =
     \<lparr> pe_cancelled = (\<lambda>_. False), pe_uuid = (\<lambda>k. str_of_nat k),
       pe_api = (\<lambda>k. if k = 23 then Some (ApiHttp 502 []) else None),
       pe_get_file = (\<lambda>_. Inr (JDict [(u ''ok'', JBool True), (u ''result'', JDict [(u ''file_path'', JStr (u ''f''))])])),
       pe_content = (\<lambda>_. Inr ([[1, 2, 3]], None)), pe_spawn = (\<lambda>k. Inr k), pe_prepared = (\<lambda>_. Some [4]),
       pe_wait = (\<lambda>_. Some 0), pe_lines = (\<lambda>_. ([u ''TRANSFER_RETRY attempt=1''], None)), pe_exit = (\<lambda>_. 0),
       pe_worker = (\<lambda>_. WorkerBody []), pe_clock = (\<lambda>k. of_nat k), pe_unlink = (\<lambda>_. None) \<rparr>"

lemma hiccup_ready: "status_verdict py [(u ''task_id'', JStr (u ''t1'')), (u ''state'', JStr (u ''finished''))] = Some None"
  by (simp add: status_verdict_def jget_def get_or_def)

lemma hiccup_line: "line_message t False (u ''TRANSFER_RETRY attempt=1'') = (Some msg_bot_retrying, False)"
  by (simp add: line_message_def py_startswith_def u_def)

lemma hiccup_run:
  assumes "py_json_loads py [] = Inr ready_reply"
  shows "\<exists>s'. play py cfg hiccup_env uid chat file_id suffix t play_start = Some (Inr (), s')
    \<and> (\<exists>b. PSpawn 21 (script_command cfg t b) \<in> set (pl_events s')) \<and> PEndJob \<in> set (pl_events s')
    \<and> PWait 21 \<notin> set (pl_events s') \<and> PTerminate 21 \<notin> set (pl_events s') \<and> PKill 21 \<notin> set (pl_events s')"
  using assms
  by (simp add: play_def play_body_def play_before_def say_def download_def go_on_def prepare_audio_def spawn_def
      await_ffmpeg_def ensure_vehicle_ready_def numeral_3_eq_3 check_vehicle_once_def create_check_def worker_request_def
      poll_task.simps poll_round_def play_after_def start_script_def follow_script_def play_end_def unlink_def
      hiccup_env_def play_start_def x_ask_def x_log_def x_bind_def x_raise_opt_def x_put_file_def x_finally_def
      cancelled_def api_result_def item_def ready_reply_def hiccup_ready hiccup_line jget_def get_or_def py_or_def
      MAX_AUDIO_BYTES_def Let_def) blast

end
