(* ===== verification/Bot_Restart.thy ===== *)
theory Bot_Restart
  imports Bot_Handlers
begin

text \<open>
  The settings file of the bot: what \<open>_save_settings\<close> writes is what \<open>_load_settings\<close> reads back,
  and between two updates the file always holds the settings the bot works with.
\<close>

section \<open>What a configuration guarantees\<close>

definition readable_config :: "bot_config \<Rightarrow> bool" where
  "readable_config cfg \<longleftrightarrow>
     (\<forall>uid \<in> set (bc_allowed_users cfg). int_of_ustr (str_of_int uid) = Some uid)
     \<and> (\<forall>b m. dict_get (bc_vehicle_maps cfg) b = Some m \<longrightarrow> dict_get m [] = None)"

lemma parse_user_ids_readable:
  "parse_user_ids py vs = Inr ids \<Longrightarrow> uid \<in> set ids \<Longrightarrow> int_of_ustr (str_of_int uid) = Some uid"
  by (induction vs arbitrary: ids)
    (auto simp: res_iff split: if_splits option.splits intro: int_of_ustr_again)

lemma vehicle_map_rows_numbers:
  "vehicle_map_rows py rows m = Inr m' \<Longrightarrow> dict_get m [] = None \<Longrightarrow> dict_get m' [] = None"
  by (induction py rows m rule: vehicle_map_rows.induct) (auto simp: Let_def split: if_splits option.splits)

lemma load_vehicle_map_numbers: "load_vehicle_map py files path = Inr m \<Longrightarrow> dict_get m [] = None"
  by (auto simp: load_vehicle_map_def res_iff dest: vehicle_map_rows_numbers)

lemma vehicle_map_items_numbers:
  "vehicle_map_items py files items maps = Inr maps' \<Longrightarrow> (\<forall>b m. dict_get maps b = Some m \<longrightarrow> dict_get m [] = None)
   \<Longrightarrow> dict_get maps' b = Some m \<Longrightarrow> dict_get m [] = None"
proof (induction items arbitrary: maps)
  case (Cons item items)
  then show ?case
    by (auto simp: res_iff split: prod.splits if_splits dest: load_vehicle_map_numbers)
qed simp

lemma load_vehicle_maps_numbers:
  "load_vehicle_maps py env files = Inr maps \<Longrightarrow> dict_get maps b = Some m \<Longrightarrow> dict_get m [] = None"
  by (auto simp: load_vehicle_maps_def Let_def res_iff split: if_splits
      dest: load_vehicle_map_numbers vehicle_map_items_numbers)

lemma config_readable:
  assumes "bot_config_from_env py env files = Inr cfg"
  shows "readable_config cfg"
proof -
  from assms obtain raw where "parse_user_ids py raw = Inr (bc_allowed_users cfg)"
    and "load_vehicle_maps py env files = Inr (bc_vehicle_maps cfg)"
    by (auto simp: bot_config_from_env_def Let_def res_iff split: option.splits)
  then show ?thesis
    using parse_user_ids_readable load_vehicle_maps_numbers unfolding readable_config_def by blast
qed

text \<open>
  Every branch is the one its own name stands for. (It is not when an alias leads from it to
  another branch, or when its name has an underscore or an upper case letter.)
\<close>

definition stable_branches :: "pylib \<Rightarrow> bot_config \<Rightarrow> bool" where
  "stable_branches py cfg \<longleftrightarrow> (\<forall>b \<in> set (dict_keys (bc_vehicle_maps cfg)). cfg_branch py cfg b = Some b)"

section \<open>Reading back\<close>

text \<open>What the settings of a user are for the rest of the program.\<close>

definition agree_on :: "int \<Rightarrow> bot \<Rightarrow> bot \<Rightarrow> bool" where
  "agree_on uid s s' \<longleftrightarrow>
     dict_get (bt_targets s') uid = dict_get (bt_targets s) uid
     \<and> dict_get (bt_user_branches s') uid = dict_get (bt_user_branches s) uid
     \<and> audio_of s' uid = audio_of s uid"

lemma entry_fields [simp]:
  "get_or (settings_entry s uid) (u ''volume'') (JInt 25) = JInt (au_volume (audio_of s uid))"
  "get_or (settings_entry s uid) (u ''output'') (JStr (u ''salon'')) = JStr (au_output (audio_of s uid))"
  "jget (settings_entry s uid) (u ''branch'') = opt_json (dict_get (bt_user_branches s) uid)"
  "jget (settings_entry s uid) (u ''number'') = opt_json (map_option tg_number (dict_get (bt_targets s) uid))"
  by (simp_all add: settings_entry_def get_or_def jget_def audio_of_def default_audio_def split: option.split)

lemma audio_of_set [simp]:
  "audio_of (s \<lparr> bt_user_audio := dict_set d uid a \<rparr>) v = (if v = uid then a else audio_of (s \<lparr> bt_user_audio := d \<rparr>) v)"
  "audio_of (s \<lparr> bt_user_branches := bs \<rparr>) v = audio_of s v"
  "audio_of (s \<lparr> bt_targets := ts \<rparr>) v = audio_of s v"
  by (simp_all add: audio_of_def)

text \<open>The target of a user is what its branch and number stand for.\<close>

lemma parse_own_target:
  assumes "target_ok cfg t" and "cfg_branch py cfg (tg_branch t) = Some (tg_branch t)"
  shows "parse_target py cfg b0 (target_audio t) [tg_branch t, tg_number t] = Inr (t, Some (tg_branch t))"
  using assms by (auto simp: parse_target_def target_ok_def audio_ok_def channels_keys Let_def)

lemma load_target_own:
  assumes "target_ok cfg t" and "cfg_branch py cfg (tg_branch t) = Some (tg_branch t)"
    and "audio_of st uid = target_audio t"
  shows "load_target py cfg uid (tg_branch t) (tg_number t) st =
    (Inr (), st \<lparr> bt_user_branches := dict_set (bt_user_branches st) uid (tg_branch t),
                  bt_targets := dict_set (bt_targets st) uid t \<rparr>)"
  using assms by (simp add: load_target_def parse_own_target)

lemma load_branch_own:
  assumes ok: "bot_ok cfg s" "in_step s" and cfg: "readable_config cfg" "stable_branches py cfg"
    and st: "audio_of st uid = audio_of s uid" "dict_get (bt_user_branches st) uid = None"
      "dict_get (bt_targets st) uid = None"
  shows "\<exists>bs ts. load_branch py cfg uid (settings_entry s uid) st =
      (Inr (), st \<lparr> bt_user_branches := bs, bt_targets := ts \<rparr>)
    \<and> dict_get bs uid = dict_get (bt_user_branches s) uid \<and> dict_get ts uid = dict_get (bt_targets s) uid
    \<and> (\<forall>v. v \<noteq> uid \<longrightarrow> dict_get bs v = dict_get (bt_user_branches st) v \<and> dict_get ts v = dict_get (bt_targets st) v)"
proof (cases "dict_get (bt_user_branches s) uid")
  case None
  then have "dict_get (bt_targets s) uid = None"
    using ok(2) by (cases "dict_get (bt_targets s) uid") (auto simp: in_step_def)
  with None st show ?thesis
    by (auto simp: load_branch_def opt_json_def intro!: exI [of _ "bt_user_branches st"] exI [of _ "bt_targets st"])
next
  case (Some b)
  then have b: "cfg_branch py cfg b = Some b"
    using ok(1) cfg(2) unfolding bot_ok_def stable_branches_def by blast
  define st1 where "st1 = st \<lparr> bt_user_branches := dict_set (bt_user_branches st) uid b \<rparr>"
  show ?thesis
  proof (cases "dict_get (bt_targets s) uid")
    case None
    with Some b st show ?thesis
      by (auto simp: load_branch_def opt_json_def cfg_branch_def
          intro!: exI [of _ "dict_set (bt_user_branches st) uid b"] exI [of _ "bt_targets st"])
  next
    case T: (Some t)
    have t: "target_ok cfg t" "tg_branch t = b" "audio_of s uid = target_audio t"
      using ok T Some by (auto simp: bot_ok_def in_step_def audio_of_def)
    have "tg_number t \<noteq> []" using t(1) cfg(1) by (auto simp: target_ok_def readable_config_def)
    moreover have "load_target py cfg uid b (tg_number t) st1 = (Inr (), st1 \<lparr>
        bt_user_branches := dict_set (bt_user_branches st1) uid b, bt_targets := dict_set (bt_targets st1) uid t \<rparr>)"
      using load_target_own [OF t(1), of py st1 uid] b t st by (simp add: st1_def)
    ultimately show ?thesis
      using Some T b
      by (auto simp: load_branch_def opt_json_def cfg_branch_def st1_def
          intro!: exI [of _ "dict_set (dict_set (bt_user_branches st) uid b) uid b"] exI [of _ "dict_set (bt_targets st) uid t"])
  qed
qed

lemma load_user_own:
  assumes ok: "bot_ok cfg s" "in_step s" and cfg: "readable_config cfg" "stable_branches py cfg"
    and uid: "uid \<in> set (bc_allowed_users cfg)"
    and st: "dict_get (bt_user_branches st) uid = None" "dict_get (bt_targets st) uid = None"
  shows "\<exists>st'. load_user py cfg (str_of_int uid) (JDict (settings_entry s uid)) st = (Inr (), st')
    \<and> agree_on uid s st' \<and> (\<forall>v. v \<noteq> uid \<longrightarrow> agree_on v st st')"
proof -
  define a where "a = audio_of s uid"
  define st1 where "st1 = st \<lparr> bt_user_audio := dict_set (bt_user_audio st) uid a \<rparr>"
  have a: "1 \<le> au_volume a" "au_volume a \<le> 100" "au_output a \<in> set (dict_keys CHANNELS)"
    using bot_okD(3) [OF ok(1), of uid] by (simp_all add: a_def audio_ok_def)
  have key: "py_int py (JStr (str_of_int uid)) = Inr uid"
    using cfg(1) uid by (simp add: readable_config_def)
  have st1: "audio_of st1 uid = audio_of s uid" "dict_get (bt_user_branches st1) uid = None"
    "dict_get (bt_targets st1) uid = None" "audio_of st1 v = (if v = uid then a else audio_of st v)" for v
    using st by (simp_all add: st1_def a_def)
  obtain bs ts where load: "load_branch py cfg uid (settings_entry s uid) st1 =
      (Inr (), st1 \<lparr> bt_user_branches := bs, bt_targets := ts \<rparr>)"
    and own: "dict_get bs uid = dict_get (bt_user_branches s) uid" "dict_get ts uid = dict_get (bt_targets s) uid"
    and others: "\<forall>v. v \<noteq> uid \<longrightarrow> dict_get bs v = dict_get (bt_user_branches st1) v
      \<and> dict_get ts v = dict_get (bt_targets st1) v"
    using load_branch_own [OF ok cfg st1(1-3)] by blast
  have eta: "\<lparr> au_volume = au_volume x, au_output = au_output x \<rparr> = x" for x by simp
  have "load_user py cfg (str_of_int uid) (JDict (settings_entry s uid)) st =
      (Inr (), st1 \<lparr> bt_user_branches := bs, bt_targets := ts \<rparr>)"
    using key uid a load unfolding a_def st1_def by (simp add: load_user_def x_bind_def eta)
  moreover have "audio_of (st1 \<lparr> bt_user_branches := bs, bt_targets := ts \<rparr>) v = (if v = uid then a else audio_of st v)" for v
    by (simp only: audio_of_set st1(4))
  ultimately show ?thesis
    using own others by (intro exI [of _ "st1 \<lparr> bt_user_branches := bs, bt_targets := ts \<rparr>"] conjI)
      (auto simp: agree_on_def a_def st1_def)
qed

lemma agree_on_trans: "agree_on v s s' \<Longrightarrow> agree_on v s' s'' \<Longrightarrow> agree_on v s s''"
  by (simp add: agree_on_def)

definition load_entries :: "pylib \<Rightarrow> bot_config \<Rightarrow> jdict \<Rightarrow> unit bot_st" where
  "load_entries py cfg users =
     x_seq (map (\<lambda>(key, v). x_try (load_user py cfg key v) skipped_error (\<lambda>_. x_return ())) users)"

lemma load_entries_Nil: "load_entries py cfg [] st = (Inr (), st)"
  by (simp add: load_entries_def)

lemma load_entries_Cons:
  "load_user py cfg key v st = (Inr (), st1)
   \<Longrightarrow> load_entries py cfg ((key, v) # users) st = load_entries py cfg users st1"
  by (simp add: load_entries_def x_bind_def x_try_def)

lemma load_users:
  assumes ok: "bot_ok cfg s" "in_step s" and cfg: "readable_config cfg" "stable_branches py cfg"
  shows "distinct uids \<Longrightarrow> set uids \<subseteq> set (bc_allowed_users cfg)
    \<Longrightarrow> \<forall>uid \<in> set uids. dict_get (bt_user_branches st) uid = None \<and> dict_get (bt_targets st) uid = None
    \<Longrightarrow> \<exists>st'. load_entries py cfg (map (\<lambda>uid. (str_of_int uid, JDict (settings_entry s uid))) uids) st = (Inr (), st')
      \<and> (\<forall>uid \<in> set uids. agree_on uid s st') \<and> (\<forall>v. v \<notin> set uids \<longrightarrow> agree_on v st st')"
proof (induction uids arbitrary: st)
  case Nil
  then show ?case by (simp add: agree_on_def load_entries_Nil)
next
  case (Cons uid uids)
  obtain st1 where load: "load_user py cfg (str_of_int uid) (JDict (settings_entry s uid)) st = (Inr (), st1)"
    and own: "agree_on uid s st1" and others: "\<And>v. v \<noteq> uid \<Longrightarrow> agree_on v st st1"
    using load_user_own [OF ok cfg, of uid st] Cons.prems by auto
  have "\<forall>v \<in> set uids. dict_get (bt_user_branches st1) v = None \<and> dict_get (bt_targets st1) v = None"
  proof
    fix v assume v: "v \<in> set uids"
    with Cons.prems(1) have "v \<noteq> uid" by auto
    from others [OF this] v Cons.prems(3)
    show "dict_get (bt_user_branches st1) v = None \<and> dict_get (bt_targets st1) v = None" by (simp add: agree_on_def)
  qed
  then obtain st' where st': "load_entries py cfg (map (\<lambda>uid. (str_of_int uid, JDict (settings_entry s uid))) uids) st1 = (Inr (), st')"
    "\<forall>v \<in> set uids. agree_on v s st'" "\<forall>v. v \<notin> set uids \<longrightarrow> agree_on v st1 st'"
    using Cons.IH [of st1] Cons.prems by auto
  have "agree_on uid s st'" using own st'(3) Cons.prems(1) by (auto intro: agree_on_trans)
  moreover have "\<forall>v. v \<notin> set (uid # uids) \<longrightarrow> agree_on v st st'"
    using others st'(3) by (auto intro: agree_on_trans)
  ultimately show ?case
    using load_entries_Cons [OF load] st' by (intro exI [of _ st']) simp
qed

text \<open>The environment iterates a set in some order, and writes the file.\<close>

definition some_order :: "bot_env \<Rightarrow> bool" where
  "some_order env \<longleftrightarrow> (\<forall>xs. distinct xs \<longrightarrow> distinct (be_order env xs) \<and> set (be_order env xs) = set xs)"

lemma settings_read_back:
  assumes ok: "bot_ok cfg s" "in_step s" and cfg: "readable_config cfg" "stable_branches py cfg"
    and order: "some_order env"
  shows "\<exists>s'. start_bot py cfg (Settings (settings_json env s)) = (Inr (), s') \<and> (\<forall>uid. agree_on uid s s')"
proof -
  define uids where "uids = be_order env (remdups (dict_keys (bt_user_branches s) @ dict_keys (bt_user_audio s)))"
  define s0 where "s0 = new_bot (Settings (settings_json env s))"
  have uids: "distinct uids" "set uids = set (dict_keys (bt_user_branches s)) \<union> set (dict_keys (bt_user_audio s))"
    using order unfolding some_order_def uids_def by (simp_all del: set_map)
  have known: "uid \<in> set (dict_keys d) \<longleftrightarrow> dict_get d uid \<noteq> None" for uid and d :: "(int, 'v) dict"
    by (simp add: map_of_eq_None_iff)
  have "set uids \<subseteq> set (bc_allowed_users cfg)"
  proof
    fix uid assume "uid \<in> set uids"
    then have "dict_get (bt_user_branches s) uid \<noteq> None \<or> dict_get (bt_user_audio s) uid \<noteq> None"
      unfolding uids(2) Un_iff known .
    then show "uid \<in> set (bc_allowed_users cfg)" using ok(1) by (auto simp: bot_ok_def)
  qed
  then obtain s' where s': "load_entries py cfg (map (\<lambda>uid. (str_of_int uid, JDict (settings_entry s uid))) uids) s0 = (Inr (), s')"
    "\<forall>uid \<in> set uids. agree_on uid s s'" "\<forall>v. v \<notin> set uids \<longrightarrow> agree_on v s0 s'"
    using load_users [OF ok cfg uids(1), of s0] by (auto simp: s0_def new_bot_def)
  have "agree_on v s s0" if "v \<notin> set uids" for v
  proof -
    from that have "dict_get (bt_user_branches s) v = None" "dict_get (bt_user_audio s) v = None"
      unfolding uids(2) Un_iff known by simp_all
    moreover from this have "dict_get (bt_targets s) v = None"
      using ok(2) by (cases "dict_get (bt_targets s) v") (auto simp: in_step_def)
    ultimately show ?thesis by (simp add: agree_on_def s0_def new_bot_def audio_of_def)
  qed
  with s'(2,3) have "agree_on v s s'" for v by (cases "v \<in> set uids") (auto intro: agree_on_trans)
  moreover have "start_bot py cfg (Settings (settings_json env s)) = (Inr (), s')"
    using s'(1) by (simp add: start_bot_def load_settings_def s0_def new_bot_def settings_json_def uids_def load_entries_def)
  ultimately show ?thesis by blast
qed

section \<open>At every moment\<close>

text \<open>Everything is well with the disk and the configuration.\<close>

definition disk_ok :: "pylib \<Rightarrow> bot_config \<Rightarrow> bot_env \<Rightarrow> bool" where
  "disk_ok py cfg env \<longleftrightarrow> readable_config cfg \<and> stable_branches py cfg \<and> some_order env \<and> (\<forall>n. be_save env n = None)"

text \<open>A restart would give the bot all the settings it has now.\<close>

definition survives :: "pylib \<Rightarrow> bot_config \<Rightarrow> bot \<Rightarrow> bool" where
  "survives py cfg s \<longleftrightarrow>
     (case start_bot py cfg (bt_settings s) of (r, s') \<Rightarrow> r = Inr () \<and> (\<forall>uid. agree_on uid s s'))"

definition persists :: "pylib \<Rightarrow> bot_config \<Rightarrow> bot_env \<Rightarrow> bot \<Rightarrow> bot \<Rightarrow> bool" where
  "persists py cfg env s s' \<longleftrightarrow>
     (disk_ok py cfg env \<longrightarrow> bot_ok cfg s \<and> in_step s \<longrightarrow>
        bot_ok cfg s' \<and> in_step s' \<and> (survives py cfg s \<longrightarrow> survives py cfg s'))"

lemma survives_same:
  assumes "bt_settings s' = bt_settings s" and "bt_targets s' = bt_targets s"
    and "bt_user_branches s' = bt_user_branches s" and "bt_user_audio s' = bt_user_audio s"
  shows "survives py cfg s' \<longleftrightarrow> survives py cfg s"
  using assms by (simp add: survives_def agree_on_def audio_of_def)

lemma persists_same:
  assumes "bot_step cfg uid s s'" and "bt_settings s' = bt_settings s" "bt_targets s' = bt_targets s"
    "bt_user_branches s' = bt_user_branches s" "bt_user_audio s' = bt_user_audio s"
  shows "persists py cfg env s s'"
  using assms survives_same [OF assms(2-5), of py cfg] by (simp add: persists_def bot_step_def)

lemma survives_saved:
  assumes "disk_ok py cfg env" and "bot_ok cfg s" "in_step s"
  shows "survives py cfg (s \<lparr> bt_save_attempts := n, bt_settings := Settings (settings_json env s) \<rparr>)"
proof -
  obtain s' where "start_bot py cfg (Settings (settings_json env s)) = (Inr (), s')" "\<forall>uid. agree_on uid s s'"
    using settings_read_back [OF assms(2,3), of py env] assms(1) unfolding disk_ok_def by blast
  then show ?thesis by (simp add: survives_def agree_on_def audio_of_def)
qed

lemma persists_saved:
  assumes step: "\<And>s. bot_step cfg uid s (g s)"
  shows "moves (persists py cfg env) (x_seq [x_modify g, save_settings env])"
proof (rule movesI)
  fix s
  show "persists py cfg env s (snd (x_seq [x_modify g, save_settings env] s))"
    unfolding persists_def
  proof (intro impI)
    assume disk: "disk_ok py cfg env" and "bot_ok cfg s \<and> in_step s"
    with step [of s] have ok: "bot_ok cfg (g s)" "in_step (g s)" by (auto simp: bot_step_def)
    have env: "settings_json env (s' \<lparr> bt_save_attempts := n \<rparr>) = settings_json env s'" for s' n
      by (simp add: settings_json_def settings_entry_def)
    have "snd (x_seq [x_modify g, save_settings env] s) =
        g s \<lparr> bt_save_attempts := Suc (bt_save_attempts (g s)), bt_settings := Settings (settings_json env (g s)) \<rparr>"
      using disk env by (simp add: save_settings_def disk_ok_def x_bind_def)
    moreover have "bot_ok cfg (g s \<lparr> bt_save_attempts := n, bt_settings := f \<rparr>)"
      "in_step (g s \<lparr> bt_save_attempts := n, bt_settings := f \<rparr>)" for n f
      using ok by (simp_all add: bot_ok_def in_step_def)
    ultimately show "bot_ok cfg (snd (x_seq [x_modify g, save_settings env] s))
        \<and> in_step (snd (x_seq [x_modify g, save_settings env] s))
        \<and> (survives py cfg s \<longrightarrow> survives py cfg (snd (x_seq [x_modify g, save_settings env] s)))"
      using survives_saved [OF disk ok] by (simp only:) simp
  qed
qed

interpretation persistence: bot_relation "persists py cfg env" cfg env uid for py cfg env uid
proof unfold_locales
  show "persists py cfg env s s" for s by (simp add: persists_def)
  show "persists py cfg env s s' \<Longrightarrow> persists py cfg env s' s'' \<Longrightarrow> persists py cfg env s s''" for s s' s''
    by (auto simp: persists_def)
  show "persists py cfg env s (s \<lparr> bt_calls := cs \<rparr>)" for s cs
    by (rule persists_same [OF isolation.calls]) simp_all
  show "persists py cfg env s (s \<lparr> bt_awaiting_target := a, bt_awaiting_branch := b, bt_awaiting_volume := c \<rparr>)"
    if "a - {uid} = bt_awaiting_target s - {uid}" "b - {uid} = bt_awaiting_branch s - {uid}"
      "c - {uid} = bt_awaiting_volume s - {uid}" for a b c s
    by (rule persists_same [OF isolation.awaiting [OF that]]) simp_all
  show "persists py cfg env s (cancel_job_ref r s)" if "dict_get (bt_jobs s) uid = Some r" for r s
    by (rule persists_same [OF isolation.cancel [OF that]]) (simp_all add: cancel_job_ref_def)
  show "persists py cfg env s (signal_process p s)" for p s
    by (rule persists_same [OF isolation.signal]) (simp_all add: signal_process_def)
  show "persists py cfg env s (start_job uid chat file_id suffix t s)"
    if "dict_get (bt_targets s) uid = Some t" "dict_get (bt_jobs s) uid = None" for s t chat file_id suffix
    by (rule persists_same [OF isolation.start [OF that]]) (simp_all add: start_job_def Let_def)
qed (blast intro: persists_saved put_audio_step save_branch_step save_target_step)+

interpretation durable: update_relation "persists py cfg env" py cfg env for py cfg env
  by unfold_locales (blast intro: persistence.message persistence.callback)+

lemma survives_start: "survives py cfg (new_bot NoSettings)"
  by (simp add: survives_def start_bot_def load_settings_def new_bot_def agree_on_def)

section \<open>Whatever the file holds\<close>

text \<open>Reading the settings keeps the invariant, whatever the file says.\<close>

definition keeps_ok :: "bot_config \<Rightarrow> bot \<Rightarrow> bot \<Rightarrow> bool" where
  "keeps_ok cfg s s' \<longleftrightarrow> (bot_ok cfg s \<longrightarrow> bot_ok cfg s')"

interpretation loading: effect_relation "keeps_ok cfg" for cfg
  by unfold_locales (auto simp: keeps_ok_def)

lemma key_mem: "(k, v) \<in> set d \<Longrightarrow> k \<in> fst ` set d"
  by force

lemma keeps_load_target:
  assumes "uid \<in> set (bc_allowed_users cfg)"
  shows "moves (keeps_ok cfg) (load_target py cfg uid branch number)"
  unfolding load_target_def
proof (rule moves_get_bind)
  fix s0
  show "moves (keeps_ok cfg) (x_bind (x_lift (parse_target py cfg (dict_get (bt_user_branches s0) uid) (audio_of s0 uid) [branch, number]))
     (\<lambda>(t, named). x_modify (\<lambda>s. s \<lparr> bt_user_branches := (case named of Some b \<Rightarrow> dict_set (bt_user_branches s) uid b
        | None \<Rightarrow> bt_user_branches s), bt_targets := dict_set (bt_targets s) uid t \<rparr>)))"
  proof (cases "parse_target py cfg (dict_get (bt_user_branches s0) uid) (audio_of s0 uid) [branch, number]")
    case (Inl e)
    then show ?thesis by (simp add: loading.raise)
  next
    case (Inr p)
    then have t: "target_ok cfg (fst p)" and n: "snd p = None \<or> snd p = Some (tg_branch (fst p))"
      using parse_target_ok [of py cfg _ _ _ "fst p" "snd p"] by simp_all
    with assms target_ok_branch [OF t] show ?thesis
      unfolding Inr
      by (auto simp: moves_modify keeps_ok_def bot_ok_def split: prod.split if_splits intro: key_mem)
  qed
qed

lemma keeps_load_branch:
  assumes "uid \<in> set (bc_allowed_users cfg)"
  shows "moves (keeps_ok cfg) (load_branch py cfg uid d)"
proof -
  have "moves (keeps_ok cfg) (x_modify (\<lambda>s. s \<lparr> bt_user_branches := dict_set (bt_user_branches s) uid b \<rparr>))"
    if "normalize_branch py (bc_branch_aliases cfg) (bc_vehicle_maps cfg) (Some v) = Some b" for b v
    using cfg_branch_in [unfolded cfg_branch_def, OF that] assms by (auto simp: moves_modify keeps_ok_def bot_ok_def)
  then show ?thesis
    unfolding load_branch_def using keeps_load_target [OF assms, of py]
    by (auto split: json.split option.split intro!: loading.seq loading.return loading.raise simp del: x_seq.simps)
qed

lemma keeps_load_user: "moves (keeps_ok cfg) (load_user py cfg key v)"
proof -
  have audio: "moves (keeps_ok cfg) (x_modify (\<lambda>s. s \<lparr> bt_user_audio := dict_set (bt_user_audio s) uid a \<rparr>))"
    if "uid \<in> set (bc_allowed_users cfg)" "audio_ok a" for uid a
    using that by (auto simp: moves_modify keeps_ok_def bot_ok_def)
  have entry: "moves (keeps_ok cfg)
      (case j of
         JStr chan \<Rightarrow> if chan \<notin> set (dict_keys CHANNELS) then x_return ()
           else x_seq [x_modify (\<lambda>s. s \<lparr> bt_user_audio := dict_set (bt_user_audio s) uid \<lparr> au_volume = volume, au_output = chan \<rparr> \<rparr>),
                       load_branch py cfg uid d]
       | JList _ \<Rightarrow> x_raise (builtin py B_TypeError)
       | JDict _ \<Rightarrow> x_raise (builtin py B_TypeError)
       | _ \<Rightarrow> x_return ())"
    if "uid \<in> set (bc_allowed_users cfg)" "1 \<le> volume \<and> volume \<le> 100" for j uid volume d
  proof (cases j)
    case (JStr chan)
    have "moves (keeps_ok cfg) (x_seq [x_modify (\<lambda>s. s \<lparr> bt_user_audio :=
          dict_set (bt_user_audio s) uid \<lparr> au_volume = volume, au_output = chan \<rparr> \<rparr>), load_branch py cfg uid d])"
      if "\<not> chan \<notin> set (dict_keys CHANNELS)"
      using that \<open>1 \<le> volume \<and> volume \<le> 100\<close> audio [of uid "\<lparr> au_volume = volume, au_output = chan \<rparr>"]
        \<open>uid \<in> set (bc_allowed_users cfg)\<close>
      by (intro loading.seq) (auto simp: audio_ok_def intro: keeps_load_branch)
    then show ?thesis unfolding JStr json.case by (rule loading.if_cases [OF loading.return])
  qed (simp_all add: loading.return loading.raise)
  show ?thesis
    unfolding load_user_def
    by (cases v) (simp_all only: json.case,
      (intro loading.bind loading.lift loading.return loading.if_cases entry; simp)+)
qed

lemma start_bot_ok: "bot_ok cfg (snd (start_bot py cfg file0))"
proof -
  have "moves (keeps_ok cfg) (load_settings py cfg)"
    unfolding load_settings_def
    by (rule loading.bind [OF loading.get])
      (auto split: settings_file.split json.split intro!: loading.seq loading.return loading.try_with keeps_load_user)
  then have "keeps_ok cfg (new_bot file0) (snd (load_settings py cfg (new_bot file0)))"
    by (simp only: moves_def)
  then show ?thesis by (simp add: start_bot_def keeps_ok_def)
qed

end
