(* ===== verification/Bot_Wire.thy ===== *)
theory Bot_Wire
  imports Bot_Playback_Ends Bot_Restart Worker_Create Runner_Daemon
begin

text \<open>
  The bot and the worker understand each other: the worker accepts the check the bot asks for, and
  the bot reads from the worker's answers what became of it.
\<close>

section \<open>The request\<close>

lemma is_space_numeral: "is_space c \<Longrightarrow> c \<noteq> 46 \<and> \<not> (48 \<le> c \<and> c < 58)"
  by (auto simp: is_space_def)

lemma strip_word: "space_free s \<Longrightarrow> py_strip s = s"
proof -
  assume s: "space_free s"
  have id: "dropWhile is_space xs = xs" if "\<forall>c \<in> set xs. \<not> is_space c" for xs
    using that by (cases xs) auto
  show ?thesis using s id [of s] id [of "rev s"] by (simp add: py_strip_def py_lstrip_def py_rstrip_def space_free_def)
qed

lemma ip4_free: "space_free (str_of_ip4 a)" and ip4_not_Nil: "str_of_ip4 a \<noteq> []"
proof -
  have join: "c \<in> set (py_join [46] ws) \<Longrightarrow> c = 46 \<or> (\<exists>w \<in> set ws. c \<in> set w)" for c ws
    by (induction "[46] :: ustr" ws rule: py_join.induct) auto
  then have "c = 46 \<or> (48 \<le> c \<and> c < 58)" if "c \<in> set (str_of_ip4 a)" for c
    using join [OF that [unfolded str_of_ip4_def]] str_of_nat_digits by auto
  then show "space_free (str_of_ip4 a)" using is_space_numeral by (auto simp: space_free_def)
  show "str_of_ip4 a \<noteq> []" using parse_ipv4_str [of a] by (auto simp: parse_ipv4_def parse_octet_def)
qed

lemma target_ip: "target_ok cfg t \<Longrightarrow> \<exists>a. tg_ip t = str_of_ip4 a \<and> in_mnt_network (IPv4 a)"
  unfolding target_ok_def by (metis in_mnt_network.simps(2) ip_addr.exhaust str_of_ip.simps(1))

text \<open>The task the worker makes of a check.\<close>

definition check_task :: "create_env \<Rightarrow> ustr \<Rightarrow> ustr \<Rightarrow> int \<Rightarrow> target \<Rightarrow> task" where
  "check_task env fingerprint request_id uid t =
     new_task (ce_uuid env) request_id uid (u ''engineer'') \<lparr> v_number = tg_number t, v_ip = tg_ip t \<rparr>
       (u ''vehicle_reachability'') [] 90 fingerprint (u ''container_namespace'') (u ''read_only'') False
       (ce_now env) (ce_now' env)"

lemma check_payload_fields:
  "jget (check_payload rid uid n i) (u ''request_id'') = JStr rid"
  "jget (check_payload rid uid n i) (u ''telegram_user_id'') = JInt uid"
  "get_or (check_payload rid uid n i) (u ''user_role'') v = JStr (u ''engineer'')"
  "jget (check_payload rid uid n i) (u ''vehicle'') = JDict [(u ''number'', JStr n), (u ''ip'', JStr i)]"
  "jget (check_payload rid uid n i) (u ''vpn'') = JDict [(u ''mode'', JStr (u ''container_secret''))]"
  "jget (check_payload rid uid n i) (u ''operation'') = JStr (u ''vehicle_reachability'')"
  "get_or (check_payload rid uid n i) (u ''params'') v = JDict []"
  "get_or (check_payload rid uid n i) (u ''runner_mode'') v = JStr (u ''container_namespace'')"
  "get_or (check_payload rid uid n i) (u ''timeout_sec'') v = JInt 90"
  by (simp_all add: check_payload_def jget_def get_or_def)

lemma worker_accepts_vehicle:
  assumes ip: "tg_ip t = str_of_ip4 a" and number: "tg_number t \<noteq> []" and rid: "request_id \<noteq> []"
  shows "build_task py wcfg env (check_payload request_id uid (tg_number t) (tg_ip t)) fingerprint inventory =
    (Inr (check_task env fingerprint request_id uid t,
          \<lparr> vpn_mode = u ''container_secret'', vpn_username = [], vpn_password = [] \<rparr>), inventory)"
proof -
  have strip: "py_strip (str_of_ip4 a) = str_of_ip4 a" by (rule strip_word [OF ip4_free])
  have "build_vehicle resolve [(u ''number'', JStr (tg_number t)), (u ''ip'', JStr (tg_ip t))] inventory =
      (Inr \<lparr> v_number = tg_number t, v_ip = tg_ip t \<rparr>, inventory)" for resolve :: "jdict \<Rightarrow> inventory \<Rightarrow> _"
    using number by (simp add: build_vehicle_def require_str_def nonblank_str_def jget_def get_or_def ip strip ip4_not_Nil)
  moreover have "build_task_fields py wcfg env (check_payload request_id uid (tg_number t) (tg_ip t)) fingerprint
      \<lparr> v_number = tg_number t, v_ip = tg_ip t \<rparr> =
      Inr (check_task env fingerprint request_id uid t, \<lparr> vpn_mode = u ''container_secret'', vpn_username = [], vpn_password = [] \<rparr>)"
    using rid
    by (simp add: build_task_fields_def check_payload_fields require_dict_def require_str_def require_int_def
        build_vpn_def get_operation_def MVP_OPERATIONS_def check_task_def Let_def jget_def [of "[_]"] get_or_def [of "[_]"])
  ultimately show ?thesis by (simp add: build_task_def check_payload_fields require_dict_def)
qed

lemma worker_accepts_check:
  assumes "target_ok cfg t" and "readable_config cfg" and "request_id \<noteq> []"
  shows "build_task py wcfg env (check_payload request_id uid (tg_number t) (tg_ip t)) fingerprint inventory =
    (Inr (check_task env fingerprint request_id uid t,
          \<lparr> vpn_mode = u ''container_secret'', vpn_username = [], vpn_password = [] \<rparr>), inventory)"
proof -
  obtain a where "tg_ip t = str_of_ip4 a" using target_ip [OF assms(1)] by blast
  moreover have "tg_number t \<noteq> []" using assms by (auto simp: target_ok_def readable_config_def)
  ultimately show ?thesis using assms(3) by (rule worker_accepts_vehicle)
qed

section \<open>The answers\<close>

text \<open>The bot finds the id of the task in the answer to its creation.\<close>

lemma created_task_id: "\<exists>d. to_create_response t = JDict d \<and> item py d (u ''task_id'') = Inr (JStr (t_task_id t))"
  by (simp add: to_create_response_def item_def)

text \<open>
  And the verdict in the status of the task: success iff it is finished, the error of a task that ended
  otherwise, nothing while it runs.
\<close>

lemma response_state: "to_response py n1 n2 t = JDict d \<Longrightarrow> jget d (u ''state'') = JStr (t_state t)"
  by (auto simp: to_response_def jget_def get_or_def)

lemma bot_reads_status:
  assumes "to_response py n1 n2 t = JDict d"
  shows "status_verdict py d = Some None \<longleftrightarrow> t_state t = u ''finished''"
    and "status_verdict py d = None \<longleftrightarrow> \<not> terminal_state (t_state t)"
  using response_state [OF assms]
  by (auto simp: status_verdict_def TERMINAL_TASK_STATES_def TERMINAL_STATES_def Let_def)

lemma response_error:
  assumes "to_response py n1 n2 t = JDict d" and "t_error_code t = Some code"
  shows "jget d (u ''error_code'') = JStr code"
  using assms by (auto simp: to_response_def jget_def get_or_def field_if_def opt_json_def map_of_append split: if_splits)

lemma bot_reads_error:
  assumes "to_response py n1 n2 t = JDict d" and "t_error_code t = Some code" "code \<noteq> []"
    and "terminal_state (t_state t)" "t_state t \<noteq> u ''finished''"
  shows "\<exists>m. status_verdict py d = Some (Some (code, m))"
  using response_state [OF assms(1)] response_error [OF assms(1,2)] assms(3-5)
  by (auto simp: status_verdict_def TERMINAL_TASK_STATES_def TERMINAL_STATES_def Let_def py_or_def)

text \<open>The daemon runs the check in the namespace of the VPN container.\<close>

lemma check_uses_namespace: "choose_executor (t_runner_mode (check_task env f rid uid t)) = Inr NamespaceExecutor"
  by (simp add: choose_executor_def check_task_def new_task_def)

end
