(* ===== verification/Tcp_Proxy.thy ===== *)
theory Tcp_Proxy
  imports Ip_Address Py_Json Py_State
begin

text \<open>
  The TCP proxy into the vehicle network (\<open>tcp_proxy.py\<close>): one request line, one connection, then bytes
  in both directions until both sides are done. A socket is the list of bytes that are still to
  come; how they fall into pieces is up to the environment.
\<close>

section \<open>The request\<close>

text \<open>
  \<open>client.recv(512 - len(request))\<close> until a line break or 512 bytes: the \<open>k\<close>-th call raises, or gives up to
  so many bytes (at least one, unless the client is done). The result is the request, \<open>None\<close> when the
  client went away, and the bytes not yet read.
\<close>

function read_request :: "(nat \<Rightarrow> exn + nat) \<Rightarrow> nat \<Rightarrow> nat list \<Rightarrow> nat list \<Rightarrow> (nat list option \<times> nat list) res" where
  "read_request recv k stream request =
     (if 10 \<in> set request \<or> 512 \<le> length request then Inr (Some request, stream)
      else case recv k of
        Inl e \<Rightarrow> Inl e
      | Inr got \<Rightarrow>
          if stream = [] then Inr (None, [])
          else
            let n = min (512 - length request) (max 1 got)
            in read_request recv (Suc k) (drop n stream) (request @ take n stream))"
  by pat_completeness auto
termination
  by (relation "measure (\<lambda>(recv, k, stream, request). 512 - length request)") (auto simp: min_def max_def neq_Nil_conv)

declare read_request.simps [simp del]

text \<open>The line of the request: the keyword, an address in the network, a port.\<close>

definition parse_request :: "pylib \<Rightarrow> nat list \<Rightarrow> (ustr \<times> int) res" where
  "parse_request py line =
     (if \<exists>b \<in> set line. 128 \<le> b then Inl (builtin py B_UnicodeDecodeError)
      else case py_split (py_strip line) of
        [word, host, port] \<Rightarrow>
          if word \<noteq> u ''CONNECT'' then Inl (ValueErr (u ''expected CONNECT <ip> <port>''))
          else (case ip_address host of
              None \<Rightarrow> Inl (builtin py B_ValueError)
            | Some address \<Rightarrow>
                if \<not> in_mnt_network address then Inl (ValueErr (u ''destination is outside 172.26.0.0/15''))
                else (case int_of_ustr port of
                    None \<Rightarrow> Inl (builtin py B_ValueError)
                  | Some p \<Rightarrow> Inr (str_of_ip address, p)))
      | _ \<Rightarrow> Inl (ValueErr (u ''expected CONNECT <ip> <port>'')))"

section \<open>The relay\<close>

datatype side = Client | Upstream

fun other_side :: "side \<Rightarrow> side" where
  "other_side Client = Upstream"
| "other_side Upstream = Client"

text \<open>
  What was delivered to each side, the sides whose data is still awaited (the map of the selector),
  the sides told that nothing more will come, and where the proxy connected to.
\<close>

record tunnel =
  tn_delivered :: "side \<Rightarrow> nat list"
  tn_registered :: "side \<Rightarrow> bool"
  tn_shut :: "side \<Rightarrow> bool"
  tn_connected :: "(ustr \<times> int) option"

definition new_tunnel :: tunnel where
  "new_tunnel = \<lparr> tn_delivered = (\<lambda>_. []), tn_registered = (\<lambda>_. False), tn_shut = (\<lambda>_. False), tn_connected = None \<rparr>"

definition deliver :: "side \<Rightarrow> nat list \<Rightarrow> tunnel \<Rightarrow> tunnel" where
  "deliver s data tn = tn \<lparr> tn_delivered := (tn_delivered tn)(s := tn_delivered tn s @ data) \<rparr>"

text \<open>
  One key of \<open>selector.select\<close>: data of a side that could be passed on (no data: the side is done; whether
  the other one can still be told does not matter), or a \<open>recv\<close> or \<open>sendall\<close> that raises, the latter
  after some bytes.
\<close>

datatype relay_event =
    Received side "nat list"
  | RecvFails side exn
  | SendFails side "nat list" exn

fun relay_step :: "relay_event \<Rightarrow> (tunnel, unit) st" where
  "relay_step (Received s data) tn =
     (if \<not> tn_registered tn s then (Inr (), tn)
      else if data = [] then
        (Inr (), tn \<lparr> tn_registered := (tn_registered tn)(s := False), tn_shut := (tn_shut tn)(other_side s := True) \<rparr>)
      else (Inr (), deliver (other_side s) data tn))"
| "relay_step (RecvFails s e) tn = (if tn_registered tn s then (Inl e, tn) else (Inr (), tn))"
| "relay_step (SendFails s sent e) tn =
     (if tn_registered tn s then (Inl e, deliver (other_side s) sent tn) else (Inr (), tn))"

text \<open>The loop, until no side is registered; \<open>None\<close> when it is still waiting at the end of the events.\<close>

fun relay :: "relay_event list \<Rightarrow> tunnel \<Rightarrow> (unit res \<times> tunnel) option" where
  "relay events tn =
     (if \<not> tn_registered tn Client \<and> \<not> tn_registered tn Upstream then Some (Inr (), tn)
      else case events of
        [] \<Rightarrow> None
      | e # rest \<Rightarrow>
          (case relay_step e tn of
             (Inl err, tn') \<Rightarrow> Some (Inl err, tn')
           | (Inr _, tn') \<Rightarrow> relay rest tn'))"

declare relay.simps [simp del]

section \<open>A connection\<close>

record proxy_env =
  xp_recv :: "nat \<Rightarrow> exn + nat"
  xp_connect :: "ustr \<Rightarrow> int \<Rightarrow> unit res"
  xp_send_ok :: "unit res"
  xp_send_rest :: "unit res"
  xp_events :: "relay_event list"
  xp_send_error :: bool

text \<open>The reply to any exception; that it cannot be sent or encoded changes nothing more.\<close>

definition error_reply :: "proxy_env \<Rightarrow> exn \<Rightarrow> tunnel \<Rightarrow> tunnel" where
  "error_reply env e tn =
     (case utf8_encode (u ''ERR '' @ exn_str e @ [10]) of
        Some bytes \<Rightarrow> if xp_send_error env then deliver Client bytes tn else tn
      | None \<Rightarrow> tn)"

text \<open>From the answer to the client to the end of the relay.\<close>

definition serve :: "proxy_env \<Rightarrow> nat list \<Rightarrow> tunnel \<Rightarrow> (unit res \<times> tunnel) option" where
  "serve env remainder tn =
     (case xp_send_ok env of
        Inl e \<Rightarrow> Some (Inl e, tn)
      | Inr _ \<Rightarrow>
          let tn1 = deliver Client (u ''OK'' @ [10]) tn
          in case (if remainder = [] then Inr () else xp_send_rest env) of
               Inl e \<Rightarrow> Some (Inl e, tn1)
             | Inr _ \<Rightarrow>
                 relay (xp_events env) (deliver Upstream remainder tn1 \<lparr> tn_registered := (\<lambda>_. True) \<rparr>))"

text \<open>\<open>handle\<close>, for the bytes a client sends; \<open>None\<close> while the relay is waiting.\<close>

definition handle :: "pylib \<Rightarrow> proxy_env \<Rightarrow> nat list \<Rightarrow> tunnel option" where
  "handle py env stream =
     (case read_request (xp_recv env) 0 stream [] of
        Inl e \<Rightarrow> Some (error_reply env e new_tunnel)
      | Inr (None, _) \<Rightarrow> Some new_tunnel
      | Inr (Some request, _) \<Rightarrow>
          (case py_partition 10 request of
             (line, _, remainder) \<Rightarrow>
               (case parse_request py line of
                  Inl e \<Rightarrow> Some (error_reply env e new_tunnel)
                | Inr (host, port) \<Rightarrow>
                    (case xp_connect env host port of
                       Inl e \<Rightarrow> Some (error_reply env e new_tunnel)
                     | Inr _ \<Rightarrow>
                         (case serve env remainder (new_tunnel \<lparr> tn_connected := Some (host, port) \<rparr>) of
                            None \<Rightarrow> None
                          | Some (Inl e, tn) \<Rightarrow> Some (error_reply env e tn)
                          | Some (Inr _, tn) \<Rightarrow> Some tn)))))"

section \<open>Laws of the request\<close>

lemma read_request_spec:
  "read_request recv k stream request = Inr (r, rest) \<Longrightarrow>
     (case r of
        Some line \<Rightarrow> line @ rest = request @ stream \<and> (10 \<in> set line \<or> 512 \<le> length line)
      | None \<Rightarrow> 10 \<notin> set (request @ stream))"
proof (induction recv k stream request rule: read_request.induct)
  case (1 recv k stream request)
  show ?case
  proof (cases "10 \<in> set request \<or> 512 \<le> length request")
    case True
    with 1(2) show ?thesis by (subst (asm) read_request.simps) auto
  next
    case False
    with 1(2) obtain got where size: "recv k = Inr got"
      by (subst (asm) read_request.simps) (auto split: sum.splits)
    show ?thesis
    proof (cases "stream = []")
      case True
      with 1(2) False size show ?thesis by (subst (asm) read_request.simps) auto
    next
      case stream: False
      define n where "n = min (512 - length request) (max 1 got)"
      from 1(2) False size stream have
        "read_request recv (Suc k) (drop n stream) (request @ take n stream) = Inr (r, rest)"
        by (subst (asm) read_request.simps) (auto simp: n_def Let_def)
      from 1(1) [OF False size stream n_def this] show ?thesis by (simp split: option.splits)
    qed
  qed
qed

text \<open>If nothing raises, a line break among the first 512 bytes is found.\<close>

lemma read_request_found:
  "(\<And>k. \<exists>got. recv k = Inr got) \<Longrightarrow> length request \<le> 512
   \<Longrightarrow> 10 \<in> set (take (512 - length request) stream) \<or> 10 \<in> set request
   \<Longrightarrow> \<exists>line rest. read_request recv k stream request = Inr (Some line, rest) \<and> 10 \<in> set line"
proof (induction recv k stream request rule: read_request.induct)
  case (1 recv k stream request)
  show ?case
  proof (cases "10 \<in> set request")
    case True
    then show ?thesis by (subst read_request.simps) simp
  next
    case False
    with 1(4) have t: "10 \<in> set (take (512 - length request) stream)" by simp
    then have stream: "stream \<noteq> []" by auto
    from t have len: "length request < 512" by (cases "512 - length request") simp_all
    obtain got where size: "recv k = Inr got" using 1(2) by blast
    define n where "n = min (512 - length request) (max 1 got)"
    have "take (512 - length request) stream
        = take n stream @ take (512 - length request - n) (drop n stream)"
      by (metis le_add_diff_inverse min.cobounded1 n_def take_add)
    then have "10 \<in> set (take (512 - length (request @ take n stream)) (drop n stream))
        \<or> 10 \<in> set (request @ take n stream)"
      using 1(4) False by (cases "n \<le> length stream") auto
    moreover have "length (request @ take n stream) \<le> 512" using len by (simp add: n_def)
    moreover have "\<not> (10 \<in> set request \<or> 512 \<le> length request)" using False len by simp
    ultimately obtain line rest where
      "read_request recv (Suc k) (drop n stream) (request @ take n stream) = Inr (Some line, rest)" "10 \<in> set line"
      using 1(1) [OF _ size stream n_def] 1(2) by blast
    then show ?thesis
      using False len size stream by (subst read_request.simps) (simp add: n_def Let_def)
  qed
qed

lemma py_partition_split: "sep \<in> set s \<Longrightarrow> py_partition sep s = (takeWhile (\<lambda>c. c \<noteq> sep) s, True, tl (dropWhile (\<lambda>c. c \<noteq> sep) s))"
  by (induction s) auto

text \<open>
  However the bytes arrive, the line is what precedes the first line break, and what was read
  beyond it is followed by what was not read yet.
\<close>

lemma request_line:
  assumes "\<And>k. \<exists>got. xp_recv env k = Inr got" and "10 \<in> set (take 512 stream)"
  shows "\<exists>request rest remainder. read_request (xp_recv env) 0 stream [] = Inr (Some request, rest)
    \<and> py_partition 10 request = (takeWhile (\<lambda>c. c \<noteq> 10) stream, True, remainder)
    \<and> remainder @ rest = tl (dropWhile (\<lambda>c. c \<noteq> 10) stream)"
proof -
  obtain request rest where read: "read_request (xp_recv env) 0 stream [] = Inr (Some request, rest)"
    and nl: "10 \<in> set request"
    using read_request_found [of "xp_recv env" "[]" stream 0] assms by auto
  have stream: "stream = request @ rest" using read_request_spec [OF read] by simp
  have "takeWhile (\<lambda>c. c \<noteq> 10) stream = takeWhile (\<lambda>c. c \<noteq> 10) request"
    unfolding stream using nl by (intro takeWhile_append1) auto
  moreover have "dropWhile (\<lambda>c. c \<noteq> 10) stream = dropWhile (\<lambda>c. c \<noteq> 10) request @ rest"
    unfolding stream using nl by (intro dropWhile_append1) auto
  moreover have "dropWhile (\<lambda>c. c \<noteq> 10) request \<noteq> []" using nl by (auto simp: dropWhile_eq_Nil_conv)
  ultimately show ?thesis using read py_partition_split [OF nl] by auto
qed

section \<open>Laws of the relay\<close>

text \<open>The bytes of a side, up to its end.\<close>

fun bytes_from :: "side \<Rightarrow> relay_event list \<Rightarrow> nat list" where
  "bytes_from s [] = []"
| "bytes_from s (Received s' data # events) =
     (if s' = s then (if data = [] then [] else data @ bytes_from s events) else bytes_from s events)"
| "bytes_from s (_ # events) = bytes_from s events"

lemma relay_waits: "tn_registered tn s \<Longrightarrow> relay events tn = (case events of [] \<Rightarrow> None
    | e # rest \<Rightarrow> (case relay_step e tn of (Inl err, tn') \<Rightarrow> Some (Inl err, tn') | (Inr _, tn') \<Rightarrow> relay rest tn'))"
  by (subst relay.simps; cases s) simp_all

lemma relay_done: "\<not> tn_registered tn Client \<Longrightarrow> \<not> tn_registered tn Upstream \<Longrightarrow> relay events tn = Some (Inr (), tn)"
  by (subst relay.simps) simp

text \<open>A relay that ends well has passed on, in order, exactly what it received from either side.\<close>

lemma relay_delivers:
  "relay events tn = Some (Inr (), tn') \<Longrightarrow>
   tn_delivered tn' (other_side s) =
     tn_delivered tn (other_side s) @ (if tn_registered tn s then bytes_from s events else [])
   \<and> (tn_registered tn s \<longrightarrow> tn_shut tn' (other_side s)) \<and> (tn_shut tn (other_side s) \<longrightarrow> tn_shut tn' (other_side s))"
proof (induction events arbitrary: tn)
  case Nil
  then show ?case by (subst (asm) relay.simps) (cases s; auto split: if_splits)
next
  case (Cons e events)
  show ?case
  proof (cases "tn_registered tn Client \<or> tn_registered tn Upstream")
    case False
    with Cons.prems relay_done [of tn] show ?thesis by (cases s) auto
  next
    case True
    then obtain x tn1 where step: "relay_step e tn = (Inr x, tn1)" and rest: "relay events tn1 = Some (Inr (), tn')"
      using Cons.prems relay_waits by (auto split: prod.splits sum.splits)
    note IH = Cons.IH [OF rest]
    have [simp]: "other_side a = other_side b \<longleftrightarrow> a = b" for a b by (cases a; cases b) simp_all
    show ?thesis
      using step IH by (cases e) (auto simp: deliver_def split: if_splits)
  qed
qed

text \<open>
  A half-closed tunnel: after the client is done, what the vehicle sends still gets through. (The
  relay ends only when both are done.)
\<close>

lemma relay_ends_done:
  "relay events tn = Some (Inr (), tn') \<Longrightarrow> \<not> tn_registered tn' s"
proof (induction events arbitrary: tn)
  case Nil
  then show ?case by (subst (asm) relay.simps) (cases s; auto split: if_splits)
next
  case (Cons e events)
  then show ?case
    by (subst (asm) relay.simps) (cases s; auto split: if_splits prod.splits sum.splits)
qed

text \<open>Every event makes progress towards the end or is passed on; with both ends, the relay returns.\<close>

lemma relay_returns:
  "(tn_registered tn Client \<longrightarrow> Received Client [] \<in> set events)
   \<Longrightarrow> (tn_registered tn Upstream \<longrightarrow> Received Upstream [] \<in> set events) \<Longrightarrow> relay events tn \<noteq> None"
proof (induction events arbitrary: tn)
  case Nil
  then show ?case by (simp add: relay_done)
next
  case (Cons e events)
  show ?case
  proof (cases "tn_registered tn Client \<or> tn_registered tn Upstream")
    case False
    then show ?thesis by (simp add: relay_done)
  next
    case True
    obtain r tn1 where step: "relay_step e tn = (r, tn1)" by fastforce
    have "relay events tn1 \<noteq> None" if "r = Inr x" for x
      using Cons step that
      by (intro Cons.IH) (cases e; auto simp: deliver_def split: if_splits)+
    with True step show ?thesis using relay_waits by (cases r) auto
  qed
qed

text \<open>Events in which nothing fails and both sides come to their end.\<close>

definition quiet :: "relay_event list \<Rightarrow> bool" where
  "quiet events \<longleftrightarrow> (\<forall>e \<in> set events. \<exists>s data. e = Received s data)
     \<and> Received Client [] \<in> set events \<and> Received Upstream [] \<in> set events"

lemma relay_no_failure:
  "\<forall>e \<in> set events. \<exists>s data. e = Received s data \<Longrightarrow> relay events tn = Some (r, tn') \<Longrightarrow> r = Inr ()"
proof (induction events arbitrary: tn)
  case Nil
  then show ?case by (subst (asm) relay.simps) (auto split: if_splits)
next
  case (Cons e events)
  then obtain s data where e: "e = Received s data" by auto
  with Cons show ?case
    by (subst (asm) relay.simps) (auto split: if_splits)
qed

lemma relay_quiet: "quiet events \<Longrightarrow> \<exists>tn'. relay events tn = Some (Inr (), tn')"
  using relay_returns [of tn events] relay_no_failure [of events tn] by (fastforce simp: quiet_def)

section \<open>Laws of a connection\<close>

text \<open>Nothing is connected to, and nothing passed on, outside the vehicle network.\<close>

definition safe_tunnel :: "tunnel \<Rightarrow> bool" where
  "safe_tunnel tn \<longleftrightarrow> (case tn_connected tn of
      Some (host, port) \<Rightarrow> \<exists>a. host = str_of_ip4 a \<and> in_mnt_network (IPv4 a)
    | None \<Rightarrow> tn_delivered tn Upstream = [])"

lemma mnt_address: "in_mnt_network address \<Longrightarrow> \<exists>a. str_of_ip address = str_of_ip4 a \<and> in_mnt_network (IPv4 a)"
  by (cases address) auto

lemma parse_request_parts:
  assumes "parse_request py line = Inr (host, port)"
  obtains address where "in_mnt_network address" and "host = str_of_ip address"
  using assms that unfolding parse_request_def
  by (auto simp del: in_mnt_network.simps split: if_splits list.splits option.splits)

lemma parse_request_safe: "parse_request py line = Inr (host, port) \<Longrightarrow> \<exists>a. host = str_of_ip4 a \<and> in_mnt_network (IPv4 a)"
  by (erule parse_request_parts) (use mnt_address in blast)

lemma relay_step_connected: "relay_step e tn = (r, tn') \<Longrightarrow> tn_connected tn' = tn_connected tn"
  by (cases e) (auto simp: deliver_def split: if_splits)

lemma relay_connected: "relay events tn = Some (r, tn') \<Longrightarrow> tn_connected tn' = tn_connected tn"
proof (induction events arbitrary: tn)
  case Nil
  then show ?case by (subst (asm) relay.simps) (auto split: if_splits)
next
  case (Cons e events)
  show ?case
  proof (cases "tn_registered tn Client \<or> tn_registered tn Upstream")
    case False
    with Cons.prems relay_done [of tn] show ?thesis by auto
  next
    case True
    obtain q tn1 where step: "relay_step e tn = (q, tn1)" by fastforce
    from relay_step_connected [OF this] show ?thesis
      using Cons True step relay_waits by (cases q) (auto split: if_splits)
  qed
qed

lemma serve_connected: "serve env remainder tn = Some (r, tn') \<Longrightarrow> tn_connected tn' = tn_connected tn"
  by (auto simp: serve_def Let_def deliver_def split: sum.splits dest: relay_connected)

lemma error_reply_other [simp]:
  "tn_connected (error_reply env e tn) = tn_connected tn"
  "tn_delivered (error_reply env e tn) Upstream = tn_delivered tn Upstream"
  by (simp_all add: error_reply_def deliver_def split: option.split)

lemma handle_safe: "handle py env stream = Some tn \<Longrightarrow> safe_tunnel tn"
proof -
  have err: "safe_tunnel (error_reply env e tn')" if "safe_tunnel tn'" for e tn'
    using that by (auto simp: safe_tunnel_def split: option.splits)
  have new: "safe_tunnel new_tunnel" by (simp add: safe_tunnel_def new_tunnel_def)
  have served: "safe_tunnel tn'" if "parse_request py line = Inr (host, port)"
    "serve env remainder (new_tunnel \<lparr> tn_connected := Some (host, port) \<rparr>) = Some (r, tn')" for line host port remainder r tn'
    using serve_connected [OF that(2)] parse_request_safe [OF that(1)] by (simp add: safe_tunnel_def)
  assume "handle py env stream = Some tn"
  then show ?thesis
    unfolding handle_def by (auto split: sum.splits option.splits prod.splits intro: err new served)
qed

text \<open>
  A tunnel that ends well: the vehicle got exactly what the client sent after its line, and the client
  got the answer and then exactly what the vehicle sent, however the bytes fell into pieces.
\<close>

lemma handle_transparent:
  assumes recv: "\<And>k. \<exists>got. xp_recv env k = Inr got" and nl: "10 \<in> set (take 512 stream)"
    and request: "parse_request py (takeWhile (\<lambda>c. c \<noteq> 10) stream) = Inr (host, port)"
    and ok: "xp_connect env host port = Inr ()" "xp_send_ok env = Inr ()" "xp_send_rest env = Inr ()"
    and client: "\<And>request rest. read_request (xp_recv env) 0 stream [] = Inr (request, rest)
        \<Longrightarrow> bytes_from Client (xp_events env) = rest"
    and quiet: "quiet (xp_events env)"
  shows "\<exists>tn. handle py env stream = Some tn \<and> tn_connected tn = Some (host, port)
    \<and> tn_delivered tn Upstream = tl (dropWhile (\<lambda>c. c \<noteq> 10) stream)
    \<and> tn_delivered tn Client = u ''OK'' @ [10] @ bytes_from Upstream (xp_events env)
    \<and> tn_shut tn Client \<and> tn_shut tn Upstream"
proof -
  obtain line rest remainder where read: "read_request (xp_recv env) 0 stream [] = Inr (Some line, rest)"
    and part: "py_partition 10 line = (takeWhile (\<lambda>c. c \<noteq> 10) stream, True, remainder)"
    and rest: "remainder @ rest = tl (dropWhile (\<lambda>c. c \<noteq> 10) stream)"
    using request_line [OF recv nl] by blast
  define tn0 where "tn0 = deliver Upstream remainder (deliver Client (u ''OK'' @ [10])
      (new_tunnel \<lparr> tn_connected := Some (host, port) \<rparr>)) \<lparr> tn_registered := (\<lambda>_. True) \<rparr>"
  obtain tn where tn: "relay (xp_events env) tn0 = Some (Inr (), tn)" using relay_quiet [OF quiet] by blast
  have "serve env remainder (new_tunnel \<lparr> tn_connected := Some (host, port) \<rparr>) = Some (Inr (), tn)"
    using ok tn by (cases "remainder = []") (simp_all add: serve_def Let_def tn0_def)
  then have "handle py env stream = Some tn"
    using read part request ok by (simp add: handle_def)
  moreover have "tn_connected tn = Some (host, port)"
    using relay_connected [OF tn] by (simp add: tn0_def deliver_def)
  ultimately show ?thesis
    using relay_delivers [OF tn, of Client] relay_delivers [OF tn, of Upstream] client [OF read] rest
    by (simp add: tn0_def deliver_def new_tunnel_def)
qed

end
