(* ===== verification/Proxy_Connect.thy ===== *)
theory Proxy_Connect
  imports Tcp_Proxy
begin

text \<open>
  The other end of the tunnel (\<open>scripts/proxy_connect.py\<close>, the ProxyCommand of ssh): it asks the proxy
  for a connection and then carries standard input to the proxy and the answer to standard output;
  and what the two ends do together.
\<close>

section \<open>The program\<close>

text \<open>\<open>read_line\<close>, one byte at a time; the \<open>k\<close>-th \<open>recv\<close> may raise.\<close>

fun read_line :: "(nat \<Rightarrow> exn option) \<Rightarrow> nat \<Rightarrow> nat list \<Rightarrow> nat list \<Rightarrow> (nat list \<times> nat list) res" where
  "read_line recv k stream result =
     (if py_endswith result [10] \<or> 1024 \<le> length result then Inr (result, stream)
      else case recv k of
        Some e \<Rightarrow> Inl e
      | None \<Rightarrow> (case stream of [] \<Rightarrow> Inr (result, []) | b # rest \<Rightarrow> read_line recv (Suc k) rest (result @ [b])))"

declare read_line.simps [simp del]

text \<open>\<open>while view: view = view[os.write(...):]\<close>; the \<open>k\<close>-th write takes up to so many bytes, at least one.\<close>

function write_all :: "(nat \<Rightarrow> nat) \<Rightarrow> nat \<Rightarrow> nat list \<Rightarrow> nat list" where
  "write_all accept k view =
     (if view = [] then []
      else let n = max 1 (accept k) in take n view @ write_all accept (Suc k) (drop n view))"
  by pat_completeness auto
termination
  by (relation "measure (\<lambda>(accept, k, view). length view)") (auto simp: max_def)

declare write_all.simps [simp del]

datatype client_exit = Exits ustr | Raises exn | Finishes

record client_state =
  cs_sent :: "nat list"
  cs_stdout :: "nat list"
  cs_stdin_open :: bool

text \<open>
  One key of the selector: data of standard input with the number of bytes the kernel takes at once
  (the socket does not block, so \<open>sendall\<close> raises when it does not take all), its end (the
  \<open>shutdown\<close> may raise), or the socket: nothing there after all, data, its end, or an error.
\<close>

datatype client_event =
    StdinData "nat list" nat
  | StdinEnd "exn option"
  | SocketBlocked
  | SocketData "nat list"
  | SocketEnd
  | SocketRaises exn

record client_env =
  ce_connect :: "unit res"
  ce_send :: "unit res"
  ce_recv :: "nat \<Rightarrow> exn option"
  ce_accept :: "nat \<Rightarrow> nat"
  ce_decode :: "nat list \<Rightarrow> ustr"
  ce_events :: "client_event list"

fun client_step :: "pylib \<Rightarrow> (nat \<Rightarrow> nat) \<Rightarrow> client_event \<Rightarrow> client_state \<Rightarrow> client_exit option \<times> client_state" where
  "client_step py accept (StdinData data n) s =
     (if \<not> cs_stdin_open s then (None, s)
      else if n < length data
        then (Some (Raises (builtin py B_OSError)), s \<lparr> cs_sent := cs_sent s @ take n data \<rparr>)
      else (None, s \<lparr> cs_sent := cs_sent s @ data \<rparr>))"
| "client_step py accept (StdinEnd x) s =
     (if \<not> cs_stdin_open s then (None, s)
      else (map_option Raises x, s \<lparr> cs_stdin_open := False \<rparr>))"
| "client_step py accept SocketBlocked s = (None, s)"
| "client_step py accept (SocketData data) s = (None, s \<lparr> cs_stdout := cs_stdout s @ write_all accept 0 data \<rparr>)"
| "client_step py accept SocketEnd s = (Some Finishes, s)"
| "client_step py accept (SocketRaises e) s = (Some (Raises e), s)"

fun client_loop :: "pylib \<Rightarrow> (nat \<Rightarrow> nat) \<Rightarrow> client_event list \<Rightarrow> client_state \<Rightarrow> (client_exit \<times> client_state) option" where
  "client_loop py accept [] s = None"
| "client_loop py accept (e # events) s =
     (case client_step py accept e s of
        (Some x, s') \<Rightarrow> Some (x, s')
      | (None, s') \<Rightarrow> client_loop py accept events s')"

definition request_text :: "ustr \<Rightarrow> ustr \<Rightarrow> ustr" where
  "request_text host port = u ''CONNECT '' @ host @ [32] @ port @ [10]"

definition usage_text :: ustr where
  "usage_text = u ''usage: proxy_connect.py <proxy-host> <proxy-port> <target-host> <target-port>''"

text \<open>\<open>main\<close>, for the bytes the proxy sends; \<open>None\<close> while it waits.\<close>

definition proxy_connect :: "pylib \<Rightarrow> client_env \<Rightarrow> ustr list \<Rightarrow> nat list \<Rightarrow> (client_exit \<times> client_state) option" where
  "proxy_connect py env argv stream =
     (let s0 = \<lparr> cs_sent = [], cs_stdout = [], cs_stdin_open = True \<rparr>
      in case argv of
        [_, proxy_host, proxy_port, target_host, target_port] \<Rightarrow>
          (let request = request_text target_host target_port
           in case py_int py (JStr proxy_port) of
                Inl e \<Rightarrow> Some (Raises e, s0)
              | Inr _ \<Rightarrow>
                  (case ce_connect env of
                     Inl e \<Rightarrow> Some (Raises e, s0)
                   | Inr _ \<Rightarrow>
                       if \<exists>c \<in> set request. 128 \<le> c then Some (Raises (builtin py B_UnicodeEncodeError), s0)
                       else
                         (case ce_send env of
                            Inl e \<Rightarrow> Some (Raises e, s0)
                          | Inr _ \<Rightarrow>
                              let s1 = s0 \<lparr> cs_sent := request \<rparr>
                              in (case read_line (ce_recv env) 0 stream [] of
                                    Inl e \<Rightarrow> Some (Raises e, s1)
                                  | Inr (response, _) \<Rightarrow>
                                      if response \<noteq> u ''OK'' @ [10] then
                                        (let txt = py_strip (ce_decode env response)
                                         in Some (Exits (if txt = [] then u ''proxy rejected connection'' else txt), s1))
                                      else client_loop py (ce_accept env) (ce_events env) s1))))
      | _ \<Rightarrow> Some (Exits usage_text, s0))"

section \<open>Laws of the program\<close>

lemma write_all_all: "write_all accept k view = view"
proof (induction accept k view rule: write_all.induct)
  case (1 accept k view)
  then show ?case by (subst write_all.simps) (simp add: Let_def)
qed

lemma read_line_step:
  "\<not> py_endswith result [10] \<Longrightarrow> length result < 1024 \<Longrightarrow> recv k = None \<Longrightarrow>
   read_line recv k (b # rest) result = read_line recv (Suc k) rest (result @ [b])"
  by (subst read_line.simps) simp

lemma read_line_stop: "py_endswith result [10] \<Longrightarrow> read_line recv k stream result = Inr (result, stream)"
  by (subst read_line.simps) simp

text \<open>The answer is read to its line break and not a byte further.\<close>

lemma not_ended: "10 \<notin> set result \<Longrightarrow> \<not> py_endswith result [10]"
  by (metis append_take_drop_id in_set_conv_decomp py_endswith_def)

lemma read_line_spec:
  assumes "\<And>k. recv k = None"
  shows "10 \<notin> set result \<Longrightarrow> 10 \<notin> set line \<Longrightarrow> length result + length line < 1024
    \<Longrightarrow> read_line recv k (line @ 10 # rest) result = Inr (result @ line @ [10], rest)"
proof (induction line arbitrary: k result)
  case Nil
  have "read_line recv k (10 # rest) result = read_line recv (Suc k) rest (result @ [10])"
    using Nil not_ended by (intro read_line_step assms) simp_all
  then show ?case by (simp add: read_line_stop)
next
  case (Cons b line)
  have "read_line recv k (b # line @ 10 # rest) result = read_line recv (Suc k) (line @ 10 # rest) (result @ [b])"
    using Cons.prems not_ended by (intro read_line_step assms) simp_all
  also have "\<dots> = Inr ((result @ [b]) @ line @ [10], rest)" using Cons.prems by (intro Cons.IH) auto
  finally show ?case by simp
qed

text \<open>What standard input gives, and what the socket gives, up to the end of the socket.\<close>

fun stdin_data :: "bool \<Rightarrow> client_event list \<Rightarrow> nat list" where
  "stdin_data opened [] = []"
| "stdin_data opened (StdinData data n # events) = (if opened then data else []) @ stdin_data opened events"
| "stdin_data opened (StdinEnd x # events) = stdin_data False events"
| "stdin_data opened (SocketEnd # events) = []"
| "stdin_data opened (_ # events) = stdin_data opened events"

fun socket_data :: "client_event list \<Rightarrow> nat list" where
  "socket_data [] = []"
| "socket_data (SocketData data # events) = data @ socket_data events"
| "socket_data (SocketEnd # events) = []"
| "socket_data (_ # events) = socket_data events"

lemma client_loop_finishes:
  "client_loop py accept events s = Some (Finishes, s') \<Longrightarrow>
   cs_sent s' = cs_sent s @ stdin_data (cs_stdin_open s) events \<and> cs_stdout s' = cs_stdout s @ socket_data events"
proof (induction events arbitrary: s)
  case (Cons e events)
  then show ?case
    by (cases e) (auto simp: write_all_all split: if_splits option.splits)
qed simp

text \<open>A socket that does not take all at once ends the tunnel in the middle of the data.\<close>

lemma client_blocked:
  "cs_stdin_open s \<Longrightarrow> n < length data \<Longrightarrow>
   client_loop py accept (StdinData data n # events) s =
     Some (Raises (builtin py B_OSError), s \<lparr> cs_sent := cs_sent s @ take n data \<rparr>)"
  by simp

section \<open>Both ends\<close>

lemma mnt_host_chars: "c \<in> set (str_of_ip4 a) \<Longrightarrow> c = 46 \<or> (48 \<le> c \<and> c < 58)"
proof -
  have join: "c \<in> set (py_join [46] ws) \<Longrightarrow> c = 46 \<or> (\<exists>w \<in> set ws. c \<in> set w)" for ws
    by (induction "[46] :: ustr" ws rule: py_join.induct) auto
  assume "c \<in> set (str_of_ip4 a)"
  from join [OF this [unfolded str_of_ip4_def]] show ?thesis using str_of_nat_digits by auto
qed

lemma length_py_join: "length (py_join [c] ws) \<le> sum_list (map length ws) + length ws"
  by (induction "[c]" ws rule: py_join.induct) auto

lemma mnt_host_short: "length (str_of_ip4 a) \<le> 16"
proof -
  have "length (str_of_nat n) \<le> 3" if "n < 256" for n using that by (intro length_str_of_nat) simp_all
  moreover obtain w x y z where o: "ip4_octets a = [w, x, y, z]" by (simp add: ip4_octets_def Let_def)
  moreover from o have "w < 256" "x < 256" "y < 256" "z < 256" using ip4_octets_bound [of a] by simp_all
  ultimately have "length (str_of_nat w) \<le> 3" "length (str_of_nat x) \<le> 3" "length (str_of_nat y) \<le> 3"
    "length (str_of_nat z) \<le> 3" by blast+
  then show ?thesis
    using length_py_join [of 46 "map str_of_nat [w, x, y, z]"] o by (simp add: str_of_ip4_def)
qed

lemma mnt_host_word: "is_word (str_of_ip4 a)"
proof -
  have "is_space c \<Longrightarrow> c \<notin> set (str_of_ip4 a)" for c using mnt_host_chars [of c a] by (auto simp: is_space_def)
  moreover have "str_of_ip4 a \<noteq> []" using parse_ipv4_str [of a] by (auto simp: parse_ipv4_def parse_octet_def)
  ultimately show ?thesis by (auto simp: is_word_def space_free_def)
qed

lemma numeral_word: "is_word (str_of_int n)"
proof -
  have "is_space c \<Longrightarrow> c \<notin> set (str_of_int n)" for c using str_of_int_chars [of c n] by (auto simp: is_space_def)
  then show ?thesis by (auto simp: is_word_def space_free_def)
qed

text \<open>The request of the program is understood by the proxy.\<close>

lemma request_understood:
  assumes "in_mnt_network (IPv4 a)" and "0 \<le> port" "port < 65536"
  shows "parse_request py (u ''CONNECT '' @ str_of_ip4 a @ [32] @ str_of_int port) = Inr (str_of_ip4 a, port)"
proof -
  define line where "line = u ''CONNECT '' @ str_of_ip4 a @ [32] @ str_of_int port"
  have words: "line = py_join [32] [u ''CONNECT'', str_of_ip4 a, str_of_int port]"
    by (simp add: line_def u_def)
  have "is_word (u ''CONNECT'')" by (simp add: is_word_def u_def is_space_def)
  then have "py_split line = [u ''CONNECT'', str_of_ip4 a, str_of_int port]"
    unfolding words using mnt_host_word numeral_word by (intro py_split_join) simp
  moreover have "\<not> (\<exists>b \<in> set line. 128 \<le> b)"
    unfolding line_def using mnt_host_chars str_of_int_chars by (fastforce simp: u_def)
  moreover have "int_of_ustr (str_of_int port) = Some port"
  proof (rule int_of_str)
    have "nat port < 10 ^ 5" using assms(2,3) by simp
    then have "length (str_of_nat (nat port)) \<le> 5" by (intro length_str_of_nat) simp_all
    then show "length (str_of_nat (nat \<bar>port\<bar>)) \<le> 4300" using assms(2) by simp
  qed
  moreover have "ip_address (str_of_ip4 a) = Some (IPv4 a)" by (simp add: ip_address_def parse_ipv4_str)
  ultimately have "parse_request py line = Inr (str_of_ip4 a, port)"
    using assms(1) by (simp add: parse_request_def del: in_mnt_network.simps)
  then show ?thesis by (simp only: line_def)
qed

lemma request_text_line:
  assumes "0 \<le> port" "port < 65536"
  shows "takeWhile (\<lambda>c. c \<noteq> 10) (request_text (str_of_ip4 a) (str_of_int port) @ rest)
      = u ''CONNECT '' @ str_of_ip4 a @ [32] @ str_of_int port"
    and "tl (dropWhile (\<lambda>c. c \<noteq> 10) (request_text (str_of_ip4 a) (str_of_int port) @ rest)) = rest"
    and "10 \<in> set (take 512 (request_text (str_of_ip4 a) (str_of_int port) @ rest))"
proof -
  define line where "line = u ''CONNECT '' @ str_of_ip4 a @ [32] @ str_of_int port"
  have whole: "request_text (str_of_ip4 a) (str_of_int port) @ rest = line @ 10 # rest"
    by (simp add: request_text_def line_def)
  have free: "\<forall>c \<in> set line. c \<noteq> 10"
    unfolding line_def using mnt_host_chars str_of_int_chars by (fastforce simp: u_def)
  have "nat port < 10 ^ 5" using assms by simp
  then have "length (str_of_nat (nat port)) \<le> 5" by (intro length_str_of_nat) simp_all
  then have short: "length line < 512"
    using mnt_host_short [of a] assms by (simp add: line_def str_of_int_def)
  show "takeWhile (\<lambda>c. c \<noteq> 10) (request_text (str_of_ip4 a) (str_of_int port) @ rest)
      = u ''CONNECT '' @ str_of_ip4 a @ [32] @ str_of_int port"
    unfolding whole line_def [symmetric] using free by (simp add: takeWhile_tail)
  show "tl (dropWhile (\<lambda>c. c \<noteq> 10) (request_text (str_of_ip4 a) (str_of_int port) @ rest)) = rest"
    unfolding whole using free by (simp add: dropWhile_append3)
  show "10 \<in> set (take 512 (request_text (str_of_ip4 a) (str_of_int port) @ rest))"
    unfolding whole using short by (simp add: take_Cons')
qed

text \<open>What the program sends is its request and then its standard input.\<close>

lemma proxy_connect_finishes:
  assumes "proxy_connect py env [prog, proxy_host, proxy_port, host, port] stream = Some (Finishes, cs)"
  shows "cs_sent cs = request_text host port @ stdin_data True (ce_events env)"
    and "cs_stdout cs = socket_data (ce_events env)"
    and "\<exists>rest. read_line (ce_recv env) 0 stream [] = Inr (u ''OK'' @ [10], rest)"
proof -
  from assms have "client_loop py (ce_accept env) (ce_events env)
        \<lparr> cs_sent = request_text host port, cs_stdout = [], cs_stdin_open = True \<rparr> = Some (Finishes, cs)"
    and "\<exists>rest. read_line (ce_recv env) 0 stream [] = Inr (u ''OK'' @ [10], rest)"
    by (auto simp: proxy_connect_def Let_def split: sum.splits option.splits if_splits)
  then show "cs_sent cs = request_text host port @ stdin_data True (ce_events env)"
    and "cs_stdout cs = socket_data (ce_events env)"
    and "\<exists>rest. read_line (ce_recv env) 0 stream [] = Inr (u ''OK'' @ [10], rest)"
    using client_loop_finishes by fastforce+
qed

text \<open>
  End to end: when the program and its connection end well, the vehicle has got standard input and
  standard output is what the vehicle sent.
\<close>

lemma tunnel_transparent:
  assumes net: "in_mnt_network (IPv4 a)" and port: "0 \<le> port" "port < 65536"
    and client: "proxy_connect py cenv [prog, proxy_host, proxy_port, str_of_ip4 a, str_of_int port]
        (tn_delivered tn Client) = Some (Finishes, cs)"
    and answer: "socket_data (ce_events cenv) = drop 3 (tn_delivered tn Client)"
    and proxy: "handle py penv (cs_sent cs) = Some tn"
    and ok: "\<And>k. \<exists>got. xp_recv penv k = Inr got" "xp_connect penv (str_of_ip4 a) port = Inr ()"
      "xp_send_ok penv = Inr ()" "xp_send_rest penv = Inr ()" "quiet (xp_events penv)"
    and sent: "\<And>request rest. read_request (xp_recv penv) 0 (cs_sent cs) [] = Inr (request, rest)
        \<Longrightarrow> bytes_from Client (xp_events penv) = rest"
  shows "tn_connected tn = Some (str_of_ip4 a, port)
    \<and> tn_delivered tn Upstream = stdin_data True (ce_events cenv)
    \<and> cs_stdout cs = bytes_from Upstream (xp_events penv)"
proof -
  note run = proxy_connect_finishes [OF client]
  note line = request_text_line [OF port, of a "stdin_data True (ce_events cenv)", folded run(1)]
  have "parse_request py (takeWhile (\<lambda>c. c \<noteq> 10) (cs_sent cs)) = Inr (str_of_ip4 a, port)"
    unfolding line(1) by (rule request_understood [OF net port])
  from handle_transparent [where env = penv and stream = "cs_sent cs", OF ok(1) line(3) this ok(2-4) sent ok(5)] proxy
  show ?thesis using line(2) answer run(2) by (simp add: u_def)
qed

end
