(* ===== verification/Bot_Properties.thy ===== *)
theory Bot_Properties
  imports Bot_Polling Bot_System Bot_Cancel Bot_Wire Proxy_Connect Concrete
begin

text \<open>
  The properties of the Telegram bot: its state, its users, its settings file and its polling loop.
\<close>

section \<open>A configuration and a run\<close>

definition bcfg0 :: bot_config where
  "bcfg0 = \<lparr> bc_allowed_users = [7], bc_worker_url = u ''http://worker'', bc_worker_token = u ''token'',
     bc_audio_script = u ''/play.sh'', bc_vehicle_maps = [(u ''pat'', [(u ''100'', u ''172.26.0.1'')])],
     bc_branch_aliases = [], bc_default_branch = u ''pat'', bc_temp_dir = u ''/tmp'' \<rparr>"

definition benv0 :: bot_env where
  "benv0 = \<lparr> be_api = (\<lambda>_. None), be_save = (\<lambda>_. None), be_order = (\<lambda>xs. xs), be_alive = (\<lambda>_. False) \<rparr>"

definition target0 :: target where
  "target0 = \<lparr> tg_branch = u ''pat'', tg_number = u ''100'', tg_ip = u ''172.26.0.1'', tg_volume = 25, tg_output = u ''salon'' \<rparr>"

definition message0 :: jdict where
  "message0 = [(u ''from'', JDict [(u ''id'', JInt 7)]), (u ''chat'', JDict [(u ''id'', JInt 7)]), (u ''text'', JStr (u ''/target 100''))]"

definition callback0 :: jdict where
  "callback0 = [(u ''from'', JDict [(u ''id'', JInt 7)]), (u ''id'', JStr (u ''c1'')), (u ''data'', JStr (u ''audio:8:louder''))]"

definition answers0 :: "jdict list res list" where
  "answers0 =
     [Inr [[(u ''update_id'', JInt 1), (u ''message'', JDict message0)],
           [(u ''update_id'', JInt 2), (u ''callback_query'', JDict callback0)]]]"

lemma senders0: "id_field py message0 (u ''from'') = Inr 7" "id_field py callback0 (u ''from'') = Inr 7"
  by (simp_all add: id_field_def object_field_def message0_def callback0_def jget_def get_or_def py_or_def)

lemma target0_ok: "target_ok bcfg0 target0"
proof -
  have "py_strip (u ''100'') = u ''100''" by code_simp
  then show ?thesis
    using host0 by (simp add: target_ok_def target0_def bcfg0_def audio_ok_def channels_keys del: in_mnt_network.simps)
qed

lemma numeral0: "int_of_ustr (str_of_int 7) = Some 7"
  by (intro int_of_str length_str_of_nat_le [of _ 1]) simp_all

lemma readable0: "readable_config bcfg0"
  by (simp add: readable_config_def bcfg0_def numeral0)

lemma disk0: "disk_ok py0 bcfg0 benv0"
proof -
  have "py_strip (u ''pat'') = u ''pat''" "map (\<lambda>c. if c = 95 then 45 else c) (u ''pat'') = u ''pat''" by code_simp+
  then have "stable_branches py0 bcfg0"
    by (simp add: stable_branches_def cfg_branch_def normalize_branch_def alias_key_def bcfg0_def Let_def)
  moreover have "some_order benv0" by (simp add: some_order_def benv0_def)
  ultimately show ?thesis using readable0 by (simp add: disk_ok_def benv0_def)
qed

section \<open>The state of the bot\<close>

text \<open>
  C27. The state of the bot is well formed at every moment of every run, whatever the settings file held
  at its start and whatever Telegram delivers: only admitted users have entries, every target is a
  vehicle of the directory of its branch inside 172.26.0.0/15 with volume 1 to 100 and a known
  channel, every branch is known, and no two users share a job.
\<close>

theorem bot_state_is_well_formed:
  assumes "bot_run py cfg env answers None (snd (start_bot py cfg file0)) = (r, offset, s)"
  shows "bot_ok cfg s"
  using invariant.run [OF assms] start_bot_ok by (simp add: bot_keeps_def)

theorem bot_state_is_well_formed_witness:
  "bot_ok bcfg0 (snd (snd (bot_run py0 bcfg0 benv0 answers0 None (snd (start_bot py0 bcfg0 BrokenSettings)))))"
proof -
  obtain r off s where run: "bot_run py0 bcfg0 benv0 answers0 None (snd (start_bot py0 bcfg0 BrokenSettings)) = (r, off, s)"
    by (metis prod_cases3)
  show ?thesis using bot_state_is_well_formed [OF run] run by simp
qed

text \<open>
  C18. Users are isolated: a message or a press of a button of one user changes nothing of another,
  neither target, settings, branch, pending question, job, nor the flag of a running job.
\<close>

theorem users_are_isolated:
  assumes "bot_ok cfg s" and "id_field py m (u ''from'') = Inr uid" and "id_field py c (u ''from'') = Inr uid"
  shows "same_others uid s (snd (handle_message py cfg env m s)) \<and> same_others uid s (snd (handle_callback py cfg env c s))"
  using isolation.message [OF assms(2)] isolation.callback [OF assms(3)] assms(1)
  by (simp add: moves_def bot_step_def)

theorem users_are_isolated_witness:
  "same_others 7 (new_bot NoSettings) (snd (handle_message py0 bcfg0 benv0 message0 (new_bot NoSettings)))
    \<and> same_others 7 (new_bot NoSettings) (snd (handle_callback py0 bcfg0 benv0 callback0 (new_bot NoSettings)))"
  by (rule users_are_isolated [OF _ senders0]) simp

text \<open>
  Whoever is not admitted cannot cause anything: a message leaves the bot as it is and sends
  nothing, and a button, also one of a panel that belongs to someone else, is only answered with a
  refusal.
\<close>

theorem strangers_are_inert:
  assumes "id_field py m (u ''from'') = Inr uid" and "uid \<notin> set (bc_allowed_users cfg)"
    and "id_field py c (u ''from'') = Inr presser"
    and "presser \<notin> set (bc_allowed_users cfg) \<or>
      (\<forall>action. split_callback (text_field py c (u ''data'')) \<noteq> Some (u ''audio'', str_of_int presser, action))"
  shows "snd (handle_message py cfg env m s) = s
    \<and> (\<exists>cs. snd (handle_callback py cfg env c s) = s \<lparr> bt_calls := bt_calls s @ cs \<rparr>
        \<and> (\<forall>a \<in> set cs. \<exists>cid. a = AnswerCallback cid (Some msg_bot_not_your_panel)))"
  using stranger_message [OF assms(1,2)] refused_callback [OF assms(3,4)] by blast

theorem strangers_are_inert_witness:
  "snd (handle_message py0 (bcfg0 \<lparr> bc_allowed_users := [] \<rparr>) benv0 message0 (new_bot NoSettings)) = new_bot NoSettings
    \<and> (\<exists>cs. snd (handle_callback py0 (bcfg0 \<lparr> bc_allowed_users := [] \<rparr>) benv0 callback0 (new_bot NoSettings))
        = new_bot NoSettings \<lparr> bt_calls := bt_calls (new_bot NoSettings) @ cs \<rparr>
      \<and> (\<forall>a \<in> set cs. \<exists>cid. a = AnswerCallback cid (Some msg_bot_not_your_panel)))"
  by (rule strangers_are_inert [OF senders0(1) _ senders0(2)]) simp_all



text \<open>
  C31. Nobody ends the bot with a message: as long as Telegram and the disk fail only with errors that
  the polling loop catches and updates have the documented shape, the loop goes on, from any settings
  file and whatever users write or press. And it takes every update once, whatever the handlers raise: when
  Telegram honours the offset, the numbers of the updates taken ascend over the whole run, and an answer
  holds nothing below the next offset that was not taken.
\<close>

theorem updates_never_end_the_bot:
  assumes "benign py env" and "list_all (pred_sum polling_error (list_all wf_update)) answers"
  shows "fst (bot_run py cfg env answers offset (snd (start_bot py cfg file0))) = Inr ()
    \<and> (\<forall>tgs s. list_all (honours py) tgs \<longrightarrow> sorted_wrt (<) (polled py cfg env tgs None s))
    \<and> (\<forall>telegram updates from_here s r next_offset s'. honours py telegram
        \<and> telegram (updates_request py from_here) = Inr updates
        \<and> bot_round py cfg env (Inr updates) from_here s = (r, Some next_offset, s') \<longrightarrow>
          set (handled py cfg env updates s) = {n \<in> set (update_numbers py updates). n < next_offset})"
proof (intro conjI allI impI)
  show "fst (bot_run py cfg env answers offset (snd (start_bot py cfg file0))) = Inr ()"
    by (rule calm_run [OF assms(1) start_bot_ok assms(2)])
qed (simp_all add: polled_ascending, elim conjE, rule round_complete)

theorem updates_never_end_the_bot_witness:
  "fst (bot_run py0 bcfg0 benv0 answers0 None (snd (start_bot py0 bcfg0 NoSettings))) = Inr ()"
proof -
  have "benign py0 benv0" by (simp add: benign_def benv0_def)
  moreover have "list_all (pred_sum polling_error (list_all wf_update)) answers0"
    by (simp add: answers0_def wf_update_def wf_message_def wf_callback_def opt_object_def has_int_def opt_int_def
        message0_def callback0_def)
  ultimately show ?thesis by (rule updates_never_end_the_bot [THEN conjunct1])
qed

section \<open>Playbacks\<close>


definition bsys0 :: bot_sys where
  "bsys0 = \<lparr> by_bot = (new_bot NoSettings) \<lparr> bt_targets := [(7, target0)] \<rparr>, by_offset = None, by_live = {} \<rparr>"

definition track0 :: jdict where
  "track0 = [(u ''from'', JDict [(u ''id'', JInt 7)]), (u ''chat'', JDict [(u ''id'', JInt 7)]),
     (u ''voice'', JDict [(u ''file_id'', JStr (u ''f''))])]"

lemma track0_fields:
  "id_field py0 track0 (u ''from'') = Inr 7" "id_field py0 track0 (u ''chat'') = Inr 7"
  "button_command (py_strip (text_field py0 track0 (u ''text''))) = []"
  "media py0 track0 = Some (u ''f'', u ''.ogg'')"
  "any_too_big py0 track0 [u ''voice'', u ''audio'', u ''document''] = Inr False"
proof -
  show "id_field py0 track0 (u ''from'') = Inr 7" "id_field py0 track0 (u ''chat'') = Inr 7"
    by (simp_all add: id_field_def object_field_def track0_def jget_def get_or_def py_or_def)
  have "text_field py0 track0 (u ''text'') = []"
    by (simp add: text_field_def track0_def jget_def get_or_def py_or_def)
  then show "button_command (py_strip (text_field py0 track0 (u ''text''))) = []"
    by (simp add: button_command_def BUTTON_COMMANDS_def py_strip_def py_lstrip_def py_rstrip_def
        msg_bot_button_target_def msg_bot_button_branch_def msg_bot_button_status_def msg_bot_button_stop_def)
  show "media py0 track0 = Some (u ''f'', u ''.ogg'')"
    by (simp add: media_def attached_def track0_def jget_def get_or_def)
  show "any_too_big py0 track0 [u ''voice'', u ''audio'', u ''document''] = Inr False"
    by (simp add: object_field_def track0_def jget_def get_or_def py_or_def MAX_AUDIO_BYTES_def)
qed

definition bsys1 :: bot_sys where
  "bsys1 = \<lparr> by_bot = start_job 7 7 (u ''f'') (u ''.ogg'') target0 (by_bot bsys0), by_offset = Some 2, by_live = {0} \<rparr>"

lemma track0_handled:
  "handle_message py0 bcfg0 benv0 track0 (by_bot bsys0) = (Inr (), by_bot bsys1)"
proof -
  have "\<not> py_startswith [] (u ''/'')" by (simp add: py_startswith_def u_def)
  then show ?thesis
    by (simp add: handle_message_def track0_fields Let_def handle_media_def queue_media_def bsys0_def bsys1_def
        bcfg0_def new_bot_def del: any_too_big.simps)
qed

lemma track0_round:
  "bot_round py0 bcfg0 benv0 (Inr [[(u ''update_id'', JInt 1), (u ''message'', JDict track0)]]) (by_offset bsys0) (by_bot bsys0)
    = (Inr (), by_offset bsys1, by_bot bsys1)"
  by (simp add: bot_round_def dispatch_def item_def jget_def get_or_def track0_handled x_bind_def)
    (simp add: bsys1_def)


end
