(* ===== verification/Playback_Properties.thy ===== *)
theory Playback_Properties
  imports Bot_Properties Http_Wire
begin

text \<open>
  The properties of playbacks: what a thread does and in which order, that it ends and tidies up, how
  it can be stopped, and its conversation with the worker.
\<close>

section \<open>A playback\<close>

definition py1 :: pylib where
  "py1 = py0 \<lparr> py_json_loads := (\<lambda>_. Inr ready_reply) \<rparr>"

lemma py1_loads: "py_json_loads py1 [] = Inr ready_reply"
  by (simp add: py1_def)

lemma hiccup_clock: "unbounded_clock hiccup_env"
  unfolding unbounded_clock_def
proof
  fix bound :: rat
  obtain n where n: "bound \<le> of_nat n" using real_arch_simple by blast
  have "\<forall>k \<ge> n. bound \<le> pe_clock hiccup_env k"
    using n by (auto simp: hiccup_env_def intro: order_trans)
  then show "\<exists>n. \<forall>k \<ge> n. bound \<le> pe_clock hiccup_env k" by blast
qed

text \<open>
  C19. A playback starts the script of its own target only after the worker said that the vehicle can be
  reached, and not once the job was cancelled; every other process it starts is ffmpeg on its own two
  files, it writes to nobody but its own chat, removes no file but its own, and asks the worker for
  at most three checks of its own vehicle.
\<close>

theorem playback_starts_checked:
  assumes "play py cfg env uid chat file_id suffix t play_start = Some (r, s')"
    and "play_paths cfg env suffix = (a, b)"
  shows "(\<forall>e \<in> set (pl_events s'). own_event cfg env uid chat t a b True e) \<and> posts s' \<le> 3
    \<and> (\<forall>k command. PSpawn k command \<in> set (pl_events s') \<longrightarrow> command = ffmpeg_command a b
        \<or> command = script_command cfg t b \<and> (\<exists>j < k. worker_said py env j None)
          \<and> (sticky env \<longrightarrow> (\<forall>j < k. \<not> pe_cancelled env j)))"
  using play_result [OF assms] by (simp add: starts_checked_def)

theorem playback_starts_checked_witness:
  "\<exists>s' b. PSpawn 21 (script_command bcfg0 target0 b) \<in> set (pl_events s') \<and> posts s' \<le> 3
    \<and> (\<exists>a. \<forall>e \<in> set (pl_events s'). own_event bcfg0 hiccup_env 7 7 target0 a b True e)"
proof -
  obtain s' where run: "play py1 bcfg0 hiccup_env 7 7 (u ''f'') (u ''.ogg'') target0 play_start = Some (Inr (), s')"
    and script: "\<exists>b. PSpawn 21 (script_command bcfg0 target0 b) \<in> set (pl_events s')"
    using hiccup_run [OF py1_loads, of bcfg0 7 7 "u ''f''" "u ''.ogg''" target0] by blast
  obtain a b where paths: "play_paths bcfg0 hiccup_env (u ''.ogg'') = (a, b)" by fastforce
  note result = playback_starts_checked [OF run paths]
  from script obtain b' where b': "PSpawn 21 (script_command bcfg0 target0 b') \<in> set (pl_events s')" by blast
  with result have "script_command bcfg0 target0 b' = ffmpeg_command a b \<or> script_command bcfg0 target0 b' = script_command bcfg0 target0 b"
    by blast
  then have "b' = b" by (auto simp: script_command_def ffmpeg_command_def)
  with b' result show ?thesis by blast
qed



section \<open>Stopping\<close>


lemma stopped_before_ffmpeg:
  "race_reachable False (race_at True None None (TSpawned 0) SOver {0})"
proof -
  note go = race_next [OF _ by_stop]
  from go [OF race_init stop_lock]
  have "race_reachable False (race_at False None (Some StopperHolds) TStart SLocked {})" by (simp add: race_start_def)
  from go [OF this stop_mark] have "race_reachable False (race_at True None (Some StopperHolds) TStart SMarked {})" by simp
  from go [OF this stop_read] have "race_reachable False (race_at True None None TStart (SGot None) {})" by simp
  from go [OF this stop_signal] have "race_reachable False (race_at True None None TStart SOver {})" by simp
  from race_thread [OF this spawn_ffmpeg [of _ 0]] show ?thesis by simp
qed


text \<open>
  C32. The stop at the end of the program can be lost: without the lock, there is a run after which the
  script plays on unsignalled although the job was marked as cancelled before it was started, and
  one in which \<open>stop_all\<close> itself raises, because the process was taken away between two reads.
\<close>

theorem exit_can_miss_the_script:
  "(\<exists>s p. race_reachable True s \<and> rc_flag s \<and> rc_stop s = SOver \<and> rc_thread s = TScript p
      \<and> p \<in> rc_running s \<and> p \<notin> rc_signalled s)
   \<and> (\<exists>s. race_reachable True s \<and> rc_stop s = SCrashed)"
  using stop_all_misses stop_all_crashes
  by (intro conjI exI [of _ "race_at True (Some 1) None (TScript 1) SOver {1}"] exI [of _ 1]
      exI [of _ "race_at True None None TPrepared SCrashed {}"]) simp_all

section \<open>The conversation with the worker\<close>



end
