(* ===== verification/Tunnel_Properties.thy ===== *)
theory Tunnel_Properties
  imports Proxy_Connect Concrete
begin

text \<open>
  The properties of the tunnel into the vehicle network: where it leads, and that it carries bytes
  faithfully from end to end.
\<close>

section \<open>A connection\<close>

definition request0 :: "nat list" where
  "request0 = request_text (str_of_ip4 host0) (str_of_int 22)"

definition penv0 :: proxy_env where
  "penv0 = \<lparr> xp_recv = (\<lambda>_. Inr 512), xp_connect = (\<lambda>_ _. Inr ()), xp_send_ok = Inr (), xp_send_rest = Inr (),
     xp_events = [Received Client [], Received Upstream [9], Received Upstream []], xp_send_error = True \<rparr>"

definition cenv0 :: client_env where
  "cenv0 = \<lparr> ce_connect = Inr (), ce_send = Inr (), ce_recv = (\<lambda>_. None), ce_accept = (\<lambda>_. 1), ce_decode = (\<lambda>bs. bs),
     ce_events = [StdinData [1, 2] 2, StdinEnd None, SocketBlocked, SocketData [9], SocketEnd] \<rparr>"

definition client0 :: client_state where
  "client0 = \<lparr> cs_sent = request0 @ [1, 2], cs_stdout = [9], cs_stdin_open = False \<rparr>"

lemma request0_line:
  "request0 @ [1, 2] = u ''CONNECT '' @ str_of_ip4 host0 @ [32] @ str_of_int 22 @ [10, 1, 2]"
  by (simp add: request0_def request_text_def)

lemma request0_text: "request0 = u ''CONNECT 172.26.0.1 22'' @ [10]"
  by (simp add: request0_def request_text_def host0 u_def str_of_int_def str_of_nat.simps)

lemma read0: "read_request (xp_recv penv0) 0 (request0 @ [1, 2]) [] = Inr (Some (request0 @ [1, 2]), [])"
  by (simp add: read_request.simps penv0_def request0_text u_def)

lemma quiet0: "quiet (xp_events penv0)"
  by (auto simp: quiet_def penv0_def)

text \<open>What the proxy makes of the bytes of the client.\<close>

definition tunnel0 :: tunnel where
  "tunnel0 = the (handle py0 penv0 (request0 @ [1, 2]))"

lemma handled0:
  "handle py0 penv0 (cs_sent client0) = Some tunnel0" "tn_delivered tunnel0 Client = u ''OK'' @ [10, 9]"
proof -
  have line: "takeWhile (\<lambda>c. c \<noteq> 10) (request0 @ [1, 2]) = u ''CONNECT '' @ str_of_ip4 host0 @ [32] @ str_of_int 22"
    and nl: "10 \<in> set (take 512 (request0 @ [1, 2]))"
    using request_text_line [of 22 host0 "[1, 2]"] by (simp_all add: request0_def)
  obtain tn where "handle py0 penv0 (request0 @ [1, 2]) = Some tn" "tn_delivered tn Client = u ''OK'' @ [10] @ [9]"
    using handle_transparent [where env = penv0 and stream = "request0 @ [1, 2]" and py = py0, OF _ nl,
        unfolded line, OF _ request_understood [OF host0(2)] _ _ _ _ quiet0] read0
    by (auto simp: penv0_def)
  then show "handle py0 penv0 (cs_sent client0) = Some tunnel0" "tn_delivered tunnel0 Client = u ''OK'' @ [10, 9]"
    by (simp_all add: tunnel0_def client0_def)
qed

lemma port0: "int_of_ustr (u ''1080'') = Some 1080"
proof -
  have "u ''1080'' = str_of_int 1080" by (simp add: str_of_int_def str_of_nat.simps u_def)
  moreover have "int_of_ustr (str_of_int 1080) = Some 1080"
    by (intro int_of_str length_str_of_nat_le [of _ 4]) simp_all
  ultimately show ?thesis by simp
qed

lemma client_run0:
  "proxy_connect py0 cenv0 [[], u ''proxy'', u ''1080'', str_of_ip4 host0, str_of_int 22] (u ''OK'' @ [10, 9])
    = Some (Finishes, client0)"
proof -
  have "read_line (\<lambda>_. None) 0 (u ''OK'' @ 10 # [9]) [] = Inr ([] @ u ''OK'' @ [10], [9])"
    by (rule read_line_spec) (simp_all add: u_def)
  moreover have "\<not> (\<exists>c \<in> set request0. 128 \<le> c)" by (simp add: request0_text u_def)
  moreover have "write_all (\<lambda>_. 1) 0 [9] = [9]" by (rule write_all_all)
  ultimately show ?thesis
    by (simp add: proxy_connect_def port0 request0_def [symmetric] cenv0_def client0_def Let_def)
qed

section \<open>Properties\<close>

text \<open>
  C29. The proxy is a way into the vehicle network only: whatever a client sends and however the connection
  goes, the proxy connects to an IPv4 address of 172.26.0.0/15 or to nothing, and without a
  connection no byte of the client is passed on.
\<close>

theorem proxy_reaches_only_vehicles:
  assumes "handle py env stream = Some tn"
  shows "case tn_connected tn of
      Some (host, port) \<Rightarrow> \<exists>a. host = str_of_ip4 a \<and> ip4_octets a ! 0 = 172 \<and> ip4_octets a ! 1 \<in> {26, 27}
    | None \<Rightarrow> tn_delivered tn Upstream = []"
proof -
  have "ip4_octets a ! 0 = 172 \<and> ip4_octets a ! 1 \<in> {26, 27}" if "in_mnt_network (IPv4 a)" for a
  proof -
    obtain w x y z where o: "ip4_octets a = [w, x, y, z]" by (simp add: ip4_octets_def Let_def)
    from that in_mnt_network_octets [OF this] show ?thesis by (simp add: o)
  qed
  with handle_safe [OF assms] show ?thesis
    unfolding safe_tunnel_def by (fastforce split: option.splits)
qed

theorem proxy_reaches_only_vehicles_witness:
  "case tn_connected tunnel0 of
      Some (host, port) \<Rightarrow> \<exists>a. host = str_of_ip4 a \<and> ip4_octets a ! 0 = 172 \<and> ip4_octets a ! 1 \<in> {26, 27}
    | None \<Rightarrow> tn_delivered tunnel0 Upstream = []"
  by (rule proxy_reaches_only_vehicles [OF handled0(1)])

text \<open>
  C21. The tunnel is transparent from end to end: when the program and its connection both end well, the
  vehicle has received exactly the standard input of the program, in order, and its standard output
  is exactly what the vehicle sent, however the network cut the bytes into pieces.
\<close>

theorem tunnel_is_transparent:
  assumes "in_mnt_network (IPv4 a)" and "0 \<le> port" "port < 65536"
    and "proxy_connect py cenv [prog, proxy_host, proxy_port, str_of_ip4 a, str_of_int port]
        (tn_delivered tn Client) = Some (Finishes, cs)"
    and "socket_data (ce_events cenv) = drop 3 (tn_delivered tn Client)"
    and "handle py penv (cs_sent cs) = Some tn"
    and "\<And>k. \<exists>got. xp_recv penv k = Inr got" "xp_connect penv (str_of_ip4 a) port = Inr ()"
      "xp_send_ok penv = Inr ()" "xp_send_rest penv = Inr ()" "quiet (xp_events penv)"
    and "\<And>request rest. read_request (xp_recv penv) 0 (cs_sent cs) [] = Inr (request, rest)
        \<Longrightarrow> bytes_from Client (xp_events penv) = rest"
  shows "tn_connected tn = Some (str_of_ip4 a, port)
    \<and> tn_delivered tn Upstream = stdin_data True (ce_events cenv)
    \<and> cs_stdout cs = bytes_from Upstream (xp_events penv)"
  by (rule tunnel_transparent [OF assms])

theorem tunnel_is_transparent_witness:
  "tn_connected tunnel0 = Some (str_of_ip4 host0, 22) \<and> tn_delivered tunnel0 Upstream = stdin_data True (ce_events cenv0)
    \<and> cs_stdout client0 = bytes_from Upstream (xp_events penv0)"
proof (rule tunnel_is_transparent [where py = py0])
  show "in_mnt_network (IPv4 host0)" by (rule host0(2))
  show "proxy_connect py0 cenv0 [[], u ''proxy'', u ''1080'', str_of_ip4 host0, str_of_int 22]
      (tn_delivered tunnel0 Client) = Some (Finishes, client0)"
    unfolding handled0(2) by (rule client_run0)
  show "socket_data (ce_events cenv0) = drop 3 (tn_delivered tunnel0 Client)"
    unfolding handled0(2) by (simp add: cenv0_def u_def)
  show "handle py0 penv0 (cs_sent client0) = Some tunnel0" by (rule handled0(1))
  show "quiet (xp_events penv0)" by (rule quiet0)
  show "bytes_from Client (xp_events penv0) = rest"
    if "read_request (xp_recv penv0) 0 (cs_sent client0) [] = Inr (request, rest)" for request rest
    using that read0 by (simp add: client0_def penv0_def)
qed (simp_all add: penv0_def)

end
