(* ===== verification/Py_Loop.thy ===== *)
theory Py_Loop
  imports Py_State
begin

text \<open>
  Loops that may not end: a computation gives \<open>None\<close> when it does not return. The loop \<open>x_loop\<close>
  repeats a round until it is done; what the rounds respect, the loop respects, and it returns when
  a measure decreases. The locale \<open>learning\<close> is for what a result says of the steps behind it.
\<close>

section \<open>Computations that may not return\<close>

type_synonym ('s, 'a) lst = "'s \<Rightarrow> ('a res \<times> 's) option"

definition l_of :: "('s, 'a) st \<Rightarrow> ('s, 'a) lst" where
  "l_of m s = Some (m s)"

definition l_bind :: "('s, 'a) lst \<Rightarrow> ('a \<Rightarrow> ('s, 'b) lst) \<Rightarrow> ('s, 'b) lst" where
  "l_bind m f s =
     (case m s of
        None \<Rightarrow> None
      | Some (Inl e, s') \<Rightarrow> Some (Inl e, s')
      | Some (Inr a, s') \<Rightarrow> f a s')"

definition l_try :: "('s, 'a) lst \<Rightarrow> (exn \<Rightarrow> bool) \<Rightarrow> (exn \<Rightarrow> ('s, 'a) lst) \<Rightarrow> ('s, 'a) lst" where
  "l_try m caught h s =
     (case m s of
        None \<Rightarrow> None
      | Some (Inl e, s') \<Rightarrow> if caught e then h e s' else Some (Inl e, s')
      | Some (Inr a, s') \<Rightarrow> Some (Inr a, s'))"

text \<open>One round ends the loop with a result, or gives the variables for the next.\<close>

datatype ('a, 'b) flow = Done 'a | Again 'b

partial_function (option) x_loop :: "('b \<Rightarrow> ('s, ('a, 'b) flow) st) \<Rightarrow> 'b \<Rightarrow> ('s, 'a) lst" where
  "x_loop body b s =
     (case fst (body b s) of
        Inl e \<Rightarrow> Some (Inl e, snd (body b s))
      | Inr (Done a) \<Rightarrow> Some (Inr a, snd (body b s))
      | Inr (Again b') \<Rightarrow> x_loop body b' (snd (body b s)))"

text \<open>A loop over a list that accumulates.\<close>

fun x_fold :: "('x \<Rightarrow> 'a \<Rightarrow> ('s, 'a) st) \<Rightarrow> 'x list \<Rightarrow> 'a \<Rightarrow> ('s, 'a) st" where
  "x_fold f [] acc = x_return acc"
| "x_fold f (x # xs) acc = x_bind (f x acc) (\<lambda>acc'. x_fold f xs acc')"

lemma l_of_eq [simp]: "l_of m s = Some (m s)"
  by (simp add: l_of_def)

lemma l_bind_eq:
  "l_bind m f s = Some (r, s') \<longleftrightarrow>
     (\<exists>e. m s = Some (Inl e, s') \<and> r = Inl e) \<or> (\<exists>a s1. m s = Some (Inr a, s1) \<and> f a s1 = Some (r, s'))"
  by (auto simp: l_bind_def split: option.splits prod.splits sum.splits)

section \<open>What they do to the state\<close>

definition l_moves :: "('s \<Rightarrow> 's \<Rightarrow> bool) \<Rightarrow> ('s, 'a) lst \<Rightarrow> bool" where
  "l_moves R m \<longleftrightarrow> (\<forall>s r s'. m s = Some (r, s') \<longrightarrow> R s s')"

lemma l_movesD: "l_moves R m \<Longrightarrow> m s = Some (r, s') \<Longrightarrow> R s s'"
  by (simp add: l_moves_def)

lemma l_moves_of: "moves R m \<Longrightarrow> l_moves R (l_of m)"
  by (auto simp: l_moves_def dest: movesD)

text \<open>Induction over the rounds of a loop that returned.\<close>

lemma loop_induct [consumes 1, case_names stop again]:
  assumes "x_loop body b s = Some x"
    and stop: "\<And>b s e s'. body b s = (Inl e, s') \<Longrightarrow> P b s (Inl e, s')"
      "\<And>b s a s'. body b s = (Inr (Done a), s') \<Longrightarrow> P b s (Inr a, s')"
    and again: "\<And>b s b' s' x. body b s = (Inr (Again b'), s') \<Longrightarrow> x_loop body b' s' = Some x \<Longrightarrow> P b' s' x \<Longrightarrow> P b s x"
  shows "P b s x"
proof -
  define Q where "Q = (\<lambda>c b s x. c = body \<longrightarrow> x_loop body b s = Some x \<and> P b s x)"
  have "Q body b s x"
  proof (rule x_loop.raw_induct [where P = Q, OF _ assms(1)])
    fix loop c b s x
    assume IH: "\<And>c b s x. loop c b s = Some x \<Longrightarrow> Q c b s x"
      and step: "(case fst (c b s) of Inl e \<Rightarrow> Some (Inl e, snd (c b s))
        | Inr (Done a) \<Rightarrow> Some (Inr a, snd (c b s)) | Inr (Again b') \<Rightarrow> loop c b' (snd (c b s))) = Some x"
    obtain r s' where r: "c b s = (r, s')" by fastforce
    show "Q c b s x"
    proof (cases "\<exists>b'. r = Inr (Again b')")
      case True
      then obtain b' where b': "r = Inr (Again b')" ..
      with step r have "Q c b' s' x" by (intro IH) simp
      have "x_loop body b s = x_loop body b' s'" if "c = body"
        using that r b' by (subst x_loop.simps) simp
      with \<open>Q c b' s' x\<close> r b' show ?thesis unfolding Q_def by (metis again)
    next
      case False
      with step r stop show ?thesis unfolding Q_def
        by (subst x_loop.simps) (auto split: sum.splits flow.splits)
    qed
  qed
  then show ?thesis by (simp add: Q_def)
qed

context effect_relation
begin

lemma l_bind_moves: "l_moves R m \<Longrightarrow> (\<And>a. l_moves R (f a)) \<Longrightarrow> l_moves R (l_bind m f)"
  unfolding l_moves_def l_bind_eq by (blast intro: trans)

lemma l_try_moves: "l_moves R m \<Longrightarrow> (\<And>e. l_moves R (h e)) \<Longrightarrow> l_moves R (l_try m c h)"
  unfolding l_moves_def l_try_def
  by (fastforce split: option.splits prod.splits sum.splits if_splits intro: trans)

lemma loop_moves:
  assumes "\<And>b. moves R (body b)"
  shows "l_moves R (x_loop body b)"
proof -
  have "R s (snd x)" if "x_loop body b s = Some x" for b s x
    using that by (induction rule: loop_induct) (use assms in \<open>auto dest!: movesD intro: trans\<close>)
  then show ?thesis by (force simp: l_moves_def)
qed

lemma fold_moves: "(\<And>x acc. moves R (f x acc)) \<Longrightarrow> moves R (x_fold f xs acc)"
  by (induction xs arbitrary: acc) (auto intro: return bind)

end

section \<open>What a result says\<close>

text \<open>
  A result stands for something that was learnt: when all that is known at the end lies within \<open>E\<close>, the
  result has the property \<open>P\<close> (which may speak of \<open>E\<close>). Knowledge only grows along the steps.
\<close>

definition gives :: "('s \<Rightarrow> 'x set) \<Rightarrow> 'x set \<Rightarrow> ('s, 'a) st \<Rightarrow> ('a \<Rightarrow> bool) \<Rightarrow> bool" where
  "gives known E m P \<longleftrightarrow> (\<forall>s a s'. m s = (Inr a, s') \<longrightarrow> known s' \<subseteq> E \<longrightarrow> P a)"

definition l_gives :: "('s \<Rightarrow> 'x set) \<Rightarrow> 'x set \<Rightarrow> ('s, 'a) lst \<Rightarrow> ('a \<Rightarrow> bool) \<Rightarrow> bool" where
  "l_gives known E m P \<longleftrightarrow> (\<forall>s a s'. m s = Some (Inr a, s') \<longrightarrow> known s' \<subseteq> E \<longrightarrow> P a)"

lemma gives_return: "P a \<Longrightarrow> gives known E (x_return a) P"
  by (simp add: gives_def)

lemma gives_mono: "gives known E m P \<Longrightarrow> (\<And>a. P a \<Longrightarrow> Q a) \<Longrightarrow> gives known E m Q"
  by (auto simp: gives_def)

lemma gives_if: "(c \<Longrightarrow> gives known E m P) \<Longrightarrow> (\<not> c \<Longrightarrow> gives known E m' P) \<Longrightarrow> gives known E (if c then m else m') P"
  by simp

text \<open>The last computation alone.\<close>

lemma gives_last: "(\<And>a. gives known E (f a) P) \<Longrightarrow> gives known E (x_bind m f) P"
  unfolding gives_def x_bind_eq by blast

lemma l_gives_last: "(\<And>a. l_gives known E (f a) P) \<Longrightarrow> l_gives known E (l_bind m f) P"
  unfolding l_gives_def l_bind_eq by blast

lemma l_gives_if:
  "(c \<Longrightarrow> l_gives known E m P) \<Longrightarrow> (\<not> c \<Longrightarrow> l_gives known E m' P) \<Longrightarrow> l_gives known E (if c then m else m') P"
  by simp

lemma l_gives_pair: "(\<And>a b. l_gives known E (f a b) P) \<Longrightarrow> l_gives known E (case p of (a, b) \<Rightarrow> f a b) P"
  by (simp split: prod.split)

lemma l_gives_raise: "l_gives known E (l_of (x_raise e)) P"
  by (simp add: l_gives_def)

locale learning = effect_relation R for R :: "'s \<Rightarrow> 's \<Rightarrow> bool" +
  fixes known :: "'s \<Rightarrow> 'x set"
  assumes grows: "R s s' \<Longrightarrow> known s \<subseteq> known s'"
begin

lemma gives_bind:
  assumes "gives known E m P" and "\<And>a. moves R (f a)" and "\<And>a. P a \<Longrightarrow> gives known E (f a) Q"
  shows "gives known E (x_bind m f) Q"
  unfolding gives_def x_bind_eq
proof (intro allI impI, elim disjE exE conjE)
  fix s b s' a s1
  assume m: "m s = (Inr a, s1)" and f: "f a s1 = (Inr b, s')" and E: "known s' \<subseteq> E"
  from movesD [OF assms(2) f] have "known s1 \<subseteq> known s'" by (rule grows)
  with E m assms(1) have "P a" by (auto simp: gives_def)
  from assms(3) [OF this] f E show "Q b" by (auto simp: gives_def)
qed simp

lemma l_gives_bind:
  assumes "gives known E m P" and "\<And>a. l_moves R (f a)" and "\<And>a. P a \<Longrightarrow> l_gives known E (f a) Q"
  shows "l_gives known E (l_bind (l_of m) f) Q"
  unfolding l_gives_def l_bind_eq l_of_eq
proof (intro allI impI, elim disjE exE conjE)
  fix s b s' a s1
  assume m: "Some (m s) = Some (Inr a, s1)" and f: "f a s1 = Some (Inr b, s')" and E: "known s' \<subseteq> E"
  from l_movesD [OF assms(2) f] have "known s1 \<subseteq> known s'" by (rule grows)
  with E m assms(1) have "P a" by (auto simp: gives_def)
  from assms(3) [OF this] f E show "Q b" by (auto simp: l_gives_def)
qed simp

end

section \<open>Returning\<close>

definition l_returns :: "('s, 'a) lst \<Rightarrow> bool" where
  "l_returns m \<longleftrightarrow> (\<forall>s. m s \<noteq> None)"

lemma l_returns_of [intro]: "l_returns (l_of m)"
  by (simp add: l_returns_def)

lemma l_returns_bind [intro]: "l_returns m \<Longrightarrow> (\<And>a. l_returns (f a)) \<Longrightarrow> l_returns (l_bind m f)"
  by (auto simp: l_returns_def l_bind_def split: option.split prod.split sum.split)

lemma l_returns_try [intro]: "l_returns m \<Longrightarrow> (\<And>e. l_returns (h e)) \<Longrightarrow> l_returns (l_try m c h)"
  by (auto simp: l_returns_def l_try_def split: option.split prod.split sum.split)

lemma loop_returns:
  assumes "\<And>b b' s s'. body b s = (Inr (Again b'), s') \<Longrightarrow> m s' < (m s :: nat)"
  shows "x_loop body b s \<noteq> None"
proof (induction "m s" arbitrary: b s rule: less_induct)
  case less
  obtain r s' where r: "body b s = (r, s')" by fastforce
  show ?case
  proof (cases "\<exists>b'. r = Inr (Again b')")
    case True
    then obtain b' where "r = Inr (Again b')" ..
    with less assms r show ?thesis by (subst x_loop.simps) simp
  next
    case False
    with r show ?thesis by (subst x_loop.simps) (auto split: sum.split flow.split)
  qed
qed

end
