(* ===== verification/Doctor_Report.thy ===== *)
theory Doctor_Report
  imports Py_Loop Config
begin

text \<open>
  The VPN doctor (\<open>scripts/vpn_doctor.py\<close>), the parts without effects: the report, its JSON form, its
  printed form, and the cleaning of texts that go to the log.
\<close>

section \<open>Cleaning\<close>

text \<open>
  \<open>SENSITIVE\<close> is searched without regard to case: besides the upper case letters, four other code
  points match a Latin letter.
\<close>

definition fold_char :: "nat \<Rightarrow> nat" where
  "fold_char c =
     (if 65 \<le> c \<and> c \<le> 90 then c + 32
      else if c = 304 \<or> c = 305 then 105 else if c = 383 then 115 else if c = 8490 then 107 else c)"

definition SENSITIVE_WORDS :: "ustr list" where
  "SENSITIVE_WORDS = [u ''password'', u ''username'', u ''credential'', u ''authorization'', u ''bearer'', u ''secret'', u ''token'']"

definition sensitive :: "ustr \<Rightarrow> bool" where
  "sensitive s \<longleftrightarrow> (\<exists>w \<in> set SENSITIVE_WORDS. py_contains (map fold_char s) w)"

text \<open>\<open>TOKEN_URL\<close> at the start of a text: what follows the match.\<close>

definition digit_char :: "nat \<Rightarrow> bool" where
  "digit_char c \<longleftrightarrow> 48 \<le> c \<and> c \<le> 57"

definition token_char :: "nat \<Rightarrow> bool" where
  "token_char c \<longleftrightarrow> digit_char c \<or> (65 \<le> c \<and> c \<le> 90) \<or> (97 \<le> c \<and> c \<le> 122) \<or> c = 95 \<or> c = 45"

definition after_run :: "(nat \<Rightarrow> bool) \<Rightarrow> nat \<Rightarrow> ustr \<Rightarrow> ustr option" where
  "after_run P sep s =
     (if takeWhile P s = [] then None
      else case dropWhile P s of c # rest \<Rightarrow> if c = sep then Some rest else None | [] \<Rightarrow> None)"

definition token_at :: "ustr \<Rightarrow> ustr option" where
  "token_at s =
     (if py_startswith s (u ''/bot'')
      then Option.bind (after_run digit_char 58 (drop 4 s)) (after_run token_char 47) else None)"

lemma after_run_shorter: "after_run P sep s = Some rest \<Longrightarrow> length rest < length s"
proof -
  have "length (dropWhile P s) \<le> length s" by (rule length_dropWhile_le)
  then show "after_run P sep s = Some rest \<Longrightarrow> ?thesis"
    by (auto simp: after_run_def split: if_splits list.splits)
qed

lemma token_at_shorter: "token_at s = Some rest \<Longrightarrow> length rest < length s"
  by (auto simp: token_at_def Option.bind_eq_Some_conv split: if_splits dest!: after_run_shorter)

text \<open>\<open>TOKEN_URL.sub("/bot[REDACTED]/", s)\<close>: matches from the left, without overlap.\<close>

definition REDACTED_URL :: ustr where
  "REDACTED_URL = u ''/bot[REDACTED]/''"

function redact_tokens :: "ustr \<Rightarrow> ustr" where
  "redact_tokens s =
     (case token_at s of
        Some rest \<Rightarrow> REDACTED_URL @ redact_tokens rest
      | None \<Rightarrow> (case s of [] \<Rightarrow> [] | c # cs \<Rightarrow> c # redact_tokens cs))"
  by pat_completeness auto
termination
  by (relation "measure length") (auto dest: token_at_shorter)

declare redact_tokens.simps [simp del]

text \<open>\<open>clean\<close>.\<close>

definition clean_line :: "ustr \<Rightarrow> ustr" where
  "clean_line raw =
     (let line = redact_tokens raw in if sensitive line then u ''[redacted sensitive log line]'' else line)"

definition clean :: "ustr \<Rightarrow> ustr" where
  "clean v = py_strip (py_join (u '' | '') (map clean_line (py_splitlines (filter (\<lambda>c. c \<noteq> 13) v))))"

section \<open>The report\<close>

record check =
  ck_name :: ustr
  ck_ok :: bool
  ck_detail :: ustr

record report =
  rp_checks :: "check list"
  rp_actions :: "ustr list"

definition new_report :: report where
  "new_report = \<lparr> rp_checks = [], rp_actions = [] \<rparr>"

definition report_ok :: "report \<Rightarrow> bool" where
  "report_ok r \<longleftrightarrow> list_all ck_ok (rp_checks r)"

definition report_add :: "ustr \<Rightarrow> bool \<Rightarrow> ustr \<Rightarrow> report \<Rightarrow> report" where
  "report_add name ok detail r = r \<lparr> rp_checks := rp_checks r @ [\<lparr> ck_name = name, ck_ok = ok, ck_detail = detail \<rparr>] \<rparr>"

definition as_dict :: "report \<Rightarrow> json" where
  "as_dict r =
     JDict [(u ''ok'', JBool (report_ok r)),
            (u ''checks'', JList (map (\<lambda>c. JDict [(u ''name'', JStr (ck_name c)), (u ''ok'', JBool (ck_ok c)),
                                                   (u ''detail'', JStr (ck_detail c))]) (rp_checks r))),
            (u ''actions'', JList (map JStr (rp_actions r)))]"

text \<open>
  \<open>report_from_dict\<close>. Iterating an object gives its keys and iterating a text its characters; indexing one
  of these with a text, or a number, is a TypeError. \<open>payload.get\<close> of what is no object is an
  AttributeError.
\<close>

definition py_item :: "pylib \<Rightarrow> json \<Rightarrow> ustr \<Rightarrow> json res" where
  "py_item py j key =
     (case j of
        JDict d \<Rightarrow> (case dict_get d key of Some v \<Rightarrow> Inr v | None \<Rightarrow> Inl (builtin py B_KeyError))
      | _ \<Rightarrow> Inl (builtin py B_TypeError))"

definition py_iter :: "pylib \<Rightarrow> json \<Rightarrow> json list res" where
  "py_iter py j =
     (case j of
        JList xs \<Rightarrow> Inr xs
      | JDict d \<Rightarrow> Inr (map JStr (dict_keys d))
      | JStr s \<Rightarrow> Inr (map (\<lambda>c. JStr [c]) s)
      | _ \<Rightarrow> Inl (builtin py B_TypeError))"

definition check_from_json :: "pylib \<Rightarrow> json \<Rightarrow> check res" where
  "check_from_json py j =
     bindE (py_item py j (u ''name'')) (\<lambda>name.
     bindE (py_item py j (u ''ok'')) (\<lambda>ok.
     bindE (py_item py j (u ''detail'')) (\<lambda>detail.
     Inr \<lparr> ck_name = py_str py name, ck_ok = truthy ok, ck_detail = py_str py detail \<rparr>)))"

fun checks_from_json :: "pylib \<Rightarrow> json list \<Rightarrow> check list res" where
  "checks_from_json py [] = Inr []"
| "checks_from_json py (j # js) =
     bindE (check_from_json py j) (\<lambda>c. bindE (checks_from_json py js) (\<lambda>cs. Inr (c # cs)))"

definition report_from_dict :: "pylib \<Rightarrow> json \<Rightarrow> report res" where
  "report_from_dict py payload =
     (case payload of
        JDict d \<Rightarrow>
          bindE (py_iter py (get_or d (u ''checks'') (JList []))) (\<lambda>items.
          bindE (checks_from_json py items) (\<lambda>checks.
          bindE (py_iter py (get_or d (u ''actions'') (JList []))) (\<lambda>actions.
          Inr \<lparr> rp_checks = checks, rp_actions = map (py_str py) actions \<rparr>)))
      | _ \<Rightarrow> Inl (builtin py B_AttributeError))"

text \<open>\<open>print_report\<close>, as lines: fields padded on the right.\<close>

definition pad :: "nat \<Rightarrow> ustr \<Rightarrow> ustr" where
  "pad n s = s @ replicate (n - length s) 32"

definition report_lines :: "report \<Rightarrow> ustr list" where
  "report_lines r =
     map (\<lambda>c. pad 4 (if ck_ok c then u ''OK'' else u ''FAIL'') @ [32] @ pad 34 (ck_name c) @ [32] @ ck_detail c) (rp_checks r)
     @ map (\<lambda>a. u ''DONE '' @ pad 34 (u ''action'') @ [32] @ a) (rp_actions r)
     @ [if report_ok r then u ''VPN HEALTHY'' else u ''VPN DEGRADED'']"

section \<open>Laws of the report\<close>

lemma report_add_ok [simp]: "report_ok (report_add n b d r) \<longleftrightarrow> report_ok r \<and> b"
  by (auto simp: report_ok_def report_add_def)

lemma report_add_actions [simp]: "rp_actions (report_add n b d r) = rp_actions r"
  by (simp add: report_add_def)

lemma report_new_ok [simp]: "report_ok new_report"
  by (simp add: report_ok_def new_report_def)

text \<open>A report is read back from its JSON form.\<close>

lemma report_round_trip: "report_from_dict py (as_dict r) = Inr r"
proof -
  have "checks_from_json py (map (\<lambda>c. JDict [(u ''name'', JStr (ck_name c)), (u ''ok'', JBool (ck_ok c)),
      (u ''detail'', JStr (ck_detail c))]) cs) = Inr cs" for cs
    by (induction cs) (simp_all add: check_from_json_def py_item_def)
  moreover have "map (py_str py \<circ> JStr) xs = xs" for xs by (induction xs) simp_all
  ultimately show ?thesis
    by (simp add: report_from_dict_def as_dict_def get_or_def py_iter_def)
qed

section \<open>Laws of cleaning\<close>

text \<open>Letters, and the places where a sensitive word can stand.\<close>

definition letter :: "nat \<Rightarrow> bool" where
  "letter c \<longleftrightarrow> 97 \<le> fold_char c \<and> fold_char c \<le> 122"

lemma py_contains_split:
  assumes "c \<notin> set w" and "w \<noteq> []"
  shows "py_contains (a @ c # b) w \<longleftrightarrow> py_contains a w \<or> py_contains b w"
proof
  assume "py_contains (a @ c # b) w"
  then obtain x y where eq: "a @ c # b = x @ w @ y" by (auto simp: py_contains_iff)
  then consider us where "a = x @ us" "us @ c # b = w @ y" | us where "a @ us = x" "c # b = us @ w @ y"
    by (auto simp: append_eq_append_conv2)
  then show "py_contains a w \<or> py_contains b w"
  proof cases
    case 1
    then consider vs where "us = w @ vs" | vs where "us @ vs = w" "c # b = vs @ y"
      by (auto simp: append_eq_append_conv2)
    then show ?thesis
    proof cases
      case (2 vs)
      with assms(1) have "vs = []" by (cases vs) auto
      with 1 2 have "a = x @ w @ []" by simp
      then show ?thesis unfolding py_contains_iff by blast
    qed (use 1 in \<open>auto simp: py_contains_iff\<close>)
  next
    case (2 us)
    with assms(2) show ?thesis
    proof (cases us)
      case Nil
      with 2 assms show ?thesis by (cases w) auto
    qed (auto simp: py_contains_iff)
  qed
next
  assume "py_contains a w \<or> py_contains b w"
  then show "py_contains (a @ c # b) w"
  proof
    assume "py_contains a w"
    then obtain x y where "a = x @ w @ y" by (auto simp: py_contains_iff)
    then have "a @ c # b = x @ w @ (y @ c # b)" by simp
    then show ?thesis unfolding py_contains_iff by blast
  next
    assume "py_contains b w"
    then obtain x y where "b = x @ w @ y" by (auto simp: py_contains_iff)
    then have "a @ c # b = (a @ c # x) @ w @ y" by simp
    then show ?thesis unfolding py_contains_iff by blast
  qed
qed

lemma sensitive_words: "w \<in> set SENSITIVE_WORDS \<Longrightarrow> w \<noteq> [] \<and> (\<forall>c \<in> set w. 97 \<le> c \<and> c \<le> 122)"
  by (auto simp: SENSITIVE_WORDS_def u_def)

text \<open>A character that is no letter separates.\<close>

lemma sensitive_split: "\<not> letter c \<Longrightarrow> sensitive (a @ c # b) \<longleftrightarrow> sensitive a \<or> sensitive b"
  using py_contains_split [of "fold_char c" _ "map fold_char a" "map fold_char b"] sensitive_words
  unfolding sensitive_def letter_def by auto

lemma sensitive_Nil [simp]: "\<not> sensitive []"
  using sensitive_words by (auto simp: sensitive_def)

lemma sensitive_part: "sensitive s \<Longrightarrow> sensitive (a @ s @ b)"
  unfolding sensitive_def py_contains_iff by (metis append.assoc map_append)

text \<open>A text without letters next to another does not make a word.\<close>

lemma sensitive_letters: "\<forall>c \<in> set s. \<not> letter c \<Longrightarrow> s \<noteq> [] \<Longrightarrow> sensitive (a @ s @ b) \<longleftrightarrow> sensitive a \<or> sensitive b"
proof (induction s arbitrary: a)
  case (Cons c cs)
  have "sensitive (a @ (c # cs) @ b) \<longleftrightarrow> sensitive a \<or> sensitive (cs @ b)"
    using Cons.prems by (simp add: sensitive_split)
  also have "sensitive (cs @ b) \<longleftrightarrow> sensitive b"
    using Cons.IH [of "[]"] Cons.prems by (cases "cs = []") simp_all
  finally show ?case .
qed simp

text \<open>Cleaned texts.\<close>

lemma clean_line_clean: "\<not> sensitive (clean_line l)"
proof -
  have "\<not> sensitive (u ''[redacted sensitive log line]'')"
    by (simp add: sensitive_def SENSITIVE_WORDS_def u_def fold_char_def py_startswith_def)
  then show ?thesis by (simp add: clean_line_def Let_def)
qed

lemma join_clean:
  "\<forall>l \<in> set ls. \<not> sensitive l \<Longrightarrow> \<not> sensitive (py_join (u '' | '') ls)"
proof (induction "u '' | ''" ls rule: py_join.induct)
  case (3 x y ys)
  have "\<forall>c \<in> set (u '' | ''). \<not> letter c" "u '' | '' \<noteq> []"
    by (simp_all add: u_def letter_def fold_char_def)
  from sensitive_letters [OF this] 3 show ?case by simp
qed simp_all

lemma strip_part: "\<exists>a b. s = a @ py_strip s @ b"
proof -
  have "s = takeWhile is_space s @ py_lstrip s" by (simp add: py_lstrip_def)
  moreover obtain t where "py_lstrip s = py_strip s @ t"
    using py_rstrip_append [of "py_lstrip s"] by (auto simp: py_strip_def)
  ultimately show ?thesis by (metis append.assoc)
qed

theorem clean_hides_words: "\<not> sensitive (clean v)"
proof -
  let ?t = "py_join (u '' | '') (map clean_line (py_splitlines (filter (\<lambda>c. c \<noteq> 13) v)))"
  have "\<not> sensitive ?t" using clean_line_clean by (intro join_clean) auto
  then show ?thesis
    unfolding clean_def using strip_part [of ?t] sensitive_part by metis
qed

section \<open>Laws of the token pattern\<close>

lemma after_run_iff:
  assumes "\<not> P sep"
  shows "after_run P sep s = Some rest \<longleftrightarrow> (\<exists>w. w \<noteq> [] \<and> (\<forall>c \<in> set w. P c) \<and> s = w @ sep # rest)"
proof
  assume "after_run P sep s = Some rest"
  then have "takeWhile P s \<noteq> []" "dropWhile P s = sep # rest"
    by (auto simp: after_run_def split: if_splits list.splits)
  then show "\<exists>w. w \<noteq> [] \<and> (\<forall>c \<in> set w. P c) \<and> s = w @ sep # rest"
    by (metis set_takeWhileD takeWhile_dropWhile_id)
next
  assume "\<exists>w. w \<noteq> [] \<and> (\<forall>c \<in> set w. P c) \<and> s = w @ sep # rest"
  then obtain w where w: "w \<noteq> []" "\<forall>c \<in> set w. P c" "s = w @ sep # rest" by blast
  then have "takeWhile P s = w" "dropWhile P s = sep # rest" using assms by simp_all
  with w(1) show "after_run P sep s = Some rest" by (simp add: after_run_def)
qed

definition token_text :: "ustr \<Rightarrow> bool" where
  "token_text w \<longleftrightarrow> (\<exists>ds ts. w = u ''bot'' @ ds @ 58 # ts \<and> ds \<noteq> [] \<and> ts \<noteq> []
     \<and> (\<forall>c \<in> set ds. digit_char c) \<and> (\<forall>c \<in> set ts. token_char c))"

lemma token_at_iff: "token_at s = Some rest \<longleftrightarrow> (\<exists>w. token_text w \<and> s = 47 # w @ 47 # rest)"
proof -
  have bot: "u ''/bot'' = 47 # u ''bot''" by (simp add: u_def)
  have "token_at s = Some rest \<longleftrightarrow> (\<exists>t. s = u ''/bot'' @ t \<and> Option.bind (after_run digit_char 58 t) (after_run token_char 47) = Some rest)"
    by (auto simp: token_at_def py_startswith_iff)
  also have "\<dots> \<longleftrightarrow> (\<exists>w. token_text w \<and> s = 47 # w @ 47 # rest)"
    by (auto simp: Option.bind_eq_Some_conv after_run_iff digit_char_def token_char_def token_text_def bot) blast+
  finally show ?thesis .
qed

text \<open>A token has no slash, so a match is settled by the text up to the next slash.\<close>

lemma token_text_slash: "token_text w \<Longrightarrow> 47 \<notin> set w"
  by (force simp: token_text_def token_char_def digit_char_def u_def)

lemma token_at_None_iff:
  "token_at (47 # t) = None \<longleftrightarrow> \<not> (47 \<in> set t \<and> token_text (takeWhile (\<lambda>c. c \<noteq> 47) t))"
proof -
  have "(\<exists>rest. token_at (47 # t) = Some rest) \<longleftrightarrow> 47 \<in> set t \<and> token_text (takeWhile (\<lambda>c. c \<noteq> 47) t)"
  proof
    assume "\<exists>rest. token_at (47 # t) = Some rest"
    then obtain w rest where w: "token_text w" "t = w @ 47 # rest" by (auto simp: token_at_iff)
    have "takeWhile (\<lambda>c. c \<noteq> 47) (w @ 47 # rest) = w @ takeWhile (\<lambda>c. c \<noteq> 47) (47 # rest)"
      using token_text_slash [OF w(1)] by (intro takeWhile_append2) auto
    with w show "47 \<in> set t \<and> token_text (takeWhile (\<lambda>c. c \<noteq> 47) t)" by simp
  next
    assume t: "47 \<in> set t \<and> token_text (takeWhile (\<lambda>c. c \<noteq> 47) t)"
    then obtain c rest where "dropWhile (\<lambda>c. c \<noteq> 47) t = c # rest"
      by (cases "dropWhile (\<lambda>c. c \<noteq> 47) t") (auto simp: dropWhile_eq_Nil_conv)
    moreover from this have "c = 47" by (simp add: dropWhile_eq_Cons_conv)
    ultimately have "t = takeWhile (\<lambda>c. c \<noteq> 47) t @ 47 # rest"
      using takeWhile_dropWhile_id [of "\<lambda>c. c \<noteq> 47" t] by simp
    with t show "\<exists>rest. token_at (47 # t) = Some rest" by (auto simp: token_at_iff)
  qed
  then show ?thesis by (cases "token_at (47 # t)") auto
qed

lemma token_at_first: "token_at (c # t) \<noteq> None \<Longrightarrow> c = 47"
  by (auto simp: token_at_iff)

lemma redact_to_slash:
  "takeWhile (\<lambda>c. c \<noteq> 47) (redact_tokens s) = takeWhile (\<lambda>c. c \<noteq> 47) s \<and> (47 \<in> set (redact_tokens s) \<longleftrightarrow> 47 \<in> set s)"
proof (induction s rule: redact_tokens.induct)
  case (1 s)
  show ?case
  proof (cases "token_at s")
    case None
    with 1 show ?thesis by (cases s) (auto simp: redact_tokens.simps)
  next
    case (Some rest)
    then obtain w where "s = 47 # w @ 47 # rest" by (auto simp: token_at_iff)
    moreover have "redact_tokens s = 47 # tl REDACTED_URL @ redact_tokens rest"
      using Some by (subst redact_tokens.simps) (simp add: REDACTED_URL_def u_def)
    ultimately show ?thesis by simp
  qed
qed

text \<open>
  A bot token that is still there after the cleaning stands directly behind one that was redacted,
  with which it shared a slash.
\<close>

lemma redacted_not_token: "token_at (REDACTED_URL @ t) = None"
  by (simp add: token_at_def after_run_def REDACTED_URL_def u_def py_startswith_def digit_char_def)

theorem tokens_left:
  assumes "redact_tokens s = a @ b" and "token_at b \<noteq> None"
  shows "\<exists>a'. a = a' @ u ''/bot[REDACTED]''"
  using assms
proof (induction s arbitrary: a rule: redact_tokens.induct)
  case (1 s)
  note left = 1(4) and IH = 1(2)
  show ?case
  proof (cases "token_at s")
    case None
    show ?thesis
    proof (cases s)
      case Nil
      with 1(3,4) None show ?thesis by (simp add: redact_tokens.simps token_at_def py_startswith_def u_def)
    next
      case (Cons c cs)
      with None have eq: "redact_tokens s = c # redact_tokens cs" by (subst redact_tokens.simps) simp
      show ?thesis
      proof (cases a)
        case Nil
        with 1(3,4) eq have "token_at (c # redact_tokens cs) \<noteq> None" by simp
        then have "token_at s \<noteq> None"
          using token_at_first [of c] token_at_None_iff redact_to_slash [of cs] Cons by metis
        with None show ?thesis by simp
      next
        case (Cons x a2)
        with 1(3) eq have "redact_tokens cs = a2 @ b" by simp
        with 1(1) [OF None \<open>s = c # cs\<close>] 1(4) obtain a' where "a2 = a' @ u ''/bot[REDACTED]''" by blast
        then show ?thesis using Cons by (metis append_Cons)
      qed
    qed
  next
    case (Some rest)
    then have eq: "REDACTED_URL @ redact_tokens rest = a @ b" using 1(3) by (subst (asm) redact_tokens.simps) simp
    then consider us where "REDACTED_URL @ us = a" "redact_tokens rest = us @ b"
      | us where "REDACTED_URL = a @ us" "us @ redact_tokens rest = b" "us \<noteq> []"
      unfolding append_eq_append_conv2 by (metis append_Nil append_Nil2)
    then show ?thesis
    proof cases
      case 1
      with IH [OF Some] left obtain a' where "us = a' @ u ''/bot[REDACTED]''" by blast
      with 1 show ?thesis by (metis append.assoc)
    next
      case 2
      have url: "REDACTED_URL = 47 # u ''bot[REDACTED]'' @ 47 # []" and free: "47 \<notin> set (u ''bot[REDACTED]'')"
        by (simp_all add: REDACTED_URL_def u_def)
      from 2 left obtain us' where us: "us = 47 # us'" using token_at_first by (cases us) auto
      show ?thesis
      proof (cases a)
        case Nil
        with 2 have "b = REDACTED_URL @ redact_tokens rest" by simp
        with left redacted_not_token show ?thesis by simp
      next
        case (Cons x a2)
        have "x # a2 @ 47 # us' = 47 # u ''bot[REDACTED]'' @ 47 # []"
          using 2(1) us Cons by (simp only: url [symmetric] append_Cons)
        then have x: "x = 47" and "a2 @ 47 # us' = u ''bot[REDACTED]'' @ 47 # []" by simp_all
        with append_Cons_eq_iff [OF free, of "[]"] have "a2 = u ''bot[REDACTED]''" by (metis list.set(1) empty_iff)
        with Cons x have "a = [] @ u ''/bot[REDACTED]''" by (simp add: u_def)
        then show ?thesis by blast
      qed
    qed
  qed
qed

text \<open>It can happen: of two tokens that share a slash, the second stays.\<close>

lemma token_left: "redact_tokens (u ''/bot1:a/bot2:b/'') = u ''/bot[REDACTED]/bot2:b/''"
  by code_simp

end
