(* ===== verification/Doctor_Probes.thy ===== *)
theory Doctor_Probes
  imports Doctor_Report
begin

text \<open>
  The VPN doctor: its state, the commands it runs, its log with rotation, the probes, and the two
  reports made of them.
\<close>

section \<open>The state\<close>

text \<open>
  The log and its rotated copies by their number (0 is the log itself), the state file, the cache of
  the preflight. Events are what the doctor does outside; a command and a request carry their time.
\<close>

datatype state_file = StateUnreadable | StateDamaged | StateText ustr

datatype cache_file = NoCache | CacheFails exn | Cached rat json

datatype doctor_event =
    Command nat "ustr list" int
  | Request nat ustr ustr "ustr option" "json option"
  | Sleeps
  | PrintsJson json
  | Prints "ustr list"
  | PrintsError ustr

record doctor =
  vd_events :: "doctor_event list"
  vd_time :: nat
  vd_logs :: "(nat, ustr) dict"
  vd_state :: state_file
  vd_cache :: cache_file

text \<open>
  What the surroundings answer at each time: a command (an OSError or a timeout by the name of its
  class, another exception, or the end of the process), the worker (a body that decodes or not, an HTTP
  error, an OSError by the name of its class, another exception), the clocks, failures of the files.
  \<open>de_rotate\<close> gives after how many file operations the rotation fails.
\<close>

datatype command_result = RunFails ustr | RunRaises exn | Ran int ustr ustr

datatype http_result = HttpBody "ustr res" | HttpError int "ustr res" | HttpFails ustr | HttpRaises exn

record doctor_env =
  de_run :: "nat \<Rightarrow> command_result"
  de_http :: "nat \<Rightarrow> http_result"
  de_clock :: "nat \<Rightarrow> rat"
  de_wall :: "nat \<Rightarrow> rat"
  de_stamp :: "nat \<Rightarrow> ustr"
  de_uuid :: "nat \<Rightarrow> ustr"
  de_log :: "nat \<Rightarrow> exn option"
  de_rotate :: "nat \<Rightarrow> nat option"
  de_state_write :: "nat \<Rightarrow> exn option"
  de_cache_write :: "nat \<Rightarrow> exn option"
  de_lock_open :: "nat \<Rightarrow> exn option"
  de_lock :: "nat \<Rightarrow> bool"
  de_compose :: "nat \<Rightarrow> bool"

record doctor_config =
  vc_compose :: ustr
  vc_worker_url :: ustr
  vc_worker_token :: ustr
  vc_max_log_bytes :: int
  vc_log_backups :: nat
  vc_cache_ttl :: rat

type_synonym 'a doc = "(doctor, 'a) st"

text \<open>\<open>__init__\<close>, and the lifetime of the cache; the resolved path of the compose file is given.\<close>

definition doctor_config_from_env :: "pylib \<Rightarrow> environ \<Rightarrow> ustr \<Rightarrow> doctor_config res" where
  "doctor_config_from_env py env compose =
     bindE (env_int py env (u ''BO_VPN_DOCTOR_LOG_MAX_BYTES'') (u ''1048576'')) (\<lambda>max_bytes.
     bindE (env_int py env (u ''BO_VPN_DOCTOR_LOG_BACKUPS'') (u ''2'')) (\<lambda>backups.
     bindE (env_float py env (u ''BO_VPN_PREFLIGHT_CACHE_TTL_SEC'') (u ''5'')) (\<lambda>ttl.
     Inr \<lparr> vc_compose = compose,
           vc_worker_url = rstrip_char 47 (env_or env (u ''BO_VPN_DOCTOR_WORKER_URL'') (u ''http://127.0.0.1:8000'')),
           vc_worker_token = env_or env (u ''BO_VPN_DOCTOR_WORKER_TOKEN'') (u ''dev-token''),
           vc_max_log_bytes = max_bytes, vc_log_backups = nat (max 1 backups), vc_cache_ttl = max 0 ttl \<rparr>)))"

definition d_ask :: "(nat \<Rightarrow> 'a) \<Rightarrow> 'a doc" where
  "d_ask f s = (Inr (f (vd_time s)), s \<lparr> vd_time := Suc (vd_time s) \<rparr>)"

definition d_log :: "doctor_event \<Rightarrow> unit doc" where
  "d_log e = x_modify (\<lambda>s. s \<lparr> vd_events := vd_events s @ [e] \<rparr>)"

definition d_fail :: "exn option \<Rightarrow> unit doc" where
  "d_fail x = (case x of None \<Rightarrow> x_return () | Some e \<Rightarrow> x_raise e)"

section \<open>Commands\<close>

record completed =
  cp_returncode :: int
  cp_stdout :: ustr
  cp_stderr :: ustr

definition command :: "doctor_env \<Rightarrow> int \<Rightarrow> bool \<Rightarrow> ustr list \<Rightarrow> completed doc" where
  "command env timeout check cmd =
     x_bind (d_ask (\<lambda>k. (k, de_run env k))) (\<lambda>(k, result).
     x_bind (d_log (Command k cmd timeout)) (\<lambda>_.
     case result of
       RunFails name \<Rightarrow> x_raise (DoctorError (u ''command failed: '' @ hd cmd @ u '': '' @ name))
     | RunRaises e \<Rightarrow> x_raise e
     | Ran rc out err \<Rightarrow>
         if check \<and> rc \<noteq> 0
         then x_raise (DoctorError (hd cmd @ u '' failed: ''
                @ take 300 (clean (if err \<noteq> [] then err else if out \<noteq> [] then out else u ''exit '' @ str_of_int rc))))
         else x_return \<lparr> cp_returncode = rc, cp_stdout = out, cp_stderr = err \<rparr>))"

definition docker_running :: "doctor_env \<Rightarrow> ustr \<Rightarrow> bool doc" where
  "docker_running env name =
     x_bind (command env 30 False [u ''docker'', u ''inspect'', u ''-f'', u ''{{.State.Running}}'', name]) (\<lambda>r.
     x_return (cp_returncode r = 0 \<and> py_strip (cp_stdout r) = u ''true''))"

text \<open>\<open>namespace\<close> (a reserved word of the library).\<close>

definition net_namespace :: "doctor_env \<Rightarrow> ustr \<Rightarrow> ustr option doc" where
  "net_namespace env name =
     x_bind (command env 30 False [u ''docker'', u ''exec'', name, u ''readlink'', u ''/proc/self/ns/net'']) (\<lambda>r.
     x_return (if cp_returncode r = 0 then Some (py_strip (cp_stdout r)) else None))"

section \<open>The log\<close>

datatype log_op = Unlink nat | Rename nat nat

text \<open>A missing source is skipped (the log itself exists when it is rotated).\<close>

fun apply_log_op :: "log_op \<Rightarrow> (nat, ustr) dict \<Rightarrow> (nat, ustr) dict" where
  "apply_log_op (Unlink i) logs = dict_pop logs i"
| "apply_log_op (Rename i j) logs =
     (case dict_get logs i of None \<Rightarrow> logs | Some t \<Rightarrow> dict_set (dict_pop logs i) j t)"

definition rotate_ops :: "nat \<Rightarrow> log_op list" where
  "rotate_ops backups = Unlink backups # map (\<lambda>i. Rename i (Suc i)) (rev [1..<backups]) @ [Rename 0 1]"

definition log_size :: "ustr \<Rightarrow> int" where
  "log_size t = int (length (concat (map utf8_char t)))"

text \<open>\<open>rotate\<close>; an OSError ends it and is swallowed.\<close>

definition rotate_log :: "doctor_config \<Rightarrow> doctor_env \<Rightarrow> unit doc" where
  "rotate_log cfg env =
     x_bind (d_ask (de_rotate env)) (\<lambda>failure.
     x_modify (\<lambda>s.
       case dict_get (vd_logs s) 0 of
         None \<Rightarrow> s
       | Some t \<Rightarrow>
           if log_size t < vc_max_log_bytes cfg then s
           else s \<lparr> vd_logs := fold apply_log_op
                   (case failure of None \<Rightarrow> rotate_ops (vc_log_backups cfg) | Some n \<Rightarrow> take n (rotate_ops (vc_log_backups cfg)))
                   (vd_logs s) \<rparr>))"

definition log_line :: "ustr \<Rightarrow> ustr \<Rightarrow> ustr \<Rightarrow> ustr \<Rightarrow> ustr" where
  "log_line stamp level event detail =
     stamp @ u '' level='' @ level @ u '' event='' @ event
     @ (if detail \<noteq> [] then u '' detail='' @ clean detail else []) @ [10]"

text \<open>\<open>log\<close>: the directory, the rotation, the line appended; a line that cannot be encoded leaves an opened file.\<close>

definition append_log :: "ustr \<Rightarrow> unit doc" where
  "append_log t = x_modify (\<lambda>s. s \<lparr> vd_logs := dict_set (vd_logs s) 0
     ((case dict_get (vd_logs s) 0 of None \<Rightarrow> [] | Some old \<Rightarrow> old) @ t) \<rparr>)"

definition log_event :: "pylib \<Rightarrow> doctor_config \<Rightarrow> doctor_env \<Rightarrow> ustr \<Rightarrow> ustr \<Rightarrow> ustr \<Rightarrow> unit doc" where
  "log_event py cfg env level event detail =
     x_bind (x_bind (d_ask (de_log env)) d_fail) (\<lambda>_.
     x_bind (rotate_log cfg env) (\<lambda>_.
     x_bind (d_ask (de_stamp env)) (\<lambda>stamp.
     x_bind (x_bind (d_ask (de_log env)) d_fail) (\<lambda>_.
     let line = log_line stamp level event detail
     in if utf8_encode line = None
        then x_bind (append_log []) (\<lambda>_. x_raise (builtin py B_UnicodeEncodeError))
        else append_log line))))"

section \<open>The worker\<close>

definition value_error :: "exn \<Rightarrow> bool" where
  "value_error e =
     (case e of ValueErr _ \<Rightarrow> True
      | Builtin b _ \<Rightarrow> b \<in> {B_ValueError, B_JSONDecodeError, B_UnicodeEncodeError, B_UnicodeDecodeError} | _ \<Rightarrow> False)"

text \<open>\<open>type(exc).__name__\<close> of a ValueError.\<close>

definition value_error_name :: "exn \<Rightarrow> ustr" where
  "value_error_name e =
     (case e of Builtin B_JSONDecodeError _ \<Rightarrow> u ''JSONDecodeError''
      | Builtin B_UnicodeDecodeError _ \<Rightarrow> u ''UnicodeDecodeError''
      | Builtin B_UnicodeEncodeError _ \<Rightarrow> u ''UnicodeEncodeError'' | _ \<Rightarrow> u ''ValueError'')"

text \<open>What an HTTP error says: the error code of its body, or the status.\<close>

definition http_detail :: "pylib \<Rightarrow> int \<Rightarrow> json \<Rightarrow> json" where
  "http_detail py code j =
     (let dflt = JStr (u ''HTTP '' @ str_of_int code)
      in case j of
           JDict d \<Rightarrow>
             (let nested = jget d (u ''error'');
                  inner = (case nested of JDict n \<Rightarrow> jget n (u ''error_code'') | v \<Rightarrow> v)
              in py_or (py_or (jget d (u ''error_code'')) inner) dflt)
         | _ \<Rightarrow> dflt)"

definition request_failed :: "ustr \<Rightarrow> exn" where
  "request_failed detail = DoctorError (u ''worker request failed: '' @ detail)"

text \<open>\<open>worker_request\<close>; a ValueError is reported by its name, and within an HTTP error ignored.\<close>

definition doctor_request :: "pylib \<Rightarrow> doctor_env \<Rightarrow> ustr \<Rightarrow> ustr \<Rightarrow> jdict option \<Rightarrow> ustr option \<Rightarrow> json doc" where
  "doctor_request py env http_method path payload request_id =
     (let from_payload = (case payload of
            Some d \<Rightarrow> if truthy (jget d (u ''request_id'')) then Some (py_str py (jget d (u ''request_id''))) else None
          | None \<Rightarrow> None);
          effective = (case request_id of Some r \<Rightarrow> if r \<noteq> [] then Some r else from_payload | None \<Rightarrow> from_payload)
      in
      x_bind (d_ask (\<lambda>k. (k, de_http env k))) (\<lambda>(k, result).
      x_bind (d_log (Request k http_method path effective (map_option JDict payload))) (\<lambda>_.
      case result of
        HttpBody body \<Rightarrow>
          (case bindE body (py_json_loads py) of
             Inr j \<Rightarrow> x_return j
           | Inl e \<Rightarrow> x_raise (if value_error e then request_failed (value_error_name e) else e))
      | HttpError code body \<Rightarrow>
          (case bindE body (py_json_loads py) of
             Inr j \<Rightarrow> x_raise (request_failed (py_str py (http_detail py code j)))
           | Inl e \<Rightarrow> x_raise (if value_error e then request_failed (u ''HTTP '' @ str_of_int code) else e))
      | HttpFails name \<Rightarrow> x_raise (request_failed name)
      | HttpRaises e \<Rightarrow> x_raise e)))"

text \<open>\<open>bool(result.get("ok")), str(result.get("status") or "unknown")\<close>.\<close>

definition health_answer :: "pylib \<Rightarrow> json \<Rightarrow> (bool \<times> ustr) res" where
  "health_answer py j =
     (case j of
        JDict d \<Rightarrow> Inr (truthy (jget d (u ''ok'')), py_str py (py_or (jget d (u ''status'')) (JStr (u ''unknown''))))
      | _ \<Rightarrow> Inl (builtin py B_AttributeError))"

definition is_doctor_error :: "exn \<Rightarrow> bool" where
  "is_doctor_error e = (case e of DoctorError _ \<Rightarrow> True | _ \<Rightarrow> False)"

definition worker_health :: "pylib \<Rightarrow> doctor_env \<Rightarrow> (bool \<times> ustr) doc" where
  "worker_health py env =
     x_try (x_bind (doctor_request py env (u ''GET'') (u ''/health'') None None) (\<lambda>j. x_lift (health_answer py j)))
       is_doctor_error (\<lambda>e. x_return (False, exn_str e))"

section \<open>Probes\<close>

definition RUNNER_HEALTH_CODE :: ustr where
  "RUNNER_HEALTH_CODE =
     u ''import os,urllib.request; '' @
     u ''print(urllib.request.urlopen(os.environ['' @ [34] @ u ''BO_VPN_RUNNER_URL'' @ [34] @ u '']+'' @ [34]
     @ u ''/health'' @ [34] @ u '',timeout=5).read().decode())''"

definition runner_health :: "pylib \<Rightarrow> doctor_env \<Rightarrow> (bool \<times> ustr) doc" where
  "runner_health py env =
     x_bind (command env 8 False [u ''docker'', u ''exec'', u ''bo-vpn-worker'', u ''python'', u ''-c'', RUNNER_HEALTH_CODE]) (\<lambda>r.
     if cp_returncode r \<noteq> 0
     then x_return (False, clean (if cp_stderr r \<noteq> [] then cp_stderr r else u ''runner unavailable''))
     else (case bindE (py_json_loads py (cp_stdout r)) (health_answer py) of
             Inr h \<Rightarrow> x_return h
           | Inl e \<Rightarrow> if value_error e then x_return (False, u ''invalid runner health response'') else x_raise e))"

definition vpn_health :: "doctor_env \<Rightarrow> (bool \<times> ustr) doc" where
  "vpn_health env =
     x_bind (command env 30 False [u ''docker'', u ''exec'', u ''univpn-service'', u ''ip'', u ''-o'', u ''addr'', u ''show'', u ''dev'', u ''cnem_vnic'']) (\<lambda>interface.
     x_bind (command env 30 False [u ''docker'', u ''exec'', u ''univpn-service'', u ''ip'', u ''route'', u ''show'', u ''172.26.0.0/15'']) (\<lambda>route.
     let ok = cp_returncode interface = 0 \<and> py_strip (cp_stdout interface) \<noteq> [] \<and> py_strip (cp_stdout route) \<noteq> []
     in x_return (ok, if ok then u ''cnem_vnic and 172.26.0.0/15 route present'' else u ''cnem_vnic or route missing'')))"

definition host_isolated :: "doctor_env \<Rightarrow> (bool \<times> ustr) doc" where
  "host_isolated env =
     x_bind (command env 30 False [u ''ip'', u ''link'', u ''show'', u ''cnem_vnic'']) (\<lambda>interface.
     x_bind (command env 30 False [u ''ip'', u ''route'', u ''show'', u ''172.26.0.0/15'']) (\<lambda>route.
     let ok = cp_returncode interface \<noteq> 0 \<and> py_strip (cp_stdout route) = []
     in x_return (ok, if ok then u ''VPN route absent on host'' else u ''VPN interface or route leaked to host'')))"

section \<open>The reports\<close>

definition running_text :: "bool \<Rightarrow> ustr" where
  "running_text b = (if b then u ''running'' else u ''not running'')"

definition check_container :: "doctor_env \<Rightarrow> ustr \<Rightarrow> report \<Rightarrow> report doc" where
  "check_container env name r =
     x_bind (docker_running env name) (\<lambda>b. x_return (report_add (u ''container:'' @ name) b (running_text b) r))"

definition same_namespace :: "ustr option \<Rightarrow> ustr option \<Rightarrow> bool" where
  "same_namespace vpn own \<longleftrightarrow> vpn \<noteq> None \<and> vpn \<noteq> Some [] \<and> own = vpn"

definition add_namespace :: "ustr option \<Rightarrow> ustr \<Rightarrow> ustr option \<Rightarrow> report \<Rightarrow> report" where
  "add_namespace vpn name own =
     report_add (u ''namespace:'' @ name) (same_namespace vpn own)
       (if same_namespace vpn own then u ''matches UniVPN'' else u ''stale or unavailable'')"

definition check_namespace :: "doctor_env \<Rightarrow> ustr option \<Rightarrow> ustr \<Rightarrow> report \<Rightarrow> report doc" where
  "check_namespace env vpn name r =
     x_bind (net_namespace env name) (\<lambda>own. x_return (add_namespace vpn name own r))"

definition add_pair :: "ustr \<Rightarrow> bool \<times> ustr \<Rightarrow> report \<Rightarrow> report" where
  "add_pair name p = report_add name (fst p) (snd p)"

text \<open>The probes of the VPN and of the host, at the end of both reports.\<close>

definition check_vpn :: "doctor_env \<Rightarrow> bool \<Rightarrow> report \<Rightarrow> report doc" where
  "check_vpn env running r =
     x_bind (if running then vpn_health env else x_return (False, u ''container unavailable'')) (\<lambda>vpn.
     x_bind (host_isolated env) (\<lambda>isolated.
     x_return (add_pair (u ''host_isolation'') isolated (add_pair (u ''vpn'') vpn r))))"

text \<open>\<open>inspect\<close>.\<close>

definition inspect_all :: "pylib \<Rightarrow> doctor_env \<Rightarrow> report doc" where
  "inspect_all py env =
     x_bind (x_fold (check_container env) [u ''univpn-service'', u ''bo-vpn-runner'', u ''bo-vpn-worker''] new_report) (\<lambda>r1.
     x_bind (command env 30 False [u ''docker'', u ''inspect'', u ''bo-vpn-tcp-proxy'']) (\<lambda>found.
     let proxy = cp_returncode found = 0 in
     x_bind (if proxy then check_container env (u ''bo-vpn-tcp-proxy'') r1 else x_return r1) (\<lambda>r2.
     x_bind (net_namespace env (u ''univpn-service'')) (\<lambda>vpn_ns.
     x_bind (x_fold (check_namespace env vpn_ns)
              (if proxy then [u ''bo-vpn-runner'', u ''bo-vpn-tcp-proxy''] else [u ''bo-vpn-runner'']) r2) (\<lambda>r3.
     x_bind (worker_health py env) (\<lambda>worker.
     x_bind (if fst worker then runner_health py env else x_return (False, u ''worker unavailable'')) (\<lambda>runner.
     x_bind (docker_running env (u ''univpn-service'')) (\<lambda>running.
     check_vpn env running (add_pair (u ''runner'') runner (add_pair (u ''worker'') worker r3))))))))))"

text \<open>\<open>preflight\<close>: only the transport, without the worker and without compose.\<close>

definition preflight_report :: "doctor_env \<Rightarrow> report doc" where
  "preflight_report env =
     x_bind (docker_running env (u ''univpn-service'')) (\<lambda>vpn_running.
     x_bind (docker_running env (u ''bo-vpn-runner'')) (\<lambda>runner_running.
     let r1 = report_add (u ''container:bo-vpn-runner'') runner_running (running_text runner_running)
                (report_add (u ''container:univpn-service'') vpn_running (running_text vpn_running) new_report) in
     x_bind (if vpn_running then net_namespace env (u ''univpn-service'') else x_return None) (\<lambda>vpn_ns.
     x_bind (if runner_running then net_namespace env (u ''bo-vpn-runner'') else x_return None) (\<lambda>runner_ns.
     let r2 = add_namespace vpn_ns (u ''bo-vpn-runner'') runner_ns r1 in
     x_bind (if runner_running
             then x_bind (command env 30 False [u ''docker'', u ''exec'', u ''bo-vpn-runner'', u ''test'', u ''-r'', u ''/run/keys/rsa.key'']) (\<lambda>key.
               x_return (cp_returncode key = 0, if cp_returncode key = 0 then u ''readable'' else u ''not readable''))
             else x_return (False, u ''runner unavailable'')) (\<lambda>key.
     check_vpn env vpn_running (add_pair (u ''runner:ssh-key'') key r2))))))"

end
