(* ===== verification/Doctor_Repair.thy ===== *)
theory Doctor_Repair
  imports Doctor_Probes Ip_Address
begin

text \<open>
  The VPN doctor: repair, the managed login, the record of its state, the cache of the preflight, and
  the program with its three modes.
\<close>

section \<open>Acting\<close>

type_synonym 'a doc_loop = "(doctor, 'a) lst"

definition compose_up :: "doctor_config \<Rightarrow> doctor_env \<Rightarrow> bool \<Rightarrow> ustr list \<Rightarrow> unit doc" where
  "compose_up cfg env force services =
     x_bind (command env 120 True
       ([u ''docker'', u ''compose'', u ''-f'', vc_compose cfg, u ''--profile'', u ''audio'', u ''up'', u ''-d'', u ''--no-deps'']
        @ (if force then [u ''--force-recreate''] else []) @ services)) (\<lambda>_.
     x_return ())"

text \<open>\<open>wait_until\<close>: one pass of the loop, and the loop.\<close>

definition wait_pass :: "doctor_env \<Rightarrow> rat \<Rightarrow> (bool \<times> ustr) doc \<Rightarrow> bool \<times> ustr
    \<Rightarrow> (bool \<times> ustr, bool \<times> ustr) flow doc" where
  "wait_pass env deadline probe result =
     x_bind (d_ask (de_clock env)) (\<lambda>now.
     if now < deadline then
       x_bind probe (\<lambda>result'.
       if fst result' then x_return (Done result')
       else x_bind (d_log Sleeps) (\<lambda>_. x_return (Again result')))
     else x_return (Done result))"

definition wait_until :: "doctor_env \<Rightarrow> (bool \<times> ustr) doc \<Rightarrow> (bool \<times> ustr) doc_loop" where
  "wait_until env probe =
     l_bind (l_of (d_ask (de_clock env))) (\<lambda>now.
     x_loop (wait_pass env (now + 20) probe) (False, u ''not ready''))"

text \<open>\<open>trigger_login\<close>.\<close>

definition canary_payload :: "ustr \<Rightarrow> ustr \<Rightarrow> jdict" where
  "canary_payload request_id address =
     [(u ''request_id'', JStr request_id),
      (u ''telegram_user_id'', JInt 0),
      (u ''user_role'', JStr (u ''engineer'')),
      (u ''vehicle'', JDict [(u ''number'', JStr (u ''vpn-doctor-canary'')), (u ''ip'', JStr address)]),
      (u ''vpn'', JDict [(u ''mode'', JStr (u ''container_secret''))]),
      (u ''operation'', JStr (u ''vehicle_reachability'')),
      (u ''params'', JDict []),
      (u ''runner_mode'', JStr (u ''container_namespace'')),
      (u ''timeout_sec'', JInt 90)]"

definition login_pass :: "pylib \<Rightarrow> doctor_env \<Rightarrow> rat \<Rightarrow> ustr \<Rightarrow> ustr \<Rightarrow> unit \<Rightarrow> (ustr, unit) flow doc" where
  "login_pass py env deadline task_id request_id v =
     x_bind (d_ask (de_clock env)) (\<lambda>now.
     if now < deadline then
       x_bind (doctor_request py env (u ''GET'') (u ''/tasks/'' @ task_id) None (Some request_id)) (\<lambda>j.
       case j of
         JDict d \<Rightarrow>
           (let state = py_str py (jget d (u ''state''))
            in if state \<in> {u ''finished'', u ''failed'', u ''timeout''}
               then x_return (Done (u ''task='' @ state @ u '' code='' @ py_str py (py_or (jget d (u ''error_code'')) (JStr (u ''none'')))))
               else x_bind (d_log Sleeps) (\<lambda>_. x_return (Again ())))
       | _ \<Rightarrow> x_raise (builtin py B_AttributeError))
     else x_raise (DoctorError (u ''canary task polling timed out'')))"

definition start_canary :: "pylib \<Rightarrow> doctor_env \<Rightarrow> ustr \<Rightarrow> (ustr \<times> ustr \<times> rat) doc" where
  "start_canary py env canary_ip =
     (case ip_address canary_ip of
        None \<Rightarrow> x_raise (builtin py B_ValueError)
      | Some address \<Rightarrow>
          if \<not> in_mnt_network address then x_raise (DoctorError (u ''canary IP must be inside 172.26.0.0/15''))
          else
            x_bind (d_ask (de_uuid env)) (\<lambda>uuid.
            let request_id = u ''vpn-doctor-'' @ uuid in
            x_bind (doctor_request py env (u ''POST'') (u ''/tasks'') (Some (canary_payload request_id (str_of_ip address))) None) (\<lambda>task.
            x_bind (x_lift (py_item py task (u ''task_id''))) (\<lambda>task_id.
            x_bind (d_ask (de_clock env)) (\<lambda>now.
            x_return (py_str py task_id, request_id, now + 100))))))"

definition trigger_login :: "pylib \<Rightarrow> doctor_env \<Rightarrow> ustr \<Rightarrow> ustr doc_loop" where
  "trigger_login py env canary_ip =
     l_bind (l_of (start_canary py env canary_ip)) (\<lambda>(task_id, request_id, deadline).
     x_loop (login_pass py env deadline task_id request_id) ())"

text \<open>\<open>capture_failure_context\<close>; never for the UniVPN container.\<close>

definition capture_container :: "pylib \<Rightarrow> doctor_config \<Rightarrow> doctor_env \<Rightarrow> ustr \<Rightarrow> unit \<Rightarrow> unit doc" where
  "capture_container py cfg env name v =
     x_bind (docker_running env name) (\<lambda>running.
     if \<not> running then x_return ()
     else
       x_bind (command env 30 False [u ''docker'', u ''logs'', u ''--since'', u ''15m'', u ''--tail'', u ''60'', name]) (\<lambda>r.
       let output = cp_stdout r @ [10] @ cp_stderr r;
           cleaned = clean (drop (length output - 24000) output)
       in if cleaned \<noteq> [] then log_event py cfg env (u ''ERROR'') (u ''context:'' @ name) cleaned else x_return ()))"

definition capture_failure_context :: "pylib \<Rightarrow> doctor_config \<Rightarrow> doctor_env \<Rightarrow> unit doc" where
  "capture_failure_context py cfg env =
     x_fold (capture_container py cfg env) [u ''bo-vpn-runner'', u ''bo-vpn-worker'', u ''bo-vpn-tcp-proxy''] ()"

section \<open>Repair\<close>

text \<open>The containers of VPN and worker, started when they do not run.\<close>

definition start_univpn :: "pylib \<Rightarrow> doctor_config \<Rightarrow> doctor_env \<Rightarrow> ustr list doc" where
  "start_univpn py cfg env =
     x_bind (docker_running env (u ''univpn-service'')) (\<lambda>running.
     if running then x_return []
     else
       x_bind (log_event py cfg env (u ''ACTION'') (u ''start-univpn'') []) (\<lambda>_.
       x_bind (compose_up cfg env False [u ''univpn-service'']) (\<lambda>_.
       x_return [u ''started univpn-service''])))"

definition start_worker :: "pylib \<Rightarrow> doctor_config \<Rightarrow> doctor_env \<Rightarrow> ustr list doc_loop" where
  "start_worker py cfg env =
     l_bind (l_of (docker_running env (u ''bo-vpn-worker''))) (\<lambda>running.
     if running then l_of (x_return [])
     else
       l_bind (l_of (x_bind (log_event py cfg env (u ''ACTION'') (u ''start-worker'') []) (\<lambda>_.
                     compose_up cfg env False [u ''bo-vpn-worker'']))) (\<lambda>_.
       l_bind (wait_until env (worker_health py env)) (\<lambda>_.
       l_of (x_return [u ''started bo-vpn-worker'']))))"

text \<open>The services next to the VPN, and those of them that are not in its namespace.\<close>

definition find_sidecars :: "doctor_env \<Rightarrow> ustr list doc" where
  "find_sidecars env =
     x_bind (command env 30 False [u ''docker'', u ''inspect'', u ''bo-vpn-tcp-proxy'']) (\<lambda>r.
     x_return (u ''bo-vpn-runner'' # (if cp_returncode r = 0 then [u ''vpn-tcp-proxy''] else [])))"

definition container_of :: "ustr \<Rightarrow> ustr" where
  "container_of name = (if name = u ''vpn-tcp-proxy'' then u ''bo-vpn-tcp-proxy'' else name)"

definition find_stale :: "doctor_env \<Rightarrow> ustr option \<Rightarrow> ustr list \<Rightarrow> ustr list doc" where
  "find_stale env vpn_ns sidecars =
     x_fold (\<lambda>name stale. x_bind (net_namespace env (container_of name)) (\<lambda>ns.
               x_return (if ns \<noteq> vpn_ns then stale @ [name] else stale))) sidecars []"

definition worker_busy :: "bool \<times> ustr \<Rightarrow> bool" where
  "worker_busy health \<longleftrightarrow> fst health \<and> snd health = u ''busy''"

text \<open>The recreation of the sidecars, deferred while the worker is busy.\<close>

definition recreate_sidecars :: "pylib \<Rightarrow> doctor_config \<Rightarrow> doctor_env \<Rightarrow> ustr list \<Rightarrow> ustr list \<Rightarrow> unit doc" where
  "recreate_sidecars py cfg env sidecars stale =
     x_bind (worker_health py env) (\<lambda>health.
     if worker_busy health then x_raise (DoctorError (u ''worker is busy; namespace repair deferred''))
     else
       x_bind (log_event py cfg env (u ''ACTION'') (u ''recreate-sidecars'')
                (py_join [44] (if stale \<noteq> [] then stale else [u ''bo-vpn-runner'']))) (\<lambda>_.
       compose_up cfg env True sidecars))"

definition sidecar_trouble :: "doctor_env \<Rightarrow> (ustr list \<times> ustr list \<times> bool) doc" where
  "sidecar_trouble env =
     x_bind (net_namespace env (u ''univpn-service'')) (\<lambda>vpn_ns.
     x_bind (find_sidecars env) (\<lambda>sidecars.
     x_bind (find_stale env vpn_ns sidecars) (\<lambda>stale.
     x_bind (if stale \<noteq> [] then x_return True
             else x_bind (docker_running env (u ''bo-vpn-runner'')) (\<lambda>b. x_return (\<not> b))) (\<lambda>trouble.
     x_return (sidecars, stale, trouble)))))"

definition repair_sidecars :: "pylib \<Rightarrow> doctor_config \<Rightarrow> doctor_env \<Rightarrow> (ustr list \<times> ustr list) doc_loop" where
  "repair_sidecars py cfg env =
     l_bind (l_of (sidecar_trouble env)) (\<lambda>(sidecars, stale, trouble).
     if \<not> trouble then l_of (x_return (sidecars, []))
     else
       l_bind (l_of (recreate_sidecars py cfg env sidecars stale)) (\<lambda>_.
       l_bind (wait_until env (runner_health py env)) (\<lambda>_.
       l_of (x_return (sidecars, [u ''recreated VPN sidecars''])))))"

text \<open>Worker and runner must answer now; a runner that does not is recreated once.\<close>

definition repair_runner :: "pylib \<Rightarrow> doctor_config \<Rightarrow> doctor_env \<Rightarrow> (ustr \<times> ustr list) doc_loop" where
  "repair_runner py cfg env =
     l_bind (l_of (worker_health py env)) (\<lambda>worker.
     if \<not> fst worker then l_of (x_raise (DoctorError (u ''worker unavailable after repair: '' @ snd worker)))
     else
       l_bind (l_of (runner_health py env)) (\<lambda>runner.
       if fst runner then l_of (x_return (snd worker, []))
       else
         l_bind (l_of (x_bind (log_event py cfg env (u ''ACTION'') (u ''recreate-runner'') (snd runner)) (\<lambda>_.
                       compose_up cfg env True [u ''bo-vpn-runner'']))) (\<lambda>_.
         l_bind (wait_until env (runner_health py env)) (\<lambda>runner'.
         if \<not> fst runner' then l_of (x_raise (DoctorError (u ''runner unavailable after recreate: '' @ snd runner')))
         else l_of (x_return (snd worker, [u ''recreated runner'']))))))"

text \<open>The login, and the reset of the VPN container when it does not help.\<close>

definition reset_vpn :: "pylib \<Rightarrow> doctor_config \<Rightarrow> doctor_env \<Rightarrow> ustr list \<Rightarrow> ustr \<Rightarrow> ustr list doc_loop" where
  "reset_vpn py cfg env sidecars canary_ip =
     l_bind (l_of (x_seq
       [log_event py cfg env (u ''ACTION'') (u ''reset-vpn-container'') (u ''managed login did not establish route''),
        compose_up cfg env True [u ''univpn-service''], compose_up cfg env True sidecars])) (\<lambda>_.
     l_bind (wait_until env (runner_health py env)) (\<lambda>runner.
     if \<not> fst runner then l_of (x_raise (DoctorError (u ''runner unavailable after VPN reset: '' @ snd runner)))
     else
       l_bind (trigger_login py env canary_ip) (\<lambda>detail.
       l_of (x_return [u ''reset UniVPN container after failed login'', u ''retried managed login ('' @ detail @ u '')'']))))"

definition repair_login :: "pylib \<Rightarrow> doctor_config \<Rightarrow> doctor_env \<Rightarrow> ustr option \<Rightarrow> ustr \<Rightarrow> ustr list \<Rightarrow> ustr list doc_loop" where
  "repair_login py cfg env canary worker_status sidecars =
     l_bind (l_of (vpn_health env)) (\<lambda>vpn.
     if fst vpn then l_of (x_return [])
     else if worker_status = u ''busy'' then l_of (x_raise (DoctorError (u ''worker is busy; VPN login deferred'')))
     else
       (case (if canary = Some [] then None else canary) of
          None \<Rightarrow> l_of (x_raise (DoctorError (u ''VPN is disconnected; pass --canary-ip or BO_VPN_DOCTOR_CANARY_IP'')))
        | Some canary_ip \<Rightarrow>
            l_bind (l_of (log_event py cfg env (u ''ACTION'') (u ''trigger-managed-login'') [])) (\<lambda>_.
            l_bind (trigger_login py env canary_ip) (\<lambda>detail.
            l_bind (l_of (vpn_health env)) (\<lambda>vpn'.
            l_bind (if fst vpn' then l_of (x_return []) else reset_vpn py cfg env sidecars canary_ip) (\<lambda>more.
            l_of (x_return ((u ''triggered managed login ('' @ detail @ u '')'') # more))))))))"

definition repair :: "pylib \<Rightarrow> doctor_config \<Rightarrow> doctor_env \<Rightarrow> ustr option \<Rightarrow> report doc_loop" where
  "repair py cfg env canary =
     l_bind (l_of (d_ask (de_compose env))) (\<lambda>found.
     if \<not> found then l_of (x_raise (DoctorError (u ''compose file not found: '' @ vc_compose cfg)))
     else
       l_bind (l_of (inspect_all py env)) (\<lambda>_.
       l_bind (l_of (start_univpn py cfg env)) (\<lambda>acts1.
       l_bind (start_worker py cfg env) (\<lambda>acts2.
       l_bind (repair_sidecars py cfg env) (\<lambda>(sidecars, acts3).
       l_bind (repair_runner py cfg env) (\<lambda>(worker_status, acts4).
       l_bind (repair_login py cfg env canary worker_status sidecars) (\<lambda>acts5.
       l_bind (l_of (inspect_all py env)) (\<lambda>final.
       l_of (x_return (final \<lparr> rp_actions := acts1 @ acts2 @ acts3 @ acts4 @ acts5 \<rparr>))))))))))"

section \<open>The state file\<close>

definition state_text :: "report \<Rightarrow> ustr option \<Rightarrow> ustr" where
  "state_text r error =
     (let failed = sort (map ck_name (filter (\<lambda>c. \<not> ck_ok c) (rp_checks r)));
          message = (case error of Some m \<Rightarrow> m | None \<Rightarrow> [])
      in if report_ok r \<and> message = [] then u ''healthy''
         else u ''error:'' @ py_join [44] (if failed \<noteq> [] then failed else [if message \<noteq> [] then message else u ''unknown'']))"

definition read_state :: "pylib \<Rightarrow> ustr doc" where
  "read_state py =
     x_bind (x_get vd_state) (\<lambda>f.
     case f of
       StateText t \<Rightarrow> x_return (py_strip t)
     | StateUnreadable \<Rightarrow> x_return []
     | StateDamaged \<Rightarrow> x_raise (builtin py B_UnicodeDecodeError))"

text \<open>\<open>record_state\<close>: a change is logged and written; what cannot be encoded leaves an empty file.\<close>

definition record_state :: "pylib \<Rightarrow> doctor_config \<Rightarrow> doctor_env \<Rightarrow> report \<Rightarrow> ustr option \<Rightarrow> unit doc" where
  "record_state py cfg env r error =
     (let state = state_text r error in
      x_bind (read_state py) (\<lambda>previous.
      if state = previous then x_return ()
      else
        x_bind (log_event py cfg env (if state = u ''healthy'' then u ''INFO'' else u ''ERROR'') (u ''state-change'') state) (\<lambda>_.
        x_bind (x_bind (d_ask (de_state_write env)) d_fail) (\<lambda>_.
        if utf8_encode state = None
        then x_bind (x_modify (\<lambda>s. s \<lparr> vd_state := StateText [] \<rparr>)) (\<lambda>_. x_raise (builtin py B_UnicodeEncodeError))
        else x_modify (\<lambda>s. s \<lparr> vd_state := StateText (state @ [10]) \<rparr>)))))"

section \<open>The cached preflight\<close>

text \<open>One attempt to lock a file until a deadline; \<open>Done False\<close> is giving up.\<close>

definition lock_pass :: "doctor_env \<Rightarrow> rat \<Rightarrow> unit \<Rightarrow> (bool, unit) flow doc" where
  "lock_pass env deadline v =
     x_bind (d_ask (de_lock env)) (\<lambda>got.
     if got then x_return (Done True)
     else
       x_bind (d_ask (de_clock env)) (\<lambda>now.
       if deadline \<le> now then x_return (Done False)
       else x_bind (d_log Sleeps) (\<lambda>_. x_return (Again ()))))"

definition take_lock :: "doctor_env \<Rightarrow> rat \<Rightarrow> bool doc_loop" where
  "take_lock env timeout =
     l_bind (l_of (x_bind (d_ask (de_lock_open env)) d_fail)) (\<lambda>_.
     l_bind (l_of (d_ask (de_clock env))) (\<lambda>now.
     x_loop (lock_pass env (now + timeout)) ()))"

text \<open>The cache, when it is fresh and can be read; some exceptions count as none.\<close>

definition cache_error :: "exn \<Rightarrow> bool" where
  "cache_error e \<longleftrightarrow> value_error e \<or>
     (case e of Builtin b _ \<Rightarrow> b \<in> {B_OSError, B_KeyError, B_TypeError} | _ \<Rightarrow> False)"

definition read_cache :: "pylib \<Rightarrow> doctor_config \<Rightarrow> doctor_env \<Rightarrow> report option doc" where
  "read_cache py cfg env =
     x_try
       (x_bind (x_get vd_cache) (\<lambda>f.
        case f of
          NoCache \<Rightarrow> x_return None
        | CacheFails e \<Rightarrow> x_raise e
        | Cached mtime j \<Rightarrow>
            x_bind (d_ask (de_wall env)) (\<lambda>now.
            if now - mtime \<le> vc_cache_ttl cfg
            then x_bind (x_lift (report_from_dict py j)) (\<lambda>r. x_return (Some r)) else x_return None)))
       cache_error (\<lambda>_. x_return None)"

text \<open>The new cache replaces the old one as a whole.\<close>

definition write_cache :: "doctor_env \<Rightarrow> report \<Rightarrow> unit doc" where
  "write_cache env r =
     x_bind (x_bind (d_ask (de_cache_write env)) d_fail) (\<lambda>_.
     x_bind (d_ask (de_wall env)) (\<lambda>now.
     x_modify (\<lambda>s. s \<lparr> vd_cache := Cached now (as_dict r) \<rparr>)))"

definition preflight_or_cache :: "pylib \<Rightarrow> doctor_config \<Rightarrow> doctor_env \<Rightarrow> (report \<times> bool) doc" where
  "preflight_or_cache py cfg env =
     x_bind (read_cache py cfg env) (\<lambda>c.
     case c of
       Some r \<Rightarrow> x_return (r, False)
     | None \<Rightarrow>
         x_bind (preflight_report env) (\<lambda>r.
         x_bind (write_cache env r) (\<lambda>_.
         x_return (r, True))))"

definition cached_preflight :: "pylib \<Rightarrow> doctor_config \<Rightarrow> doctor_env \<Rightarrow> (report \<times> bool) doc_loop" where
  "cached_preflight py cfg env =
     l_bind (take_lock env 15) (\<lambda>got.
     l_of (if got then preflight_or_cache py cfg env
           else x_raise (DoctorError (u ''preflight cache lock timed out''))))"

section \<open>The program\<close>

datatype doctor_mode = Preflight | Status | Repair

record doctor_args =
  da_mode :: doctor_mode
  da_canary :: "ustr option"
  da_json :: bool
  da_quiet :: bool

definition caught_by_main :: "exn \<Rightarrow> bool" where
  "caught_by_main e \<longleftrightarrow> is_doctor_error e \<or> (case e of Builtin b _ \<Rightarrow> b = B_OSError | _ \<Rightarrow> False)"

definition exit_code :: "report \<Rightarrow> int" where
  "exit_code r = (if report_ok r then 0 else 1)"

text \<open>\<open>print_report\<close>, called unless quiet; and a message on standard error.\<close>

definition print_report :: "report \<Rightarrow> bool \<Rightarrow> unit doc" where
  "print_report r as_json = d_log (if as_json then PrintsJson (as_dict r) else Prints (report_lines r))"

definition show_report :: "doctor_args \<Rightarrow> report \<Rightarrow> unit doc" where
  "show_report args r = (if da_quiet args then x_return () else print_report r (da_json args))"

definition show_error :: "doctor_args \<Rightarrow> ustr \<Rightarrow> unit doc" where
  "show_error args m = (if da_quiet args then x_return () else d_log (PrintsError m))"

definition run_preflight :: "pylib \<Rightarrow> doctor_config \<Rightarrow> doctor_env \<Rightarrow> doctor_args \<Rightarrow> int doc_loop" where
  "run_preflight py cfg env args =
     l_try
       (l_bind (cached_preflight py cfg env) (\<lambda>(r, fresh).
        l_of (x_bind (if fresh then record_state py cfg env r None else x_return ()) (\<lambda>_.
              x_bind (show_report args r) (\<lambda>_. x_return (exit_code r))))))
       caught_by_main
       (\<lambda>e. l_of (x_bind (show_error args (u ''VPN PREFLIGHT FAILED: '' @ clean (exn_str e))) (\<lambda>_. x_return 1)))"

definition run_status :: "pylib \<Rightarrow> doctor_config \<Rightarrow> doctor_env \<Rightarrow> doctor_args \<Rightarrow> int doc" where
  "run_status py cfg env args =
     x_try
       (x_bind (inspect_all py env) (\<lambda>r.
        x_bind (record_state py cfg env r None) (\<lambda>_.
        x_bind (show_report args r) (\<lambda>_. x_return (exit_code r)))))
       caught_by_main
       (\<lambda>e. x_bind (show_error args (u ''VPN STATUS FAILED: '' @ clean (exn_str e))) (\<lambda>_. x_return 1))"

text \<open>
  The part of a repair that is guarded: the report that is known when something raises is the one of
  \<open>repair\<close>, or an empty one before.
\<close>

definition after_repair :: "pylib \<Rightarrow> doctor_config \<Rightarrow> doctor_env \<Rightarrow> doctor_args \<Rightarrow> report \<Rightarrow> int doc" where
  "after_repair py cfg env args r =
     x_bind (x_bind (d_ask (de_cache_write env)) d_fail) (\<lambda>_.
     x_bind (x_modify (\<lambda>s. s \<lparr> vd_cache := NoCache \<rparr>)) (\<lambda>_.
     x_bind (record_state py cfg env r None) (\<lambda>_.
     x_bind (show_report args r) (\<lambda>_. x_return (exit_code r)))))"

definition repair_failed :: "pylib \<Rightarrow> doctor_config \<Rightarrow> doctor_env \<Rightarrow> doctor_args \<Rightarrow> report \<Rightarrow> exn \<Rightarrow> int doc" where
  "repair_failed py cfg env args r e =
     (let message = clean (exn_str e) in
      x_bind (x_seq [log_event py cfg env (u ''ERROR'') (u ''repair-failed'') message,
              capture_failure_context py cfg env, record_state py cfg env r (Some message)]) (\<lambda>_.
      x_bind (show_error args (u ''VPN REPAIR FAILED: '' @ message)) (\<lambda>_. x_return 1)))"

definition guarded_repair :: "pylib \<Rightarrow> doctor_config \<Rightarrow> doctor_env \<Rightarrow> ustr option \<Rightarrow> (exn + report) doc_loop" where
  "guarded_repair py cfg env canary =
     l_try (l_bind (repair py cfg env canary) (\<lambda>r. l_of (x_return (Inr r))))
       caught_by_main (\<lambda>e. l_of (x_return (Inl e)))"

definition run_repair :: "pylib \<Rightarrow> doctor_config \<Rightarrow> doctor_env \<Rightarrow> doctor_args \<Rightarrow> int doc_loop" where
  "run_repair py cfg env args =
     l_bind (take_lock env 120) (\<lambda>got.
     if \<not> got then l_of (x_bind (d_log (PrintsError (u ''VPN doctor is already running''))) (\<lambda>_. x_return 75))
     else
       l_bind (guarded_repair py cfg env (da_canary args)) (\<lambda>x. l_of
       (case x of
          Inl e \<Rightarrow> repair_failed py cfg env args new_report e
        | Inr r \<Rightarrow> x_try (after_repair py cfg env args r) caught_by_main (repair_failed py cfg env args r))))"

text \<open>\<open>main\<close>, after the arguments were parsed.\<close>

definition doctor_main :: "pylib \<Rightarrow> doctor_config \<Rightarrow> doctor_env \<Rightarrow> doctor_args \<Rightarrow> int doc_loop" where
  "doctor_main py cfg env args =
     (case da_mode args of
        Preflight \<Rightarrow> run_preflight py cfg env args
      | Status \<Rightarrow> l_of (run_status py cfg env args)
      | Repair \<Rightarrow> run_repair py cfg env args)"

end
