(* ===== verification/Doctor_Laws.thy ===== *)
theory Doctor_Laws
  imports Doctor_Repair
begin

text \<open>
  Laws of the VPN doctor: which commands and requests each of its modes may make, what becomes of its
  log, that it returns, and what a healthy report stands for.
\<close>

section \<open>What the doctor may do\<close>

definition running_command :: "ustr \<Rightarrow> ustr list" where
  "running_command name = [u ''docker'', u ''inspect'', u ''-f'', u ''{{.State.Running}}'', name]"

definition namespace_command :: "ustr \<Rightarrow> ustr list" where
  "namespace_command name = [u ''docker'', u ''exec'', name, u ''readlink'', u ''/proc/self/ns/net'']"

text \<open>The commands of the preflight, and those that a full inspection adds.\<close>

definition transport_commands :: "ustr list list" where
  "transport_commands =
     [running_command (u ''univpn-service''), running_command (u ''bo-vpn-runner''),
      namespace_command (u ''univpn-service''), namespace_command (u ''bo-vpn-runner''),
      [u ''docker'', u ''exec'', u ''bo-vpn-runner'', u ''test'', u ''-r'', u ''/run/keys/rsa.key''],
      [u ''docker'', u ''exec'', u ''univpn-service'', u ''ip'', u ''-o'', u ''addr'', u ''show'', u ''dev'', u ''cnem_vnic''],
      [u ''docker'', u ''exec'', u ''univpn-service'', u ''ip'', u ''route'', u ''show'', u ''172.26.0.0/15''],
      [u ''ip'', u ''link'', u ''show'', u ''cnem_vnic''], [u ''ip'', u ''route'', u ''show'', u ''172.26.0.0/15'']]"

definition inspect_commands :: "ustr list list" where
  "inspect_commands =
     [running_command (u ''bo-vpn-worker''), running_command (u ''bo-vpn-tcp-proxy''),
      namespace_command (u ''bo-vpn-tcp-proxy''), [u ''docker'', u ''inspect'', u ''bo-vpn-tcp-proxy''],
      [u ''docker'', u ''exec'', u ''bo-vpn-worker'', u ''python'', u ''-c'', RUNNER_HEALTH_CODE]]"

text \<open>
  A repair besides reads the logs of its three containers, never those of the VPN container, and starts
  services: all but the worker may be recreated by force.
\<close>

definition logs_command :: "ustr \<Rightarrow> ustr list" where
  "logs_command name = [u ''docker'', u ''logs'', u ''--since'', u ''15m'', u ''--tail'', u ''60'', name]"

definition compose_command :: "doctor_config \<Rightarrow> bool \<Rightarrow> ustr list \<Rightarrow> ustr list" where
  "compose_command cfg force services =
     [u ''docker'', u ''compose'', u ''-f'', vc_compose cfg, u ''--profile'', u ''audio'', u ''up'', u ''-d'', u ''--no-deps'']
     @ (if force then [u ''--force-recreate''] else []) @ services"

definition repair_command :: "doctor_config \<Rightarrow> ustr list \<Rightarrow> bool" where
  "repair_command cfg cmd \<longleftrightarrow>
     cmd \<in> logs_command ` {u ''bo-vpn-runner'', u ''bo-vpn-worker'', u ''bo-vpn-tcp-proxy''}
     \<or> cmd \<in> compose_command cfg False ` {[u ''univpn-service''], [u ''bo-vpn-worker'']}
     \<or> cmd \<in> compose_command cfg True ` {[u ''univpn-service''], [u ''bo-vpn-runner''], [u ''bo-vpn-runner'', u ''vpn-tcp-proxy'']}"

text \<open>
  How far a part of the program may go: the transport, a full inspection, the mending of services, and
  the managed login with its canary task.
\<close>

datatype doctor_scope = Transport | Inspection | Mending | Login

definition acting :: "doctor_scope \<Rightarrow> bool" where
  "acting scope \<longleftrightarrow> scope = Mending \<or> scope = Login"

fun scope_of :: "doctor_mode \<Rightarrow> doctor_scope" where
  "scope_of Preflight = Transport"
| "scope_of Status = Inspection"
| "scope_of Repair = Login"

text \<open>All requests but those for the health carry the id that the worker asks for.\<close>

definition identified :: "ustr option \<Rightarrow> bool" where
  "identified request_id \<longleftrightarrow> request_id \<noteq> None \<and> request_id \<noteq> Some []"

fun allowed_event :: "doctor_config \<Rightarrow> doctor_scope \<Rightarrow> doctor_event \<Rightarrow> bool" where
  "allowed_event cfg scope (Command k cmd timeout) \<longleftrightarrow>
     cmd \<in> set transport_commands \<or> scope \<noteq> Transport \<and> cmd \<in> set inspect_commands
     \<or> acting scope \<and> repair_command cfg cmd"
| "allowed_event cfg scope (Request k http_method path request_id payload) \<longleftrightarrow>
     scope \<noteq> Transport \<and> http_method = u ''GET'' \<and> path = u ''/health'' \<and> payload = None
     \<or> acting scope \<and> http_method = u ''GET'' \<and> py_startswith path (u ''/tasks/'') \<and> payload = None \<and> identified request_id
     \<or> scope = Login \<and> http_method = u ''POST'' \<and> path = u ''/tasks'' \<and> identified request_id
       \<and> (\<exists>r a. in_mnt_network a \<and> payload = Some (JDict (canary_payload r (str_of_ip a))))"
| "allowed_event cfg scope (PrintsError m) \<longleftrightarrow> \<not> sensitive m"
| "allowed_event cfg scope _ \<longleftrightarrow> True"

lemma acting_simps [simp]: "acting Mending" "acting Login" "\<not> acting Transport" "\<not> acting Inspection"
  by (simp_all add: acting_def)

lemma allowed_login: "allowed_event cfg Mending e \<Longrightarrow> allowed_event cfg Login e"
  by (cases e) auto

text \<open>A step: time goes on, events are added, a property of the logs is kept.\<close>

definition doctor_step :: "(doctor_event \<Rightarrow> bool) \<Rightarrow> ((nat, ustr) dict \<Rightarrow> bool) \<Rightarrow> doctor \<Rightarrow> doctor \<Rightarrow> bool" where
  "doctor_step Q P s s' \<longleftrightarrow> vd_time s \<le> vd_time s'
     \<and> (\<exists>es. vd_events s' = vd_events s @ es \<and> (\<forall>e \<in> set es. Q e)) \<and> (P (vd_logs s) \<longrightarrow> P (vd_logs s'))"

interpretation doctoring: effect_relation "doctor_step Q P" for Q P
proof unfold_locales
  show "doctor_step Q P s s" for s by (simp add: doctor_step_def)
  fix s s' s'' assume "doctor_step Q P s s'" and "doctor_step Q P s' s''"
  then obtain es es' where "vd_events s' = vd_events s @ es" "\<forall>e \<in> set es. Q e"
    "vd_events s'' = vd_events s' @ es'" "\<forall>e \<in> set es'. Q e" by (auto simp: doctor_step_def)
  then have "vd_events s'' = vd_events s @ (es @ es') \<and> (\<forall>e \<in> set (es @ es'). Q e)" by auto
  with \<open>doctor_step Q P s s'\<close> \<open>doctor_step Q P s' s''\<close> show "doctor_step Q P s s''"
    unfolding doctor_step_def by (intro conjI exI [of _ "es @ es'"]) auto
qed

lemma moves_login:
  "moves (doctor_step (allowed_event cfg Mending) P) m \<Longrightarrow> moves (doctor_step (allowed_event cfg Login) P) m"
  "l_moves (doctor_step (allowed_event cfg Mending) P) n \<Longrightarrow> l_moves (doctor_step (allowed_event cfg Login) P) n"
  unfolding moves_def l_moves_def doctor_step_def using allowed_login by blast+

named_theorems doctor_rules \<open>what the parts of the doctor do\<close>

lemmas [doctor_rules] = doctoring.return doctoring.raise doctoring.lift doctoring.get doctoring.bind doctoring.if_cases
  doctoring.try_with doctoring.fold_moves l_moves_of doctoring.l_bind_moves doctoring.l_try_moves doctoring.loop_moves

lemma doctor_seq_Nil [doctor_rules]: "moves (doctor_step Q P) (x_seq [])"
  by (simp add: doctoring.return)

lemma doctor_seq_Cons [doctor_rules]:
  "moves (doctor_step Q P) m \<Longrightarrow> moves (doctor_step Q P) (x_seq ms) \<Longrightarrow> moves (doctor_step Q P) (x_seq (m # ms))"
  by (simp add: doctoring.bind)

lemma doctor_l_if [doctor_rules]:
  "(c \<Longrightarrow> l_moves R m) \<Longrightarrow> (\<not> c \<Longrightarrow> l_moves R m') \<Longrightarrow> l_moves R (if c then m else m')"
  by simp

lemma doctor_pair [doctor_rules]:
  "(\<And>a b. x = (a, b) \<Longrightarrow> moves R (f a b)) \<Longrightarrow> moves R (case x of (a, b) \<Rightarrow> f a b)"
  "(\<And>a b. x = (a, b) \<Longrightarrow> l_moves R (g a b)) \<Longrightarrow> l_moves R (case x of (a, b) \<Rightarrow> g a b)"
  by (cases x, simp)+

lemma doctor_option [doctor_rules]:
  "(x = None \<Longrightarrow> moves R m) \<Longrightarrow> (\<And>a. x = Some a \<Longrightarrow> moves R (f a)) \<Longrightarrow> moves R (case x of None \<Rightarrow> m | Some a \<Rightarrow> f a)"
  "(x = None \<Longrightarrow> l_moves R m') \<Longrightarrow> (\<And>a. x = Some a \<Longrightarrow> l_moves R (f' a)) \<Longrightarrow>
   l_moves R (case x of None \<Rightarrow> m' | Some a \<Rightarrow> f' a)"
  by (cases x, simp_all)+

lemma doctor_sum [doctor_rules]:
  "(\<And>a. x = Inl a \<Longrightarrow> moves R (f a)) \<Longrightarrow> (\<And>b. x = Inr b \<Longrightarrow> moves R (g b)) \<Longrightarrow>
   moves R (case x of Inl a \<Rightarrow> f a | Inr b \<Rightarrow> g b)"
  "(\<And>a. x = Inl a \<Longrightarrow> l_moves R (f' a)) \<Longrightarrow> (\<And>b. x = Inr b \<Longrightarrow> l_moves R (g' b)) \<Longrightarrow>
   l_moves R (case x of Inl a \<Rightarrow> f' a | Inr b \<Rightarrow> g' b)"
  by (cases x, simp_all)+

lemma doctor_ask [doctor_rules]: "moves (doctor_step Q P) (d_ask f)"
  by (rule movesI) (simp add: d_ask_def doctor_step_def)

lemma doctor_fail [doctor_rules]: "moves (doctor_step Q P) (d_fail x)"
  by (cases x) (simp_all add: d_fail_def doctoring.return doctoring.raise)

lemma doctor_log [doctor_rules]: "Q e \<Longrightarrow> moves (doctor_step Q P) (d_log e)"
  by (simp add: d_log_def moves_modify doctor_step_def)

lemma doctor_set [doctor_rules]:
  "moves (doctor_step Q P) (x_modify (\<lambda>s. s \<lparr> vd_cache := c \<rparr>))" "moves (doctor_step Q P) (x_modify (\<lambda>s. s \<lparr> vd_state := t \<rparr>))"
  by (simp_all add: moves_modify doctor_step_def)

lemma doctor_command [doctor_rules]:
  "(\<And>k. Q (Command k cmd timeout)) \<Longrightarrow> moves (doctor_step Q P) (command env timeout check cmd)"
  unfolding command_def by (intro doctor_rules) (auto simp: doctoring.return doctoring.raise split: command_result.split)

lemma doctor_asks_worker:
  assumes "\<And>k rid. identified request_id \<longrightarrow> rid = request_id \<Longrightarrow>
      request_id = None \<longrightarrow> (\<forall>d. payload = Some d \<and> truthy (jget d (u ''request_id'')) \<longrightarrow>
        rid = Some (py_str py (jget d (u ''request_id'')))) \<Longrightarrow>
      Q (Request k http_method path rid (map_option JDict payload))"
  shows "moves (doctor_step Q P) (doctor_request py env http_method path payload request_id)"
  unfolding doctor_request_def Let_def
  by (intro doctor_rules assms)
    (auto simp: identified_def doctoring.return doctoring.raise split: http_result.split sum.split option.splits)

section \<open>The log\<close>

text \<open>A property of the logs that rotation, even a part of it, and new lines keep.\<close>

definition keeps_logs :: "doctor_config \<Rightarrow> doctor_env \<Rightarrow> ((nat, ustr) dict \<Rightarrow> bool) \<Rightarrow> bool" where
  "keeps_logs cfg env P \<longleftrightarrow>
     (\<forall>logs n. P logs \<longrightarrow> P (fold apply_log_op (take n (rotate_ops (vc_log_backups cfg))) logs))
     \<and> (\<forall>logs k level event detail. P logs \<longrightarrow> \<not> sensitive level \<longrightarrow> \<not> sensitive event \<longrightarrow>
          (\<forall>line \<in> {[], log_line (de_stamp env k) level event detail}.
             P (dict_set logs 0 ((case dict_get logs 0 of None \<Rightarrow> [] | Some t \<Rightarrow> t) @ line))))"

lemma doctor_rotate [doctor_rules]:
  assumes "keeps_logs cfg env P"
  shows "moves (doctor_step Q P) (rotate_log cfg env)"
proof -
  have some: "P logs \<Longrightarrow> P (fold apply_log_op (take n (rotate_ops (vc_log_backups cfg))) logs)" for logs n
    using assms by (simp add: keeps_logs_def)
  have "P logs \<Longrightarrow> P (fold apply_log_op (rotate_ops (vc_log_backups cfg)) logs)" for logs
    using some [of logs "length (rotate_ops (vc_log_backups cfg))"] by simp
  with some show ?thesis
    unfolding rotate_log_def
    by (intro doctor_rules) (auto simp: moves_modify doctor_step_def Let_def split: option.split)
qed

text \<open>A continuation that depends on the value.\<close>

lemma x_bind_results:
  assumes "moves (doctor_step Q P) m" and "\<And>a s s'. m s = (Inr a, s') \<Longrightarrow> moves (doctor_step Q P) (f a)"
  shows "moves (doctor_step Q P) (x_bind m f)"
proof (rule movesI)
  fix s
  obtain r s1 where m: "m s = (r, s1)" by fastforce
  note step = movesD [OF assms(1) m]
  show "doctor_step Q P s (snd (x_bind m f s))"
  proof (cases r)
    case (Inr a)
    with m have "moves (doctor_step Q P) (f a)" by (intro assms(2)) simp
    then have "doctor_step Q P s1 (snd (f a s1))" by (simp add: moves_def)
    from doctoring.trans [OF step this] show ?thesis using m Inr by (simp add: x_bind_def)
  qed (use step m in \<open>simp add: x_bind_def\<close>)
qed

lemma doctor_append:
  assumes "keeps_logs cfg env P" "\<not> sensitive level" "\<not> sensitive event"
    and "t = [] \<or> t = log_line (de_stamp env k) level event detail"
  shows "moves (doctor_step Q P) (append_log t)"
  using assms unfolding keeps_logs_def append_log_def by (auto simp: moves_modify doctor_step_def)

lemma doctor_log_event [doctor_rules]:
  assumes "keeps_logs cfg env P" "\<not> sensitive level" "\<not> sensitive event"
  shows "moves (doctor_step Q P) (log_event py cfg env level event detail)"
proof -
  let ?tail = "\<lambda>stamp. x_bind (x_bind (d_ask (de_log env)) d_fail) (\<lambda>_.
     let line = log_line stamp level event detail
     in if utf8_encode line = None
        then x_bind (append_log []) (\<lambda>_. x_raise (builtin py B_UnicodeEncodeError))
        else append_log line)"
  have "moves (doctor_step Q P) (?tail (de_stamp env k))" for k
    unfolding Let_def by (intro doctor_rules doctor_append [OF assms]) auto
  note tail = this
  have "d_ask (de_stamp env) s = (Inr stamp, s') \<Longrightarrow> \<exists>k. stamp = de_stamp env k" for s stamp s'
    by (auto simp: d_ask_def)
  then have "moves (doctor_step Q P) (x_bind (d_ask (de_stamp env)) ?tail)"
    using tail by (intro x_bind_results [OF doctor_ask]) blast
  from doctoring.bind [OF doctor_rotate [OF assms(1)] this]
  show ?thesis unfolding log_event_def by (intro doctoring.bind [of _ _ "x_bind _ _"] doctor_ask doctor_fail doctoring.bind [of _ _ "d_ask _"])
qed

section \<open>Probes\<close>

lemmas command_names = transport_commands_def inspect_commands_def running_command_def namespace_command_def

text \<open>The four containers that are looked at; the scope decides which of them.\<close>

definition probed :: "doctor_scope \<Rightarrow> ustr set" where
  "probed scope = {u ''univpn-service'', u ''bo-vpn-runner''}
     \<union> (if scope = Transport then {} else {u ''bo-vpn-worker'', u ''bo-vpn-tcp-proxy''})"

lemma probes_running [doctor_rules]:
  "name \<in> probed scope \<Longrightarrow> moves (doctor_step (allowed_event cfg scope) P) (docker_running env name)"
  unfolding docker_running_def
  by (intro doctor_rules) (auto simp: command_names probed_def split: if_splits)

lemma probes_namespace [doctor_rules]:
  "name \<in> probed scope - {u ''bo-vpn-worker''} \<Longrightarrow> moves (doctor_step (allowed_event cfg scope) P) (net_namespace env name)"
  unfolding net_namespace_def
  by (intro doctor_rules) (auto simp: command_names probed_def split: if_splits)

lemma probes_proxy [doctor_rules]:
  "scope \<noteq> Transport \<Longrightarrow>
   moves (doctor_step (allowed_event cfg scope) P) (command env 30 False [u ''docker'', u ''inspect'', u ''bo-vpn-tcp-proxy''])"
  by (intro doctor_rules) (simp add: command_names)

lemma probes_worker [doctor_rules]:
  "scope \<noteq> Transport \<Longrightarrow> moves (doctor_step (allowed_event cfg scope) P) (worker_health py env)"
  unfolding worker_health_def by (intro doctor_rules doctor_asks_worker) simp

lemma probes_runner [doctor_rules]:
  "scope \<noteq> Transport \<Longrightarrow> moves (doctor_step (allowed_event cfg scope) P) (runner_health py env)"
  unfolding runner_health_def by (intro doctor_rules) (simp_all add: command_names)

lemma probes_vpn [doctor_rules]: "moves (doctor_step (allowed_event cfg scope) P) (vpn_health env)"
  unfolding vpn_health_def Let_def by (intro doctor_rules) (simp_all add: command_names)

lemma probes_host [doctor_rules]: "moves (doctor_step (allowed_event cfg scope) P) (host_isolated env)"
  unfolding host_isolated_def Let_def by (intro doctor_rules) (simp_all add: command_names)

lemma probes_check_vpn [doctor_rules]: "moves (doctor_step (allowed_event cfg scope) P) (check_vpn env running r)"
  unfolding check_vpn_def by (intro doctor_rules)

text \<open>A loop over a list, when the elements matter.\<close>

lemma doctor_fold:
  "(\<And>x acc. x \<in> set xs \<Longrightarrow> moves (doctor_step Q P) (f x acc)) \<Longrightarrow> moves (doctor_step Q P) (x_fold f xs acc)"
  by (induction xs arbitrary: acc) (simp_all add: doctoring.return doctoring.bind)

lemma probes_containers:
  "set names \<subseteq> probed scope \<Longrightarrow> moves (doctor_step (allowed_event cfg scope) P) (x_fold (check_container env) names r)"
  unfolding check_container_def by (intro doctor_fold doctor_rules) auto

lemma probes_namespaces:
  "set names \<subseteq> probed scope - {u ''bo-vpn-worker''} \<Longrightarrow>
   moves (doctor_step (allowed_event cfg scope) P) (x_fold (check_namespace env ns) names r)"
  unfolding check_namespace_def by (intro doctor_fold doctor_rules) auto

lemma probes_all [doctor_rules]:
  assumes "scope \<noteq> Transport"
  shows "moves (doctor_step (allowed_event cfg scope) P) (inspect_all py env)"
proof -
  have "moves (doctor_step (allowed_event cfg scope) P) (check_container env (u ''bo-vpn-tcp-proxy'') r)" for r
    unfolding check_container_def using assms by (intro doctor_rules) (simp add: probed_def)
  then show ?thesis
    unfolding inspect_all_def Let_def
    by (intro doctor_rules probes_containers probes_namespaces) (use assms in \<open>simp_all add: probed_def\<close>)
qed

lemma probes_preflight [doctor_rules]: "moves (doctor_step (allowed_event cfg scope) P) (preflight_report env)"
  unfolding preflight_report_def Let_def
  by (intro doctor_rules) (simp_all add: probed_def command_names)

section \<open>Acting\<close>

lemmas quiet_simps = sensitive_def SENSITIVE_WORDS_def u_def fold_char_def py_startswith_def

lemma acts_compose [doctor_rules]:
  "repair_command cfg (compose_command cfg force services) \<Longrightarrow>
   moves (doctor_step (allowed_event cfg Mending) P) (compose_up cfg env force services)"
  unfolding compose_up_def compose_command_def by (intro doctor_rules) simp_all

lemmas acts_compose_login [doctor_rules] = acts_compose [THEN moves_login(1)]

lemma repair_composes:
  "repair_command cfg (compose_command cfg False [u ''univpn-service''])"
  "repair_command cfg (compose_command cfg False [u ''bo-vpn-worker''])"
  "repair_command cfg (compose_command cfg True [u ''univpn-service''])"
  "repair_command cfg (compose_command cfg True [u ''bo-vpn-runner''])"
  "repair_command cfg (compose_command cfg True [u ''bo-vpn-runner'', u ''vpn-tcp-proxy''])"
  by (simp_all add: repair_command_def)

lemma acts_wait [doctor_rules]:
  "moves (doctor_step (allowed_event cfg scope) P) probe \<Longrightarrow>
   l_moves (doctor_step (allowed_event cfg scope) P) (wait_until env probe)"
  unfolding wait_until_def wait_pass_def by (intro doctor_rules) simp_all

lemma acts_canary [doctor_rules]:
  "moves (doctor_step (allowed_event cfg Login) P) (start_canary py env canary_ip)"
  unfolding start_canary_def Let_def
  by (intro doctor_rules doctor_asks_worker) (auto simp: identified_def canary_payload_def jget_def get_or_def)

lemma acts_login_pass [doctor_rules]:
  assumes "request_id \<noteq> []"
  shows "moves (doctor_step (allowed_event cfg Mending) P) (login_pass py env deadline task_id request_id v)"
proof -
  have "moves (doctor_step (allowed_event cfg Mending) P)
      (case j of JDict d \<Rightarrow> f d | _ \<Rightarrow> x_raise e)" if "\<And>d. moves (doctor_step (allowed_event cfg Mending) P) (f d)"
    for j and f :: "jdict \<Rightarrow> (ustr, unit) flow doc" and e
    using that by (cases j) (simp_all add: doctoring.raise)
  note this [doctor_rules]
  show ?thesis
    unfolding login_pass_def Let_def
    by (intro doctor_rules doctor_asks_worker) (use assms in \<open>simp_all add: py_startswith_append identified_def\<close>)
qed

lemmas acts_login_pass_login [doctor_rules] = acts_login_pass [THEN moves_login(1)]

text \<open>Values that a computation may give, for the continuations that depend on them.\<close>

definition l_results :: "('s, 'a) lst \<Rightarrow> 'a set" where
  "l_results m = {a. \<exists>s s'. m s = Some (Inr a, s')}"

lemma l_bind_results:
  assumes "l_moves (doctor_step Q P) m" and "\<And>a. a \<in> l_results m \<Longrightarrow> l_moves (doctor_step Q P) (f a)"
  shows "l_moves (doctor_step Q P) (l_bind m f)"
  unfolding l_moves_def l_bind_eq
proof (intro allI impI)
  fix s r s'
  assume "(\<exists>e. m s = Some (Inl e, s') \<and> r = Inl e) \<or> (\<exists>a s1. m s = Some (Inr a, s1) \<and> f a s1 = Some (r, s'))"
  then show "doctor_step Q P s s'"
  proof (elim disjE exE conjE)
    fix a s1 assume m: "m s = Some (Inr a, s1)" and f: "f a s1 = Some (r, s')"
    then have "a \<in> l_results m" by (auto simp: l_results_def)
    from doctoring.trans [OF l_movesD [OF assms(1) m] l_movesD [OF assms(2) [OF this] f]] show ?thesis .
  qed (rule l_movesD [OF assms(1)])
qed

lemma l_results_of: "a \<in> l_results (l_of m) \<longleftrightarrow> (\<exists>s s'. m s = (Inr a, s'))"
  by (simp add: l_results_def)

lemma l_results_return [simp]: "l_results (l_of (x_return a)) = {a}" "l_results (l_of (x_raise e)) = {}"
  by (auto simp: l_results_def)

lemma start_canary_id: "x \<in> l_results (l_of (start_canary py env canary_ip)) \<Longrightarrow> fst (snd x) \<noteq> []"
  by (auto simp: l_results_of start_canary_def x_bind_eq Let_def split: option.splits if_splits)

lemma acts_login [doctor_rules]:
  "l_moves (doctor_step (allowed_event cfg Login) P) (trigger_login py env canary_ip)"
  unfolding trigger_login_def
  by (intro l_bind_results doctor_rules) (auto dest: start_canary_id)

section \<open>Repair\<close>

definition sidecar_lists :: "ustr list set" where
  "sidecar_lists = {[u ''bo-vpn-runner''], [u ''bo-vpn-runner'', u ''vpn-tcp-proxy'']}"

lemma find_sidecars_result: "find_sidecars env s = (Inr names, s') \<Longrightarrow> names \<in> sidecar_lists"
  by (auto simp: find_sidecars_def x_bind_eq sidecar_lists_def split: if_splits)

lemma sidecar_trouble_result: "sidecar_trouble env s = (Inr (sidecars, stale, trouble), s') \<Longrightarrow> sidecars \<in> sidecar_lists"
  by (auto simp: sidecar_trouble_def x_bind_eq split: if_splits dest: find_sidecars_result)

lemma sidecar_compose:
  "sidecars \<in> sidecar_lists \<Longrightarrow> repair_command cfg (compose_command cfg True sidecars)"
  by (auto simp: sidecar_lists_def repair_composes)

lemma quiet_events:
  "\<not> sensitive (u ''ACTION'')" "\<not> sensitive (u ''ERROR'')" "\<not> sensitive (u ''INFO'')" "\<not> sensitive (u ''start-univpn'')"
  "\<not> sensitive (u ''start-worker'')" "\<not> sensitive (u ''recreate-sidecars'')" "\<not> sensitive (u ''recreate-runner'')"
  "\<not> sensitive (u ''reset-vpn-container'')" "\<not> sensitive (u ''trigger-managed-login'')"
  "\<not> sensitive (u ''repair-failed'')" "\<not> sensitive (u ''state-change'')"
  "\<not> sensitive (u ''context:bo-vpn-runner'')" "\<not> sensitive (u ''context:bo-vpn-worker'')"
  "\<not> sensitive (u ''context:bo-vpn-tcp-proxy'')"
  by (simp_all add: quiet_simps)

lemma acts_capture:
  assumes "keeps_logs cfg env P" and "name \<in> {u ''bo-vpn-runner'', u ''bo-vpn-worker'', u ''bo-vpn-tcp-proxy''}"
  shows "moves (doctor_step (allowed_event cfg Mending) P) (capture_container py cfg env name v)"
proof -
  have "\<not> sensitive (u ''context:'' @ name)"
    using assms(2) quiet_events u_append [of "''context:''", symmetric] by auto
  then show ?thesis
    unfolding capture_container_def Let_def
    by (intro doctor_rules assms(1) quiet_events)
      (use assms(2) in \<open>auto simp: probed_def repair_command_def logs_command_def\<close>)
qed

lemma acts_capture_all [doctor_rules]:
  "keeps_logs cfg env P \<Longrightarrow>
   moves (doctor_step (allowed_event cfg Mending) P) (capture_failure_context py cfg env)"
  unfolding capture_failure_context_def by (intro doctor_fold acts_capture) auto

lemmas acts_capture_all_login [doctor_rules] = acts_capture_all [THEN moves_login(1)]

lemma acts_univpn [doctor_rules]:
  "keeps_logs cfg env P \<Longrightarrow> moves (doctor_step (allowed_event cfg Mending) P) (start_univpn py cfg env)"
  unfolding start_univpn_def by (intro doctor_rules quiet_events repair_composes) (simp_all add: probed_def)

lemmas acts_univpn_login [doctor_rules] = acts_univpn [THEN moves_login(1)]

lemma acts_start_worker [doctor_rules]:
  "keeps_logs cfg env P \<Longrightarrow> l_moves (doctor_step (allowed_event cfg Mending) P) (start_worker py cfg env)"
  unfolding start_worker_def by (intro doctor_rules quiet_events repair_composes) (simp_all add: probed_def)

lemmas acts_start_worker_login [doctor_rules] = acts_start_worker [THEN moves_login(2)]

lemma acts_trouble [doctor_rules]: "moves (doctor_step (allowed_event cfg Mending) P) (sidecar_trouble env)"
proof -
  have "moves (doctor_step (allowed_event cfg Mending) P) (find_stale env ns sidecars)"
    if "sidecars \<in> sidecar_lists" for ns sidecars
    using that unfolding find_stale_def
    by (intro doctor_fold doctor_rules) (auto simp: sidecar_lists_def container_of_def probed_def)
  moreover have "moves (doctor_step (allowed_event cfg Mending) P) (find_sidecars env)"
    unfolding find_sidecars_def by (intro doctor_rules) simp
  ultimately have "moves (doctor_step (allowed_event cfg Mending) P)
      (x_bind (find_sidecars env) (\<lambda>sidecars. x_bind (find_stale env ns sidecars) (f sidecars)))"
    if "\<And>a b. moves (doctor_step (allowed_event cfg Mending) P) (f a b)"
    for ns and f :: "ustr list \<Rightarrow> ustr list \<Rightarrow> (ustr list \<times> ustr list \<times> bool) doc"
    using that find_sidecars_result by (intro x_bind_results [of _ _ "find_sidecars env"] doctoring.bind) blast+
  note this [doctor_rules]
  show ?thesis unfolding sidecar_trouble_def by (intro doctor_rules) (simp_all add: probed_def)
qed

lemma acts_sidecars [doctor_rules]:
  assumes "keeps_logs cfg env P"
  shows "l_moves (doctor_step (allowed_event cfg Mending) P) (repair_sidecars py cfg env)"
proof -
  have "sidecars \<in> sidecar_lists \<Longrightarrow>
      moves (doctor_step (allowed_event cfg Mending) P) (recreate_sidecars py cfg env sidecars stale)" for sidecars stale
    unfolding recreate_sidecars_def by (intro doctor_rules quiet_events assms sidecar_compose) simp_all
  note recreate = this
  show ?thesis
    unfolding repair_sidecars_def
    by (rule l_bind_results, intro doctor_rules)
      (auto simp: l_results_of dest!: sidecar_trouble_result intro!: doctor_rules recreate)
qed

lemmas acts_sidecars_login [doctor_rules] = acts_sidecars [THEN moves_login(2)]

lemma repair_sidecars_result:
  "repair_sidecars py cfg env s = Some (Inr (sidecars, acts), s') \<Longrightarrow> sidecars \<in> sidecar_lists"
  by (auto simp: repair_sidecars_def l_bind_eq split: if_splits dest: sidecar_trouble_result)

lemma acts_runner [doctor_rules]:
  "keeps_logs cfg env P \<Longrightarrow> l_moves (doctor_step (allowed_event cfg Mending) P) (repair_runner py cfg env)"
  unfolding repair_runner_def by (intro doctor_rules quiet_events repair_composes) simp_all

lemmas acts_runner_login [doctor_rules] = acts_runner [THEN moves_login(2)]

lemma acts_reset [doctor_rules]:
  "keeps_logs cfg env P \<Longrightarrow> sidecars \<in> sidecar_lists \<Longrightarrow>
   l_moves (doctor_step (allowed_event cfg Login) P) (reset_vpn py cfg env sidecars canary_ip)"
  unfolding reset_vpn_def by (intro doctor_rules quiet_events repair_composes sidecar_compose) simp_all

lemma acts_repair_login [doctor_rules]:
  "keeps_logs cfg env P \<Longrightarrow> sidecars \<in> sidecar_lists \<Longrightarrow>
   l_moves (doctor_step (allowed_event cfg Login) P) (repair_login py cfg env canary worker_status sidecars)"
  unfolding repair_login_def by (intro doctor_rules quiet_events) simp_all

lemma acts_repair [doctor_rules]:
  assumes "keeps_logs cfg env P"
  shows "l_moves (doctor_step (allowed_event cfg Login) P) (repair py cfg env canary)"
proof -
  have "x \<in> l_results (repair_sidecars py cfg env) \<Longrightarrow> fst x \<in> sidecar_lists" for x
    by (cases x) (auto simp: l_results_def dest: repair_sidecars_result)
  then have "l_moves (doctor_step (allowed_event cfg Login) P)
      (l_bind (repair_sidecars py cfg env) (\<lambda>(sidecars, acts). l_bind (repair_runner py cfg env)
         (\<lambda>(status, acts'). l_bind (repair_login py cfg env canary status sidecars) (f sidecars acts acts'))))"
    if "\<And>a b c d. l_moves (doctor_step (allowed_event cfg Login) P) (f a b c d)" for f :: "_ \<Rightarrow> _ \<Rightarrow> _ \<Rightarrow> _ \<Rightarrow> report doc_loop"
    by (intro l_bind_results doctor_rules assms that) auto
  note this [doctor_rules]
  show ?thesis unfolding repair_def by (intro doctor_rules assms) simp_all
qed

section \<open>The program\<close>

lemma acts_record [doctor_rules]:
  assumes "keeps_logs cfg env P"
  shows "moves (doctor_step Q P) (record_state py cfg env r error)"
proof -
  have "moves (doctor_step Q P) (read_state py)"
    unfolding read_state_def
    by (rule moves_get_bind) (simp add: doctoring.return doctoring.raise split: state_file.split)
  note this [doctor_rules]
  show ?thesis
    unfolding record_state_def Let_def
    by (intro doctor_rules assms) (simp_all add: quiet_events)
qed

lemma acts_lock [doctor_rules]: "(\<And>e. e = Sleeps \<Longrightarrow> Q e) \<Longrightarrow> l_moves (doctor_step Q P) (take_lock env timeout)"
  unfolding take_lock_def lock_pass_def by (intro doctor_rules) simp_all

lemma acts_cache [doctor_rules]: "moves (doctor_step (allowed_event cfg scope) P) (preflight_or_cache py c env)"
proof -
  have "moves (doctor_step (allowed_event cfg scope) P) (read_cache py c env)"
  proof -
    have "moves (doctor_step (allowed_event cfg scope) P) (case f of NoCache \<Rightarrow> x_return None
        | CacheFails e \<Rightarrow> x_raise e | Cached mtime j \<Rightarrow> g mtime j)"
      if "\<And>mtime j. moves (doctor_step (allowed_event cfg scope) P) (g mtime j)" for f and g :: "_ \<Rightarrow> _ \<Rightarrow> report option doc"
      using that by (cases f) (simp_all add: doctoring.return doctoring.raise)
    note this [doctor_rules]
    show ?thesis unfolding read_cache_def by (intro doctor_rules)
  qed
  moreover have "moves (doctor_step (allowed_event cfg scope) P) (write_cache env r)" for r
    unfolding write_cache_def by (intro doctor_rules)
  ultimately show ?thesis unfolding preflight_or_cache_def by (intro doctor_rules)
qed

lemma quiet_message:
  "\<not> sensitive (u ''VPN PREFLIGHT FAILED: '' @ clean m)" "\<not> sensitive (u ''VPN STATUS FAILED: '' @ clean m)"
  "\<not> sensitive (u ''VPN REPAIR FAILED: '' @ clean m)"
proof -
  have "sensitive (a @ [58, 32] @ clean m) \<longleftrightarrow> sensitive a" for a
    by (subst sensitive_letters) (simp_all add: letter_def fold_char_def clean_hides_words)
  note this [of "u ''VPN PREFLIGHT FAILED''"] this [of "u ''VPN STATUS FAILED''"] this [of "u ''VPN REPAIR FAILED''"]
  then show "\<not> sensitive (u ''VPN PREFLIGHT FAILED: '' @ clean m)" "\<not> sensitive (u ''VPN STATUS FAILED: '' @ clean m)"
    "\<not> sensitive (u ''VPN REPAIR FAILED: '' @ clean m)"
    by (simp_all add: quiet_simps)
qed

lemma acts_show [doctor_rules]:
  "moves (doctor_step (allowed_event cfg scope) P) (show_report args r)"
  "\<not> sensitive m \<Longrightarrow> moves (doctor_step (allowed_event cfg scope) P) (show_error args m)"
  unfolding show_report_def print_report_def show_error_def by (intro doctor_rules; simp)+

lemma acts_failed [doctor_rules]:
  "keeps_logs cfg env P \<Longrightarrow> moves (doctor_step (allowed_event cfg Mending) P) (repair_failed py cfg env args r e)"
  unfolding repair_failed_def Let_def by (intro doctor_rules quiet_events quiet_message)

lemmas acts_failed_login [doctor_rules] = acts_failed [THEN moves_login(1)]

lemma acts_main:
  assumes "keeps_logs cfg env P"
  shows "l_moves (doctor_step (allowed_event cfg (scope_of (da_mode args))) P) (doctor_main py cfg env args)"
proof -
  have "l_moves (doctor_step (allowed_event cfg Transport) P) (run_preflight py cfg env args)"
    unfolding run_preflight_def cached_preflight_def
    by (intro doctor_rules assms quiet_message) auto
  moreover have "l_moves (doctor_step (allowed_event cfg Inspection) P) (l_of (run_status py cfg env args))"
    unfolding run_status_def by (intro doctor_rules assms quiet_message) auto
  moreover have "l_moves (doctor_step (allowed_event cfg Login) P) (run_repair py cfg env args)"
    unfolding run_repair_def guarded_repair_def after_repair_def
    by (intro doctor_rules assms) (auto simp: quiet_simps)
  ultimately show ?thesis by (cases "da_mode args") (simp_all add: doctor_main_def)
qed

end
