(* ===== verification/Doctor_Ends.thy ===== *)
theory Doctor_Ends
  imports Doctor_Laws
begin

text \<open>
  What a run of the VPN doctor leaves: its log and the rotated copies, that it returns, and what a
  healthy report stands for.
\<close>

section \<open>No secrets in the log\<close>

definition logs_clean :: "(nat, ustr) dict \<Rightarrow> bool" where
  "logs_clean logs \<longleftrightarrow> (\<forall>i t. dict_get logs i = Some t \<longrightarrow> \<not> sensitive t)"

text \<open>A time stamp starts with a digit.\<close>

definition stamp_ok :: "ustr \<Rightarrow> bool" where
  "stamp_ok t \<longleftrightarrow> t \<noteq> [] \<and> \<not> letter (hd t) \<and> \<not> sensitive (tl t)"

lemma separated_word:
  "\<not> letter c \<Longrightarrow> \<not> letter d \<Longrightarrow> \<not> sensitive w \<Longrightarrow> sensitive (a @ c # w @ d # b) \<longleftrightarrow> sensitive a \<or> sensitive b"
  using sensitive_split [of c a "w @ d # b"] sensitive_split [of d w b] by simp

lemma log_field:
  "sensitive (a @ u '' level='' @ b) \<longleftrightarrow> sensitive a \<or> sensitive b"
  "sensitive (a @ u '' event='' @ b) \<longleftrightarrow> sensitive a \<or> sensitive b"
  "sensitive (a @ u '' detail='' @ b) \<longleftrightarrow> sensitive a \<or> sensitive b"
proof -
  have sep: "\<not> letter 32" "\<not> letter 61" by (simp_all add: letter_def fold_char_def)
  have words: "\<not> sensitive (u ''level'')" "\<not> sensitive (u ''event'')" "\<not> sensitive (u ''detail'')"
    by (simp_all add: quiet_simps)
  have "u '' level='' = 32 # u ''level'' @ [61]" "u '' event='' = 32 # u ''event'' @ [61]"
    "u '' detail='' = 32 # u ''detail'' @ [61]" by (simp_all add: u_def)
  with separated_word [OF sep words(1), of a b] separated_word [OF sep words(2), of a b] separated_word [OF sep words(3), of a b]
  show "sensitive (a @ u '' level='' @ b) \<longleftrightarrow> sensitive a \<or> sensitive b"
    "sensitive (a @ u '' event='' @ b) \<longleftrightarrow> sensitive a \<or> sensitive b"
    "sensitive (a @ u '' detail='' @ b) \<longleftrightarrow> sensitive a \<or> sensitive b" by simp_all
qed

lemma log_line_clean:
  assumes "stamp_ok stamp" "\<not> sensitive level" "\<not> sensitive event"
  shows "sensitive (old @ log_line stamp level event detail) \<longleftrightarrow> sensitive old"
proof -
  have stamp: "stamp = hd stamp # tl stamp" "\<not> letter (hd stamp)" "\<not> sensitive (tl stamp)"
    using assms(1) by (simp_all add: stamp_ok_def)
  have nl: "\<not> letter 10" by (simp add: letter_def fold_char_def)
  have "sensitive ((old @ stamp) @ u '' level='' @ level @ u '' event='' @ event @ d @ [10]) \<longleftrightarrow> sensitive (old @ stamp)"
    if "d = [] \<or> d = u '' detail='' @ clean detail" for d
    using that log_field(1) [of "old @ stamp"] log_field(2) [of level] log_field(3) [of event]
      sensitive_split [OF nl, of event "[]"] sensitive_split [OF nl, of "clean detail" "[]"] assms(2,3)
      clean_hides_words by auto
  moreover have "sensitive (old @ stamp) \<longleftrightarrow> sensitive old"
    using sensitive_split [OF stamp(2), of old "tl stamp"] stamp(1,3) by simp
  ultimately show ?thesis by (simp add: log_line_def)
qed

lemma apply_log_op_values: "dict_get (apply_log_op op logs) i = Some t \<Longrightarrow> \<exists>j. dict_get logs j = Some t"
  by (cases op) (auto split: option.splits if_splits)

lemma rotation_values: "dict_get (fold apply_log_op ops logs) i = Some t \<Longrightarrow> \<exists>j. dict_get logs j = Some t"
  by (induction ops arbitrary: logs i) (auto dest: apply_log_op_values)

lemma keeps_logs_clean: "\<forall>k. stamp_ok (de_stamp env k) \<Longrightarrow> keeps_logs cfg env logs_clean"
  unfolding keeps_logs_def
proof (intro conjI allI impI)
  show "logs_clean logs \<Longrightarrow> logs_clean (fold apply_log_op (take n (rotate_ops (vc_log_backups cfg))) logs)" for logs n
    unfolding logs_clean_def by (blast dest: rotation_values)
next
  fix logs k level event detail
  assume "\<forall>k. stamp_ok (de_stamp env k)" "logs_clean logs" "\<not> sensitive level" "\<not> sensitive event"
  then show "\<forall>line \<in> {[], log_line (de_stamp env k) level event detail}.
      logs_clean (dict_set logs 0 ((case dict_get logs 0 of None \<Rightarrow> [] | Some t \<Rightarrow> t) @ line))"
    using log_line_clean [of _ level event "[]"] by (auto simp: logs_clean_def log_line_clean split: option.split)
qed

section \<open>Rotation\<close>

text \<open>No file but the log and its numbered copies.\<close>

definition few_logs :: "nat \<Rightarrow> (nat, ustr) dict \<Rightarrow> bool" where
  "few_logs n logs \<longleftrightarrow> (\<forall>i. n < i \<longrightarrow> dict_get logs i = None)"

lemma keeps_few_logs: "1 \<le> vc_log_backups cfg \<Longrightarrow> keeps_logs cfg env (few_logs (vc_log_backups cfg))"
proof -
  assume n: "1 \<le> vc_log_backups cfg"
  have op: "few_logs (vc_log_backups cfg) logs \<Longrightarrow> op \<in> set (rotate_ops (vc_log_backups cfg)) \<Longrightarrow>
      few_logs (vc_log_backups cfg) (apply_log_op op logs)" for op logs
    using n by (auto simp: few_logs_def rotate_ops_def split: option.split)
  have "few_logs (vc_log_backups cfg) logs \<Longrightarrow> set ops \<subseteq> set (rotate_ops (vc_log_backups cfg)) \<Longrightarrow>
      few_logs (vc_log_backups cfg) (fold apply_log_op ops logs)" for ops logs
    by (induction ops arbitrary: logs) (simp_all add: op)
  then show ?thesis
    unfolding keeps_logs_def
    by (intro conjI allI impI) (auto simp: few_logs_def dest: in_set_takeD)
qed

text \<open>The renames move each copy one place up, from the last.\<close>

definition shifted :: "nat \<Rightarrow> nat \<Rightarrow> (nat, ustr) dict \<Rightarrow> nat \<Rightarrow> ustr option" where
  "shifted k n logs i = (if i = k then None else if k < i \<and> i \<le> n then dict_get logs (i - 1) else dict_get logs i)"

lemma rename_shift:
  "k \<le> n \<Longrightarrow>
   dict_get (fold apply_log_op (Unlink n # map (\<lambda>i. Rename i (Suc i)) (rev [k..<n])) logs) i = shifted k n logs i"
proof (induction k arbitrary: i rule: inc_induct)
  case base
  show ?case by (auto simp: shifted_def)
next
  case (step k)
  let ?l = "fold apply_log_op (Unlink n # map (\<lambda>i. Rename i (Suc i)) (rev [Suc k..<n])) logs"
  have l: "dict_get ?l j = shifted (Suc k) n logs j" for j by (rule step.IH)
  have "fold apply_log_op (Unlink n # map (\<lambda>i. Rename i (Suc i)) (rev [k..<n])) logs = apply_log_op (Rename k (Suc k)) ?l"
    using step.hyps by (simp add: upt_conv_Cons)
  moreover have "dict_get (apply_log_op (Rename k (Suc k)) ?l) i = shifted k n logs i"
    using l [of k] l [of i] step.hyps
    by (auto simp: shifted_def split: option.split simp del: fold.simps)
  ultimately show ?case by simp
qed

lemma rotate_shift:
  assumes "1 \<le> n"
  shows "dict_get (fold apply_log_op (rotate_ops n) logs) i = shifted 0 n logs i"
proof -
  let ?l = "fold apply_log_op (Unlink n # map (\<lambda>i. Rename i (Suc i)) (rev [1..<n])) logs"
  have l: "dict_get ?l j = shifted 1 n logs j" for j by (rule rename_shift [OF assms])
  have "fold apply_log_op (rotate_ops n) logs = apply_log_op (Rename 0 1) ?l" by (simp add: rotate_ops_def)
  with l [of 0] l [of i] assms show ?thesis
    by (auto simp: shifted_def split: option.split simp del: fold.simps)
qed

text \<open>A rotation that was cut off lost at most the last copy.\<close>

lemma shifted_keeps: "i < n \<Longrightarrow> \<exists>j \<le> n. shifted k n logs j = dict_get logs i"
  by (rule exI [of _ "if i < k then i else Suc i"]) (simp add: shifted_def)

lemma rotate_part:
  assumes "1 \<le> n" and "i < n"
  shows "\<exists>j \<le> n. dict_get (fold apply_log_op (take m (rotate_ops n)) logs) j = dict_get logs i"
proof (cases "m = 0")
  case False
  then obtain m' where m: "m = Suc m'" by (cases m) auto
  show ?thesis
  proof (cases "m' < n")
    case True
    then have "take m' (rev [1..<n]) = rev [n - m'..<n]"
      by (cases "m' = 0") (simp_all add: take_rev Suc_diff_Suc)
    with True have "take m (rotate_ops n) = Unlink n # map (\<lambda>i. Rename i (Suc i)) (rev [n - m'..<n])"
      by (simp add: m rotate_ops_def take_map)
    with rename_shift [of "n - m'" n logs] shifted_keeps [of i n "n - m'" logs] assms show ?thesis by simp
  next
    case False
    then have "take m (rotate_ops n) = rotate_ops n" using assms by (simp add: m rotate_ops_def)
    with rotate_shift [OF assms(1), of logs] shifted_keeps [of i n 0 logs] assms show ?thesis by simp
  qed
qed (use assms in \<open>auto intro: exI [of _ i]\<close>)

section \<open>The doctor returns\<close>

definition clock_passes :: "doctor_env \<Rightarrow> bool" where
  "clock_passes env \<longleftrightarrow> (\<forall>b. \<exists>n. \<forall>k \<ge> n. b \<le> de_clock env k)"

lemma doctor_loop_returns:
  assumes clock: "clock_passes env"
    and step: "\<And>b b' s s'. body b s = (Inr (Again b'), s') \<Longrightarrow>
      vd_time s < vd_time s' \<and> (\<exists>k. vd_time s \<le> k \<and> k < vd_time s' \<and> de_clock env k < deadline)"
  shows "l_returns (x_loop body b)"
proof -
  from clock obtain n where n: "\<forall>k \<ge> n. deadline \<le> de_clock env k" unfolding clock_passes_def by blast
  have "n - vd_time s' < n - vd_time s" if "body b s = (Inr (Again b'), s')" for b b' s s'
  proof -
    from step [OF that] obtain k where k: "vd_time s \<le> k" "de_clock env k < deadline" "vd_time s < vd_time s'" by blast
    with n have "k < n" by (meson not_le)
    with k show ?thesis by linarith
  qed
  then show ?thesis unfolding l_returns_def by (intro allI loop_returns [where m = "\<lambda>s. n - vd_time s"])
qed

lemma time_passes: "moves (doctor_step Q P) m \<Longrightarrow> m s = (r, s') \<Longrightarrow> vd_time s \<le> vd_time s'"
  by (auto dest: movesD simp: doctor_step_def)

lemma wait_pass_again:
  assumes "moves (doctor_step Q P) probe" and "wait_pass env deadline probe b s = (Inr (Again b'), s')"
  shows "vd_time s < vd_time s' \<and> (\<exists>k. vd_time s \<le> k \<and> k < vd_time s' \<and> de_clock env k < deadline)"
proof -
  from assms(2) obtain r s1 where probe: "probe (s \<lparr> vd_time := Suc (vd_time s) \<rparr>) = (r, s1)"
    and "de_clock env (vd_time s) < deadline" "vd_time s' = vd_time s1"
    by (auto simp: wait_pass_def d_ask_def d_log_def x_bind_eq split: if_splits)
  with time_passes [OF assms(1) probe] show ?thesis by auto
qed

lemma login_pass_again:
  assumes "login_pass py env deadline task_id request_id v s = (Inr (Again v'), s')"
  shows "vd_time s < vd_time s' \<and> (\<exists>k. vd_time s \<le> k \<and> k < vd_time s' \<and> de_clock env k < deadline)"
proof -
  let ?request = "doctor_request py env (u ''GET'') (u ''/tasks/'' @ task_id) None (Some request_id)"
  from assms have clock: "de_clock env (vd_time s) < deadline"
    by (simp add: login_pass_def d_ask_def x_bind_def split: if_splits)
  with assms obtain j s1 where request: "?request (s \<lparr> vd_time := Suc (vd_time s) \<rparr>) = (Inr j, s1)"
    by (auto simp: login_pass_def d_ask_def x_bind_eq)
  with assms clock have "vd_time s' = vd_time s1"
    by (cases j) (auto simp: login_pass_def d_ask_def x_bind_def d_log_def Let_def split: if_splits)
  with time_passes [OF doctor_asks_worker [where Q = "\<lambda>_. True" and P = "\<lambda>_. True"] request] clock show ?thesis
    by (intro conjI exI [of _ "vd_time s"]) auto
qed

lemma lock_pass_again:
  "lock_pass env deadline v s = (Inr (Again v'), s') \<Longrightarrow>
   vd_time s < vd_time s' \<and> (\<exists>k. vd_time s \<le> k \<and> k < vd_time s' \<and> de_clock env k < deadline)"
  by (auto simp: lock_pass_def d_ask_def d_log_def x_bind_eq split: if_splits intro: exI [of _ "Suc (vd_time s)"])

named_theorems return_rules \<open>parts of the doctor that return\<close>

lemmas [return_rules] = l_returns_of l_returns_bind l_returns_try

lemma returns_cases [return_rules]:
  "(c \<Longrightarrow> l_returns m) \<Longrightarrow> (\<not> c \<Longrightarrow> l_returns m') \<Longrightarrow> l_returns (if c then m else m')"
  "(\<And>a b. p = (a, b) \<Longrightarrow> l_returns (f a b)) \<Longrightarrow> l_returns (case p of (a, b) \<Rightarrow> f a b)"
  "l_returns n \<Longrightarrow> (\<And>a. l_returns (g a)) \<Longrightarrow> l_returns (case x of None \<Rightarrow> n | Some a \<Rightarrow> g a)"
  "(\<And>a. l_returns (h a)) \<Longrightarrow> (\<And>b. l_returns (k b)) \<Longrightarrow> l_returns (case y of Inl a \<Rightarrow> h a | Inr b \<Rightarrow> k b)"
  by (simp_all split: prod.split option.split sum.split)

lemma returns_wait:
  "clock_passes env \<Longrightarrow> moves (doctor_step Q P) probe \<Longrightarrow> l_returns (wait_until env probe)"
  unfolding wait_until_def
  by (intro return_rules doctor_loop_returns [where env = env]) (auto dest: wait_pass_again)

lemma returns_wait_worker [return_rules]: "clock_passes env \<Longrightarrow> l_returns (wait_until env (worker_health py env))"
  by (rule returns_wait [OF _ probes_worker [of Login]]) simp_all

lemma returns_wait_runner [return_rules]: "clock_passes env \<Longrightarrow> l_returns (wait_until env (runner_health py env))"
  by (rule returns_wait [OF _ probes_runner [of Login]]) simp_all

lemma returns_login [return_rules]: "clock_passes env \<Longrightarrow> l_returns (trigger_login py env canary_ip)"
  unfolding trigger_login_def
  by (intro return_rules doctor_loop_returns [where env = env]) (auto dest: login_pass_again)

lemma returns_lock [return_rules]: "clock_passes env \<Longrightarrow> l_returns (take_lock env timeout)"
  unfolding take_lock_def
  by (intro return_rules doctor_loop_returns [where env = env]) (auto dest: lock_pass_again)

lemma returns_repair [return_rules]:
  assumes "clock_passes env"
  shows "l_returns (repair py cfg env canary)"
proof -
  have "l_returns (repair_sidecars py cfg env)" "l_returns (repair_runner py cfg env)" "l_returns (start_worker py cfg env)"
    unfolding repair_sidecars_def repair_runner_def start_worker_def by (intro return_rules assms)+
  moreover have "l_returns (repair_login py cfg env canary worker_status sidecars)" for worker_status sidecars
    unfolding repair_login_def reset_vpn_def by (intro return_rules assms)
  ultimately show ?thesis unfolding repair_def by (intro return_rules)
qed

lemma returns_main: "clock_passes env \<Longrightarrow> l_returns (doctor_main py cfg env args)"
  unfolding doctor_main_def run_preflight_def cached_preflight_def run_repair_def guarded_repair_def
  by (cases "da_mode args") (auto intro!: return_rules)

end
