(* ===== verification/Doctor_Health.thy ===== *)
theory Doctor_Health
  imports Doctor_Ends
begin

text \<open>
  What a healthy report of the VPN doctor stands for: the commands and requests that were made, and what
  they answered.
\<close>

section \<open>What was seen\<close>

text \<open>A command among the events \<open>E\<close> ended, with a code and an output.\<close>

definition answered :: "doctor_env \<Rightarrow> doctor_event set \<Rightarrow> ustr list \<Rightarrow> (int \<Rightarrow> ustr \<Rightarrow> bool) \<Rightarrow> bool" where
  "answered env E cmd A \<longleftrightarrow> (\<exists>k timeout rc out err. Command k cmd timeout \<in> E \<and> de_run env k = Ran rc out err \<and> A rc out)"

definition is_running :: "doctor_env \<Rightarrow> doctor_event set \<Rightarrow> ustr \<Rightarrow> bool" where
  "is_running env E name \<longleftrightarrow> answered env E (running_command name) (\<lambda>rc out. rc = 0 \<and> py_strip out = u ''true'')"

definition in_namespace :: "doctor_env \<Rightarrow> doctor_event set \<Rightarrow> ustr \<Rightarrow> ustr \<Rightarrow> bool" where
  "in_namespace env E name ns \<longleftrightarrow> answered env E (namespace_command name) (\<lambda>rc out. rc = 0 \<and> py_strip out = ns)"

definition share_namespace :: "doctor_env \<Rightarrow> doctor_event set \<Rightarrow> ustr list \<Rightarrow> bool" where
  "share_namespace env E names \<longleftrightarrow> (\<exists>ns. ns \<noteq> [] \<and> (\<forall>name \<in> set names. in_namespace env E name ns))"

definition vpn_up :: "doctor_env \<Rightarrow> doctor_event set \<Rightarrow> bool" where
  "vpn_up env E \<longleftrightarrow>
     answered env E [u ''docker'', u ''exec'', u ''univpn-service'', u ''ip'', u ''-o'', u ''addr'', u ''show'', u ''dev'', u ''cnem_vnic'']
       (\<lambda>rc out. rc = 0 \<and> py_strip out \<noteq> [])
     \<and> answered env E [u ''docker'', u ''exec'', u ''univpn-service'', u ''ip'', u ''route'', u ''show'', u ''172.26.0.0/15'']
       (\<lambda>rc out. py_strip out \<noteq> [])"

definition host_clean :: "doctor_env \<Rightarrow> doctor_event set \<Rightarrow> bool" where
  "host_clean env E \<longleftrightarrow>
     answered env E [u ''ip'', u ''link'', u ''show'', u ''cnem_vnic''] (\<lambda>rc out. rc \<noteq> 0)
     \<and> answered env E [u ''ip'', u ''route'', u ''show'', u ''172.26.0.0/15''] (\<lambda>rc out. py_strip out = [])"

definition says_ok :: "pylib \<Rightarrow> ustr \<Rightarrow> bool" where
  "says_ok py body \<longleftrightarrow> (\<exists>d. py_json_loads py body = Inr (JDict d) \<and> truthy (jget d (u ''ok'')))"

definition worker_up :: "pylib \<Rightarrow> doctor_env \<Rightarrow> doctor_event set \<Rightarrow> bool" where
  "worker_up py env E \<longleftrightarrow> (\<exists>k rid body. Request k (u ''GET'') (u ''/health'') rid None \<in> E
     \<and> de_http env k = HttpBody (Inr body) \<and> says_ok py body)"

definition runner_up :: "pylib \<Rightarrow> doctor_env \<Rightarrow> doctor_event set \<Rightarrow> bool" where
  "runner_up py env E \<longleftrightarrow>
     answered env E [u ''docker'', u ''exec'', u ''bo-vpn-worker'', u ''python'', u ''-c'', RUNNER_HEALTH_CODE]
       (\<lambda>rc out. rc = 0 \<and> says_ok py out)"

definition transport_up :: "doctor_env \<Rightarrow> doctor_event set \<Rightarrow> bool" where
  "transport_up env E \<longleftrightarrow> is_running env E (u ''univpn-service'') \<and> is_running env E (u ''bo-vpn-runner'')
     \<and> share_namespace env E [u ''univpn-service'', u ''bo-vpn-runner''] \<and> vpn_up env E \<and> host_clean env E"

definition key_readable :: "doctor_env \<Rightarrow> doctor_event set \<Rightarrow> bool" where
  "key_readable env E \<longleftrightarrow>
     answered env E [u ''docker'', u ''exec'', u ''bo-vpn-runner'', u ''test'', u ''-r'', u ''/run/keys/rsa.key''] (\<lambda>rc out. rc = 0)"

text \<open>The whole system; a proxy container that exists belongs to it.\<close>

definition system_up :: "pylib \<Rightarrow> doctor_env \<Rightarrow> doctor_event set \<Rightarrow> bool" where
  "system_up py env E \<longleftrightarrow> transport_up env E \<and> is_running env E (u ''bo-vpn-worker'') \<and> worker_up py env E \<and> runner_up py env E
     \<and> (answered env E [u ''docker'', u ''inspect'', u ''bo-vpn-tcp-proxy''] (\<lambda>rc out. rc \<noteq> 0)
        \<or> is_running env E (u ''bo-vpn-tcp-proxy'')
          \<and> share_namespace env E [u ''univpn-service'', u ''bo-vpn-runner'', u ''bo-vpn-tcp-proxy''])"

section \<open>The probes\<close>

abbreviation seen :: "doctor \<Rightarrow> doctor_event set" where
  "seen s \<equiv> set (vd_events s)"

interpretation seeing: learning "doctor_step (allowed_event cfg Login) (\<lambda>_. True)" seen for cfg
  by unfold_locales (auto simp: doctor_step_def)

lemma answered_mono: "answered env E cmd A \<Longrightarrow> (\<And>rc out. A rc out \<Longrightarrow> B rc out) \<Longrightarrow> answered env E cmd B"
  unfolding answered_def by blast

lemma gives_command:
  "gives seen E (command env timeout check cmd)
     (\<lambda>r. answered env E cmd (\<lambda>rc out. rc = cp_returncode r \<and> out = cp_stdout r))"
  by (auto simp: gives_def command_def d_ask_def d_log_def x_bind_eq answered_def split: command_result.splits if_splits)

lemma gives_running: "gives seen E (docker_running env name) (\<lambda>b. b \<longrightarrow> is_running env E name)"
  unfolding docker_running_def is_running_def running_command_def
  by (rule seeing.gives_bind [OF gives_command])
    (auto intro: doctor_rules gives_return elim!: answered_mono)

lemma gives_namespace:
  "gives seen E (net_namespace env name) (\<lambda>x. \<forall>ns. x = Some ns \<longrightarrow> in_namespace env E name ns)"
  unfolding net_namespace_def in_namespace_def namespace_command_def
  by (rule seeing.gives_bind [OF gives_command])
    (auto intro: doctor_rules intro!: gives_return elim!: answered_mono)

lemma health_answer_iff:
  "health_answer py j = Inr w \<longleftrightarrow> (\<exists>d. j = JDict d
     \<and> w = (truthy (jget d (u ''ok'')), py_str py (py_or (jget d (u ''status'')) (JStr (u ''unknown'')))))"
  by (cases j) (auto simp: health_answer_def)

lemma gives_health_request:
  "gives seen E (doctor_request py env (u ''GET'') (u ''/health'') None None)
     (\<lambda>j. \<exists>k rid body. Request k (u ''GET'') (u ''/health'') rid None \<in> E
        \<and> de_http env k = HttpBody (Inr body) \<and> py_json_loads py body = Inr j)"
  by (auto simp: gives_def doctor_request_def d_ask_def d_log_def x_bind_eq res_iff
      split: http_result.splits sum.splits if_splits)

lemma gives_worker: "gives seen E (worker_health py env) (\<lambda>w. fst w \<longrightarrow> worker_up py env E)"
proof -
  have "gives seen E (x_bind (doctor_request py env (u ''GET'') (u ''/health'') None None)
      (\<lambda>j. x_lift (health_answer py j))) (\<lambda>w. fst w \<longrightarrow> worker_up py env E)"
    by (rule seeing.gives_bind [OF gives_health_request])
      (auto intro: doctor_rules simp: gives_def health_answer_iff worker_up_def says_ok_def)
  then show ?thesis
    by (auto simp: gives_def worker_health_def x_try_def split: prod.splits sum.splits if_splits)
qed

lemma gives_runner: "gives seen E (runner_health py env) (\<lambda>w. fst w \<longrightarrow> runner_up py env E)"
  unfolding runner_health_def runner_up_def
  by (rule seeing.gives_bind [OF gives_command])
    (auto intro!: doctor_rules simp: gives_def health_answer_iff says_ok_def res_iff
      split: sum.splits if_splits elim!: answered_mono)

lemma gives_vpn: "gives seen E (vpn_health env) (\<lambda>w. fst w \<longrightarrow> vpn_up env E)"
  unfolding vpn_health_def vpn_up_def Let_def
  by (rule seeing.gives_bind [OF gives_command], intro doctor_rules, simp_all add: command_names,
      rule seeing.gives_bind [OF gives_command])
    (auto intro!: doctor_rules gives_return elim!: answered_mono)

lemma gives_host: "gives seen E (host_isolated env) (\<lambda>w. fst w \<longrightarrow> host_clean env E)"
  unfolding host_isolated_def host_clean_def Let_def
  by (rule seeing.gives_bind [OF gives_command], intro doctor_rules, simp_all add: command_names,
      rule seeing.gives_bind [OF gives_command])
    (auto intro!: doctor_rules gives_return elim!: answered_mono)

section \<open>The reports\<close>

lemma gives_container:
  "gives seen E (check_container env name r) (\<lambda>r'. report_ok r' \<longrightarrow> report_ok r \<and> is_running env E name)"
  unfolding check_container_def
  by (rule seeing.gives_bind [OF gives_running]) (auto intro: doctor_rules intro!: gives_return)

lemma gives_check_namespace:
  "gives seen E (check_namespace env vpn name r)
     (\<lambda>r'. report_ok r' \<longrightarrow> report_ok r \<and> (\<exists>ns. vpn = Some ns \<and> ns \<noteq> [] \<and> in_namespace env E name ns))"
  unfolding check_namespace_def
  by (rule seeing.gives_bind [OF gives_namespace])
    (auto intro: doctor_rules intro!: gives_return simp: add_namespace_def same_namespace_def)

lemma gives_fold:
  assumes "\<And>x r. x \<in> set xs \<Longrightarrow> moves (doctor_step (allowed_event cfg Login) (\<lambda>_. True)) (f x r)"
    and "\<And>x r. gives seen E (f x r) (\<lambda>r'. report_ok r' \<longrightarrow> report_ok r \<and> A x)"
  shows "gives seen E (x_fold f xs r) (\<lambda>r'. report_ok r' \<longrightarrow> report_ok r \<and> (\<forall>x \<in> set xs. A x))"
  using assms(1)
proof (induction xs arbitrary: r)
  case (Cons x xs)
  have "gives seen E (x_fold f xs r1) (\<lambda>r'. report_ok r' \<longrightarrow> report_ok r \<and> (\<forall>y \<in> set (x # xs). A y))"
    if "report_ok r1 \<longrightarrow> report_ok r \<and> A x" for r1
    by (rule gives_mono [OF Cons.IH]) (use Cons.prems that in auto)
  with Cons.prems show ?case
    unfolding x_fold.simps by (intro seeing.gives_bind [where cfg = cfg, OF assms(2)] doctor_fold) auto
qed (simp add: gives_return)

lemma gives_containers:
  "set names \<subseteq> probed Login \<Longrightarrow> gives seen E (x_fold (check_container env) names r)
     (\<lambda>r'. report_ok r' \<longrightarrow> report_ok r \<and> (\<forall>name \<in> set names. is_running env E name))"
  unfolding check_container_def
  by (rule gives_fold [where cfg = cfg for cfg],
      auto intro!: doctor_rules gives_container [unfolded check_container_def])

lemma gives_check_vpn:
  "gives seen E (check_vpn env running r) (\<lambda>r'. report_ok r' \<longrightarrow> report_ok r \<and> vpn_up env E \<and> host_clean env E)"
proof -
  have "gives seen E (if running then vpn_health env else x_return (False, u ''container unavailable''))
      (\<lambda>w. fst w \<longrightarrow> vpn_up env E)"
    by (auto intro!: gives_if gives_vpn gives_return)
  then show ?thesis
    unfolding check_vpn_def
    by (elim seeing.gives_bind, intro doctor_rules, intro seeing.gives_bind [OF gives_host])
      (auto intro!: doctor_rules gives_return simp: add_pair_def)
qed

text \<open>The part of the inspection after the namespaces.\<close>

definition inspect_rest :: "pylib \<Rightarrow> doctor_env \<Rightarrow> report \<Rightarrow> report doc" where
  "inspect_rest py env r =
     x_bind (worker_health py env) (\<lambda>worker.
     x_bind (if fst worker then runner_health py env else x_return (False, u ''worker unavailable'')) (\<lambda>runner.
     x_bind (docker_running env (u ''univpn-service'')) (\<lambda>running.
     check_vpn env running (add_pair (u ''runner'') runner (add_pair (u ''worker'') worker r)))))"

lemma inspect_rest_moves [doctor_rules]: "moves (doctor_step (allowed_event cfg Login) P) (inspect_rest py env r)"
  unfolding inspect_rest_def by (intro doctor_rules) (simp_all add: probed_def)

lemma gives_inspect_rest:
  "gives seen E (inspect_rest py env r) (\<lambda>r'. report_ok r' \<longrightarrow>
     report_ok r \<and> worker_up py env E \<and> runner_up py env E \<and> vpn_up env E \<and> host_clean env E)"
proof -
  have "gives seen E (if c then runner_health py env else x_return (False, u ''worker unavailable''))
      (\<lambda>w. fst w \<longrightarrow> runner_up py env E)" for c
    by (auto intro!: gives_if gives_runner gives_return)
  note runner = this
  show ?thesis
    unfolding inspect_rest_def
  proof (rule seeing.gives_bind [OF gives_worker])
    fix w :: "bool \<times> ustr" assume w: "fst w \<longrightarrow> worker_up py env E"
    show "gives seen E (x_bind (if fst w then runner_health py env else x_return (False, u ''worker unavailable'')) (\<lambda>runner.
        x_bind (docker_running env (u ''univpn-service'')) (\<lambda>running.
        check_vpn env running (add_pair (u ''runner'') runner (add_pair (u ''worker'') w r)))))
      (\<lambda>r'. report_ok r' \<longrightarrow> report_ok r \<and> worker_up py env E \<and> runner_up py env E \<and> vpn_up env E \<and> host_clean env E)"
      by (rule seeing.gives_bind [OF runner], (intro doctor_rules; simp add: probed_def), rule gives_last,
          rule gives_mono [OF gives_check_vpn]) (use w in \<open>auto simp: add_pair_def\<close>)
  qed (intro doctor_rules; simp add: probed_def)
qed

lemma gives_inspect: "gives seen E (inspect_all py env) (\<lambda>r. report_ok r \<longrightarrow> system_up py env E)"
proof -
  let ?three = "[u ''univpn-service'', u ''bo-vpn-runner'', u ''bo-vpn-worker'']"
  let ?proxy = "u ''bo-vpn-tcp-proxy''" and ?vpn = "u ''univpn-service''"
  let ?names = "\<lambda>proxy. if proxy then [u ''bo-vpn-runner'', ?proxy] else [u ''bo-vpn-runner'']"
  let ?spaces = "\<lambda>proxy r2. x_bind (net_namespace env ?vpn) (\<lambda>ns. x_bind (x_fold (check_namespace env ns) (?names proxy) r2) (inspect_rest py env))"
  have moves: "moves (doctor_step (allowed_event cfg Login) P) (?spaces proxy r)" for cfg P proxy r
    by (intro doctor_rules probes_namespaces) (auto simp: probed_def)
  have running: "set ?three \<subseteq> probed Login" by (simp add: probed_def)
  have namespaces: "gives seen E (x_fold (check_namespace env ns) (?names proxy) r) (\<lambda>r'. report_ok r' \<longrightarrow>
      report_ok r \<and> (\<forall>name \<in> set (?names proxy). \<exists>t. ns = Some t \<and> t \<noteq> [] \<and> in_namespace env E name t))" for ns proxy r
    by (rule gives_fold [where cfg = cfg for cfg], unfold check_namespace_def)
      (auto intro!: doctor_rules gives_check_namespace [unfolded check_namespace_def] simp: probed_def split: if_splits)
  have spaces: "gives seen E (?spaces proxy r) (\<lambda>r'. report_ok r' \<longrightarrow> report_ok r \<and> worker_up py env E \<and> runner_up py env E
      \<and> vpn_up env E \<and> host_clean env E \<and> share_namespace env E (?vpn # ?names proxy))" for proxy r
  proof (rule seeing.gives_bind [OF gives_namespace], (intro doctor_rules probes_namespaces; auto simp: probed_def),
      rule seeing.gives_bind [OF namespaces], intro doctor_rules)
    fix ns r1
    assume ns: "\<forall>t. ns = Some t \<longrightarrow> in_namespace env E ?vpn t"
      and r1: "report_ok r1 \<longrightarrow> report_ok r \<and> (\<forall>name \<in> set (?names proxy). \<exists>t. ns = Some t \<and> t \<noteq> [] \<and> in_namespace env E name t)"
    show "gives seen E (inspect_rest py env r1) (\<lambda>r'. report_ok r' \<longrightarrow> report_ok r \<and> worker_up py env E \<and> runner_up py env E
      \<and> vpn_up env E \<and> host_clean env E \<and> share_namespace env E (?vpn # ?names proxy))"
      by (rule gives_mono [OF gives_inspect_rest])
        (use ns r1 in \<open>auto simp: share_namespace_def split: if_splits\<close>)
  qed
  have rest: "inspect_all py env =
     x_bind (x_fold (check_container env) ?three new_report) (\<lambda>r1.
     x_bind (command env 30 False [u ''docker'', u ''inspect'', ?proxy]) (\<lambda>found.
     x_bind (if cp_returncode found = 0 then check_container env ?proxy r1 else x_return r1)
       (?spaces (cp_returncode found = 0))))"
    by (simp add: inspect_all_def inspect_rest_def [abs_def] Let_def)
  have found: "moves (doctor_step (allowed_event cfg Login) P)
      (x_bind (if c then check_container env ?proxy r1 else x_return r1) (?spaces c))" for cfg P c r1
    unfolding check_container_def by (intro doctor_rules moves) (simp_all add: probed_def)
  show ?thesis
    unfolding rest
  proof (rule seeing.gives_bind [OF gives_containers [OF running]], (intro doctor_rules found; simp),
      rule seeing.gives_bind [OF gives_command found], rule seeing.gives_bind [OF _ moves])
    fix r1 found r2
    assume r1: "report_ok r1 \<longrightarrow> report_ok new_report \<and> (\<forall>name \<in> set ?three. is_running env E name)"
      and f: "answered env E [u ''docker'', u ''inspect'', ?proxy] (\<lambda>rc out. rc = cp_returncode found \<and> out = cp_stdout found)"
    let ?p = "cp_returncode found = 0"
    show "gives seen E (if ?p then check_container env ?proxy r1 else x_return r1)
        (\<lambda>r2. report_ok r2 \<longrightarrow> report_ok r1 \<and> (?p \<longrightarrow> is_running env E ?proxy))"
      by (auto intro!: gives_if gives_return gives_mono [OF gives_container])
    assume r2: "report_ok r2 \<longrightarrow> report_ok r1 \<and> (?p \<longrightarrow> is_running env E ?proxy)"
    have "\<not> ?p \<Longrightarrow> answered env E [u ''docker'', u ''inspect'', ?proxy] (\<lambda>rc out. rc \<noteq> 0)"
      by (rule answered_mono [OF f]) simp
    then show "gives seen E (?spaces ?p r2) (\<lambda>r. report_ok r \<longrightarrow> system_up py env E)"
      by (intro gives_mono [OF spaces])
        (use r1 r2 in \<open>auto simp: system_up_def transport_up_def share_namespace_def split: if_splits\<close>)
  qed
qed

lemma gives_preflight: "gives seen E (preflight_report env) (\<lambda>r. report_ok r \<longrightarrow> transport_up env E \<and> key_readable env E)"
proof -
  let ?vpn = "u ''univpn-service''" and ?runner = "u ''bo-vpn-runner''"
  let ?key = "\<lambda>c. if c then x_bind (command env 30 False [u ''docker'', u ''exec'', ?runner, u ''test'', u ''-r'', u ''/run/keys/rsa.key'']) (\<lambda>key.
      x_return (cp_returncode key = 0, if cp_returncode key = 0 then u ''readable'' else u ''not readable''))
    else x_return (False, u ''runner unavailable'')"
  have ns: "gives seen E (if c then net_namespace env name else x_return None)
      (\<lambda>x. \<forall>t. x = Some t \<longrightarrow> in_namespace env E name t)" for c name
    by (auto intro!: gives_if gives_namespace gives_return)
  have key: "gives seen E (?key c) (\<lambda>k. fst k \<longrightarrow> key_readable env E)" for c
    unfolding key_readable_def
    by (intro gives_if seeing.gives_bind [OF gives_command])
      (auto intro!: doctor_rules gives_return elim!: answered_mono)
  show ?thesis
    unfolding preflight_report_def Let_def
    by (intro seeing.gives_bind [OF gives_running] seeing.gives_bind [OF ns] seeing.gives_bind [OF key]
        gives_mono [OF gives_check_vpn] doctor_rules)
      (auto simp: probed_def command_names transport_up_def share_namespace_def add_pair_def add_namespace_def
        same_namespace_def)
qed

section \<open>The program\<close>

text \<open>The state at the start of the program.\<close>

definition doctor_start :: "(nat, ustr) dict \<Rightarrow> state_file \<Rightarrow> cache_file \<Rightarrow> doctor" where
  "doctor_start logs st cache = \<lparr> vd_events = [], vd_time = 0, vd_logs = logs, vd_state = st, vd_cache = cache \<rparr>"

lemma gives_repair: "l_gives seen E (repair py cfg env canary) (\<lambda>r. report_ok r \<longrightarrow> system_up py env E)"
proof -
  have "l_gives seen E (l_bind (l_of (inspect_all py env)) (\<lambda>final. l_of (x_return (final \<lparr> rp_actions := acts \<rparr>))))
      (\<lambda>r. report_ok r \<longrightarrow> system_up py env E)" for acts
    using gives_inspect [of E py env] by (auto simp: l_gives_def l_bind_eq gives_def report_ok_def)
  note last = this
  show ?thesis
    unfolding repair_def
    by (rule last l_gives_raise l_gives_if l_gives_pair l_gives_last)+
qed

text \<open>The cache is not touched while the lock is waited for.\<close>

interpretation same_cache: effect_relation "\<lambda>s s'. vd_cache s' = vd_cache s"
  by unfold_locales simp_all

lemma lock_keeps_cache: "take_lock env timeout s = Some (r, s') \<Longrightarrow> vd_cache s' = vd_cache s"
proof -
  have "moves (\<lambda>s s'. vd_cache s' = vd_cache s) (d_ask f)" for f :: "nat \<Rightarrow> 'a"
    by (rule movesI) (simp add: d_ask_def)
  note ask = this
  have "moves (\<lambda>s s'. vd_cache s' = vd_cache s) (d_fail x)" for x
    by (rule movesI) (simp add: d_fail_def split: option.split)
  moreover have "moves (\<lambda>s s'. vd_cache s' = vd_cache s) (lock_pass env deadline v)" for deadline v
    by (rule movesI) (simp add: lock_pass_def d_ask_def d_log_def x_bind_def)
  ultimately have "l_moves (\<lambda>s s'. vd_cache s' = vd_cache s) (take_lock env timeout)"
    unfolding take_lock_def
    by (intro same_cache.l_bind_moves l_moves_of same_cache.loop_moves same_cache.bind) (simp_all add: movesI d_ask_def)
  then show "take_lock env timeout s = Some (r, s') \<Longrightarrow> ?thesis" by (auto dest: l_movesD)
qed

definition fresh_cache :: "pylib \<Rightarrow> doctor_config \<Rightarrow> doctor_env \<Rightarrow> cache_file \<Rightarrow> report \<Rightarrow> bool" where
  "fresh_cache py cfg env cache r \<longleftrightarrow> (\<exists>mtime j k. cache = Cached mtime j \<and> de_wall env k - mtime \<le> vc_cache_ttl cfg
     \<and> report_from_dict py j = Inr r)"

lemma read_cache_result:
  "read_cache py cfg env s = (Inr (Some r), s') \<Longrightarrow> fresh_cache py cfg env (vd_cache s) r"
  by (auto simp: read_cache_def x_try_def x_bind_def d_ask_def fresh_cache_def
      split: cache_file.splits sum.splits if_splits)

lemma cached_preflight_result:
  assumes "cached_preflight py cfg env s = Some (Inr (r, fresh), s')" and "seen s' \<subseteq> E" and "report_ok r"
  shows "\<not> fresh \<and> fresh_cache py cfg env (vd_cache s) r \<or> fresh \<and> transport_up env E \<and> key_readable env E"
proof -
  from assms(1) obtain s1 where lock: "take_lock env 15 s = Some (Inr True, s1)"
    and rest: "preflight_or_cache py cfg env s1 = (Inr (r, fresh), s')"
    by (auto simp: cached_preflight_def l_bind_eq split: if_splits)
  from rest obtain c s2 where read: "read_cache py cfg env s1 = (Inr c, s2)"
    by (auto simp: preflight_or_cache_def x_bind_eq)
  show ?thesis
  proof (cases c)
    case (Some r')
    with rest read have "r' = r" "\<not> fresh" by (auto simp: preflight_or_cache_def x_bind_eq)
    with read_cache_result [of py cfg env s1 r s2] read Some lock_keeps_cache [OF lock] show ?thesis by simp
  next
    case None
    from rest read None obtain s3 where report: "preflight_report env s2 = (Inr r, s3)" and is_fresh: fresh
      and stored: "write_cache env r s3 = (Inr (), s')"
      by (auto simp: preflight_or_cache_def x_bind_eq)
    from stored have "vd_events s' = vd_events s3"
      by (auto simp: write_cache_def d_ask_def d_fail_def x_bind_eq split: option.splits)
    with assms gives_preflight [of E env] report is_fresh show ?thesis by (auto simp: gives_def)
  qed
qed

lemma exit_code_0 [simp]: "exit_code r = 0 \<longleftrightarrow> report_ok r"
  by (simp add: exit_code_def)

lemma failed_not_0: "repair_failed py cfg env args r e s = (Inr c, s') \<Longrightarrow> c = 1"
  by (auto simp: repair_failed_def Let_def x_bind_eq)

lemma main_zero:
  assumes "doctor_main py cfg env args s = Some (Inr 0, s')"
  shows "case da_mode args of
      Preflight \<Rightarrow> transport_up env (seen s') \<and> key_readable env (seen s')
        \<or> (\<exists>r. fresh_cache py cfg env (vd_cache s) r \<and> report_ok r)
    | _ \<Rightarrow> system_up py env (seen s')"
proof -
  have more: "moves (doctor_step (allowed_event cfg Login) (\<lambda>_. True)) m \<Longrightarrow> m t = (r, t') \<Longrightarrow> seen t \<subseteq> seen t'"
    for m :: "'a doc" and r t t'
    using movesD [of "doctor_step (allowed_event cfg Login) (\<lambda>_. True)" m t r t'] by (auto simp: doctor_step_def)
  have logs: "keeps_logs cfg env (\<lambda>_. True)" by (simp add: keeps_logs_def)
  show ?thesis
  proof (cases "da_mode args")
    case Preflight
    let ?tail = "\<lambda>fresh r. x_bind (if fresh then record_state py cfg env r None else x_return ()) (\<lambda>_.
        x_bind (show_report args r) (\<lambda>_. x_return (exit_code r)))"
    have tail: "moves (doctor_step (allowed_event cfg Login) (\<lambda>_. True)) (?tail fresh r)" for fresh r
      by (intro doctor_rules logs)
    from assms Preflight obtain r fresh s1 where c: "cached_preflight py cfg env s = Some (Inr (r, fresh), s1)"
      and t: "?tail fresh r s1 = (Inr 0, s')"
      by (auto simp: doctor_main_def run_preflight_def l_try_def l_bind_eq x_bind_eq
          split: option.splits prod.splits sum.splits if_splits)
    from t have "report_ok r" by (auto simp: x_bind_eq)
    with cached_preflight_result [OF c more [OF tail t]] Preflight show ?thesis by auto
  next
    case Status
    let ?tail = "\<lambda>r. x_bind (record_state py cfg env r None) (\<lambda>_. x_bind (show_report args r) (\<lambda>_. x_return (exit_code r)))"
    have tail: "moves (doctor_step (allowed_event cfg Login) (\<lambda>_. True)) (?tail r)" for r
      by (intro doctor_rules logs)
    from assms Status obtain r s1 where i: "inspect_all py env s = (Inr r, s1)" and t: "?tail r s1 = (Inr 0, s')"
      by (auto simp: doctor_main_def run_status_def x_try_def x_bind_eq split: prod.splits sum.splits if_splits)
    from t have "report_ok r" by (auto simp: x_bind_eq)
    with i more [OF tail t] gives_inspect [of "seen s'" py env] Status show ?thesis by (auto simp: gives_def)
  next
    case Repair
    have tail: "moves (doctor_step (allowed_event cfg Login) (\<lambda>_. True)) (after_repair py cfg env args r)" for r
      unfolding after_repair_def by (intro doctor_rules logs)
    from assms Repair obtain s1 x s2 where g: "guarded_repair py cfg env (da_canary args) s1 = Some (Inr x, s2)"
      and e: "(case x of Inl e \<Rightarrow> repair_failed py cfg env args new_report e
        | Inr r \<Rightarrow> x_try (after_repair py cfg env args r) caught_by_main (repair_failed py cfg env args r)) s2 = (Inr 0, s')"
      by (auto simp: doctor_main_def run_repair_def l_bind_eq x_bind_eq split: if_splits)
    from e obtain r where r: "x = Inr r" by (cases x) (auto dest: failed_not_0)
    with g have i: "repair py cfg env (da_canary args) s1 = Some (Inr r, s2)"
      by (auto simp: guarded_repair_def l_try_def l_bind_def split: option.splits prod.splits sum.splits if_splits)
    from e r have t: "after_repair py cfg env args r s2 = (Inr 0, s')"
      by (auto simp: x_try_def split: prod.splits sum.splits if_splits dest: failed_not_0)
    from t have "report_ok r" by (auto simp: after_repair_def x_bind_eq)
    with i more [OF tail t] gives_repair [of "seen s'" py cfg env "da_canary args"] Repair show ?thesis
      by (auto simp: l_gives_def)
  qed
qed

end
