(* ===== verification/Doctor_Wire.thy ===== *)
theory Doctor_Wire
  imports Doctor_Health Bot_Wire
begin

text \<open>
  The VPN doctor, the worker and the cache: the worker accepts the canary task the doctor posts and the
  doctor reads its answers; a cached preflight is the report that was written.
\<close>

section \<open>The canary task\<close>

definition canary_target :: "ustr \<Rightarrow> target" where
  "canary_target ip = \<lparr> tg_branch = u ''mnt'', tg_number = u ''vpn-doctor-canary'', tg_ip = ip, tg_volume = 0,
     tg_output = [] \<rparr>"

text \<open>It is the check the bot asks for, of a vehicle of its own.\<close>

lemma canary_is_check:
  "canary_payload rid ip = check_payload rid 0 (tg_number (canary_target ip)) (tg_ip (canary_target ip))"
  by (simp add: canary_payload_def check_payload_def canary_target_def)

definition canary_task :: "create_env \<Rightarrow> ustr \<Rightarrow> ustr \<Rightarrow> ustr \<Rightarrow> task" where
  "canary_task env fingerprint rid ip = check_task env fingerprint rid 0 (canary_target ip)"

lemma worker_accepts_canary:
  assumes "in_mnt_network a" and "rid \<noteq> []"
  shows "build_task py wcfg env (canary_payload rid (str_of_ip a)) fingerprint inventory =
    (Inr (canary_task env fingerprint rid (str_of_ip a),
          \<lparr> vpn_mode = u ''container_secret'', vpn_username = [], vpn_password = [] \<rparr>), inventory)"
proof -
  obtain b where "a = IPv4 b" using assms(1) by (cases a) auto
  then show ?thesis
    unfolding canary_is_check canary_task_def
    by (intro worker_accepts_vehicle [where a = b]) (use assms(2) in \<open>simp_all add: canary_target_def\<close>)
qed

text \<open>The answer to the post, and the answers to the polls.\<close>

lemma doctor_finds_task:
  assumes "ip_address canary_ip = Some a" and "in_mnt_network a"
    and "de_http env (Suc (vd_time s)) = HttpBody (Inr body)"
    and "py_json_loads py body = Inr (to_create_response task)"
  shows "\<exists>s'. start_canary py env canary_ip s =
    (Inr (t_task_id task, u ''vpn-doctor-'' @ de_uuid env (vd_time s), de_clock env (vd_time s + 2) + 100), s')"
proof -
  have "py_item py (to_create_response task) (u ''task_id'') = Inr (JStr (t_task_id task))"
    by (simp add: py_item_def to_create_response_def)
  with assms show ?thesis
    by (simp add: start_canary_def doctor_request_def d_ask_def d_log_def x_bind_def Let_def
        del: in_mnt_network.simps)
qed

definition error_text :: "ustr option \<Rightarrow> ustr" where
  "error_text e = (case e of None \<Rightarrow> u ''none'' | Some c \<Rightarrow> if c = [] then u ''none'' else c)"

lemma response_no_error:
  "to_response py n1 n2 t = JDict d \<Longrightarrow> t_error_code t = None \<Longrightarrow> jget d (u ''error_code'') = JNull"
  by (auto simp: to_response_def jget_def get_or_def field_if_def opt_json_def map_of_append split: if_splits)

lemma doctor_reads_status:
  assumes "de_clock env (vd_time s) < deadline" and "de_http env (Suc (vd_time s)) = HttpBody (Inr body)"
    and "py_json_loads py body = Inr (to_response py n1 n2 task)"
  shows "\<exists>s'. login_pass py env deadline task_id rid v s =
    (Inr (if terminal_state (t_state task)
          then Done (u ''task='' @ t_state task @ u '' code='' @ error_text (t_error_code task)) else Again ()), s')"
proof -
  obtain d where d: "to_response py n1 n2 task = JDict d" by (simp add: to_response_def)
  have "py_str py (py_or (jget d (u ''error_code'')) (JStr (u ''none''))) = error_text (t_error_code task)"
    using response_no_error [OF d] response_error [OF d]
    by (cases "t_error_code task") (auto simp: error_text_def py_or_def)
  with assms response_state [OF d] d show ?thesis
    by (auto simp: login_pass_def doctor_request_def d_ask_def d_log_def x_bind_def Let_def TERMINAL_STATES_def)
qed

text \<open>
  The health of the worker as its service gives it: the doctor sees a worker with an active task as
  busy, and then the sidecars are left alone.
\<close>

lemma doctor_reads_health:
  "health_answer py (health ws) = Inr (True, if active_task ws \<noteq> None then u ''busy'' else u ''idle'')"
  by (simp add: health_answer_def health_def jget_def get_or_def py_or_def)

lemma doctor_spares_busy_worker:
  assumes "de_http env (vd_time s) = HttpBody (Inr body)" and "py_json_loads py body = Inr (health ws)"
    and "active_task ws \<noteq> None"
  shows "\<exists>s'. recreate_sidecars py cfg env sidecars stale s = (Inl (DoctorError (u ''worker is busy; namespace repair deferred'')), s')
    \<and> (\<forall>k cmd t. Command k cmd t \<in> seen s' \<longrightarrow> Command k cmd t \<in> seen s)"
  using assms doctor_reads_health [of py ws]
  by (simp add: recreate_sidecars_def worker_health_def x_try_def doctor_request_def d_ask_def d_log_def x_bind_def
      worker_busy_def Let_def)

section \<open>The cached preflight\<close>

lemma lock_only_sleeps: "take_lock env timeout s = Some (r, s') \<Longrightarrow> Command k cmd t \<in> seen s' \<Longrightarrow> Command k cmd t \<in> seen s"
  using l_movesD [OF acts_lock [of "\<lambda>e. e = Sleeps" "\<lambda>_. True"]] by (fastforce simp: doctor_step_def)

lemma cached_written:
  assumes "cached_preflight py cfg env s = Some (Inr (r, True), s')"
  shows "\<exists>k. vd_cache s' = Cached (de_wall env k) (as_dict r)"
  using assms
  by (auto simp: cached_preflight_def l_bind_eq preflight_or_cache_def write_cache_def d_ask_def x_bind_eq
      split: if_splits option.splits)

lemma cached_read:
  assumes "cached_preflight py cfg env s = Some (Inr (r', fresh), s')" and "vd_cache s = Cached mtime (as_dict r)"
  shows "(\<forall>k. de_wall env k - mtime \<le> vc_cache_ttl cfg) \<Longrightarrow>
      r' = r \<and> \<not> fresh \<and> (\<forall>k cmd t. Command k cmd t \<in> seen s' \<longrightarrow> Command k cmd t \<in> seen s)"
    and "(\<forall>k. vc_cache_ttl cfg < de_wall env k - mtime) \<Longrightarrow> fresh"
proof -
  from assms(1) obtain s1 where lock: "take_lock env 15 s = Some (Inr True, s1)"
    and rest: "preflight_or_cache py cfg env s1 = (Inr (r', fresh), s')"
    by (auto simp: cached_preflight_def l_bind_eq split: if_splits)
  have c: "vd_cache s1 = Cached mtime (as_dict r)" using lock_keeps_cache [OF lock] assms(2) by simp
  have read: "read_cache py cfg env s1 =
      (Inr (if de_wall env (vd_time s1) - mtime \<le> vc_cache_ttl cfg then Some r else None), s1 \<lparr> vd_time := Suc (vd_time s1) \<rparr>)"
    by (simp add: read_cache_def x_try_def d_ask_def x_bind_def c report_round_trip)
  show "r' = r \<and> \<not> fresh \<and> (\<forall>k cmd t. Command k cmd t \<in> seen s' \<longrightarrow> Command k cmd t \<in> seen s)"
    if "\<forall>k. de_wall env k - mtime \<le> vc_cache_ttl cfg"
    using that rest read lock_only_sleeps [OF lock] by (auto simp: preflight_or_cache_def x_bind_def)
  show "fresh" if "\<forall>k. vc_cache_ttl cfg < de_wall env k - mtime"
    using that [rule_format, of "vd_time s1"] rest read by (auto simp: preflight_or_cache_def x_bind_eq)
qed

section \<open>The log\<close>

text \<open>A rotation: what is lost is at most the last copy, and a full one moves every file one place up.\<close>

lemma rotate_log_result:
  assumes "rotate_log cfg env s = (q, s')" and "1 \<le> vc_log_backups cfg"
  shows "q = Inr ()"
    and "i < vc_log_backups cfg \<Longrightarrow> \<exists>j \<le> vc_log_backups cfg. dict_get (vd_logs s') j = dict_get (vd_logs s) i"
    and "de_rotate env (vd_time s) = None \<Longrightarrow> dict_get (vd_logs s') 0 = Some t \<Longrightarrow> log_size t < vc_max_log_bytes cfg"
proof -
  let ?n = "vc_log_backups cfg"
  show "q = Inr ()" using assms(1) by (auto simp: rotate_log_def d_ask_def x_bind_def)
  have logs: "vd_logs s' = vd_logs s \<and> (\<forall>t. dict_get (vd_logs s) 0 = Some t \<longrightarrow> log_size t < vc_max_log_bytes cfg)
    \<or> vd_logs s' = fold apply_log_op (case de_rotate env (vd_time s) of None \<Rightarrow> rotate_ops ?n | Some m \<Rightarrow> take m (rotate_ops ?n)) (vd_logs s)"
    using assms(1) by (auto simp: rotate_log_def d_ask_def x_bind_def split: option.splits if_splits)
  then show "i < ?n \<Longrightarrow> \<exists>j \<le> ?n. dict_get (vd_logs s') j = dict_get (vd_logs s) i"
    using rotate_part [of ?n i "length (rotate_ops ?n)" "vd_logs s"] rotate_part [of ?n i _ "vd_logs s"] assms(2)
    by (auto split: option.splits intro: exI [of _ i])
  from logs show "de_rotate env (vd_time s) = None \<Longrightarrow> dict_get (vd_logs s') 0 = Some t \<Longrightarrow> log_size t < vc_max_log_bytes cfg"
    using rotate_shift [OF assms(2), of "vd_logs s" 0] by (auto simp: shifted_def)
qed

lemma log_size_append: "log_size (a @ b) = log_size a + log_size b"
  by (simp add: log_size_def)

lemma d_fail_eq: "d_fail x s = (Inr v, s') \<longleftrightarrow> x = None \<and> s' = s"
  by (cases x) (auto simp: d_fail_def)

lemma log_event_bounds:
  assumes "log_event py cfg env level event detail s = (Inr (), s')" and n: "1 \<le> vc_log_backups cfg"
  shows "i < vc_log_backups cfg \<Longrightarrow> dict_get (vd_logs s) i = Some t \<Longrightarrow>
      \<exists>j \<le> vc_log_backups cfg. \<exists>x. dict_get (vd_logs s') j = Some (t @ x)"
    and "\<forall>k. de_rotate env k = None \<Longrightarrow> \<exists>t k. dict_get (vd_logs s') 0 = Some t
      \<and> log_size t < max 1 (vc_max_log_bytes cfg) + log_size (log_line (de_stamp env k) level event detail)"
proof -
  from assms(1) obtain s2 where r: "rotate_log cfg env (s \<lparr> vd_time := Suc (vd_time s) \<rparr>) = (Inr (), s2)"
    and new: "vd_logs s' = dict_set (vd_logs s2) 0 ((case dict_get (vd_logs s2) 0 of None \<Rightarrow> [] | Some t \<Rightarrow> t)
      @ log_line (de_stamp env (vd_time s2)) level event detail)"
    by (auto simp: log_event_def append_log_def d_ask_def d_fail_eq x_bind_eq Let_def split: if_splits)
  note rot = rotate_log_result [OF r n]
  show "\<exists>j \<le> vc_log_backups cfg. \<exists>x. dict_get (vd_logs s') j = Some (t @ x)"
    if "i < vc_log_backups cfg" "dict_get (vd_logs s) i = Some t"
  proof -
    from rot(2) [OF that(1)] that(2) obtain j where "j \<le> vc_log_backups cfg" "dict_get (vd_logs s2) j = Some t"
      by auto
    then show ?thesis by (intro exI [of _ j]) (auto simp: new)
  qed
  show "\<exists>t k. dict_get (vd_logs s') 0 = Some t
      \<and> log_size t < max 1 (vc_max_log_bytes cfg) + log_size (log_line (de_stamp env k) level event detail)"
    if "\<forall>k. de_rotate env k = None"
    using rot(3) that
    by (intro exI [of _ "(case dict_get (vd_logs s2) 0 of None \<Rightarrow> [] | Some t \<Rightarrow> t)
        @ log_line (de_stamp env (vd_time s2)) level event detail"] exI [of _ "vd_time s2"])
      (auto simp: new log_size_append less_max_iff_disj split: option.split, simp_all add: log_size_def)
qed

end
