(* ===== verification/Doctor_Login.thy ===== *)
theory Doctor_Login
  imports Doctor_Health
begin

text \<open>
  The managed login of the VPN doctor: it is tried only when it is due, and at most twice in a run.
\<close>

section \<open>When a login is due\<close>

text \<open>The VPN was seen without interface or route, and the worker answered that it has no task.\<close>

definition vpn_down :: "doctor_env \<Rightarrow> doctor_event set \<Rightarrow> bool" where
  "vpn_down env E \<longleftrightarrow>
     answered env E [u ''docker'', u ''exec'', u ''univpn-service'', u ''ip'', u ''-o'', u ''addr'', u ''show'', u ''dev'', u ''cnem_vnic'']
       (\<lambda>rc out. rc \<noteq> 0 \<or> py_strip out = [])
     \<or> answered env E [u ''docker'', u ''exec'', u ''univpn-service'', u ''ip'', u ''route'', u ''show'', u ''172.26.0.0/15'']
       (\<lambda>rc out. py_strip out = [])"

definition worker_told :: "pylib \<Rightarrow> doctor_env \<Rightarrow> doctor_event set \<Rightarrow> ustr \<Rightarrow> bool" where
  "worker_told py env E status \<longleftrightarrow> (\<exists>k rid body d. Request k (u ''GET'') (u ''/health'') rid None \<in> E
     \<and> de_http env k = HttpBody (Inr body) \<and> py_json_loads py body = Inr (JDict d) \<and> truthy (jget d (u ''ok''))
     \<and> status = py_str py (py_or (jget d (u ''status'')) (JStr (u ''unknown''))))"

definition login_due :: "pylib \<Rightarrow> doctor_env \<Rightarrow> doctor_event set \<Rightarrow> bool" where
  "login_due py env E \<longleftrightarrow> vpn_down env E \<and> (\<exists>status. worker_told py env E status \<and> status \<noteq> u ''busy'')"

lemma answered_more: "answered env E cmd A \<Longrightarrow> E \<subseteq> E' \<Longrightarrow> answered env E' cmd A"
  unfolding answered_def by blast

lemma vpn_down_more: "vpn_down env E \<Longrightarrow> E \<subseteq> E' \<Longrightarrow> vpn_down env E'"
  unfolding vpn_down_def by (blast intro: answered_more)

lemma worker_told_more: "worker_told py env E status \<Longrightarrow> E \<subseteq> E' \<Longrightarrow> worker_told py env E' status"
  unfolding worker_told_def by blast

lemma gives_vpn_down: "gives seen E (vpn_health env) (\<lambda>w. \<not> fst w \<longrightarrow> vpn_down env E)"
proof -
  have "answered env E cmd (\<lambda>rc out. rc = a \<and> out = t) \<Longrightarrow> A a t \<Longrightarrow> answered env E cmd A" for cmd a t A
    by (erule answered_mono) simp
  then show ?thesis
    unfolding vpn_health_def vpn_down_def Let_def
    by (intro seeing.gives_bind [OF gives_command] doctor_rules gives_return) (auto simp: command_names)
qed

lemma gives_worker_told: "gives seen E (worker_health py env) (\<lambda>w. fst w \<longrightarrow> worker_told py env E (snd w))"
proof -
  have "gives seen E (x_bind (doctor_request py env (u ''GET'') (u ''/health'') None None)
      (\<lambda>j. x_lift (health_answer py j))) (\<lambda>w. fst w \<longrightarrow> worker_told py env E (snd w))"
    by (rule seeing.gives_bind [OF gives_health_request])
      (auto intro: doctor_rules simp: gives_def health_answer_iff worker_told_def)
  then show ?thesis
    by (auto simp: gives_def worker_health_def x_try_def split: prod.splits sum.splits if_splits)
qed

section \<open>Canary tasks\<close>

fun is_task_post :: "doctor_event \<Rightarrow> bool" where
  "is_task_post (Request k http_method path request_id payload) \<longleftrightarrow> http_method = u ''POST''"
| "is_task_post _ \<longleftrightarrow> False"

definition canary_posts :: "doctor \<Rightarrow> nat" where
  "canary_posts s = length (filter is_task_post (vd_events s))"

text \<open>Below the scope of the login there are none.\<close>

lemma mending_no_post:
  assumes "doctor_step (allowed_event cfg Mending) P s s'"
  shows "canary_posts s' = canary_posts s \<and> seen s \<subseteq> seen s'"
proof -
  have "allowed_event cfg Mending e \<Longrightarrow> \<not> is_task_post e" for e by (cases e) auto
  with assms show ?thesis by (auto simp: doctor_step_def canary_posts_def filter_empty_conv)
qed

text \<open>
  A computation that posts at most \<open>n\<close> times, and only when the events at its end give it a reason.
\<close>

definition posting :: "(doctor_event set \<Rightarrow> bool) \<Rightarrow> nat \<Rightarrow> 'a doc_loop \<Rightarrow> bool" where
  "posting D n m \<longleftrightarrow> (\<forall>s r s'. m s = Some (r, s') \<longrightarrow>
     canary_posts s' \<le> canary_posts s + n \<and> seen s \<subseteq> seen s' \<and> (canary_posts s < canary_posts s' \<longrightarrow> D (seen s')))"

lemma postingD:
  "posting D n m \<Longrightarrow> m s = Some (r, s') \<Longrightarrow>
   canary_posts s' \<le> canary_posts s + n \<and> seen s \<subseteq> seen s' \<and> (canary_posts s < canary_posts s' \<longrightarrow> D (seen s'))"
  unfolding posting_def by blast

lemma posting_mono: "posting D n m \<Longrightarrow> n \<le> k \<Longrightarrow> (\<And>E. D E \<Longrightarrow> D' E) \<Longrightarrow> posting D' k m"
  unfolding posting_def by (meson add_left_mono order_trans)

lemma posting_none: "l_moves (doctor_step (allowed_event cfg Mending) P) m \<Longrightarrow> posting D n m"
  unfolding posting_def l_moves_def using mending_no_post by (metis le_add1 less_irrefl)

lemmas posting_none_of = posting_none [OF l_moves_of]

lemma posting_bind:
  assumes "\<And>E E'. D E \<Longrightarrow> E \<subseteq> E' \<Longrightarrow> D E'"
    and "posting D n m" and "\<And>a. a \<in> l_results m \<Longrightarrow> posting D k (f a)"
  shows "posting D (n + k) (l_bind m f)"
  unfolding posting_def l_bind_eq
proof (intro allI impI, elim disjE exE conjE)
  fix s r s' a s1
  assume m: "m s = Some (Inr a, s1)" and f: "f a s1 = Some (r, s')"
  from m have "a \<in> l_results m" by (auto simp: l_results_def)
  from postingD [OF assms(2) m] postingD [OF assms(3) [OF this] f]
  show "canary_posts s' \<le> canary_posts s + (n + k) \<and> seen s \<subseteq> seen s' \<and> (canary_posts s < canary_posts s' \<longrightarrow> D (seen s'))"
    using assms(1) [of "seen s1" "seen s'"] by (cases "canary_posts s < canary_posts s1") auto
next
  fix s r s' e
  assume "m s = Some (Inl e, s')"
  from postingD [OF assms(2) this]
  show "canary_posts s' \<le> canary_posts s + (n + k) \<and> seen s \<subseteq> seen s' \<and> (canary_posts s < canary_posts s' \<longrightarrow> D (seen s'))"
    by auto
qed

text \<open>After a computation that posts nothing, what its result stands for is a reason to post.\<close>

lemma posting_after:
  assumes "l_moves (doctor_step (allowed_event cfg Mending) P) m"
    and "\<And>E. l_gives seen E m (Q E)" and "\<And>a E E'. Q E a \<Longrightarrow> E \<subseteq> E' \<Longrightarrow> Q E' a"
    and "\<And>a. posting (\<lambda>E. Q E a \<longrightarrow> D E) n (f a)"
  shows "posting D n (l_bind m f)"
  unfolding posting_def l_bind_eq
proof (intro allI impI, elim disjE exE conjE)
  fix s r s' a s1
  assume m: "m s = Some (Inr a, s1)" and f: "f a s1 = Some (r, s')"
  have "Q (seen s1) a" using assms(2) m by (auto simp: l_gives_def)
  with postingD [OF assms(4) f] mending_no_post [OF l_movesD [OF assms(1) m]] assms(3) [of "seen s1" a "seen s'"]
  show "canary_posts s' \<le> canary_posts s + n \<and> seen s \<subseteq> seen s' \<and> (canary_posts s < canary_posts s' \<longrightarrow> D (seen s'))"
    by auto
next
  fix s r s' e
  assume "m s = Some (Inl e, s')"
  from mending_no_post [OF l_movesD [OF assms(1) this]]
  show "canary_posts s' \<le> canary_posts s + n \<and> seen s \<subseteq> seen s' \<and> (canary_posts s < canary_posts s' \<longrightarrow> D (seen s'))"
    by auto
qed

section \<open>The program\<close>

lemma l_of_bind: "l_of (x_bind m f) = l_bind (l_of m) (\<lambda>a. l_of (f a))"
  by (rule ext) (auto simp: l_bind_def x_bind_def split: prod.split sum.split)

lemma posting_canary: "posting (\<lambda>_. True) 1 (l_of (start_canary py env canary_ip))"
proof -
  have request: "posting (\<lambda>_. True) 1 (l_of (doctor_request py env http_method path payload request_id))"
    for http_method path payload request_id
    by (auto simp: posting_def canary_posts_def doctor_request_def d_ask_def d_log_def x_bind_def Let_def
        split: http_result.splits sum.splits if_splits)
  have rest: "posting (\<lambda>_. True) 0 (l_of (x_bind (x_lift (py_item py task (u ''task_id''))) (\<lambda>task_id.
      x_bind (d_ask (de_clock env)) (\<lambda>now. x_return (f task_id now)))))" for task f
    by (intro posting_none_of doctor_rules)
  have post: "posting (\<lambda>_. True) (0 + (1 + 0)) (l_of (x_bind (d_ask (de_uuid env)) (\<lambda>uuid.
      x_bind (doctor_request py env http_method path (payload uuid) request_id) (\<lambda>task.
      x_bind (x_lift (py_item py task (u ''task_id''))) (\<lambda>task_id.
      x_bind (d_ask (de_clock env)) (\<lambda>now. x_return (f uuid task_id now)))))))" for http_method path payload request_id f
    unfolding l_of_bind [of "d_ask (de_uuid env)"] l_of_bind [of "doctor_request _ _ _ _ _ _"]
    by (intro posting_bind rest request posting_none_of doctor_rules TrueI)
  have "posting (\<lambda>_. True) 1 (l_of (x_raise e))" for e
    by (intro posting_none_of doctor_rules)
  note this [simplified, simp] post [simplified, simp]
  show ?thesis by (simp add: start_canary_def Let_def split: option.split)
qed

lemma posting_login: "posting (\<lambda>_. True) 1 (trigger_login py env canary_ip)"
proof -
  have "posting (\<lambda>_. True) 0 (case x of (task_id, request_id, deadline) \<Rightarrow>
      x_loop (login_pass py env deadline task_id request_id) ())" if "x \<in> l_results (l_of (start_canary py env canary_ip))" for x
    by (rule posting_none) (use start_canary_id [OF that] in \<open>intro doctor_rules; auto\<close>)
  from posting_bind [OF _ posting_canary this] show ?thesis by (simp add: trigger_login_def)
qed

text \<open>The reasons only grow, and the logs do not matter here.\<close>

lemma keeps_any: "keeps_logs cfg env (\<lambda>_. True)"
  by (simp add: keeps_logs_def)

lemma posting_if: "posting D n m \<Longrightarrow> posting D n m' \<Longrightarrow> posting D n (if c then m else m')"
  by simp

lemma posting_result: "posting D n (l_of (x_return a))" "posting D n (l_of (x_raise e))"
  by (intro posting_none_of doctor_rules)+

lemma posting_more:
  assumes "posting (\<lambda>_. True) n m" and "\<And>a. posting (\<lambda>_. True) k (f a)"
  shows "posting (\<lambda>_. True) (n + k) (l_bind m f)"
  by (intro posting_bind assms TrueI)

lemma posting_reset:
  assumes "sidecars \<in> sidecar_lists"
  shows "posting (\<lambda>_. True) 1 (reset_vpn py cfg env sidecars canary_ip)"
proof -
  have acts: "l_moves (doctor_step (allowed_event cfg Mending) (\<lambda>_. True)) (l_of (x_seq
      [log_event py cfg env (u ''ACTION'') (u ''reset-vpn-container'') detail,
       compose_up cfg env True [u ''univpn-service''], compose_up cfg env True sidecars]))" for detail
    by (intro doctor_rules quiet_events keeps_any repair_composes sidecar_compose assms)
  have wait: "l_moves (doctor_step (allowed_event cfg Mending) (\<lambda>_. True)) (wait_until env (runner_health py env))"
    by (intro doctor_rules) simp
  have "posting (\<lambda>_. True) 1 (l_bind (trigger_login py env canary_ip) (\<lambda>detail. l_of (x_return (f detail))))" for f
    using posting_more [OF posting_login posting_result(1), of 0] by simp
  note posting_if [OF posting_result(2) this]
  from posting_more [OF posting_none [OF acts, of _ 0] posting_more [OF posting_none [OF wait, of _ 0] this]]
  show ?thesis unfolding reset_vpn_def by simp
qed

lemma posting_repair_login:
  assumes "sidecars \<in> sidecar_lists"
  shows "posting (\<lambda>E. vpn_down env E \<and> worker_status \<noteq> u ''busy'') 2
    (repair_login py cfg env canary worker_status sidecars)"
  unfolding repair_login_def
proof (rule posting_after [where Q = "\<lambda>E vpn. \<not> fst vpn \<longrightarrow> vpn_down env E"])
  show "l_moves (doctor_step (allowed_event cfg Mending) (\<lambda>_. True)) (l_of (vpn_health env))" by (intro doctor_rules)
  show "l_gives seen E (l_of (vpn_health env)) (\<lambda>vpn. \<not> fst vpn \<longrightarrow> vpn_down env E)" for E
    using gives_vpn_down by (simp add: l_gives_def gives_def)
  show "\<not> fst vpn \<longrightarrow> vpn_down env E'" if "\<not> fst vpn \<longrightarrow> vpn_down env E" "E \<subseteq> E'" for vpn :: "bool \<times> ustr" and E E'
    using that vpn_down_more by blast
  fix vpn :: "bool \<times> ustr"
  let ?D = "\<lambda>E. (\<not> fst vpn \<longrightarrow> vpn_down env E) \<longrightarrow> vpn_down env E \<and> worker_status \<noteq> u ''busy''"
  let ?log = "log_event py cfg env (u ''ACTION'') (u ''trigger-managed-login'') []"
  let ?login = "\<lambda>canary_ip. l_bind (l_of ?log) (\<lambda>_. l_bind (trigger_login py env canary_ip) (\<lambda>detail.
    l_bind (l_of (vpn_health env)) (\<lambda>vpn'. l_bind (if fst vpn' then l_of (x_return []) else reset_vpn py cfg env sidecars canary_ip)
      (\<lambda>more. l_of (x_return ((u ''triggered managed login ('' @ detail @ u '')'') # more))))))"
  have log: "posting (\<lambda>_. True) 0 (l_of ?log)"
    by (intro posting_none_of [where P = "\<lambda>_. True"] doctor_rules keeps_any quiet_events)
  have vpn: "posting (\<lambda>_. True) 0 (l_of (vpn_health env))"
    by (intro posting_none_of doctor_rules)
  have two: "posting (\<lambda>_. True) (0 + (1 + (0 + (1 + 0)))) (?login canary_ip)" for canary_ip
    by (intro posting_more posting_if posting_reset posting_login posting_result log vpn assms)
  have "posting ?D 2 (?login canary_ip)" if "\<not> fst vpn" "worker_status \<noteq> u ''busy''" for canary_ip
    by (rule posting_mono [OF two]) (use that in simp_all)
  then show "posting ?D 2
     (if fst vpn then l_of (x_return [])
      else if worker_status = u ''busy'' then l_of (x_raise (DoctorError (u ''worker is busy; VPN login deferred'')))
      else (case (if canary = Some [] then None else canary) of
          None \<Rightarrow> l_of (x_raise (DoctorError (u ''VPN is disconnected; pass --canary-ip or BO_VPN_DOCTOR_CANARY_IP'')))
        | Some canary_ip \<Rightarrow> ?login canary_ip))"
    by (simp add: posting_result split: option.split)
qed

lemma gives_repair_runner:
  "l_gives seen E (repair_runner py cfg env) (\<lambda>r. worker_told py env E (fst r))"
  unfolding repair_runner_def
  by (rule seeing.l_gives_bind [where cfg = cfg, OF gives_worker_told])
    (auto intro!: doctor_rules quiet_events keeps_any repair_composes simp: l_gives_def l_bind_eq split: if_splits)

text \<open>The whole repair.\<close>

lemma login_due_more: "login_due py env E \<Longrightarrow> E \<subseteq> E' \<Longrightarrow> login_due py env E'"
  unfolding login_due_def using vpn_down_more worker_told_more by blast

lemma posting_zero: "posting D 0 m \<Longrightarrow> posting D' n m"
  unfolding posting_def by (metis add_0_right leD trans_le_add1)

lemma posting_last:
  assumes "sidecars \<in> sidecar_lists" and "\<And>a b. posting D 0 (f a b)"
  shows "posting (login_due py env) 2 (l_bind (repair_runner py cfg env) (\<lambda>(status, acts).
    l_bind (repair_login py cfg env canary status sidecars) (f acts)))"
proof (rule posting_after [where Q = "\<lambda>E r. worker_told py env E (fst r)", OF _ gives_repair_runner])
  show "l_moves (doctor_step (allowed_event cfg Mending) (\<lambda>_. True)) (repair_runner py cfg env)"
    by (intro doctor_rules keeps_any)
  fix r :: "ustr \<times> ustr list"
  obtain status acts where r: "r = (status, acts)" by (cases r)
  have "posting (\<lambda>E. vpn_down env E \<and> status \<noteq> u ''busy'') (2 + 0)
      (l_bind (repair_login py cfg env canary status sidecars) (f acts))"
    by (rule posting_bind [OF _ posting_repair_login [OF assms(1)] posting_zero [OF assms(2)]]) (auto intro: vpn_down_more)
  then show "posting (\<lambda>E. worker_told py env E (fst r) \<longrightarrow> login_due py env E) 2 (case r of (status, acts) \<Rightarrow>
      l_bind (repair_login py cfg env canary status sidecars) (f acts))"
    unfolding r by simp (erule posting_mono, auto simp: login_due_def)
qed (auto intro: worker_told_more)

lemma posting_next:
  assumes "l_moves (doctor_step (allowed_event cfg Mending) (\<lambda>_. True)) m"
    and "\<And>a. a \<in> l_results m \<Longrightarrow> posting (login_due py env) n (f a)"
  shows "posting (login_due py env) n (l_bind m f)"
  using posting_bind [OF login_due_more posting_none [OF assms(1), of _ 0] assms(2)] by simp

lemma posting_repair: "posting (login_due py env) 2 (repair py cfg env canary)"
proof -
  have final: "posting D 0 (l_bind (l_of (inspect_all py env)) (\<lambda>final. l_of (x_return (f final))))"
    for D and f :: "report \<Rightarrow> report"
    by (rule posting_none [where P = "\<lambda>_. True"]) (intro doctor_rules, simp)
  have sidecars: "posting (login_due py env) 2 (l_bind (repair_sidecars py cfg env) (\<lambda>(sidecars, acts).
      l_bind (repair_runner py cfg env) (\<lambda>(status, acts'). l_bind (repair_login py cfg env canary status sidecars) (f acts acts'))))"
    if "\<And>a b c. posting (login_due py env) 0 (f a b c)" for f :: "_ \<Rightarrow> _ \<Rightarrow> _ \<Rightarrow> report doc_loop"
  proof (rule posting_next)
    show "l_moves (doctor_step (allowed_event cfg Mending) (\<lambda>_. True)) (repair_sidecars py cfg env)"
      by (intro doctor_rules keeps_any)
  qed (auto simp: l_results_def dest!: repair_sidecars_result intro!: posting_last that)
  show ?thesis
    unfolding repair_def
    by (intro posting_next [where cfg = cfg] posting_if posting_result sidecars final doctor_rules keeps_any) simp_all
qed

lemma posting_guarded: "posting (login_due py env) 2 (guarded_repair py cfg env canary)"
proof -
  have "\<exists>r. repair py cfg env canary s = Some (r, s')" if "guarded_repair py cfg env canary s = Some (x, s')" for s x s'
    using that by (auto simp: guarded_repair_def l_try_def l_bind_def split: option.splits prod.splits sum.splits if_splits)
  then show ?thesis unfolding posting_def using postingD [OF posting_repair] by metis
qed

text \<open>A run posts at most two canary tasks, and none unless a login was due.\<close>

lemma posting_scope:
  assumes "l_moves (doctor_step (allowed_event cfg scope) P) m" and "scope \<noteq> Login"
  shows "posting D n m"
proof (rule posting_none)
  have "allowed_event cfg scope e \<Longrightarrow> allowed_event cfg Mending e" for e using assms(2) by (cases e) auto
  with assms(1) show "l_moves (doctor_step (allowed_event cfg Mending) P) m"
    unfolding l_moves_def doctor_step_def by blast
qed

lemma posting_main: "posting (login_due py env) 2 (doctor_main py cfg env args)"
proof (cases "da_mode args = Repair")
  case True
  have "posting (login_due py env) (0 + (2 + 0)) (run_repair py cfg env args)"
    unfolding run_repair_def after_repair_def
    by (intro posting_bind [OF login_due_more] posting_if posting_guarded
        posting_none [where P = "\<lambda>_. True" and cfg = cfg] doctor_rules keeps_any) (auto simp: quiet_simps)
  with True show ?thesis by (simp add: doctor_main_def numeral_2_eq_2)
next
  case False
  then have "scope_of (da_mode args) \<noteq> Login" by (cases "da_mode args") simp_all
  from posting_scope [OF acts_main [OF keeps_any] this] show ?thesis .
qed

end
