(* ===== verification/Doctor_Properties.thy ===== *)
theory Doctor_Properties
  imports Doctor_Wire Doctor_Login Http_Wire Concrete
begin

text \<open>
  The properties of the VPN doctor, with concrete runs.
\<close>

section \<open>A concrete doctor\<close>

text \<open>Every command answers \<open>true\<close> up to time 9, and fails afterwards; the clocks are the time.\<close>

definition denv0 :: doctor_env where
  "denv0 = \<lparr> de_run = (\<lambda>k. if k < 10 then Ran 0 (u ''true'') [] else Ran 1 [] []), de_http = (\<lambda>_. HttpFails (u ''URLError'')),
     de_clock = of_nat, de_wall = (\<lambda>_. 0), de_stamp = (\<lambda>_. u ''2026''), de_uuid = (\<lambda>_. u ''1''), de_log = (\<lambda>_. None),
     de_rotate = (\<lambda>_. None), de_state_write = (\<lambda>_. None), de_cache_write = (\<lambda>_. None), de_lock_open = (\<lambda>_. None),
     de_lock = (\<lambda>_. True), de_compose = (\<lambda>_. True) \<rparr>"

definition vcfg0 :: doctor_config where
  "vcfg0 = \<lparr> vc_compose = u ''compose.yml'', vc_worker_url = u ''http://127.0.0.1:8000'', vc_worker_token = u ''t'',
     vc_max_log_bytes = 100, vc_log_backups = 2, vc_cache_ttl = 5 \<rparr>"

definition dargs0 :: doctor_args where
  "dargs0 = \<lparr> da_mode = Preflight, da_canary = None, da_json = False, da_quiet = True \<rparr>"

definition doctor0 :: doctor where
  "doctor0 = doctor_start [(0, u ''old'' @ [10])] StateUnreadable NoCache"

lemma denv0_simps [simp]:
  "de_run denv0 = (\<lambda>k. if k < 10 then Ran 0 (u ''true'') [] else Ran 1 [] [])" "de_clock denv0 = of_nat"
  "de_wall denv0 = (\<lambda>_. 0)" "de_stamp denv0 = (\<lambda>_. u ''2026'')" "de_log denv0 = (\<lambda>_. None)" "de_rotate denv0 = (\<lambda>_. None)"
  "de_state_write denv0 = (\<lambda>_. None)" "de_http denv0 = (\<lambda>_. HttpFails (u ''URLError''))" "de_cache_write denv0 = (\<lambda>_. None)" "de_lock_open denv0 = (\<lambda>_. None)" "de_lock denv0 = (\<lambda>_. True)"
  by (simp_all add: denv0_def)

lemma doctor_start_simps [simp]:
  "vd_events (doctor_start l t c) = []" "vd_time (doctor_start l t c) = 0" "vd_logs (doctor_start l t c) = l"
  "vd_state (doctor_start l t c) = t" "vd_cache (doctor_start l t c) = c"
  by (simp_all add: doctor_start_def)

lemma clock0: "clock_passes denv0"
  unfolding clock_passes_def denv0_simps by (meson real_arch_simple of_nat_le_iff order_trans)

lemma strip_true: "py_strip (u ''true'') = u ''true''" "py_strip [] = []" "py_strip (u ''healthy'') = u ''healthy''"
  by code_simp+

lemma preflight0:
  "\<exists>r s. cached_preflight py0 vcfg0 denv0 doctor0 = Some (Inr (r, True), s) \<and> report_ok r
     \<and> vd_state s = StateUnreadable \<and> vd_logs s = [(0, u ''old'' @ [10])] \<and> vd_events s \<noteq> []"
  by (simp add: cached_preflight_def take_lock_def l_bind_def lock_pass_def x_loop.simps [of "lock_pass _ _"] d_ask_def d_fail_def
      x_bind_def preflight_or_cache_def read_cache_def x_try_def doctor0_def doctor_start_def preflight_report_def
      docker_running_def net_namespace_def command_def d_log_def strip_true Let_def check_vpn_def vpn_health_def
      host_isolated_def write_cache_def add_pair_def add_namespace_def same_namespace_def vcfg0_def)

definition line0 :: ustr where
  "line0 = log_line (u ''2026'') (u ''INFO'') (u ''state-change'') (u ''healthy'')"

lemma clean0: "clean (u ''healthy'') = u ''healthy''"
  by (simp add: clean_def clean_line_def py_splitlines_def u_def is_line_break_def redact_tokens.simps token_at_def
      quiet_simps py_strip_def py_lstrip_def py_rstrip_def is_space_def)

lemma line0_writable: "utf8_encode line0 \<noteq> None" "utf8_encode (u ''healthy'') \<noteq> None"
proof -
  have line: "line0 = u ''2026 level=INFO event=state-change detail=healthy'' @ [10]"
    by (simp add: line0_def log_line_def clean0 u_append [symmetric])
  have scalars: "\<forall>c \<in> set line0. scalar c" "\<forall>c \<in> set (u ''healthy''). scalar c"
    unfolding line by (simp_all add: u_def scalar_def is_surrogate_def)
  then show "utf8_encode line0 \<noteq> None" "utf8_encode (u ''healthy'') \<noteq> None"
    by (simp_all add: utf8_encode_scalar)
qed

lemma main0:
  "\<exists>s. doctor_main py0 vcfg0 denv0 dargs0 doctor0 = Some (Inr 0, s) \<and> vd_events s \<noteq> []
     \<and> vd_logs s = [(0, u ''old'' @ [10] @ line0)]"
proof -
  obtain r s where p: "cached_preflight py0 vcfg0 denv0 doctor0 = Some (Inr (r, True), s)" "report_ok r"
    "vd_state s = StateUnreadable" "vd_logs s = [(0, u ''old'' @ [10])]" "vd_events s \<noteq> []" using preflight0 by blast
  have "log_size (u ''old'' @ [10]) < 100" by code_simp
  moreover have "u ''healthy'' \<noteq> []" by simp
  moreover obtain a b where "utf8_encode (log_line (u ''2026'') (u ''INFO'') (u ''state-change'') (u ''healthy'')) = Some a"
    "utf8_encode (u ''healthy'') = Some b" using line0_writable by (auto simp: line0_def)
  ultimately show ?thesis
    using p
    by (simp add: doctor_main_def run_preflight_def dargs0_def l_try_def l_bind_def record_state_def state_text_def
        read_state_def log_event_def append_log_def d_ask_def d_fail_def x_bind_def rotate_log_def show_report_def print_report_def exit_code_def
        vcfg0_def line0_def Let_def)
qed

section \<open>Properties\<close>

text \<open>
  C15. The doctor stays within its mode, whatever the containers and the worker answer: the preflight
  only runs its nine reading commands and asks nobody, the status adds five reading commands and the
  health of the worker, and only a repair starts services (the worker never by force), reads the logs
  of three containers (never of the VPN container), and posts a canary task, for an address inside
  the vehicle network; all requests but those for the health carry a request id. A run posts at most two canary tasks, and none unless it saw the VPN without
  its interface or its route and the worker answered with a status other than busy. No message on
  standard error holds a sensitive word.
\<close>

theorem doctor_stays_in_its_mode:
  assumes "doctor_main py cfg env args (doctor_start logs st cache) = Some (r, s')"
  shows "(\<forall>e \<in> seen s'. allowed_event cfg (scope_of (da_mode args)) e)
    \<and> canary_posts s' \<le> 2 \<and> (0 < canary_posts s' \<longrightarrow> login_due py env (seen s'))"
proof -
  have "canary_posts (doctor_start logs st cache) = 0" by (simp add: canary_posts_def doctor_start_def)
  with postingD [OF posting_main assms] l_movesD [OF acts_main [OF keeps_any] assms] show ?thesis
    by (auto simp: doctor_step_def doctor_start_def)
qed

theorem doctor_stays_in_its_mode_witness:
  "\<exists>s. doctor_main py0 vcfg0 denv0 dargs0 doctor0 = Some (Inr 0, s) \<and> vd_events s \<noteq> []
     \<and> list_all (allowed_event vcfg0 Transport) (vd_events s)"
proof -
  obtain s where s: "doctor_main py0 vcfg0 denv0 dargs0 doctor0 = Some (Inr 0, s)" "vd_events s \<noteq> []" using main0 by blast
  from doctor_stays_in_its_mode [OF s(1) [unfolded doctor0_def]] s show ?thesis by (simp add: list_all_iff dargs0_def)
qed

text \<open>
  C17. No run of the doctor brings a sensitive word into its log or a rotated copy, whatever the
  commands print and the exceptions say and wherever a write or a rotation fails, and there are never
  more copies than configured.
\<close>

theorem doctor_log_keeps_no_secrets:
  assumes "doctor_main py cfg env args (doctor_start logs st cache) = Some (r, s')"
    and "\<forall>k. stamp_ok (de_stamp env k)" and "1 \<le> vc_log_backups cfg"
    and "logs_clean logs" and "few_logs (vc_log_backups cfg) logs"
  shows "logs_clean (vd_logs s') \<and> few_logs (vc_log_backups cfg) (vd_logs s')"
  using l_movesD [OF acts_main [OF keeps_logs_clean [OF assms(2)]] assms(1)]
    l_movesD [OF acts_main [OF keeps_few_logs [OF assms(3)]] assms(1)] assms(4,5)
  by (simp add: doctor_step_def doctor_start_def)

theorem doctor_log_keeps_no_secrets_witness:
  "\<exists>s. doctor_main py0 vcfg0 denv0 dargs0 doctor0 = Some (Inr 0, s) \<and> vd_logs s = [(0, u ''old'' @ [10] @ line0)]
     \<and> \<not> sensitive (u ''old'' @ [10] @ line0)"
proof -
  obtain s where s: "doctor_main py0 vcfg0 denv0 dargs0 doctor0 = Some (Inr 0, s)"
    "vd_logs s = [(0, u ''old'' @ [10] @ line0)]" using main0 by blast
  have "\<forall>k. stamp_ok (de_stamp denv0 k)" "1 \<le> vc_log_backups vcfg0" "logs_clean [(0, u ''old'' @ [10])]"
    "few_logs (vc_log_backups vcfg0) [(0, u ''old'' @ [10])]"
    by (simp_all add: stamp_ok_def letter_def quiet_simps vcfg0_def logs_clean_def few_logs_def)
  from doctor_log_keeps_no_secrets [OF s(1) [unfolded doctor0_def] this] s show ?thesis
    by (simp add: logs_clean_def split: if_splits)
qed

text \<open>
  C16. When the clock passes every bound the doctor ends, in every mode; and when it ends with exit code
  0, a status or a repair has just seen every container run, share the namespace of the VPN and answer,
  the VPN up and the host without its route; a preflight has seen the same of the transport, or took a
  healthy report from a cache that is fresh.
\<close>

theorem doctor_ends_and_zero_is_healthy:
  assumes "clock_passes env"
  shows "\<exists>r s'. doctor_main py cfg env args (doctor_start logs st cache) = Some (r, s')
    \<and> (r = Inr 0 \<longrightarrow>
        (case da_mode args of
           Preflight \<Rightarrow> transport_up env (seen s') \<and> key_readable env (seen s')
             \<or> (\<exists>report. fresh_cache py cfg env cache report \<and> report_ok report)
         | _ \<Rightarrow> system_up py env (seen s')))"
proof -
  from returns_main [OF assms] obtain r s' where run: "doctor_main py cfg env args (doctor_start logs st cache) = Some (r, s')"
    unfolding l_returns_def by fastforce
  with main_zero [of py cfg env args "doctor_start logs st cache" s'] show ?thesis
    by (intro exI [of _ r] exI [of _ s']) (cases "da_mode args"; auto)
qed

theorem doctor_ends_and_zero_is_healthy_witness:
  "\<exists>s. doctor_main py0 vcfg0 denv0 dargs0 doctor0 = Some (Inr 0, s) \<and> transport_up denv0 (seen s) \<and> key_readable denv0 (seen s)"
  using doctor_ends_and_zero_is_healthy [OF clock0, of py0 vcfg0 dargs0 "[(0, u ''old'' @ [10])]" StateUnreadable NoCache] main0
  by (auto simp: dargs0_def doctor0_def fresh_cache_def)

text \<open>
  C26. Writing a line to the log loses nothing of the log and of its copies but the last copy, even when
  the rotation fails halfway; and unless the rotation fails, the log is below its limit plus one line.
\<close>

theorem log_is_rotated:
  assumes "log_event py cfg env level event detail s = (Inr (), s')" and "1 \<le> vc_log_backups cfg"
  shows "(\<forall>i t. i < vc_log_backups cfg \<and> dict_get (vd_logs s) i = Some t \<longrightarrow>
      (\<exists>j \<le> vc_log_backups cfg. \<exists>x. dict_get (vd_logs s') j = Some (t @ x)))
    \<and> ((\<forall>k. de_rotate env k = None) \<longrightarrow> (\<exists>t k. dict_get (vd_logs s') 0 = Some t
      \<and> log_size t < max 1 (vc_max_log_bytes cfg) + log_size (log_line (de_stamp env k) level event detail)))"
  using log_event_bounds [OF assms] by blast

theorem log_is_rotated_witness:
  "\<exists>s'. log_event py0 (vcfg0 \<lparr> vc_max_log_bytes := 2 \<rparr>) denv0 (u ''INFO'') (u ''state-change'') (u ''healthy'') doctor0 = (Inr (), s')
     \<and> (\<exists>j \<le> 2. \<exists>x. dict_get (vd_logs s') j = Some ((u ''old'' @ [10]) @ x))"
proof -
  have size: "\<not> log_size (u ''old'' @ [10]) < 2" by code_simp
  obtain s' where run: "log_event py0 (vcfg0 \<lparr> vc_max_log_bytes := 2 \<rparr>) denv0 (u ''INFO'') (u ''state-change'')
      (u ''healthy'') doctor0 = (Inr (), s')"
    using line0_writable
    by (auto simp: log_event_def append_log_def d_ask_def d_fail_def x_bind_def rotate_log_def doctor0_def doctor_start_def line0_def)
  have n: "1 \<le> vc_log_backups (vcfg0 \<lparr> vc_max_log_bytes := 2 \<rparr>)" by (simp add: vcfg0_def)
  from log_is_rotated [OF run n, THEN conjunct1, rule_format, of 0 "u ''old'' @ [10]"] have "\<exists>j \<le> 2. \<exists>x. dict_get (vd_logs s') j = Some ((u ''old'' @ [10]) @ x)"
    by (simp add: vcfg0_def doctor0_def doctor_start_def)
  with run show ?thesis by blast
qed

text \<open>
  C24. A preflight that was made is written whole: a later one that gets the lock within the lifetime of
  the cache gives the same report back and runs no command, and after the lifetime it is made anew.
\<close>

theorem preflight_is_cached:
  assumes "cached_preflight py cfg env s = Some (Inr (r, True), s1)" and "vd_cache s2 = vd_cache s1"
    and "cached_preflight py cfg env' s2 = Some (Inr (r', fresh), s3)"
  shows "\<exists>k. vd_cache s1 = Cached (de_wall env k) (as_dict r)
    \<and> ((\<forall>j. de_wall env' j - de_wall env k \<le> vc_cache_ttl cfg) \<longrightarrow>
        r' = r \<and> \<not> fresh \<and> (\<forall>i cmd t. Command i cmd t \<in> seen s3 \<longrightarrow> Command i cmd t \<in> seen s2))
    \<and> ((\<forall>j. vc_cache_ttl cfg < de_wall env' j - de_wall env k) \<longrightarrow> fresh)"
proof -
  from cached_written [OF assms(1)] obtain k where k: "vd_cache s1 = Cached (de_wall env k) (as_dict r)" by blast
  with assms(2) have "vd_cache s2 = Cached (de_wall env k) (as_dict r)" by simp
  from cached_read [OF assms(3) this] k show ?thesis by (intro exI [of _ k]) blast
qed

lemma second0:
  "vd_cache s = Cached 0 (as_dict r) \<Longrightarrow> \<exists>x b s'. cached_preflight py0 vcfg0 denv0 s = Some (Inr (x, b), s')"
  by (simp add: cached_preflight_def take_lock_def l_bind_def lock_pass_def x_loop.simps [of "lock_pass _ _"] d_ask_def d_fail_def
      x_bind_def preflight_or_cache_def read_cache_def x_try_def vcfg0_def report_round_trip, rule exI [of _ False], simp)

theorem preflight_is_cached_witness:
  "\<exists>r s1 s2. cached_preflight py0 vcfg0 denv0 doctor0 = Some (Inr (r, True), s1) \<and> report_ok r
     \<and> cached_preflight py0 vcfg0 denv0 s1 = Some (Inr (r, False), s2)"
proof -
  obtain r s1 where first: "cached_preflight py0 vcfg0 denv0 doctor0 = Some (Inr (r, True), s1)" and r: "report_ok r"
    using preflight0 by blast
  from cached_written [OF first] obtain r' f s2 where second: "cached_preflight py0 vcfg0 denv0 s1 = Some (Inr (r', f), s2)"
    using second0 [of s1 r] by auto
  have "r' = r \<and> \<not> f" using preflight_is_cached [OF first refl second] by (auto simp: vcfg0_def)
  with first r second show ?thesis by auto
qed



end
