(* ===== verification/Entry_Points.thy ===== *)
theory Entry_Points
  imports Worker_Service Runner_Daemon Doctor_Repair
begin

text \<open>
  The entry points: what the programs make of their environment and their command line before they run.
  The command line arrives as \<open>argparse\<close> leaves it, an argument that is not given as \<open>None\<close>.
\<close>

section \<open>The servers\<close>

record listen_args =
  la_host :: "ustr option"
  la_port :: "int option"

text \<open>\<open>run_server\<close> and \<open>run_runner_daemon\<close>: the new service and the address it is served at.\<close>

definition run_server :: "worker_config \<Rightarrow> worker_state \<times> ustr \<times> int" where
  "run_server cfg = (new_worker cfg, wc_host cfg, wc_port cfg)"

definition run_runner_daemon :: "daemon_config \<Rightarrow> daemon_state \<times> ustr \<times> int" where
  "run_runner_daemon cfg = (\<lparr> ds_jobs = [] \<rparr>, dc_host cfg, dc_port cfg)"

text \<open>\<open>main\<close> of \<open>__main__.py\<close>: the command line goes before the environment.\<close>

definition worker_args :: "listen_args \<Rightarrow> worker_config \<Rightarrow> worker_config" where
  "worker_args args cfg = cfg
     \<lparr> wc_host := (case la_host args of Some h \<Rightarrow> h | None \<Rightarrow> wc_host cfg),
       wc_port := (case la_port args of Some p \<Rightarrow> p | None \<Rightarrow> wc_port cfg) \<rparr>"

definition worker_program :: "pylib \<Rightarrow> environ \<Rightarrow> listen_args \<Rightarrow> (worker_state \<times> ustr \<times> int) res" where
  "worker_program py env args =
     bindE (worker_config_from_env py env) (\<lambda>cfg.
     Inr (run_server (worker_args args cfg)))"

text \<open>\<open>main\<close> of \<open>runner_daemon_main.py\<close>.\<close>

definition daemon_args :: "listen_args \<Rightarrow> daemon_config \<Rightarrow> daemon_config" where
  "daemon_args args cfg = cfg
     \<lparr> dc_host := (case la_host args of Some h \<Rightarrow> h | None \<Rightarrow> dc_host cfg),
       dc_port := (case la_port args of Some p \<Rightarrow> p | None \<Rightarrow> dc_port cfg) \<rparr>"

definition daemon_program :: "pylib \<Rightarrow> environ \<Rightarrow> listen_args \<Rightarrow> (daemon_state \<times> ustr \<times> int) res" where
  "daemon_program py env args =
     bindE (daemon_config_from_env py env) (\<lambda>cfg.
     Inr (run_runner_daemon (daemon_args args cfg)))"

text \<open>\<open>main\<close> of \<open>tcp_proxy.py\<close>: where it listens.\<close>

definition proxy_address :: "pylib \<Rightarrow> environ \<Rightarrow> (ustr \<times> int) res" where
  "proxy_address py env =
     bindE (env_int py env (u ''VPN_TCP_PROXY_PORT'') (u ''18080'')) (\<lambda>port.
     Inr (env_or env (u ''VPN_TCP_PROXY_HOST'') (u ''0.0.0.0''), port))"

section \<open>The doctor\<close>

text \<open>\<open>parse_args\<close>; another word than the three modes ends the program.\<close>

definition doctor_mode_of :: "ustr option \<Rightarrow> doctor_mode option" where
  "doctor_mode_of mode =
     (case mode of
        None \<Rightarrow> Some Status
      | Some m \<Rightarrow>
          if m = u ''preflight'' then Some Preflight else if m = u ''status'' then Some Status
          else if m = u ''repair'' then Some Repair else None)"

definition doctor_args_of :: "environ \<Rightarrow> ustr option \<Rightarrow> ustr option \<Rightarrow> bool \<Rightarrow> bool \<Rightarrow> doctor_args option" where
  "doctor_args_of env mode canary json quiet =
     map_option (\<lambda>m. \<lparr> da_mode = m,
         da_canary = (case canary of Some ip \<Rightarrow> Some ip | None \<Rightarrow> dict_get env (u ''BO_VPN_DOCTOR_CANARY_IP'')),
         da_json = json, da_quiet = quiet \<rparr>)
       (doctor_mode_of mode)"

section \<open>Laws\<close>

text \<open>
  The environment is read first: a port there that is no number ends the program, also when the command
  line gives the port.
\<close>

lemma worker_program_port:
  "worker_program py env args = Inr (ws, host, port) \<Longrightarrow>
   int_of_ustr (env_or env (u ''BO_VPN_WORKER_PORT'') (u ''8080'')) \<noteq> None
     \<and> (\<forall>p. la_port args = Some p \<longrightarrow> port = p) \<and> (\<forall>h. la_host args = Some h \<longrightarrow> host = h)"
  by (auto simp: worker_program_def run_server_def worker_args_def worker_config_from_env_def env_int_def Let_def res_iff split: option.splits)

lemma daemon_program_port:
  "daemon_program py env args = Inr (ds, host, port) \<Longrightarrow>
   int_of_ustr (env_or env (u ''BO_VPN_RUNNER_PORT'') (u ''8091'')) \<noteq> None
     \<and> (\<forall>p. la_port args = Some p \<longrightarrow> port = p) \<and> (\<forall>h. la_host args = Some h \<longrightarrow> host = h)"
  by (auto simp: daemon_program_def run_runner_daemon_def daemon_args_def daemon_config_from_env_def env_int_def Let_def res_iff split: option.splits)

end
