(* ===== verification/Spec2Isabelle.thy ===== *)
theory Spec2Isabelle
  imports Worker_Properties Data_Properties Daemon_Properties Bot_Properties Playback_Properties Tunnel_Properties
    Doctor_Properties Entry_Points
begin

text \<open>
  \<^bold>\<open>bo-vpn-agent\<close>: a worker that takes diagnostic requests for vehicles over HTTP, runs each of
  them through a VPN runner and reports the outcome; a runner daemon that executes such jobs in a
  container that holds the VPN session; a Telegram bot that plays audio in vehicles; a TCP proxy into
  the vehicle network; and a doctor that diagnoses and repairs the whole. The Python sources are under
  \<open>bo_vpn_agent/\<close> and \<open>scripts/\<close>.

  \<^bold>\<open>The parts and how they interact.\<close> A client (\<open>api.py\<close>) posts a request; \<open>WorkerService\<close>
  (\<open>service.py\<close>) fingerprints it, replays it when its id is known, asks the rate limiter, refuses it
  while another task runs, resolves the vehicle through the inventory (\<open>vehicle_inventory.py\<close>), checks
  operation and role (\<open>operations.py\<close>) and starts the execution thread of a \<open>Task\<close> (\<open>models.py\<close>). That
  thread starts a runner thread (\<open>runner.py\<close>), waits for it up to the timeout of the task, ends the task,
  drops its credentials and writes the audit line (\<open>audit.py\<close>). One runner is a client that posts
  the job to the daemon (\<open>runner_daemon.py\<close>) and polls it; the daemon executes jobs with one of two
  executors (\<open>existing_container_executor.py\<close>, \<open>container_namespace_executor.py\<close>) that run commands
  (\<open>command_exec.py\<close>) and write to the control FIFO of the VPN client. The bot
  (\<open>telegram_audio_bot.py\<close>) polls Telegram; a user chooses a branch and a vehicle and sends audio; a
  thread downloads it, prepares it with ffmpeg, has the worker check the vehicle, and runs a script that
  reaches it by ssh. That ssh goes through \<open>scripts/proxy_connect.py\<close> and the proxy
  (\<open>tcp_proxy.py\<close>). The doctor (\<open>scripts/vpn_doctor.py\<close>) inspects containers, namespaces, worker and
  VPN by commands and requests; a repair restarts services and posts a canary task to the worker.

  \<^bold>\<open>Theories.\<close>
    \<^item> Py_Prelude, Py_Text, Py_Json, Py_Utf8: what the program uses of Python. A text is a list of code
      points, a dict an association list in insertion order, an exception a value of \<open>exn\<close>, a
      fallible call a value of \<open>'a res\<close>. What Python leaves to tables or C code (lower case, the digest,
      \<open>json.loads\<close>, the text of floats, messages of built-in exceptions) is a field of the record \<open>pylib\<close>,
      over which every theorem is universally quantified.
    \<^item> Py_State: computations that change a state and may raise, with the locale \<open>effect_relation\<close> that
      lifts a relation between states to whole methods. Py_Loop: loops that may not return (\<open>None\<close>), with
      induction over their rounds, the measure that makes them return, and the locale \<open>learning\<close> for what a
      result says of the steps behind it.
    \<^item> Messages, Bot_Texts: the Russian texts.
    \<^item> Domain_Models, Operations, Security, Rate_Limiter, Ip_Address, Vehicle_Inventory, Artifacts_Audit,
      Config, Command_Exec: one theory per module, with its operations and their laws. The limiter is
      proved once in the locale \<open>sliding_window\<close>, interpreted for the global and for the user's queue; the
      inventory implements the locale \<open>vehicle_resolver\<close> that the creation of tasks relies on.
    \<^item> Runner: the runners; the polling loop is a \<open>partial_function\<close>, so not returning is \<open>None\<close>; the locale
      \<open>runner\<close> is the contract of a runner, interpreted for each of them.
    \<^item> Worker_Service: the operations of \<open>WorkerService\<close> and the critical sections of \<open>_execute_task\<close>.
      Worker_Laws, Worker_Create: what each keeps and does. Worker_System: the step relation \<open>wstep\<close> over
      the service, the phase of every execution thread and the clock, with the callbacks of the runner
      threads as steps of their own, and its invariant. Worker_Guarantees: stability of tasks and the
      refinement to an abstract job machine. Worker_Progress: ranks, progress, the audit log.
    \<^item> Executor_Base, Existing_Container, Container_Namespace: the executors as computations that record the
      commands they run, the callbacks they make and the texts they write. Executor_Laws: their effects,
      and that the wait for the session ends.
    \<^item> Runner_Daemon, Daemon_Laws: the daemon, its step relation and invariant. Daemon_Wire: worker and
      daemon understand each other.
    \<^item> Api: the HTTP handlers of both servers, with the locale \<open>guarded_handler\<close>. Http_Messages: the bytes
      of requests and responses. Http_Wire: a server lets in the client that has its token and reads what it
      sent, and the daemon's client reads the answer.
    \<^item> Bot_Targets, Bot_State, Bot_Commands: the bot's data, its state with the settings file, and the
      handlers of updates, as computations that record their calls of Telegram. Bot_Laws: what holds of the
      state. Bot_Handlers: the locales \<open>bot_relation\<close> and \<open>update_relation\<close>, by which a relation that the
      primitive changes respect holds of every handler. Bot_Restart: the settings file is read back.
      Bot_Calm: what the polling loop survives. Bot_Polling: that it takes every update once.
    \<^item> Bot_Playback: the thread of a playback. Bot_Playback_Laws, Bot_Playback_Ends: what it does outside,
      and how it ends. Bot_System: the bot with its threads. Bot_Cancel: the race of a thread with
      \<open>_stop\<close> and \<open>stop_all\<close>. Bot_Wire: bot and worker understand each other.
    \<^item> Tcp_Proxy, Proxy_Connect: both ends of the tunnel.
    \<^item> Doctor_Report: report, cleaning of texts. Doctor_Probes: log, commands, probes, the two inspections.
      Doctor_Repair: repair, login, state file, cached preflight, the program. Doctor_Laws: what each mode
      may do. Doctor_Ends: the log, and that the doctor returns. Doctor_Health: what a healthy report stands
      for. Doctor_Login: when a managed login is due, and how often it is tried. Doctor_Wire: doctor and
      worker, the cache, the bounds of the log.
    \<^item> Entry_Points: what the programs make of environment and command line.
    \<^item> Concrete: a concrete run, on which the properties are exercised. Worker_Properties, Data_Properties,
      Daemon_Properties, Bot_Properties, Playback_Properties, Tunnel_Properties, Doctor_Properties: the
      properties.

  \<^bold>\<open>What the properties say.\<close> Safety of the worker over every interleaving (one task at a time, ended
  tasks frozen, idempotent requests, credentials that live as long as their thread, a truthful audit
  log) and its refinement to an abstract machine; limits of the limiter over every window; exactness of
  the inventory and transparency of its cache; redaction, fingerprints and the bearer check; the effects
  of the executors and their cleanup; stability and loss of daemon jobs; the guards of the HTTP handlers.
  Of the bot: its state is well formed in every run, users are isolated, settings survive a restart,
  updates do not end it and are taken once; a playback starts its script only for a checked vehicle and an uncancelled
  job, ends, and tidies up; a stop is never lost. Of the tunnel: it leads only to vehicles and carries
  bytes faithfully. Of the doctor: it keeps to its mode and logs in only when that is due, it returns and its exit code 0 means a system
  that was seen healthy, its log holds no sensitive word and is rotated without loss, its cache is
  faithful. And where two programs talk, each understands the other, down to the bytes of the messages:
  worker and daemon, bot and worker, doctor and worker. Some properties state defects: an unknown runner mode loses the job, and the exit
  of the bot can miss a script that is about to start.

  \<^bold>\<open>Bounds and fuel.\<close> No definition that models the program carries fuel. \<open>poll_fuel\<close> and \<open>wait_fuel\<close> are
  auxiliary and are shown equivalent to, or sufficient for, the loops they approximate. Loops that wait
  for a deadline are shown to return when the clock passes every bound. The daemon's step relation has
  the parameter \<open>max_join\<close>, the largest timeout \<open>Thread.join\<close> accepts.

  \<^bold>\<open>Granularity.\<close> Steps of worker and daemon are the critical sections under their locks. The clock of a
  section is read at most twice, at times given by the step; \<open>sy_mono\<close> records whether readings have
  never decreased, for the one property that needs it. The surroundings of a playback thread and of the
  doctor answer by an environment that is indexed by the number of the question, so that they may change
  between any two questions; what other threads do to a job is such an answer, or, in the race of
  Bot_Cancel, a step of its own between single reads and writes.

  \<^bold>\<open>Not modelled.\<close> Log lines but those of the doctor; the socket and HTTP layers (\<open>http.server\<close>,
  \<open>urlopen\<close>, \<open>selectors\<close>: requests arrive parsed, answers are returned values or, in Http_Messages, the
  bytes that are written; what lies between is the hypothesis \<open>carries\<close>; a connection of the tunnel is its
  two streams of bytes), argument parsing, signal handlers and accepting loops; the csv reader (the inventory
  file is its rows); infinite and NaN settings; the containers, shell scripts and units of the deployment.
\<close>

end
